(* ===== verification/Js_Prelude.thy ===== *)
theory Js_Prelude
  imports Main "HOL-Library.Sublist"
begin

section \<open>JavaScript values, errors and strings\<close>

text \<open>
  The part of the JavaScript language and of its standard library that the modelled sources
  use, with the lemmas every component shares:
  \<^item> \<open>jsval\<close>: the JSON-like values that flow through the program, their truthiness, \<open>||\<close> and \<open>??\<close>;
  \<^item> \<open>js_error\<close> and \<open>result\<close>: a thrown exception or a rejected promise is \<open>Inl\<close>, a value \<open>Inr\<close>;
  \<^item> strings: \<open>includes\<close>, \<open>split\<close> on a character and on the regular expression \<open>\s+\<close>, \<open>join\<close>,
    \<open>trim\<close>, \<open>toUpperCase\<close>. A \<open>char\<close> stands for a UTF-16 code unit below 256.
  Objects are in \<open>Js_Objects\<close>, JSON texts in \<open>Js_Json\<close>.
  Numbers are integers: the modelled code copies, prints and compares numbers, and the only
  arithmetic it does on them (timestamps, list lengths) is integral.
\<close>

named_theorems js_simps \<open>evaluation of the JavaScript primitives\<close>

subsection \<open>Values and errors\<close>

datatype jsval =
    JUndefined
  | JNull
  | JBool bool
  | JNum int
  | JStr string
  | JArr "jsval list"
  | JObj "(string \<times> jsval) list"

datatype js_error =
    Error string
  | ForbiddenError string
  | TypeError
  | SyntaxError

type_synonym 'a result = "js_error + 'a"

type_synonym 'v obj = "(string \<times> 'v) list"

fun js_truthy :: "jsval \<Rightarrow> bool" where
  "js_truthy JUndefined = False"
| "js_truthy JNull = False"
| "js_truthy (JBool b) = b"
| "js_truthy (JNum n) = (n \<noteq> 0)"
| "js_truthy (JStr s) = (s \<noteq> [])"
| "js_truthy (JArr _) = True"
| "js_truthy (JObj _) = True"

text \<open>\<open>a || b\<close> and \<open>a ?? b\<close>.\<close>

definition js_or :: "jsval \<Rightarrow> jsval \<Rightarrow> jsval" where
  "js_or a b = (if js_truthy a then a else b)"

definition js_nullish :: "jsval \<Rightarrow> bool" where
  "js_nullish v \<longleftrightarrow> v = JUndefined \<or> v = JNull"

definition js_coalesce :: "jsval \<Rightarrow> jsval \<Rightarrow> jsval" where
  "js_coalesce a b = (if js_nullish a then b else a)"

text \<open>A string parameter that may be \<open>undefined\<close>: \<open>!s\<close> holds for \<open>undefined\<close> and for \<open>''\<close>.\<close>

definition missing :: "string option \<Rightarrow> bool" where
  "missing s \<longleftrightarrow> s = None \<or> s = Some []"

lemma not_missing [simp]: "\<not> missing s \<longleftrightarrow> (\<exists>x. s = Some x \<and> x \<noteq> [])"
  by (cases s) (auto simp: missing_def)

text \<open>Sequencing of computations that may throw.\<close>

definition bind_res :: "'a result \<Rightarrow> ('a \<Rightarrow> 'b result) \<Rightarrow> 'b result" where
  "bind_res r f = (case r of Inl e \<Rightarrow> Inl e | Inr x \<Rightarrow> f x)"

lemma bind_res_simps [simp]:
  "bind_res (Inl e) f = Inl e"
  "bind_res (Inr x) f = f x"
  by (simp_all add: bind_res_def)

lemma bind_res_Inr_iff: "bind_res r f = Inr y \<longleftrightarrow> (\<exists>x. r = Inr x \<and> f x = Inr y)"
  by (cases r) auto

lemma bind_res_Inl_iff: "bind_res r f = Inl e \<longleftrightarrow> r = Inl e \<or> (\<exists>x. r = Inr x \<and> f x = Inl e)"
  by (cases r) auto

definition is_ok :: "'a result \<Rightarrow> bool" where
  "is_ok r \<longleftrightarrow> (\<exists>x. r = Inr x)"

lemma is_ok_simps [simp]: "is_ok (Inr x)" "\<not> is_ok (Inl e)"
  by (simp_all add: is_ok_def)

text \<open>An invariant of a loop over a list.\<close>

lemma fold_inv:
  "(\<And>x s. x \<in> set xs \<Longrightarrow> P s \<Longrightarrow> P (f x s)) \<Longrightarrow> P s \<Longrightarrow> P (fold f xs s)"
  by (induction xs arbitrary: s) auto

subsection \<open>Strings\<close>

text \<open>The code units below 256 that the class \<open>\s\<close> and \<open>trim\<close> treat as white space.\<close>

definition js_space :: "char \<Rightarrow> bool" where
  "js_space c \<longleftrightarrow> of_char c \<in> {9, 10, 11, 12, 13, 32, 160 :: nat}"

definition js_trim :: "string \<Rightarrow> string" where
  "js_trim s = rev (dropWhile js_space (rev (dropWhile js_space s)))"

text \<open>\<open>s.split(/\s+/)\<close>: one separator per maximal run of white space; the empty string gives one
  empty field.\<close>

function js_split_ws :: "string \<Rightarrow> string list" where
  "js_split_ws [] = [[]]"
| "js_split_ws (c # cs) =
     (if js_space c then [] # js_split_ws (dropWhile js_space cs)
      else (case js_split_ws cs of [] \<Rightarrow> [[c]] | w # ws \<Rightarrow> (c # w) # ws))"
  by pat_completeness auto
termination
  by (relation "measure length") (auto simp: le_imp_less_Suc length_dropWhile_le)

text \<open>\<open>s.split(c)\<close> for a one-character separator, and \<open>xs.join(c)\<close>.\<close>

fun js_split_char :: "char \<Rightarrow> string \<Rightarrow> string list" where
  "js_split_char d [] = [[]]"
| "js_split_char d (c # cs) =
     (if c = d then [] # js_split_char d cs
      else (case js_split_char d cs of [] \<Rightarrow> [[c]] | w # ws \<Rightarrow> (c # w) # ws))"

fun js_join :: "string \<Rightarrow> string list \<Rightarrow> string" where
  "js_join d [] = []"
| "js_join d [w] = w"
| "js_join d (w # v # ws) = w @ d @ js_join d (v # ws)"

fun js_includes :: "string \<Rightarrow> string \<Rightarrow> bool" where
  "js_includes [] t = (t = [])"
| "js_includes (c # cs) t = (take (length t) (c # cs) = t \<or> js_includes cs t)"

text \<open>\<open>toUpperCase\<close> of one code unit. U+00B5 and U+00FF, whose upper case lies beyond U+00FF, are
  left as they are; the code only capitalises GraphQL names, which are ASCII.\<close>

definition js_upper :: "char \<Rightarrow> string" where
  "js_upper c =
     (let n = (of_char c :: nat)
      in if 97 \<le> n \<and> n \<le> 122 \<or> 224 \<le> n \<and> n \<le> 254 \<and> n \<noteq> 247 then [char_of (n - 32)]
         else if n = 223 then ''SS'' else [c])"

definition nl :: string where
  "nl = [CHR 0x0A]"

lemma js_split_ws_neq_Nil [simp]: "js_split_ws s \<noteq> []"
  by (cases s) (auto split: list.splits)

lemma js_split_char_neq_Nil [simp]: "js_split_char d s \<noteq> []"
  by (cases s) (auto split: list.splits)

lemma js_split_ws_simps [js_simps]:
  "js_split_ws [] = [[]]"
  "js_space c \<Longrightarrow> js_split_ws (c # cs) = [] # js_split_ws (dropWhile js_space cs)"
  "\<not> js_space c \<Longrightarrow>
    js_split_ws (c # cs) = (c # hd (js_split_ws cs)) # tl (js_split_ws cs)"
  by (auto split: list.splits)

declare js_split_ws.simps(2) [simp del]

text \<open>A word without white space is its own only field, and a separator after it starts the next
  field.\<close>

lemma js_split_ws_word: "list_all (\<lambda>c. \<not> js_space c) w \<Longrightarrow> js_split_ws w = [w]"
  by (induction w) (auto simp: js_simps)

lemma js_split_ws_append:
  "list_all (\<lambda>c. \<not> js_space c) w \<Longrightarrow> js_space b \<Longrightarrow>
    js_split_ws (w @ b # s) = w # js_split_ws (dropWhile js_space s)"
  by (induction w) (auto simp: js_simps)

lemma js_split_ws_prefix:
  "list_all (\<lambda>c. \<not> js_space c) w \<Longrightarrow>
    js_split_ws (w @ s) = (w @ hd (js_split_ws s)) # tl (js_split_ws s)"
  by (induction w) (auto simp: js_simps)

lemma js_split_ws_fields:
  "w \<in> set (js_split_ws s) \<Longrightarrow> list_all (\<lambda>c. \<not> js_space c) w"
  by (induction s arbitrary: w rule: js_split_ws.induct)
    (auto simp: js_split_ws.simps(2) split: if_splits list.splits)

text \<open>Words.\<close>

definition no_space :: "string \<Rightarrow> bool" where
  "no_space s \<longleftrightarrow> list_all (\<lambda>c. \<not> js_space c) s"

lemma js_space_blank [simp]: "js_space CHR '' ''"
  by (simp add: js_space_def)

lemma dropWhile_all_append: "dropWhile P (xs @ ys) = (if list_all P xs then dropWhile P ys else dropWhile P xs @ ys)"
  by (induction xs) auto

text \<open>Appending a text that starts with no white space extends the last field.\<close>

lemma js_split_ws_glue:
  assumes "t \<noteq> []" and "\<not> js_space (hd t)"
  shows "js_split_ws (s @ t) = butlast (js_split_ws s) @ (last (js_split_ws s) @ hd (js_split_ws t)) # tl (js_split_ws t)"
proof (induction s rule: js_split_ws.induct)
  case 1
  then show ?case by simp
next
  case (2 c cs)
  show ?case
  proof (cases "js_space c")
    case True
    have "dropWhile js_space (cs @ t) = dropWhile js_space cs @ t"
      using assms by (cases t) (auto simp: dropWhile_all_append list_all_iff)
    with 2(1) [OF True] True show ?thesis by (simp add: js_simps)
  next
    case False
    with 2(2) [OF False] show ?thesis
      by (cases "js_split_ws cs" rule: rev_cases; cases "butlast (js_split_ws cs)") (auto simp: js_simps)
  qed
qed

text \<open>\<open>includes\<close> is the sublist relation of the library.\<close>

lemma take_length_eq_prefix: "take (length t) s = t \<longleftrightarrow> prefix t s"
  by (auto simp: prefix_def) (metis append_take_drop_id)

lemma js_includes_sublist: "js_includes s t \<longleftrightarrow> sublist t s"
proof (induction s)
  case Nil
  then show ?case by simp
next
  case (Cons c cs)
  then show ?case
    by (cases t) (auto simp: take_length_eq_prefix sublist_Cons_right)
qed

text \<open>Splitting on a character and joining with it are inverse to each other.\<close>

lemma js_join_Cons: "ws \<noteq> [] \<Longrightarrow> js_join d (w # ws) = w @ d @ js_join d ws"
  by (cases ws) auto

lemma js_join_hd: "ws \<noteq> [] \<Longrightarrow> js_join d ((c # hd ws) # tl ws) = c # js_join d ws"
  by (cases ws; cases "tl ws") auto

lemma js_join_split: "js_join [d] (js_split_char d s) = s"
proof (induction s)
  case Nil
  then show ?case by simp
next
  case (Cons c cs)
  obtain w ws where s: "js_split_char d cs = w # ws"
    using js_split_char_neq_Nil by (cases "js_split_char d cs") auto
  show ?case
  proof (cases "c = d")
    case True
    with Cons show ?thesis by (simp add: js_join_Cons)
  next
    case False
    with Cons s show ?thesis using js_join_hd [of "w # ws" "[d]" c] by simp
  qed
qed

lemma js_split_char_word: "d \<notin> set w \<Longrightarrow> js_split_char d w = [w]"
  by (induction w) auto

lemma js_split_char_append: "d \<notin> set w \<Longrightarrow> js_split_char d (w @ d # s) = w # js_split_char d s"
  by (induction w) auto

lemma js_split_join:
  "ws \<noteq> [] \<Longrightarrow> (\<And>w. w \<in> set ws \<Longrightarrow> d \<notin> set w) \<Longrightarrow> js_split_char d (js_join [d] ws) = ws"
  by (induction "[d]" ws rule: js_join.induct) (auto simp: js_split_char_word js_split_char_append)

lemma js_split_char_fields: "w \<in> set (js_split_char d s) \<Longrightarrow> d \<notin> set w"
  by (induction s arbitrary: w) (auto split: if_splits list.splits)

end
