(* ===== verification/Js_Objects.thy ===== *)
theory Js_Objects
  imports Js_Prelude
begin

section \<open>Objects as property stores\<close>

text \<open>
  A plain object is the list of its own enumerable properties in the order \<open>Object.keys\<close> lists
  them: array-index keys first in ascending order, then the other keys in creation order. Two
  objects that no program can tell apart are the same list. Assignment overwrites in place or
  adds the property at its place, \<open>delete\<close> removes. The prototype is not represented: assigning
  the key \<open>__proto__\<close> calls the prototype setter and adds no own property.

  The locale \<open>js_store\<close> is the interface of a property store as its clients use it; it is
  interpreted on the operations of this theory (\<open>objstore\<close>), and the loops over a store that
  the components share are proved in it.
\<close>

text \<open>Array indices: the canonical decimal strings of \<open>0 .. 2^32 - 2\<close>.\<close>

definition is_digit_char :: "char \<Rightarrow> bool" where
  "is_digit_char c \<longleftrightarrow> 48 \<le> (of_char c :: nat) \<and> (of_char c :: nat) \<le> 57"

definition decimal_value :: "string \<Rightarrow> nat" where
  "decimal_value s = foldl (\<lambda>n c. 10 * n + (of_char c - 48)) 0 s"

definition is_array_index :: "string \<Rightarrow> bool" where
  "is_array_index s \<longleftrightarrow>
     s \<noteq> [] \<and> list_all is_digit_char s \<and> (hd s = CHR ''0'' \<longrightarrow> s = ''0'')
     \<and> decimal_value s < 4294967295"

text \<open>\<open>key_before k k'\<close>: a new key \<open>k\<close> is enumerated before an existing \<open>k'\<close>; \<open>key_sorted\<close> relates
  two keys of one object in enumeration order.\<close>

definition key_before :: "string \<Rightarrow> string \<Rightarrow> bool" where
  "key_before k k' \<longleftrightarrow>
     is_array_index k \<and> (is_array_index k' \<longrightarrow> decimal_value k < decimal_value k')"

definition obj_get :: "'v obj \<Rightarrow> string \<Rightarrow> 'v option" where
  "obj_get ob k = map_of ob k"

fun obj_put :: "string \<Rightarrow> 'v \<Rightarrow> 'v obj \<Rightarrow> 'v obj" where
  "obj_put k v [] = [(k, v)]"
| "obj_put k v ((k', v') # ob) =
     (if k' = k then (k, v) # ob
      else if key_before k k' then (k, v) # (k', v') # ob
      else (k', v') # obj_put k v ob)"

definition proto_key :: string where
  "proto_key = ''__proto__''"

definition obj_set :: "string \<Rightarrow> 'v \<Rightarrow> 'v obj \<Rightarrow> 'v obj" where
  "obj_set k v ob = (if k = proto_key then ob else obj_put k v ob)"

definition obj_delete :: "string \<Rightarrow> 'v obj \<Rightarrow> 'v obj" where
  "obj_delete k ob = filter (\<lambda>kv. fst kv \<noteq> k) ob"

definition obj_keys :: "'v obj \<Rightarrow> string list" where
  "obj_keys ob = map fst ob"

text \<open>The invariant: no key twice, keys in enumeration order.\<close>

definition obj_ok :: "'v obj \<Rightarrow> bool" where
  "obj_ok ob \<longleftrightarrow>
     distinct (map fst ob) \<and> sorted_wrt (\<lambda>k k'. \<not> key_before k' k) (map fst ob)"

subsection \<open>Laws\<close>

lemma obj_get_Nil [simp]: "obj_get [] k = None"
  by (simp add: obj_get_def)

lemma obj_get_empty [simp]: "obj_get [] = Map.empty"
  by (simp add: fun_eq_iff)

lemma obj_get_Cons [simp]:
  "obj_get ((k', v) # ob) k = (if k = k' then Some v else obj_get ob k)"
  by (simp add: obj_get_def)

lemma obj_get_put: "obj_get (obj_put k v ob) k' = (if k' = k then Some v else obj_get ob k')"
  by (induction ob) auto

lemma obj_get_set [simp]:
  "k \<noteq> proto_key \<Longrightarrow> obj_get (obj_set k v ob) k' = (if k' = k then Some v else obj_get ob k')"
  by (simp add: obj_set_def obj_get_put)

lemma obj_get_delete [simp]:
  "obj_get (obj_delete k ob) k' = (if k' = k then None else obj_get ob k')"
  by (induction ob) (auto simp: obj_delete_def)

lemma keys_put: "set (map fst (obj_put k v ob)) = insert k (set (map fst ob))"
proof (induction ob)
  case (Cons kv ob)
  then show ?case by (cases kv) (simp add: insert_commute)
qed simp

lemma obj_ok_Nil [simp]: "obj_ok []"
  by (simp add: obj_ok_def)

lemma obj_ok_Cons:
  "obj_ok (kv # ob) \<longleftrightarrow>
     fst kv \<notin> set (map fst ob) \<and> (\<forall>k \<in> set (map fst ob). \<not> key_before k (fst kv)) \<and> obj_ok ob"
  by (auto simp: obj_ok_def)

lemma key_before_trans: "key_before a b \<Longrightarrow> \<not> key_before c b \<Longrightarrow> \<not> key_before c a"
  by (auto simp: key_before_def)

lemma obj_ok_put: "obj_ok ob \<Longrightarrow> obj_ok (obj_put k v ob)"
proof (induction ob)
  case Nil
  then show ?case by (simp add: obj_ok_Cons)
next
  case (Cons kv ob)
  obtain k' v' where kv: "kv = (k', v')" by (cases kv)
  from Cons.prems kv have ok: "k' \<notin> set (map fst ob)" "\<forall>j \<in> set (map fst ob). \<not> key_before j k'" "obj_ok ob"
    by (simp_all add: obj_ok_Cons)
  consider "k' = k" | "k' \<noteq> k" "key_before k k'" | "k' \<noteq> k" "\<not> key_before k k'" by blast
  then show ?case
  proof cases
    case 1
    with ok kv show ?thesis by (simp add: obj_ok_Cons)
  next
    case 2
    with ok have "k \<notin> set (map fst ob)" by blast
    moreover from 2 ok(2) have "\<forall>j \<in> set (map fst ob). \<not> key_before j k"
      using key_before_trans by blast
    moreover from 2 have "\<not> key_before k' k" by (auto simp: key_before_def)
    ultimately show ?thesis using 2 ok kv by (simp add: obj_ok_Cons)
  next
    case 3
    with ok Cons.IH kv show ?thesis by (simp add: obj_ok_Cons keys_put del: set_map)
  qed
qed

lemma obj_ok_set [simp]: "obj_ok ob \<Longrightarrow> obj_ok (obj_set k v ob)"
  by (simp add: obj_set_def obj_ok_put)

lemma obj_ok_filter: "obj_ok ob \<Longrightarrow> obj_ok (filter p ob)"
  by (induction ob) (auto simp: obj_ok_Cons)

lemma obj_ok_delete [simp]: "obj_ok ob \<Longrightarrow> obj_ok (obj_delete k ob)"
  by (simp add: obj_delete_def obj_ok_filter)

lemma obj_keys_dom: "k \<in> set (obj_keys ob) \<longleftrightarrow> obj_get ob k \<noteq> None"
  by (simp add: obj_keys_def obj_get_def map_of_eq_None_iff)

lemma obj_get_in_set: "obj_get ob k = Some v \<Longrightarrow> (k, v) \<in> set ob"
  by (simp add: obj_get_def map_of_SomeD)

lemma obj_get_eq_Some: "obj_ok ob \<Longrightarrow> obj_get ob k = Some v \<longleftrightarrow> (k, v) \<in> set ob"
  by (auto simp: obj_get_def obj_ok_def intro: map_of_is_SomeI dest: map_of_SomeD)

lemma obj_get_filter:
  "obj_ok ob \<Longrightarrow> obj_get (filter p ob) k =
    (case obj_get ob k of None \<Rightarrow> None | Some v \<Rightarrow> if p (k, v) then Some v else None)"
proof (induction ob)
  case (Cons kv ob)
  obtain k' v' where kv: "kv = (k', v')" by (cases kv)
  with Cons have "obj_get ob k' = None"
    using obj_keys_dom [of k' ob] by (auto simp: obj_ok_Cons obj_keys_def)
  with Cons kv show ?case by (auto simp: obj_ok_Cons)
qed simp

text \<open>A key enumerated after all others is added at the end, so rebuilding an object property by
  property gives the object back.\<close>

lemma obj_put_last: "obj_ok (ob @ [(k, v)]) \<Longrightarrow> obj_put k v ob = ob @ [(k, v)]"
  by (induction ob) (auto simp: obj_ok_Cons)

lemma obj_ok_append1: "obj_ok (xs @ ys) \<Longrightarrow> obj_ok xs"
  by (induction xs) (auto simp: obj_ok_Cons)

lemma obj_rebuild_append:
  "obj_ok (xs @ ys) \<Longrightarrow> fold (\<lambda>(k, v). obj_put k v) ys xs = xs @ ys"
proof (induction ys arbitrary: xs)
  case Nil
  then show ?case by simp
next
  case (Cons kv ys)
  obtain k v where kv: "kv = (k, v)" by (cases kv)
  from Cons.prems kv have ok: "obj_ok ((xs @ [(k, v)]) @ ys)" by simp
  then have "obj_put k v xs = xs @ [(k, v)]" by (rule obj_ok_append1 [THEN obj_put_last])
  with Cons.IH [OF ok] kv show ?case by simp
qed

lemma obj_rebuild: "obj_ok ob \<Longrightarrow> fold (\<lambda>(k, v). obj_put k v) ob [] = ob"
  using obj_rebuild_append [of "[]" ob] by simp

subsection \<open>The interface of a property store\<close>

locale js_store =
  fixes get :: "'s \<Rightarrow> string \<Rightarrow> 'v option"
    and set_prop :: "string \<Rightarrow> 'v \<Rightarrow> 's \<Rightarrow> 's"
    and del_prop :: "string \<Rightarrow> 's \<Rightarrow> 's"
    and keys :: "'s \<Rightarrow> string list"
    and ok :: "'s \<Rightarrow> bool"
    and writable :: "string \<Rightarrow> bool"
  assumes get_set_prop: "writable k \<Longrightarrow> get (set_prop k v s) k' = (if k' = k then Some v else get s k')"
    and set_prop_readonly: "\<not> writable k \<Longrightarrow> set_prop k v s = s"
    and get_del_prop: "get (del_prop k s) k' = (if k' = k then None else get s k')"
    and keys_dom: "k \<in> set (keys s) \<longleftrightarrow> get s k \<noteq> None"
    and ok_set_prop: "ok s \<Longrightarrow> ok (set_prop k v s)"
    and ok_del_prop: "ok s \<Longrightarrow> ok (del_prop k s)"
begin

lemmas laws = get_set_prop set_prop_readonly get_del_prop keys_dom ok_set_prop ok_del_prop

text \<open>Deleting a list of keys one by one, as \<open>removeKeys.forEach(rk => delete o[rk])\<close> does.\<close>

lemma get_del_all: "get (fold del_prop ks s) k = (if k \<in> set ks then None else get s k)"
  by (induction ks arbitrary: s) (auto simp: get_del_prop)

lemma ok_del_all: "ok s \<Longrightarrow> ok (fold del_prop ks s)"
  by (induction ks arbitrary: s) (auto simp: ok_del_prop)

text \<open>The loop \<open>keys.filter(p)\<close> followed by deleting the selected keys keeps exactly the other
  properties.\<close>

lemma get_prune:
  "get (fold del_prop (filter p (keys s)) s) k = (if p k then None else get s k)"
  using keys_dom [of k s] by (auto simp: get_del_all)

lemma prune_idem:
  "get (fold del_prop (filter p (keys (fold del_prop (filter p (keys s)) s)))
     (fold del_prop (filter p (keys s)) s)) k =
   get (fold del_prop (filter p (keys s)) s) k"
  by (simp add: get_prune)

text \<open>Storing a list of properties one after another: the last value written under a key wins.\<close>

lemma get_set_all:
  "(\<And>k v. (k, v) \<in> set kvs \<Longrightarrow> writable k) \<Longrightarrow>
    get (fold (\<lambda>(k, v). set_prop k v) kvs s) k =
      (case map_of (rev kvs) k of None \<Rightarrow> get s k | Some v \<Rightarrow> Some v)"
proof (induction kvs arbitrary: s)
  case Nil
  then show ?case by simp
next
  case (Cons kv kvs)
  obtain a b where kv: "kv = (a, b)" by (cases kv)
  from Cons.prems kv have w: "writable a" by auto
  from Cons.prems have "\<And>k v. (k, v) \<in> set kvs \<Longrightarrow> writable k" by auto
  then have "get (fold (\<lambda>(k, v). set_prop k v) kvs (set_prop a b s)) k =
      (case map_of (rev kvs) k of None \<Rightarrow> get (set_prop a b s) k | Some v \<Rightarrow> Some v)"
    by (rule Cons.IH)
  with kv w show ?case
    by (simp add: get_set_prop map_add_def split: option.split)
qed

lemma ok_set_all: "ok s \<Longrightarrow> ok (fold (\<lambda>(k, v). set_prop k v) kvs s)"
  by (induction kvs arbitrary: s) (auto simp: ok_set_prop)

end

interpretation objstore: js_store obj_get obj_set obj_delete obj_keys obj_ok "\<lambda>k. k \<noteq> proto_key"
  by unfold_locales (auto simp: obj_keys_dom obj_set_def obj_get_put obj_ok_put)

text \<open>Deleting keys keeps the order of the properties that remain.\<close>

lemma fold_obj_delete: "fold obj_delete ks ob = filter (\<lambda>kv. fst kv \<notin> set ks) ob"
  by (induction ks arbitrary: ob) (auto simp: obj_delete_def intro: filter_cong)

lemma obj_prune_eq:
  "fold obj_delete (filter p (obj_keys ob)) ob = filter (\<lambda>kv. \<not> p (fst kv)) ob"
  by (auto simp: fold_obj_delete obj_keys_def intro!: filter_cong)

text \<open>Reading a property of any value: only objects have own properties here.\<close>

definition js_prop :: "jsval \<Rightarrow> string \<Rightarrow> jsval" where
  "js_prop v k =
     (case v of
        JObj ob \<Rightarrow> (case obj_get ob k of None \<Rightarrow> JUndefined | Some x \<Rightarrow> x)
      | _ \<Rightarrow> JUndefined)"

lemma js_prop_simps [simp]:
  "js_prop (JObj ob) k = (case obj_get ob k of None \<Rightarrow> JUndefined | Some x \<Rightarrow> x)"
  "js_prop JUndefined k = JUndefined"
  "js_prop JNull k = JUndefined"
  "js_prop (JBool b) k = JUndefined"
  "js_prop (JNum n) k = JUndefined"
  "js_prop (JStr s) k = JUndefined"
  "js_prop (JArr xs) k = JUndefined"
  by (simp_all add: js_prop_def)

subsection \<open>Well-formed values\<close>

text \<open>A value in which no object has the same key twice.\<close>

fun wf_val :: "jsval \<Rightarrow> bool" where
  "wf_val (JArr vs) = list_all wf_val vs"
| "wf_val (JObj ob) = (obj_ok ob \<and> list_all (\<lambda>kv. wf_val (snd kv)) ob)"
| "wf_val _ = True"

lemma size_obj_get: "obj_get ob k = Some v \<Longrightarrow> size v < size (JObj ob)"
proof -
  assume "obj_get ob k = Some v"
  then have "(k, v) \<in> set ob" by (rule obj_get_in_set)
  then have "size_prod (\<lambda>_. 0) size (k, v) \<le> size_list (size_prod (\<lambda>_. 0) size) ob"
    by (intro size_list_estimation') auto
  then show ?thesis by simp
qed

end
