(* ===== verification/Js_Json.thy ===== *)
theory Js_Json
  imports Js_Objects
begin

section \<open>JSON text\<close>

text \<open>
  \<open>JSON.stringify\<close> (without indentation) on the values of the model, decimal printing of integers,
  and \<open>JSON.parse\<close> of the three JSON literals. \<open>JSON.parse\<close> of every other text is a parameter
  (\<open>other\<close>): the one caller, the theme context, stores booleans only.
\<close>

fun nat_digits :: "nat \<Rightarrow> string" where
  "nat_digits n =
     (if n < 10 then [char_of (48 + n)] else nat_digits (n div 10) @ [char_of (48 + n mod 10)])"

declare nat_digits.simps [simp del]

definition int_to_string :: "int \<Rightarrow> string" where
  "int_to_string n = (if n < 0 then ''-'' @ nat_digits (nat (- n)) else nat_digits (nat n))"

definition hex_digit :: "nat \<Rightarrow> char" where
  "hex_digit n = (if n < 10 then char_of (48 + n) else char_of (87 + n))"

text \<open>The escapes of a JSON string: quote, backslash and the control characters.\<close>

definition json_escape :: "char \<Rightarrow> string" where
  "json_escape c =
     (let n = (of_char c :: nat)
      in if n = 34 then [CHR 0x5C, CHR 0x22]
         else if n = 92 then [CHR 0x5C, CHR 0x5C]
         else if n = 8 then [CHR 0x5C, CHR ''b'']
         else if n = 12 then [CHR 0x5C, CHR ''f'']
         else if n = 10 then [CHR 0x5C, CHR ''n'']
         else if n = 13 then [CHR 0x5C, CHR ''r'']
         else if n = 9 then [CHR 0x5C, CHR ''t'']
         else if n < 32 then [CHR 0x5C, CHR ''u'', CHR ''0'', CHR ''0'', hex_digit (n div 16), hex_digit (n mod 16)]
         else [c])"

definition json_quote :: "string \<Rightarrow> string" where
  "json_quote s = [CHR 0x22] @ concat (map json_escape s) @ [CHR 0x22]"

text \<open>\<open>None\<close> is the value \<open>undefined\<close> that \<open>JSON.stringify\<close> gives for \<open>undefined\<close>; inside an array it
  prints as \<open>null\<close>, and a property with that value is left out.\<close>

fun json_stringify :: "jsval \<Rightarrow> string option" where
  "json_stringify JUndefined = None"
| "json_stringify JNull = Some ''null''"
| "json_stringify (JBool b) = Some (if b then ''true'' else ''false'')"
| "json_stringify (JNum n) = Some (int_to_string n)"
| "json_stringify (JStr s) = Some (json_quote s)"
| "json_stringify (JArr vs) =
     Some (''['' @ js_join '','' (map (\<lambda>v. case json_stringify v of None \<Rightarrow> ''null'' | Some t \<Rightarrow> t) vs) @ '']'')"
| "json_stringify (JObj ob) =
     Some (''{'' @ js_join '','' (concat (map (\<lambda>kv. case json_stringify (snd kv) of None \<Rightarrow> []
        | Some t \<Rightarrow> [json_quote (fst kv) @ '':'' @ t]) ob)) @ ''}'')"

definition json_space :: "char \<Rightarrow> bool" where
  "json_space c \<longleftrightarrow> of_char c \<in> {9, 10, 13, 32 :: nat}"

definition json_trim :: "string \<Rightarrow> string" where
  "json_trim s = rev (dropWhile json_space (rev (dropWhile json_space s)))"

definition json_parse :: "(string \<Rightarrow> jsval result) \<Rightarrow> string \<Rightarrow> jsval result" where
  "json_parse other s =
     (if json_trim s = ''true'' then Inr (JBool True)
      else if json_trim s = ''false'' then Inr (JBool False)
      else if json_trim s = ''null'' then Inr JNull
      else other s)"

text \<open>A printed boolean reads back.\<close>

lemma json_parse_bool: "json_stringify (JBool b) = Some s \<Longrightarrow> json_parse other s = Inr (JBool b)"
  by (cases b) (auto simp: json_parse_def json_trim_def json_space_def)

lemma json_stringify_bool_neq: "json_stringify (JBool b) \<noteq> Some []"
  by simp

end
