(* ===== verification/Qlkube_Utils.thy ===== *)
theory Qlkube_Utils
  imports Js_Json
begin

section \<open>qlkube: tokens, type names, logging\<close>

text \<open>
  \<open>qlkube/src/utils.js\<close>: \<open>capitalizeType\<close>, \<open>getBearerToken\<close>, \<open>graphqlLogger\<close> and the request
  logger \<open>graphqlQueryRegistry\<close>. The console is the list of lines written so far, the environment
  variable \<open>DEBUG\<close> is an argument.
\<close>

subsection \<open>capitalizeType\<close>

text \<open>\<open>name[0].toUpperCase() + name.slice(1)\<close>: \<open>name[0]\<close> is \<open>undefined\<close> for the empty string, and
  calling a method on it throws.\<close>

definition capitalizeType :: "string \<Rightarrow> string result" where
  "capitalizeType name =
     (case name of [] \<Rightarrow> Inl TypeError | c # cs \<Rightarrow> Inr (js_upper c @ cs))"

subsection \<open>getBearerToken\<close>

definition getBearerToken :: "jsval \<Rightarrow> string result" where
  "getBearerToken connectionParams =
     (if \<not> js_truthy connectionParams then Inl (Error ''Parameter connectionParams cannot be empty!'')
      else
        let auth = js_or (js_prop connectionParams ''authorization'')
                         (js_prop connectionParams ''Authorization'')
        in if \<not> js_truthy auth then Inl (ForbiddenError ''Token Error! Token absent!'')
           else
             (case auth of
                JStr s \<Rightarrow>
                  (case js_split_ws s of
                     _ # token # _ \<Rightarrow>
                       (if token = [] then Inl (ForbiddenError ''Token Error! Token not valid!'')
                        else Inr token)
                   | _ \<Rightarrow> Inl (ForbiddenError ''Token Error! Token not valid!''))
              | _ \<Rightarrow> Inl TypeError))"

subsection \<open>Logging\<close>

definition graphqlLogger :: "string option \<Rightarrow> string \<Rightarrow> string list \<Rightarrow> string list" where
  "graphqlLogger DEBUG msg console = (if \<not> missing DEBUG then console @ [msg] else console)"

text \<open>What a template literal prints for a value that may be \<open>undefined\<close>.\<close>

definition show_opt :: "string option \<Rightarrow> string" where
  "show_opt s = (case s of None \<Rightarrow> ''undefined'' | Some t \<Rightarrow> t)"

text \<open>\<open>graphqlQueryRegistry.requestDidStart\<close>: one log entry per request that is not an introspection
  query.\<close>

definition requestDidStart ::
  "string option \<Rightarrow> string option \<Rightarrow> jsval \<Rightarrow> string list \<Rightarrow> string list" where
  "requestDidStart DEBUG operationName variables console =
     (if operationName \<noteq> Some ''IntrospectionQuery''
      then graphqlLogger DEBUG
             (''[i]Request started:'' @ nl @ ''[+] Variables: '' @ show_opt (json_stringify variables)
              @ nl @ ''[+] Query: '' @ show_opt operationName) console
      else console)"

subsection \<open>Lemmas\<close>

definition bearer :: "string \<Rightarrow> string" where
  "bearer token = ''Bearer '' @ token"

lemma split_bearer:
  assumes "no_space token"
  shows "js_split_ws (bearer token) = [''Bearer'', token]"
proof -
  have "list_all (\<lambda>c. \<not> js_space c) ''Bearer''"
    by (simp add: js_space_def)
  from js_split_ws_append [OF this js_space_blank, of token] assms
  have "js_split_ws (bearer token) = ''Bearer'' # js_split_ws (dropWhile js_space token)"
    by (simp add: bearer_def)
  also from assms have "dropWhile js_space token = token"
    by (cases token) (auto simp: no_space_def)
  finally show ?thesis
    using assms by (simp add: no_space_def js_split_ws_word)
qed

lemma getBearerToken_of_string:
  assumes "js_or (js_prop p ''authorization'') (js_prop p ''Authorization'') = JStr s" and "s \<noteq> []"
  shows "getBearerToken p =
    (case js_split_ws s of
       _ # token # _ \<Rightarrow>
         (if token = [] then Inl (ForbiddenError ''Token Error! Token not valid!'') else Inr token)
     | _ \<Rightarrow> Inl (ForbiddenError ''Token Error! Token not valid!''))"
proof -
  from assms have "js_truthy p"
    by (cases p) (auto simp: js_or_def)
  with assms show ?thesis by (simp add: getBearerToken_def)
qed

text \<open>A token is returned exactly when the header is a string whose second word is not empty.\<close>

lemma getBearerToken_Inr_iff:
  "getBearerToken p = Inr token \<longleftrightarrow>
    (\<exists>s scheme ws. js_or (js_prop p ''authorization'') (js_prop p ''Authorization'') = JStr s \<and>
       js_split_ws s = scheme # token # ws \<and> token \<noteq> [])"
proof (cases "\<exists>s. js_or (js_prop p ''authorization'') (js_prop p ''Authorization'') = JStr s \<and> s \<noteq> []")
  case True
  then obtain s where s: "js_or (js_prop p ''authorization'') (js_prop p ''Authorization'') = JStr s" "s \<noteq> []"
    by blast
  then show ?thesis
    by (simp add: getBearerToken_of_string [OF s]) (auto split: list.splits if_splits)
next
  case False
  then have "getBearerToken p \<noteq> Inr token"
    by (auto simp: getBearerToken_def Let_def split: jsval.splits if_splits)
  with False show ?thesis by auto
qed

text \<open>A returned token is never empty and has no white space.\<close>

lemma getBearerToken_token:
  assumes "getBearerToken p = Inr token"
  shows "token \<noteq> [] \<and> no_space token"
proof -
  from assms obtain s where "token \<in> set (js_split_ws s)" and "token \<noteq> []"
    by (auto simp: getBearerToken_def Let_def split: if_splits jsval.splits list.splits)
      (metis list.set_intros(1) list.set_intros(2))
  then show ?thesis by (simp add: no_space_def js_split_ws_fields)
qed

lemma getBearerToken_errors:
  assumes "getBearerToken p = Inl e" and "js_truthy p"
  shows "e = ForbiddenError ''Token Error! Token absent!'' \<or>
    e = ForbiddenError ''Token Error! Token not valid!'' \<or> e = TypeError"
  using assms by (auto simp: getBearerToken_def Let_def split: if_splits jsval.splits list.splits)

end
