(* ===== verification/Watch.thy ===== *)
theory Watch
  imports Qlkube_Utils
begin

section \<open>qlkube: access reviews and resource watches\<close>

text \<open>
  \<open>qlkube/src/watch.js\<close> and \<open>qlkube/src/pubsub.js\<close>.
  \<^item> \<open>canWatchResource\<close>: the request it sends is a value; \<open>fetch\<close> (with the decoding of the answer
    by \<open>res.json()\<close>) is a parameter that maps a request to what comes back.
  \<^item> \<open>kwatch\<close>: the watches of the Kubernetes client are a step machine. A step is an object event, the
    end of a watch (the client's \<open>done\<close> callback), the passing of time or a due timer; publishing
    appends to the list of published events (\<open>publishEvent\<close>).
\<close>

subsection \<open>Printing and property access\<close>

fun js_show :: "jsval \<Rightarrow> string" where
  "js_show JUndefined = ''undefined''"
| "js_show JNull = ''null''"
| "js_show (JBool b) = (if b then ''true'' else ''false'')"
| "js_show (JNum n) = int_to_string n"
| "js_show (JStr s) = s"
| "js_show (JArr vs) = js_join '','' (map (\<lambda>v. if js_nullish v then [] else js_show v) vs)"
| "js_show (JObj _) = ''[object Object]''"

text \<open>\<open>v.k\<close>, which throws when \<open>v\<close> is \<open>undefined\<close> or \<open>null\<close>.\<close>

definition js_deref :: "jsval \<Rightarrow> string \<Rightarrow> jsval result" where
  "js_deref v k = (if js_nullish v then Inl TypeError else Inr (js_prop v k))"

subsection \<open>canWatchResource\<close>

record http_request =
  req_url :: string
  req_method :: string
  req_headers :: "string obj"
  req_body :: string

datatype fetch_outcome = FetchFails string | BodyNotJson string | Body jsval

definition review_body :: "jsval \<Rightarrow> jsval \<Rightarrow> jsval \<Rightarrow> jsval \<Rightarrow> jsval" where
  "review_body resource grp namespace name =
     JObj [(''kind'', JStr ''SelfSubjectAccessReview''),
           (''apiVersion'', JStr ''authorization.k8s.io/v1''),
           (''spec'', JObj [(''resourceAttributes'',
              JObj [(''namespace'', namespace), (''verb'', JStr ''watch''), (''group'', grp),
                    (''resource'', resource), (''name'', name)])])]"

definition review_request ::
  "string \<Rightarrow> jsval \<Rightarrow> jsval \<Rightarrow> jsval \<Rightarrow> jsval \<Rightarrow> jsval \<Rightarrow> http_request" where
  "review_request apiServerUrl token resource grp namespace name =
     \<lparr>req_url = apiServerUrl @ ''/apis/authorization.k8s.io/v1/selfsubjectaccessreviews'',
      req_method = ''POST'',
      req_headers = [(''Authorization'', ''Bearer '' @ js_show token), (''Content-Type'', ''application/json'')],
      req_body = show_opt (json_stringify (review_body resource grp namespace name))\<rparr>"

definition review_error :: js_error where
  "review_error = Error ''ERROR WHEN CHECKING IF USER CAN CHECK''"

text \<open>The two \<open>then\<close> callbacks and the \<open>catch\<close>: every failure on the way, a \<open>null\<close> body included,
  becomes the same error.\<close>

definition review_answer :: "fetch_outcome \<Rightarrow> bool result" where
  "review_answer out =
     (case out of
        FetchFails _ \<Rightarrow> Inl review_error
      | BodyNotJson _ \<Rightarrow> Inl review_error
      | Body body \<Rightarrow>
          (case js_deref body ''status'' of
             Inl _ \<Rightarrow> Inl review_error
           | Inr status \<Rightarrow>
               (if js_truthy status then Inr (js_prop status ''allowed'' = JBool True) else Inr False)))"

definition canWatchResource ::
  "(http_request \<Rightarrow> fetch_outcome) \<Rightarrow> string \<Rightarrow> jsval \<Rightarrow> jsval \<Rightarrow> jsval \<Rightarrow> jsval \<Rightarrow> jsval \<Rightarrow> bool result" where
  "canWatchResource fetch apiServerUrl token resource grp namespace name =
     review_answer (fetch (review_request apiServerUrl token resource grp namespace name))"

lemma review_answer_allowed:
  "review_answer out = Inr True \<longleftrightarrow>
    (\<exists>body. out = Body body \<and> js_prop (js_prop body ''status'') ''allowed'' = JBool True)"
proof (cases out)
  case (Body body)
  then show ?thesis
    by (cases "js_prop body ''status''")
      (auto simp: review_answer_def js_deref_def js_nullish_def review_error_def)
qed (simp_all add: review_answer_def)

lemma review_answer_failed:
  "review_answer out = Inl e \<longleftrightarrow> e = review_error \<and> \<not> (\<exists>body. out = Body body \<and> \<not> js_nullish body)"
  by (cases out) (auto simp: review_answer_def js_deref_def)

lemma review_answer_refused:
  "review_answer out = Inr False \<longleftrightarrow>
    (\<exists>body. out = Body body \<and> \<not> js_nullish body \<and> js_prop (js_prop body ''status'') ''allowed'' \<noteq> JBool True)"
proof -
  have "review_answer out = Inr False \<longleftrightarrow> review_answer out \<noteq> Inr True \<and> \<not> (\<exists>e. review_answer out = Inl e)"
    by (cases "review_answer out") auto
  moreover have "js_prop (js_prop body ''status'') ''allowed'' = JBool True \<Longrightarrow> \<not> js_nullish body" for body
    by (cases body) (auto simp: js_nullish_def)
  ultimately show ?thesis by (auto simp: review_answer_allowed review_answer_failed)
qed

subsection \<open>kwatch\<close>

record 'a watch_event =
  ev_type :: string
  ev_apiObj :: 'a

record 'a watch_state =
  active :: "(string \<times> string) list"
  timers :: "(nat \<times> string \<times> string) list"
  published :: "(string \<times> 'a watch_event) list"
  clock :: nat

text \<open>\<open>publishEvent(label, value)\<close> of \<open>pubsub.js\<close>.\<close>

definition publishEvent :: "string \<Rightarrow> 'a watch_event \<Rightarrow> 'a watch_state \<Rightarrow> 'a watch_state" where
  "publishEvent label value st = st\<lparr>published := published st @ [(label, value)]\<rparr>"

definition kwatch :: "string \<Rightarrow> string \<Rightarrow> 'a watch_state \<Rightarrow> 'a watch_state result" where
  "kwatch api label st =
     (if api = [] then Inl (Error ''Parameter api cannot be empty!'')
      else if label = [] then Inl (Error ''Parameter label cannot be empty!'')
      else Inr (st\<lparr>active := active st @ [(api, label)]\<rparr>))"

text \<open>The event callback, and the callback for the end of a watch: a watch that ends because nothing
  was found is restarted in two seconds, any other error ends it, and without an error object the
  read of \<open>err.message\<close> throws. The client ends a watch at most once, so it leaves the active ones
  here.\<close>

definition on_event :: "string \<Rightarrow> string \<Rightarrow> 'a \<Rightarrow> 'a watch_state \<Rightarrow> 'a watch_state" where
  "on_event label type apiObj st = publishEvent label \<lparr>ev_type = type, ev_apiObj = apiObj\<rparr> st"

definition on_done :: "string \<Rightarrow> string \<Rightarrow> jsval \<Rightarrow> 'a watch_state \<Rightarrow> 'a watch_state result" where
  "on_done api label err st =
     bind_res (js_deref err ''message'') (\<lambda>message.
       let st1 = st\<lparr>active := remove1 (api, label) (active st)\<rparr>
       in if message = JStr ''Not Found''
          then Inr (st1\<lparr>timers := timers st1 @ [(clock st1 + 2000, api, label)]\<rparr>)
          else Inr st1)"

inductive watch_step :: "'a watch_state \<Rightarrow> 'a watch_state \<Rightarrow> bool" where
  event: "(api, label) \<in> set (active st) \<Longrightarrow> watch_step st (on_event label type apiObj st)"
| ended: "(api, label) \<in> set (active st) \<Longrightarrow> on_done api label err st = Inr st' \<Longrightarrow> watch_step st st'"
| elapse: "watch_step st (st\<lparr>clock := clock st + d\<rparr>)"
| fire: "(due, api, label) \<in> set (timers st) \<Longrightarrow> due \<le> clock st \<Longrightarrow>
    kwatch api label (st\<lparr>timers := remove1 (due, api, label) (timers st)\<rparr>) = Inr st' \<Longrightarrow>
    watch_step st st'"

inductive watch_steps :: "'a watch_state \<Rightarrow> 'a watch_state \<Rightarrow> bool" where
  refl: "watch_steps st st"
| step: "watch_steps st st' \<Longrightarrow> watch_step st' st'' \<Longrightarrow> watch_steps st st''"

inductive_cases watch_stepE: "watch_step st st'"

subsection \<open>Lemmas\<close>

text \<open>The watches alive under a label: running, or waiting for their timer.\<close>

definition alive :: "string \<Rightarrow> 'a watch_state \<Rightarrow> nat" where
  "alive label st =
     length (filter (\<lambda>al. snd al = label) (active st)) +
     length (filter (\<lambda>t. snd (snd t) = label) (timers st))"

lemma length_filter_remove1:
  "x \<in> set xs \<Longrightarrow> length (filter p xs) = length (filter p (remove1 x xs)) + (if p x then 1 else 0)"
  by (induction xs) auto

lemma alive_on_event [simp]: "alive l (on_event label type apiObj st) = alive l st"
  by (simp add: alive_def on_event_def publishEvent_def)

definition not_found :: "jsval \<Rightarrow> bool" where
  "not_found err \<longleftrightarrow> js_prop err ''message'' = JStr ''Not Found''"

lemma on_done_Inr:
  "on_done api label err st = Inr st' \<longleftrightarrow>
    \<not> js_nullish err \<and>
    st' = st\<lparr>active := remove1 (api, label) (active st),
             timers := timers st @ (if not_found err then [(clock st + 2000, api, label)] else [])\<rparr>"
  by (auto simp: on_done_def js_deref_def not_found_def bind_res_Inr_iff Let_def)

lemma alive_on_done:
  "(api, label) \<in> set (active st) \<Longrightarrow> on_done api label err st = Inr st' \<Longrightarrow>
    alive l st = alive l st' + (if l = label \<and> \<not> not_found err then 1 else 0)"
  by (auto simp: alive_def on_done_Inr length_filter_remove1 [of "(api, label)"])

lemma alive_kwatch:
  "kwatch api label st = Inr st' \<Longrightarrow> alive l st' = alive l st + (if l = label then 1 else 0)"
  by (auto simp: kwatch_def alive_def split: if_splits)

lemma alive_drop_timer:
  "(due, api, label) \<in> set (timers st) \<Longrightarrow>
    alive l st = alive l (st\<lparr>timers := remove1 (due, api, label) (timers st)\<rparr>) + (if l = label then 1 else 0)"
  by (auto simp: alive_def length_filter_remove1 [of "(due, api, label)"])

lemma alive_fire:
  assumes "(due, api, label) \<in> set (timers st)"
    and "kwatch api label (st\<lparr>timers := remove1 (due, api, label) (timers st)\<rparr>) = Inr st'"
  shows "alive l st' = alive l st"
  using alive_drop_timer [OF assms(1), of l] alive_kwatch [OF assms(2), of l] by simp

lemma alive_elapse [simp]: "alive l (st\<lparr>clock := c\<rparr>) = alive l st"
  by (simp add: alive_def)

lemma watch_step_alive_le: "watch_step st st' \<Longrightarrow> alive l st' \<le> alive l st"
proof (induction rule: watch_step.induct)
  case (ended api label st err st')
  then show ?case using alive_on_done [of api label st err st' l] by simp
qed (auto simp: alive_fire)

lemma watch_steps_alive_le: "watch_steps st st' \<Longrightarrow> alive l st' \<le> alive l st"
  by (induction rule: watch_steps.induct) (auto dest: watch_step_alive_le [of _ _ l])

text \<open>Once nothing is alive under a label, nothing more is published under it.\<close>

definition events_of :: "string \<Rightarrow> 'a watch_state \<Rightarrow> 'a watch_event list" where
  "events_of label st = map snd (filter (\<lambda>p. fst p = label) (published st))"

lemma kwatch_published: "kwatch api label st = Inr st' \<Longrightarrow> published st' = published st"
  by (auto simp: kwatch_def split: if_splits)

lemma alive_pos: "(api, label) \<in> set (active st) \<Longrightarrow> 0 < alive label st"
  by (force simp: alive_def filter_empty_conv)

lemma watch_step_silent:
  "watch_step st st' \<Longrightarrow> alive l st = 0 \<Longrightarrow> events_of l st' = events_of l st"
proof (induction rule: watch_step.induct)
  case (event api label st type apiObj)
  with alive_pos [of api label st] show ?case
    by (auto simp: events_of_def on_event_def publishEvent_def)
qed (auto simp: events_of_def on_done_Inr kwatch_published)

lemma watch_steps_silent:
  "watch_steps st st' \<Longrightarrow> alive l st = 0 \<Longrightarrow> events_of l st' = events_of l st"
proof (induction rule: watch_steps.induct)
  case (step st st' st'')
  then have "alive l st' = 0" using watch_steps_alive_le [of st st' l] by simp
  with step show ?case by (simp add: watch_step_silent)
qed simp

subsection \<open>Properties\<close>

text \<open>C14: \<open>canWatchResource\<close> has three outcomes, each for one kind of answer. It says yes exactly when
  the body of the answer has \<open>status.allowed === true\<close>; it says no exactly when there is a body (other
  than null) without that; and it throws its one error exactly in the remaining cases: the request fails,
  the answer is not JSON, or the body is null.\<close>

theorem canWatchResource_allowed:
  "(canWatchResource fetch url token resource grp namespace name = Inr True \<longleftrightarrow>
     (\<exists>body. fetch (review_request url token resource grp namespace name) = Body body \<and>
        js_prop (js_prop body ''status'') ''allowed'' = JBool True)) \<and>
   (canWatchResource fetch url token resource grp namespace name = Inr False \<longleftrightarrow>
     (\<exists>body. fetch (review_request url token resource grp namespace name) = Body body \<and> \<not> js_nullish body \<and>
        js_prop (js_prop body ''status'') ''allowed'' \<noteq> JBool True)) \<and>
   (canWatchResource fetch url token resource grp namespace name = Inl e \<longleftrightarrow> e = review_error \<and>
     \<not> (\<exists>body. fetch (review_request url token resource grp namespace name) = Body body \<and> \<not> js_nullish body))"
  by (simp add: canWatchResource_def review_answer_allowed review_answer_refused review_answer_failed)

text \<open>a watch that ended with an error other than \<open>Not Found\<close>, where it was the only one under its
  label, is never restarted: whatever happens afterwards, no further event is published under
  that label.\<close>

lemma watch_error_is_final:
  assumes "(api, label) \<in> set (active st)" and "alive label st = 1" and "\<not> not_found err"
    and "on_done api label err st = Inr st1" and "watch_steps st1 st2"
  shows "events_of label st2 = events_of label st"
proof -
  from alive_on_done [OF assms(1,4), of label] assms(2,3) have "alive label st1 = 0" by simp
  with assms(5) have "events_of label st2 = events_of label st1" by (rule watch_steps_silent)
  with assms(4) show ?thesis by (simp add: events_of_def on_done_Inr)
qed

definition idle_watch :: "'a watch_state" where
  "idle_watch = \<lparr>active = [(''/apis/x/v1/y'', ''y'')], timers = [], published = [], clock = 0\<rparr>"

lemma watch_error_is_final_witness:
  "\<exists>st1. on_done ''/apis/x/v1/y'' ''y'' (JObj [(''message'', JStr ''Forbidden'')]) idle_watch = Inr st1 \<and>
     (\<forall>st2. watch_steps st1 st2 \<longrightarrow> events_of ''y'' st2 = [])"
proof -
  let ?err = "JObj [(''message'', JStr ''Forbidden'')]"
  let ?st1 = "idle_watch\<lparr>active := []\<rparr>"
  have "on_done ''/apis/x/v1/y'' ''y'' ?err idle_watch = Inr ?st1"
    by (simp add: on_done_Inr js_nullish_def not_found_def idle_watch_def)
  then show ?thesis
    using watch_error_is_final [of "''/apis/x/v1/y''" "''y''" idle_watch ?err ?st1]
    by (auto simp: idle_watch_def alive_def not_found_def events_of_def)
qed

text \<open>C38: a watch that ended because nothing was found is running again once two seconds have passed:
  from the state after its end, letting two seconds pass and its timer fire is a run that leads to
  a state where it is active, and no run ever has more watches alive under a label than before.\<close>

theorem watch_restarts:
  assumes "(api, label) \<in> set (active st)" and "api \<noteq> []" and "label \<noteq> []"
    and "not_found err" and "on_done api label err st = Inr st1"
  shows "(\<exists>st'. watch_steps st1 st' \<and>
      (api, label) \<in> set (active st') \<and> clock st' = clock st + 2000 \<and> alive label st' = alive label st)
    \<and> (\<forall>st'. watch_steps st1 st' \<longrightarrow> alive label st' \<le> alive label st)"
proof
  let ?s2 = "st1\<lparr>clock := clock st1 + 2000\<rparr>"
  let ?t = "(clock st + 2000, api, label)"
  let ?s3 = "?s2\<lparr>timers := remove1 ?t (timers ?s2), active := active ?s2 @ [(api, label)]\<rparr>"
  from assms(4,5) have s1: "clock st1 = clock st" "?t \<in> set (timers st1)"
    by (auto simp: on_done_Inr)
  then have t: "?t \<in> set (timers ?s2)" by simp
  have k: "kwatch api label (?s2\<lparr>timers := remove1 ?t (timers ?s2)\<rparr>) = Inr ?s3"
    using assms by (simp add: kwatch_def)
  from s1 have "clock st + 2000 \<le> clock ?s2" by simp
  with t have "watch_step ?s2 ?s3" using k by (rule watch_step.fire)
  then have "watch_steps st1 ?s3"
    by (rule watch_steps.step [OF watch_steps.step [OF watch_steps.refl watch_step.elapse]])
  moreover have al: "alive label st1 = alive label st"
    using alive_on_done [OF assms(1,5), of label] assms(4) by simp
  moreover from al have "alive label ?s3 = alive label st"
    using alive_fire [OF t k, of label] by simp
  ultimately show "\<exists>st'. watch_steps st1 st' \<and> (api, label) \<in> set (active st') \<and>
      clock st' = clock st + 2000 \<and> alive label st' = alive label st"
    using s1 by (intro exI [of _ ?s3]) simp
  from al show "\<forall>st'. watch_steps st1 st' \<longrightarrow> alive label st' \<le> alive label st"
    by (metis watch_steps_alive_le)
qed

theorem watch_restarts_witness:
  "\<exists>st1 st'. on_done ''/apis/x/v1/y'' ''y'' (JObj [(''message'', JStr ''Not Found'')]) idle_watch = Inr st1 \<and>
     watch_steps st1 st' \<and> (''/apis/x/v1/y'', ''y'') \<in> set (active st')"
proof -
  let ?err = "JObj [(''message'', JStr ''Not Found'')]"
  let ?st1 = "idle_watch\<lparr>active := [], timers := [(2000, ''/apis/x/v1/y'', ''y'')]\<rparr>"
  have "on_done ''/apis/x/v1/y'' ''y'' ?err idle_watch = Inr ?st1"
    by (simp add: on_done_Inr js_nullish_def not_found_def idle_watch_def)
  with watch_restarts [of "''/apis/x/v1/y''" "''y''" idle_watch ?err ?st1] show ?thesis
    by (auto simp: idle_watch_def not_found_def)
qed

end
