(* ===== verification/Decorate_Schema.thy ===== *)
theory Decorate_Schema
  imports Watch
begin

section \<open>qlkube: wrapping queries into the base schema\<close>

text \<open>
  \<open>qlkube/src/decorateBaseSchema.js\<close> and \<open>qlkube/src/schema.js\<close>. The GraphQL packages the code calls
  are a parameter: the record \<open>graphql_lib\<close> holds the functions of \<open>graphql\<close>, \<open>graphql-tools\<close> and
  \<open>apollo-server-core\<close> that the code uses, over abstract types of schemas, documents and fields.
  The functions themselves (argument checks, the text of the type extension, the resolvers) are
  translated line by line (\<open>has_field\<close>, the fields of object types, and \<open>output_type\<close> are only used to say what
  the library promises); \<open>'c\<close> is the pair of context and info that resolvers pass on. The lines
  that resolvers write to the console when \<open>DEBUG\<close> is set are left out: no code reads them.
\<close>

type_synonym 'c field_fn = "jsval \<Rightarrow> jsval \<Rightarrow> 'c \<Rightarrow> jsval result"

text \<open>An entry of a resolver map: a field resolver, or the pair of a subscription's topic with its
  filter and of its resolver.\<close>

datatype ('c, 'x) resolver_entry =
    Field "'c field_fn"
  | Subscribe string "jsval \<Rightarrow> jsval \<Rightarrow> jsval \<Rightarrow> jsval \<Rightarrow> 'x" "'c field_fn"

type_synonym ('c, 'x) resolver_map = "('c, 'x) resolver_entry obj obj"

record ('s, 'd, 'f, 'c, 'x) graphql_lib =
  query_fields :: "'s \<Rightarrow> (string \<Rightarrow> 'f option) option"
  type_map :: "'s \<Rightarrow> string \<Rightarrow> bool"
  has_field :: "'s \<Rightarrow> string \<Rightarrow> string \<Rightarrow> bool"
  output_type :: "'s \<Rightarrow> string \<Rightarrow> bool"
  field_resolve :: "'f \<Rightarrow> 'c field_fn"
  gql :: "string \<Rightarrow> 'd result"
  extendSchema :: "'s \<Rightarrow> 'd \<Rightarrow> 's result"
  addResolversToSchema :: "'s \<Rightarrow> ('c, 'x) resolver_map \<Rightarrow> 's result"
  useSubscriptionType :: "'s \<Rightarrow> 's"

text \<open>\<open>baseSchema.getQueryType().getFields()[name]\<close>: \<open>getQueryType()\<close> may be undefined.\<close>

definition query_field :: "('s, 'd, 'f, 'c, 'x) graphql_lib \<Rightarrow> 's \<Rightarrow> string \<Rightarrow> 'f option result" where
  "query_field L s name = (case query_fields L s of None \<Rightarrow> Inl TypeError | Some fs \<Rightarrow> Inr (fs name))"

definition sp :: "nat \<Rightarrow> string" where
  "sp n = replicate n (CHR '' '')"

subsection \<open>decorateBaseSchema\<close>

text \<open>The wrapper's resolver: copy the needed arguments out of the parent.\<close>

fun collect_args :: "jsval \<Rightarrow> string list \<Rightarrow> jsval obj \<Rightarrow> jsval result" where
  "collect_args parent [] newParent = Inr (JObj newParent)"
| "collect_args parent (e # es) newParent =
     bind_res (js_deref parent e)
       (\<lambda>v. if v = JUndefined
            then Inl (Error (''Error: '' @ e @ '' is not into the parent object!''))
            else collect_args parent es (obj_set e v newParent))"

definition wrapper_resolver :: "string list \<Rightarrow> 'c field_fn" where
  "wrapper_resolver argsNeeded parent args ctx = collect_args parent argsNeeded []"

text \<open>The target's resolver: the parent is passed on both as parent and as arguments.\<close>

definition target_resolver :: "('s, 'd, 'f, 'c, 'x) graphql_lib \<Rightarrow> 'f \<Rightarrow> 'c field_fn" where
  "target_resolver L targetType parent args ctx = field_resolve L targetType parent parent ctx"

definition extension_text :: "string \<Rightarrow> string \<Rightarrow> string \<Rightarrow> string \<Rightarrow> string \<Rightarrow> string" where
  "extension_text extendedType nameWrapper typeWrapper targetQuery typeTargetQuery =
     nl @ sp 10 @ ''extend type '' @ extendedType @ '' {'' @
     nl @ sp 14 @ nameWrapper @ '': '' @ typeWrapper @
     nl @ sp 10 @ ''}'' @
     nl @ sp 10 @ ''type '' @ typeWrapper @ '' {'' @
     nl @ sp 14 @ targetQuery @ '': '' @ typeTargetQuery @
     nl @ sp 10 @ ''}'' @
     nl @ sp 6"

definition wrapper_resolvers ::
  "('s, 'd, 'f, 'c, 'x) graphql_lib \<Rightarrow> string \<Rightarrow> string \<Rightarrow> string \<Rightarrow> string \<Rightarrow> 'f \<Rightarrow> string list
    \<Rightarrow> ('c, 'x) resolver_map" where
  "wrapper_resolvers L extendedType nameWrapper typeWrapper targetQuery targetType argsNeeded =
     obj_put typeWrapper [(targetQuery, Field (target_resolver L targetType))]
       (obj_put extendedType [(nameWrapper, Field (wrapper_resolver argsNeeded))] [])"

definition decorateBaseSchema ::
  "('s, 'd, 'f, 'c, 'x) graphql_lib \<Rightarrow> string option \<Rightarrow> string option \<Rightarrow> 's option \<Rightarrow> string option
    \<Rightarrow> string list option \<Rightarrow> 's result" where
  "decorateBaseSchema L targetQuery extendedType baseSchema nameWrapper argsNeeded =
     (if missing targetQuery then Inl (Error ''Parameter targetQuery cannot be empty!'')
      else if missing extendedType then Inl (Error ''Parameter extendedType cannot be empty!'')
      else if missing nameWrapper then Inl (Error ''Parameter nameWrapper cannot be empty!'')
      else case argsNeeded of
        None \<Rightarrow> Inl (Error ''Parameter argsNeeded cannot be empty!'')
      | Some args \<Rightarrow>
      (case baseSchema of
        None \<Rightarrow> Inl (Error ''Parameter baseSchema cannot be empty!'')
      | Some schema \<Rightarrow>
          bind_res (query_field L schema (the targetQuery)) (\<lambda>field.
          case field of
            None \<Rightarrow> Inl (Error ''Parameter targetQuery not valid!'')
          | Some targetType \<Rightarrow>
              bind_res (capitalizeType (the nameWrapper)) (\<lambda>typeWrapper.
              bind_res (capitalizeType (the targetQuery)) (\<lambda>typeTargetQuery.
              bind_res (gql L (extension_text (the extendedType) (the nameWrapper) typeWrapper
                         (the targetQuery) typeTargetQuery)) (\<lambda>extension.
              bind_res (extendSchema L schema extension) (\<lambda>extendedSchema.
              addResolversToSchema L extendedSchema
                (wrapper_resolvers L (the extendedType) (the nameWrapper) typeWrapper
                   (the targetQuery) targetType args))))))))"

subsection \<open>createSchema\<close>

text \<open>How a start-up function of the server ends: with a value, with \<open>process.exit\<close>, or by rejecting.\<close>

datatype 'a startup = Started 'a | Exited nat | Rejected js_error

record oas_options =
  opt_baseUrl :: string
  opt_viewer :: bool
  opt_headers :: "string obj"
  opt_tokenJSONpath :: string

definition schema_options :: "string \<Rightarrow> string \<Rightarrow> oas_options" where
  "schema_options kubeApiUrl token =
     \<lparr>opt_baseUrl = kubeApiUrl, opt_viewer = False,
      opt_headers = [(''Authorization'', ''Bearer '' @ token), (''Content-Type'', ''application/json'')],
      opt_tokenJSONpath = ''$.token''\<rparr>"

definition oasToGraphQlSchema ::
  "('o \<Rightarrow> oas_options \<Rightarrow> 's result) \<Rightarrow> 'o \<Rightarrow> string \<Rightarrow> string \<Rightarrow> 's result" where
  "oasToGraphQlSchema createGraphQlSchema oas kubeApiUrl token =
     createGraphQlSchema oas (schema_options kubeApiUrl token)"

definition decorate_all :: "('s, 'd, 'f, 'c, 'x) graphql_lib \<Rightarrow> 's \<Rightarrow> 's result" where
  "decorate_all L baseSchema =
     bind_res
       (decorateBaseSchema L (Some ''itPolitoCrownlabsV1alpha2Template'')
          (Some ''TemplateCrownlabsPolitoItTemplateRef'') (Some baseSchema) (Some ''templateWrapper'')
          (Some [''name'', ''namespace''])) (\<lambda>schemaWithInstanceTemplate.
     bind_res
       (decorateBaseSchema L (Some ''itPolitoCrownlabsV1alpha1Tenant'')
          (Some ''TenantCrownlabsPolitoItTenantRef'') (Some schemaWithInstanceTemplate)
          (Some ''tenantWrapper'') (Some [''name''])) (\<lambda>schemaWithInstanceTenant.
     decorateBaseSchema L (Some ''itPolitoCrownlabsV1alpha1Workspace'') (Some ''WorkspaceRef'')
       (Some schemaWithInstanceTenant) (Some ''workspaceWrapper'') (Some [''name''])))"

definition createSchema ::
  "('s, 'd, 'f, 'c, 'x) graphql_lib \<Rightarrow> ('o \<Rightarrow> oas_options \<Rightarrow> 's result) \<Rightarrow> 'o \<Rightarrow> string \<Rightarrow> string
    \<Rightarrow> 's startup" where
  "createSchema L createGraphQlSchema oas kubeApiUrl token =
     (case oasToGraphQlSchema createGraphQlSchema oas kubeApiUrl token of
        Inl e \<Rightarrow> Rejected e
      | Inr baseSchema \<Rightarrow>
          (case decorate_all L baseSchema of Inl _ \<Rightarrow> Exited 1 | Inr schema \<Rightarrow> Started schema))"

subsection \<open>Lemmas\<close>

lemma collect_args_cases:
  assumes "\<not> js_nullish parent"
  shows "collect_args parent es acc =
    (case dropWhile (\<lambda>e. js_prop parent e \<noteq> JUndefined) es of
       [] \<Rightarrow> Inr (JObj (fold (\<lambda>(k, v). obj_set k v) (map (\<lambda>e. (e, js_prop parent e)) es) acc))
     | e # _ \<Rightarrow> Inl (Error (''Error: '' @ e @ '' is not into the parent object!'')))"
proof (induction es arbitrary: acc)
  case Nil
  then show ?case by simp
next
  case (Cons e es)
  have "js_deref parent e = Inr (js_prop parent e)"
    using assms by (simp add: js_deref_def)
  with Cons show ?case
    by (cases "dropWhile (\<lambda>e. js_prop parent e \<noteq> JUndefined) es") (simp_all del: dropWhile_eq_Nil_conv)
qed

lemma collect_args_get:
  assumes "collect_args parent es [] = Inr r" and "\<not> js_nullish parent" and "proto_key \<notin> set es"
  shows "js_prop r k = (if k \<in> set es then js_prop parent k else JUndefined)"
proof -
  let ?kvs = "map (\<lambda>e. (e, js_prop parent e)) es"
  from assms(1,2) have r: "r = JObj (fold (\<lambda>(k, v). obj_set k v) ?kvs [])"
    by (auto simp: collect_args_cases split: list.splits)
  have "obj_get (fold (\<lambda>(k, v). obj_set k v) ?kvs []) k =
      (case map_of (rev ?kvs) k of None \<Rightarrow> obj_get [] k | Some v \<Rightarrow> Some v)"
    using assms(3) by (intro objstore.get_set_all) auto
  moreover have "map_of (rev ?kvs) k = (if k \<in> set es then Some (js_prop parent k) else None)"
    by (simp add: rev_map map_of_map_restrict)
  ultimately show ?thesis using r by simp
qed

subsection \<open>The wrapped query\<close>

lemma dropWhile_hd: "dropWhile P xs = y # ys \<Longrightarrow> y \<in> set xs \<and> \<not> P y"
  by (induction xs) (auto split: if_splits)

text \<open>C40: reading the target query through a wrapper field calls the resolver of the base query with
  exactly the needed arguments of the wrapping object, both as its parent and as its arguments, when
  all of them are present; otherwise the wrapper throws an error that names one of those missing.\<close>

theorem wrapper_passes_needed_args:
  assumes "\<not> js_nullish parent" and "proto_key \<notin> set argsNeeded"
  shows "if \<forall>e \<in> set argsNeeded. js_prop parent e \<noteq> JUndefined
    then \<exists>p. wrapper_resolver argsNeeded parent args ctx = Inr p
           \<and> target_resolver L f p args' ctx' = field_resolve L f p p ctx'
           \<and> (\<forall>k. js_prop p k = (if k \<in> set argsNeeded then js_prop parent k else JUndefined))
    else \<exists>e. e \<in> set argsNeeded \<and> js_prop parent e = JUndefined
           \<and> wrapper_resolver argsNeeded parent args ctx =
               Inl (Error (''Error: '' @ e @ '' is not into the parent object!''))"
proof (cases "dropWhile (\<lambda>e. js_prop parent e \<noteq> JUndefined) argsNeeded")
  case Nil
  then have all: "\<forall>e \<in> set argsNeeded. js_prop parent e \<noteq> JUndefined" by simp
  from Nil assms(1) obtain p where p: "collect_args parent argsNeeded [] = Inr p"
    by (simp add: collect_args_cases)
  with collect_args_get [OF p assms] all show ?thesis
    by (simp add: wrapper_resolver_def target_resolver_def)
next
  case (Cons e es)
  from dropWhile_hd [OF this] Cons assms(1) show ?thesis
    by (auto simp: wrapper_resolver_def collect_args_cases)
qed

theorem wrapper_passes_needed_args_witness:
  "\<exists>p. wrapper_resolver [''name''] (JObj [(''name'', JStr ''sid''), (''uid'', JNum 7)]) JUndefined () = Inr p
     \<and> (\<forall>k. js_prop p k = (if k = ''name'' then JStr ''sid'' else JUndefined))"
  using wrapper_passes_needed_args
    [of "JObj [(''name'', JStr ''sid''), (''uid'', JNum 7)]" "[''name'']" JUndefined "()" undefined undefined
        undefined undefined]
  by (auto simp: js_nullish_def proto_key_def cong: if_cong)

lemma decorateBaseSchema_needs_query:
  assumes "decorateBaseSchema L (Some q) (Some t) (Some s) (Some w) (Some args) = Inr s'"
  shows "\<exists>fs f. query_fields L s = Some fs \<and> fs q = Some f"
  using assms
  by (auto simp: decorateBaseSchema_def query_field_def bind_res_Inr_iff split: if_splits option.splits)

end
