(* ===== verification/Subscription_Cache.thy ===== *)
theory Subscription_Cache
  imports Watch
begin

section \<open>qlkube: the permission check and its cache\<close>

text \<open>
  \<open>checkPermission\<close> and \<open>clearCache\<close> of \<open>qlkube/src/decorateSubscription.js\<close>. The function is
  asynchronous: it runs to its only \<open>await\<close> (\<open>check_start\<close>), and continues when the access review
  is answered (\<open>check_finish\<close>). Between the two, other checks and the periodic \<open>clearCache\<close> run on
  the same cache, which the machine \<open>cache_step\<close> interleaves freely. \<open>checkPermission\<close> is the
  uninterrupted composition of the two halves.

  The cache is the object \<open>cacheSubscriptions\<close>, from printed keys to the time of the last positive
  answer. Times are milliseconds.
\<close>

type_synonym cache = "int obj"

definition TEN_MINUTES :: int where
  "TEN_MINUTES = 10 * 60 * 1000"

record check =
  ck_token :: jsval
  ck_group :: jsval
  ck_resource :: jsval
  ck_namespace :: jsval
  ck_name :: jsval

text \<open>The default values of the parameters \<open>group\<close> and \<open>name\<close>.\<close>

definition with_defaults :: "check \<Rightarrow> check" where
  "with_defaults c =
     c\<lparr>ck_group := (if ck_group c = JUndefined then JStr [] else ck_group c),
       ck_name := (if ck_name c = JUndefined then JStr [] else ck_name c)\<rparr>"

definition check_guard :: "check \<Rightarrow> string \<Rightarrow> unit result" where
  "check_guard c kubeApiUrl =
     (if \<not> js_truthy (ck_token c) then Inl (Error ''Parameter token cannot be empty!'')
      else if \<not> js_truthy (ck_resource c) then Inl (Error ''Parameter resource cannot be empty!'')
      else if \<not> js_truthy (ck_namespace c) then Inl (Error ''Parameter namespace cannot be empty!'')
      else if kubeApiUrl = [] then Inl (Error ''Parameter kubeApiUrl cannot be empty!'')
      else Inr ())"

definition keyCache :: "check \<Rightarrow> string" where
  "keyCache c =
     js_show (ck_token c) @ ''_'' @ js_show (ck_group c) @ ''_'' @ js_show (ck_resource c) @ ''_''
     @ js_show (ck_namespace c) @ ''_'' @ js_show (ck_name c)"

text \<open>\<open>lastSub && !(Date.now() - lastSub > TEN_MINUTES && delete cacheSubscriptions[keyCache])\<close>, with
  the cache after it.\<close>

definition cached_and_fresh :: "int \<Rightarrow> string \<Rightarrow> cache \<Rightarrow> bool \<times> cache" where
  "cached_and_fresh now key cache =
     (case obj_get cache key of
        None \<Rightarrow> (False, cache)
      | Some lastSub \<Rightarrow>
          if lastSub = 0 then (False, cache)
          else if now - lastSub > TEN_MINUTES then (False, obj_delete key cache)
          else (True, cache))"

datatype check_outcome = Throws js_error | Granted | AwaitReview check

text \<open>Up to the \<open>await\<close>.\<close>

definition check_start :: "check \<Rightarrow> string \<Rightarrow> int \<Rightarrow> cache \<Rightarrow> check_outcome \<times> cache" where
  "check_start c0 kubeApiUrl now cache =
     (let c = with_defaults c0 in
      case check_guard c kubeApiUrl of
        Inl e \<Rightarrow> (Throws e, cache)
      | Inr _ \<Rightarrow>
          (let (fresh, cache') = cached_and_fresh now (keyCache c) cache
           in if fresh then (Granted, cache') else (AwaitReview c, cache')))"

text \<open>After the \<open>await\<close>, with the answer of \<open>canWatchResource\<close>.\<close>

definition check_finish :: "check \<Rightarrow> bool result \<Rightarrow> int \<Rightarrow> cache \<Rightarrow> bool result \<times> cache" where
  "check_finish c answer now cache =
     (case answer of
        Inl e \<Rightarrow> (Inl e, cache)
      | Inr allowed \<Rightarrow>
          if \<not> allowed
          then (Inl (ForbiddenError ''Token Error! You cannot watch this resource''), cache)
          else (Inr True, obj_set (keyCache c) now cache))"

definition checkPermission ::
  "(http_request \<Rightarrow> fetch_outcome) \<Rightarrow> check \<Rightarrow> string \<Rightarrow> int \<Rightarrow> int \<Rightarrow> cache \<Rightarrow> bool result \<times> cache" where
  "checkPermission fetch c0 kubeApiUrl now now' cache =
     (case check_start c0 kubeApiUrl now cache of
        (Throws e, cache') \<Rightarrow> (Inl e, cache')
      | (Granted, cache') \<Rightarrow> (Inr True, cache')
      | (AwaitReview c, cache') \<Rightarrow>
          check_finish c
            (canWatchResource fetch kubeApiUrl (ck_token c) (ck_resource c) (ck_group c)
               (ck_namespace c) (ck_name c)) now' cache')"

text \<open>\<open>clearCache\<close>: the time is read once, then every key of the cache is visited.\<close>

definition clearCache :: "int \<Rightarrow> cache \<Rightarrow> cache" where
  "clearCache currentTimestamp cache =
     fold (\<lambda>e c. if currentTimestamp - (case obj_get c e of None \<Rightarrow> 0 | Some t \<Rightarrow> t) > TEN_MINUTES
                 then obj_delete e c else c)
       (obj_keys cache) cache"

subsection \<open>Interleaved checks\<close>

text \<open>The state of the server: cache and clock, the checks that wait for their answer, and two
  histories that no code reads: the positive answers of the API server and the checks that
  returned \<open>true\<close>, with their times.\<close>

record server =
  sv_cache :: cache
  sv_now :: int
  sv_waiting :: "check list"
  sv_answers :: "(check \<times> int) list"
  sv_granted :: "(check \<times> int) list"

definition init_server :: "int \<Rightarrow> server" where
  "init_server t = \<lparr>sv_cache = [], sv_now = t, sv_waiting = [], sv_answers = [], sv_granted = []\<rparr>"

definition start_check :: "check \<Rightarrow> string \<Rightarrow> server \<Rightarrow> server" where
  "start_check c url s =
     (case check_start c url (sv_now s) (sv_cache s) of
        (Throws _, cache) \<Rightarrow> s\<lparr>sv_cache := cache\<rparr>
      | (Granted, cache) \<Rightarrow>
          s\<lparr>sv_cache := cache, sv_granted := (with_defaults c, sv_now s) # sv_granted s\<rparr>
      | (AwaitReview c', cache) \<Rightarrow> s\<lparr>sv_cache := cache, sv_waiting := c' # sv_waiting s\<rparr>)"

definition finish_check :: "check \<Rightarrow> bool result \<Rightarrow> server \<Rightarrow> server" where
  "finish_check c answer s =
     (let (r, cache) = check_finish c answer (sv_now s) (sv_cache s);
          s' = s\<lparr>sv_cache := cache, sv_waiting := remove1 c (sv_waiting s)\<rparr>
      in if r = Inr True
         then s'\<lparr>sv_answers := (c, sv_now s) # sv_answers s, sv_granted := (c, sv_now s) # sv_granted s\<rparr>
         else s')"

inductive cache_step :: "server \<Rightarrow> server \<Rightarrow> bool" where
  check_starts: "cache_step s (start_check c url s)"
| check_answered: "c \<in> set (sv_waiting s) \<Longrightarrow> cache_step s (finish_check c answer s)"
| cache_cleared: "cache_step s (s\<lparr>sv_cache := clearCache (sv_now s) (sv_cache s)\<rparr>)"
| time_passes: "0 \<le> d \<Longrightarrow> cache_step s (s\<lparr>sv_now := sv_now s + d\<rparr>)"

inductive reachable :: "server \<Rightarrow> bool" where
  booted: "reachable (init_server t)"
| stepped: "reachable s \<Longrightarrow> cache_step s s' \<Longrightarrow> reachable s'"

subsection \<open>Lemmas\<close>

lemma cached_and_fresh_cases:
  "cached_and_fresh now key cache =
    (case obj_get cache key of
       None \<Rightarrow> (False, cache)
     | Some t \<Rightarrow> (t \<noteq> 0 \<and> now - t \<le> TEN_MINUTES,
         if t \<noteq> 0 \<and> now - t > TEN_MINUTES then obj_delete key cache else cache))"
  by (auto simp: cached_and_fresh_def split: option.split)

lemma clearCache_filter:
  assumes "obj_ok cache"
  shows "clearCache now cache = filter (\<lambda>kt. now - snd kt \<le> TEN_MINUTES) cache"
proof -
  let ?f = "\<lambda>e c. if now - (case obj_get c e of None \<Rightarrow> 0 | Some t \<Rightarrow> t) > TEN_MINUTES
                  then obj_delete e c else c"
  have del: "obj_delete k xs = xs" if "k \<notin> set (map fst xs)" for k and xs :: cache
    using that by (induction xs) (auto simp: obj_delete_def)
  have get: "obj_get (xs @ (k, t) # ys) k = Some t" if "obj_ok (xs @ (k, t) # ys)" for xs k t ys
    using that obj_get_eq_Some [OF that, of k t] by simp
  have "obj_ok (xs @ ys) \<Longrightarrow> fold ?f (obj_keys ys) (xs @ ys) = xs @ filter (\<lambda>kt. now - snd kt \<le> TEN_MINUTES) ys"
    for xs ys
  proof (induction ys arbitrary: xs)
    case (Cons kt ys)
    obtain k t where kt: "kt = (k, t)" by (cases kt)
    from Cons.prems kt have ok: "obj_ok (xs @ (k, t) # ys)" by simp
    then have nin: "k \<notin> set (map fst xs)" "k \<notin> set (map fst ys)"
      by (auto simp: obj_ok_def)
    show ?case
    proof (cases "now - t > TEN_MINUTES")
      case True
      have "obj_delete k (xs @ (k, t) # ys) = xs @ ys"
        using del [OF nin(1)] del [OF nin(2)] by (simp add: obj_delete_def)
      moreover from ok have "obj_ok (xs @ ys)"
        using obj_ok_delete [OF ok, of k] calculation by simp
      ultimately show ?thesis
        using True kt get [OF ok] Cons.IH by (simp add: obj_keys_def)
    next
      case False
      from ok have "obj_ok ((xs @ [(k, t)]) @ ys)" by simp
      from Cons.IH [OF this] False kt get [OF ok] show ?thesis
        by (simp add: obj_keys_def)
    qed
  qed (simp add: obj_keys_def)
  from this [of "[]" cache] assms show ?thesis by (simp add: clearCache_def)
qed

text \<open>The printed key determines the check when only the token may contain an underscore.\<close>

definition clean :: "check \<Rightarrow> bool" where
  "clean c \<longleftrightarrow>
     (\<exists>t. ck_token c = JStr t) \<and>
     (\<forall>v \<in> {ck_group c, ck_resource c, ck_namespace c, ck_name c}. \<exists>s. v = JStr s \<and> CHR ''_'' \<notin> set s)"

lemma split_at_last:
  assumes "a @ x # b = a' @ x # b'" and "x \<notin> set b" and "x \<notin> set b'"
  shows "a = a' \<and> b = b'"
proof -
  have last: "takeWhile (\<lambda>y. y \<noteq> x) (rev (as @ x # bs)) = rev bs" if "x \<notin> set bs" for as bs
    using that by (simp add: takeWhile_append)
  from last [OF assms(2), of a] last [OF assms(3), of a'] assms(1) have "b = b'" by simp
  with assms(1) show ?thesis by simp
qed

lemma keyCache_inj:
  assumes "clean c" and "clean c'" and "keyCache c = keyCache c'"
  shows "c = c'"
proof -
  obtain t g r n m t' g' r' n' m' where c:
    "c = \<lparr>ck_token = JStr t, ck_group = JStr g, ck_resource = JStr r, ck_namespace = JStr n, ck_name = JStr m\<rparr>"
    "c' = \<lparr>ck_token = JStr t', ck_group = JStr g', ck_resource = JStr r', ck_namespace = JStr n', ck_name = JStr m'\<rparr>"
    and u: "CHR ''_'' \<notin> set g \<union> set r \<union> set n \<union> set m" "CHR ''_'' \<notin> set g' \<union> set r' \<union> set n' \<union> set m'"
    using assms(1,2) by (cases c; cases c') (auto simp: clean_def)
  have s4: "t @ CHR ''_'' # g @ CHR ''_'' # r @ CHR ''_'' # n = t' @ CHR ''_'' # g' @ CHR ''_'' # r' @ CHR ''_'' # n' \<and> m = m'"
    using assms(3) c u split_at_last
      [of "t @ CHR ''_'' # g @ CHR ''_'' # r @ CHR ''_'' # n" "CHR ''_''" m
          "t' @ CHR ''_'' # g' @ CHR ''_'' # r' @ CHR ''_'' # n'" m'] by (simp add: keyCache_def)
  then have s3: "t @ CHR ''_'' # g @ CHR ''_'' # r = t' @ CHR ''_'' # g' @ CHR ''_'' # r' \<and> n = n'"
    using u split_at_last
      [of "t @ CHR ''_'' # g @ CHR ''_'' # r" "CHR ''_''" n "t' @ CHR ''_'' # g' @ CHR ''_'' # r'" n'] by simp
  then have s2: "t @ CHR ''_'' # g = t' @ CHR ''_'' # g' \<and> r = r'"
    using u split_at_last [of "t @ CHR ''_'' # g" "CHR ''_''" r "t' @ CHR ''_'' # g'" r'] by simp
  then have "t = t' \<and> g = g'"
    using u split_at_last [of t "CHR ''_''" g t' g'] by simp
  with s4 s3 s2 c show ?thesis by simp
qed

text \<open>The invariant of the interleaved machine: a cache entry is the time of a positive answer for
  its key, and every granted check has a positive answer for its key that is at most ten minutes
  old.\<close>

definition backed :: "server \<Rightarrow> string \<Rightarrow> int \<Rightarrow> bool" where
  "backed s k t \<longleftrightarrow> (\<exists>c. (c, t) \<in> set (sv_answers s) \<and> keyCache c = k)"

definition cache_inv :: "server \<Rightarrow> bool" where
  "cache_inv s \<longleftrightarrow>
     obj_ok (sv_cache s) \<and>
     (\<forall>k t. obj_get (sv_cache s) k = Some t \<longrightarrow> t \<le> sv_now s \<and> backed s k t) \<and>
     (\<forall>c T. (c, T) \<in> set (sv_granted s) \<longrightarrow>
        (\<exists>t. backed s (keyCache c) t \<and> t \<le> T \<and> T - t \<le> TEN_MINUTES))"

lemma cache_inv_init: "cache_inv (init_server t)"
  by (simp add: cache_inv_def init_server_def)

lemma check_start_cache:
  "check_start c url now cache = (r, cache') \<Longrightarrow> cache' = cache \<or> cache' = obj_delete (keyCache (with_defaults c)) cache"
  by (auto simp: check_start_def Let_def cached_and_fresh_cases split: sum.splits option.splits if_splits)

lemma check_start_granted:
  "check_start c url now cache = (Granted, cache') \<Longrightarrow>
    cache' = cache \<and> (\<exists>t. obj_get cache (keyCache (with_defaults c)) = Some t \<and> now - t \<le> TEN_MINUTES)"
  by (auto simp: check_start_def Let_def cached_and_fresh_cases split: sum.splits option.splits if_splits)

lemma backed_cong [simp]:
  "backed (s\<lparr>sv_cache := x\<rparr>) k t = backed s k t"
  "backed (s\<lparr>sv_waiting := w\<rparr>) k t = backed s k t"
  "backed (s\<lparr>sv_granted := g\<rparr>) k t = backed s k t"
  "backed (s\<lparr>sv_now := n\<rparr>) k t = backed s k t"
  by (simp_all add: backed_def)

lemma cache_inv_start: "cache_inv s \<Longrightarrow> cache_inv (start_check c url s)"
proof -
  assume inv: "cache_inv s"
  obtain r cache where st: "check_start c url (sv_now s) (sv_cache s) = (r, cache)" by force
  have sub: "obj_ok cache \<and> (\<forall>k t. obj_get cache k = Some t \<longrightarrow> obj_get (sv_cache s) k = Some t)"
    using check_start_cache [OF st] inv by (auto simp: cache_inv_def split: if_splits)
  show ?thesis
  proof (cases r)
    case Granted
    with check_start_granted [of c url "sv_now s" "sv_cache s" cache] st inv
    have "\<exists>t. backed s (keyCache (with_defaults c)) t \<and> t \<le> sv_now s \<and> sv_now s - t \<le> TEN_MINUTES"
      by (auto simp: cache_inv_def)
    with st sub inv Granted show ?thesis by (auto simp: start_check_def cache_inv_def)
  qed (use st sub inv in \<open>auto simp: start_check_def cache_inv_def\<close>)
qed

lemma cache_inv_finish: "cache_inv s \<Longrightarrow> cache_inv (finish_check c answer s)"
proof (cases "answer = Inr True")
  case True
  assume inv: "cache_inv s"
  have b: "backed (finish_check c answer s) k t \<longleftrightarrow> backed s k t \<or> k = keyCache c \<and> t = sv_now s" for k t
    using True by (auto simp: finish_check_def check_finish_def backed_def)
  have "obj_get (obj_set (keyCache c) (sv_now s) (sv_cache s)) k = Some t \<Longrightarrow>
      obj_get (sv_cache s) k = Some t \<or> k = keyCache c \<and> t = sv_now s" for k t
    by (auto simp: obj_set_def obj_get_put split: if_splits)
  moreover have "0 \<le> TEN_MINUTES" by (simp add: TEN_MINUTES_def)
  ultimately show ?thesis
    using inv True unfolding cache_inv_def b
    by (auto simp: finish_check_def check_finish_def) blast
next
  case False
  assume "cache_inv s"
  with False show ?thesis
    by (auto simp: finish_check_def check_finish_def cache_inv_def split: sum.splits if_splits)
qed

lemma cache_inv_clear:
  "cache_inv s \<Longrightarrow> cache_inv (s\<lparr>sv_cache := clearCache (sv_now s) (sv_cache s)\<rparr>)"
proof -
  assume inv: "cache_inv s"
  then have ok: "obj_ok (sv_cache s)" by (simp add: cache_inv_def)
  let ?c = "clearCache (sv_now s) (sv_cache s)"
  from ok have ok': "obj_ok ?c" by (simp add: clearCache_filter obj_ok_filter)
  have "obj_get ?c k = Some t \<Longrightarrow> obj_get (sv_cache s) k = Some t" for k t
    using ok by (auto simp: clearCache_filter obj_get_filter split: option.splits if_splits)
  with inv ok' show ?thesis by (auto simp: cache_inv_def)
qed

lemma cache_step_inv: "cache_step s s' \<Longrightarrow> cache_inv s \<Longrightarrow> cache_inv s'"
proof (induction rule: cache_step.induct)
  case (time_passes d s)
  then show ?case by (fastforce simp: cache_inv_def)
qed (simp_all add: cache_inv_start cache_inv_finish cache_inv_clear)

lemma reachable_inv: "reachable s \<Longrightarrow> cache_inv s"
  by (induction rule: reachable.induct) (auto intro: cache_inv_init cache_step_inv)

subsection \<open>Properties\<close>

text \<open>C3: in every interleaving of checks, answers, cache clean-ups and time, a check that was granted
  at time \<open>T\<close> is covered by a positive answer of the API server for the very same token, group,
  resource, namespace and name that arrived at most ten minutes before \<open>T\<close>: a revoked permission
  stops working after ten minutes. Only the token may contain underscores.\<close>

theorem granted_checks_are_authorised:
  assumes "reachable s" and "(c, T) \<in> set (sv_granted s)"
    and "clean c" and "\<And>c' t. (c', t) \<in> set (sv_answers s) \<Longrightarrow> clean c'"
  shows "\<exists>t. (c, t) \<in> set (sv_answers s) \<and> t \<le> T \<and> T - t \<le> TEN_MINUTES"
proof -
  from assms(1,2) obtain t c' where t: "(c', t) \<in> set (sv_answers s)" "keyCache c' = keyCache c"
    "t \<le> T" "T - t \<le> TEN_MINUTES"
    using reachable_inv [of s] by (fastforce simp: cache_inv_def backed_def)
  with assms(3,4) have "c' = c" using keyCache_inj by blast
  with t show ?thesis by blast
qed

definition sample_check :: check where
  "sample_check =
     \<lparr>ck_token = JStr ''t'', ck_group = JStr ''crownlabs.polito.it'', ck_resource = JStr ''instances'',
      ck_namespace = JStr ''ns'', ck_name = JStr []\<rparr>"

definition asked_server :: server where
  "asked_server = finish_check sample_check (Inr True) (start_check sample_check ''http://k'' (init_server 5))"

lemma start_sample:
  "check_start sample_check ''http://k'' now [] = (AwaitReview sample_check, [])"
  by (simp add: check_start_def with_defaults_def check_guard_def sample_check_def cached_and_fresh_def)

lemma asked_server_fields:
  "sv_granted asked_server = [(sample_check, 5)]" "sv_answers asked_server = [(sample_check, 5)]"
  by (simp_all add: asked_server_def start_check_def init_server_def start_sample finish_check_def check_finish_def)

lemma asked_server_reachable: "reachable asked_server"
proof -
  have "sample_check \<in> set (sv_waiting (start_check sample_check ''http://k'' (init_server 5)))"
    by (simp add: start_check_def init_server_def start_sample)
  then show ?thesis
    unfolding asked_server_def by (blast intro: reachable.intros cache_step.intros)
qed

theorem granted_checks_are_authorised_witness:
  "\<exists>t. (sample_check, t) \<in> set (sv_answers asked_server) \<and> t \<le> 5 \<and> 5 - t \<le> TEN_MINUTES"
proof (rule granted_checks_are_authorised)
  show "clean sample_check" by (simp add: clean_def sample_check_def)
  then show "\<And>c' t. (c', t) \<in> set (sv_answers asked_server) \<Longrightarrow> clean c'"
    by (simp add: asked_server_fields)
qed (simp_all add: asked_server_reachable asked_server_fields)

text \<open>clearing the cache is invisible to later checks: it never turns a granted check into one
  that has to ask again or the other way round, it only frees entries.\<close>

lemma clearCache_transparent:
  assumes "obj_ok cache" and "t \<le> now"
  shows "fst (check_start c url now (clearCache t cache)) = fst (check_start c url now cache)"
proof -
  have "fst (cached_and_fresh now k (clearCache t cache)) = fst (cached_and_fresh now k cache)" for k
    using assms by (auto simp: cached_and_fresh_cases clearCache_filter obj_get_filter split: option.splits)
  then show ?thesis
    by (simp add: check_start_def Let_def split: sum.split prod.split) (metis fst_conv)
qed

lemma clearCache_transparent_witness:
  "fst (check_start sample_check ''http://k'' 700000 (clearCache 650000 [(''a'', 5)])) =
     fst (check_start sample_check ''http://k'' 700000 [(''a'', 5)])"
  by (rule clearCache_transparent) (simp_all add: obj_ok_def)

text \<open>a positive answer is remembered: for ten minutes after it the same check is granted without
  asking the API server again, whatever the server would answer now, and the cache stays as it is.\<close>

lemma grant_is_remembered:
  assumes "checkPermission fetch c url now now' cache = (Inr True, cache')"
    and "check_start c url now cache = (AwaitReview c', cache1)"
    and "keyCache (with_defaults c) \<noteq> proto_key" and "now' \<noteq> 0"
    and "later - now' \<le> TEN_MINUTES"
  shows "checkPermission fetch2 c url later later' cache' = (Inr True, cache')"
proof -
  from assms(2) have c': "c' = with_defaults c" and ok: "check_guard (with_defaults c) url = Inr ()"
    by (auto simp: check_start_def Let_def split: sum.splits if_splits prod.splits)
  from assms(1,2) c' have "cache' = obj_set (keyCache (with_defaults c)) now' cache1"
    by (auto simp: checkPermission_def check_finish_def split: sum.splits if_splits)
  with assms(3) have "obj_get cache' (keyCache (with_defaults c)) = Some now'" by simp
  with ok assms(4,5) have "check_start c url later cache' = (Granted, cache')"
    by (simp add: check_start_def Let_def cached_and_fresh_cases)
  then show ?thesis by (simp add: checkPermission_def)
qed

definition yes_fetch :: "http_request \<Rightarrow> fetch_outcome" where
  "yes_fetch r = Body (JObj [(''status'', JObj [(''allowed'', JBool True)])])"

definition no_fetch :: "http_request \<Rightarrow> fetch_outcome" where
  "no_fetch r = Body (JObj [(''status'', JObj [(''allowed'', JBool False)])])"

lemma grant_is_remembered_witness:
  "checkPermission no_fetch sample_check ''http://k'' 600006 600007 [(keyCache sample_check, 6)] =
     (Inr True, [(keyCache sample_check, 6)])"
proof (rule grant_is_remembered [where now = 5 and now' = 6 and cache = "[]" and fetch = yes_fetch])
  have k: "keyCache sample_check \<noteq> proto_key"
    by (simp add: keyCache_def sample_check_def proto_key_def)
  show "keyCache (with_defaults sample_check) \<noteq> proto_key"
    using k by (simp add: with_defaults_def sample_check_def)
  show "check_start sample_check ''http://k'' 5 [] = (AwaitReview sample_check, [])"
    by (rule start_sample)
  show "checkPermission yes_fetch sample_check ''http://k'' 5 6 [] = (Inr True, [(keyCache sample_check, 6)])"
    using k by (simp add: checkPermission_def start_sample check_finish_def yes_fetch_def canWatchResource_def
      review_answer_def js_deref_def js_nullish_def obj_set_def)
qed (simp_all add: TEN_MINUTES_def)

text \<open>a check answers \<open>true\<close> or throws, never \<open>false\<close>; and when it throws, the cache holds no
  usable entry for it, so the next check asks the API server again: refusals are never cached.\<close>

lemma refusal_is_not_cached:
  "(case checkPermission fetch c url now now' cache of
      (Inr b, _) \<Rightarrow> b = True
    | (Inl e, cache') \<Rightarrow>
        fst (check_start c url now cache') =
          (case check_guard (with_defaults c) url of
             Inl e' \<Rightarrow> Throws e' | Inr _ \<Rightarrow> AwaitReview (with_defaults c)))"
proof (cases "check_guard (with_defaults c) url")
  case (Inl e)
  then show ?thesis by (simp add: checkPermission_def check_start_def Let_def)
next
  case (Inr u)
  obtain fresh cache1 where f: "cached_and_fresh now (keyCache (with_defaults c)) cache = (fresh, cache1)"
    by force
  show ?thesis
  proof (cases fresh)
    case True
    with Inr f show ?thesis by (simp add: checkPermission_def check_start_def Let_def)
  next
    case False
    with f have "\<not> fst (cached_and_fresh now (keyCache (with_defaults c)) cache1)"
      by (auto simp: cached_and_fresh_cases split: option.splits if_splits)
    with False Inr f show ?thesis
      by (auto simp: checkPermission_def check_start_def Let_def check_finish_def
        split: sum.split prod.split)
  qed
qed

end
