(* ===== verification/Subscription_Schema.thy ===== *)
theory Subscription_Schema
  imports Decorate_Schema Subscription_Cache
begin

section \<open>qlkube: the subscription part of the schema\<close>

text \<open>
  The rest of \<open>qlkube/src/decorateSubscription.js\<close> (\<open>decorateEnum\<close>, \<open>decorateSubscription\<close> with its
  filter and its resolvers, \<open>setupSubscriptions\<close>) and \<open>qlkube/src/subscriptions.js\<close>.

  The filter callback is split at the call of \<open>checkPermission\<close>: \<open>subscription_filter\<close> is the code up
  to that call, with \<open>None\<close> where an earlier conjunct is false, and \<open>filter_event\<close> runs the call too.
  Its third parameter, which the code names \<open>info\<close>, is the GraphQL context, and the fourth, which it
  names \<open>context\<close>, is the resolve info with the field name.
\<close>

subsection \<open>The subscriptions\<close>

record subscription =
  sub_api :: string
  sub_group :: "string option"
  sub_version :: string
  sub_resource :: string
  sub_type :: string

definition subscriptions :: "subscription list" where
  "subscriptions =
     [\<lparr>sub_api = ''apis'', sub_group = Some ''crownlabs.polito.it'', sub_version = ''v1alpha2'',
       sub_resource = ''instances'', sub_type = ''itPolitoCrownlabsV1alpha2Instance''\<rparr>,
      \<lparr>sub_api = ''apis'', sub_group = Some ''crownlabs.polito.it'', sub_version = ''v1alpha2'',
       sub_resource = ''templates'', sub_type = ''itPolitoCrownlabsV1alpha2Template''\<rparr>]"

subsection \<open>decorateEnum\<close>

definition enum_text :: "string \<Rightarrow> string list \<Rightarrow> string" where
  "enum_text enumName values =
     nl @ sp 4 @
     (''enum '' @ enumName @ '' {'' @ concat (map (\<lambda>val. nl @ sp 6 @ val) values) @ nl @ sp 4 @ ''}'') @
     nl @ sp 2"

definition decorateEnum ::
  "('s, 'd, 'f, 'c, 'x) graphql_lib \<Rightarrow> 's option \<Rightarrow> string option \<Rightarrow> string list option \<Rightarrow> 's result" where
  "decorateEnum L baseSchema enumName values =
     (case baseSchema of
        None \<Rightarrow> Inl (Error ''Parameter baseSchema cannot be empty!'')
      | Some schema \<Rightarrow>
          if missing enumName then Inl (Error ''Parameter enumName cannot be empty!'')
          else
            (case values of
               None \<Rightarrow> Inl (Error ''Parameter values cannot be empty!'')
             | Some vs \<Rightarrow>
                 if type_map L schema (the enumName)
                 then Inl (Error ''Enum type is already present in the schema!'')
                 else bind_res (gql L (enum_text (the enumName) vs)) (extendSchema L schema)))"

subsection \<open>The filter and the resolvers of a subscription\<close>

text \<open>\<open>===\<close> on values that come from different places: two objects or arrays are never the same one.\<close>

fun js_strict_eq :: "jsval \<Rightarrow> jsval \<Rightarrow> bool" where
  "js_strict_eq (JObj _) _ = False"
| "js_strict_eq (JArr _) _ = False"
| "js_strict_eq a b = (a = b)"

definition opt_val :: "string option \<Rightarrow> jsval" where
  "opt_val s = (case s of None \<Rightarrow> JUndefined | Some t \<Rightarrow> JStr t)"

text \<open>\<open>subscriptions.filter(...)[0]\<close>; \<open>None\<close> is \<open>undefined\<close>.\<close>

definition find_subscription :: "subscription list \<Rightarrow> jsval \<Rightarrow> subscription option" where
  "find_subscription subs fieldName =
     (case filter (\<lambda>sub. JStr (sub_type sub @ ''Update'') = fieldName) subs of
        [] \<Rightarrow> None | sub # _ \<Rightarrow> Some sub)"

definition subscription_filter ::
  "subscription list \<Rightarrow> jsval \<Rightarrow> jsval \<Rightarrow> jsval \<Rightarrow> jsval \<Rightarrow> check option result" where
  "subscription_filter subs payload variables info context =
     bind_res (js_deref context ''fieldName'') (\<lambda>fieldName.
     let resourceApi = find_subscription subs fieldName in
     bind_res (js_deref payload ''apiObj'') (\<lambda>apiObj.
     bind_res (js_deref apiObj ''metadata'') (\<lambda>metadata.
     bind_res (js_deref metadata ''namespace'') (\<lambda>namespace.
     bind_res (js_deref variables ''namespace'') (\<lambda>wanted.
     if js_strict_eq namespace wanted \<and>
        (js_prop variables ''name'' = JUndefined \<or>
         js_strict_eq (js_prop metadata ''name'') (js_prop variables ''name''))
     then
       bind_res (js_deref info ''token'') (\<lambda>token.
       case resourceApi of
         None \<Rightarrow> Inl TypeError
       | Some sub \<Rightarrow>
           Inr (Some \<lparr>ck_token = token, ck_group = opt_val (sub_group sub),
                      ck_resource = JStr (sub_resource sub), ck_namespace = wanted,
                      ck_name = js_prop variables ''name''\<rparr>))
     else Inr None)))))"

definition filter_event ::
  "(http_request \<Rightarrow> fetch_outcome) \<Rightarrow> subscription list \<Rightarrow> string \<Rightarrow> int \<Rightarrow> int
    \<Rightarrow> jsval \<Rightarrow> jsval \<Rightarrow> jsval \<Rightarrow> jsval \<Rightarrow> cache \<Rightarrow> bool result \<times> cache" where
  "filter_event fetch subs kubeApiUrl now now' payload variables info context cache =
     (case subscription_filter subs payload variables info context of
        Inl e \<Rightarrow> (Inl e, cache)
      | Inr None \<Rightarrow> (Inr False, cache)
      | Inr (Some c) \<Rightarrow> checkPermission fetch c kubeApiUrl now now' cache)"

text \<open>The value that the watch of \<open>watch.js\<close> publishes for an event, as the filter and the resolvers get it.\<close>

definition event_payload :: "jsval watch_event \<Rightarrow> jsval" where
  "event_payload e = JObj [(''apiObj'', ev_apiObj e), (''type'', JStr (ev_type e))]"

text \<open>The resolvers; the pair is (context, info).\<close>

definition resolve_subscription :: "(jsval \<times> jsval) field_fn" where
  "resolve_subscription payload args ci = bind_res (js_deref (fst ci) ''fieldName'') (\<lambda>_. Inr payload)"

definition resolve_updateType :: "(jsval \<times> jsval) field_fn" where
  "resolve_updateType payload args ci = js_deref payload ''type''"

definition resolve_payload :: "(jsval \<times> jsval) field_fn" where
  "resolve_payload payload args ci = js_deref payload ''apiObj''"

subsection \<open>decorateSubscription\<close>

type_synonym ('s, 'd, 'f) qlkube_lib = "('s, 'd, 'f, jsval \<times> jsval, check option result) graphql_lib"

definition subscription_text :: "string \<Rightarrow> string \<Rightarrow> string \<Rightarrow> string \<Rightarrow> string \<Rightarrow> string" where
  "subscription_text subscriptionType enumType targetType subType subscriptionField =
     nl @ sp 2 @ ''type  '' @ subscriptionType @ '' {'' @
     nl @ sp 4 @ ''updateType: '' @ enumType @
     nl @ sp 4 @ ''payload: '' @ targetType @
     nl @ sp 2 @ ''}'' @
     nl @ sp 4 @ subType @ '' {'' @
     nl @ sp 6 @ subscriptionField @ ''(name: String, namespace: String!): '' @ subscriptionType @
     nl @ sp 4 @ ''}'' @
     nl @ sp 2"

definition subscription_resolvers ::
  "subscription list \<Rightarrow> string \<Rightarrow> string \<Rightarrow> string \<Rightarrow> (jsval \<times> jsval, check option result) resolver_map" where
  "subscription_resolvers subs label subscriptionField subscriptionType =
     obj_put subscriptionType
       [(''updateType'', Field resolve_updateType), (''payload'', Field resolve_payload)]
       (obj_put ''Subscription''
          [(subscriptionField, Subscribe label (subscription_filter subs) resolve_subscription)] [])"

definition decorateSubscription ::
  "('s, 'd, 'f) qlkube_lib \<Rightarrow> subscription list \<Rightarrow> 's option \<Rightarrow> string option \<Rightarrow> string option \<Rightarrow> 's result" where
  "decorateSubscription L subs baseSchema targetType0 enumType =
     (case baseSchema of
        None \<Rightarrow> Inl (Error ''Parameter baseSchema cannot be empty!'')
      | Some schema \<Rightarrow>
          if missing targetType0 then Inl (Error ''Parameter targetType cannot be empty!'')
          else if missing enumType then Inl (Error ''Parameter enumType cannot be empty!'')
          else
            bind_res (query_field L schema (the targetType0)) (\<lambda>field.
            case field of
              None \<Rightarrow> Inl (Error ''Target type not found into the schema'')
            | Some _ \<Rightarrow>
               (let subscriptionField = the targetType0 @ ''Update'';
                    label = the targetType0;
                    subType = (if type_map L schema ''Subscription'' then ''extend type Subscription''
                               else ''type Subscription'')
                in bind_res (capitalizeType subscriptionField) (\<lambda>subscriptionType.
                   bind_res (capitalizeType (the targetType0)) (\<lambda>targetType.
                   bind_res (gql L (subscription_text subscriptionType (the enumType) targetType subType
                              subscriptionField)) (\<lambda>extension.
                   bind_res (extendSchema L schema extension) (\<lambda>extendedSchema.
                   bind_res (addResolversToSchema L extendedSchema
                              (subscription_resolvers subs label subscriptionField subscriptionType))
                     (\<lambda>newSchema. Inr (useSubscriptionType L newSchema)))))))))"

subsection \<open>setupSubscriptions\<close>

text \<open>The loop over the subscriptions, and the period of the cache clean-up timer that is installed
  after it (\<open>TEN_MINUTES * 2.2\<close> milliseconds).\<close>

fun decorate_each :: "('s, 'd, 'f) qlkube_lib \<Rightarrow> subscription list \<Rightarrow> subscription list \<Rightarrow> 's \<Rightarrow> 's result" where
  "decorate_each L subs [] schema = Inr schema"
| "decorate_each L subs (sub # rest) schema =
     bind_res (decorateSubscription L subs (Some schema) (Some (sub_type sub)) (Some ''UpdateType''))
       (decorate_each L subs rest)"

definition setupSubscriptions ::
  "('s, 'd, 'f) qlkube_lib \<Rightarrow> subscription list \<Rightarrow> subscription list option \<Rightarrow> 's option \<Rightarrow> string
    \<Rightarrow> ('s \<times> int) result" where
  "setupSubscriptions L configured subs schema kubeApiUrl =
     (case subs of
        None \<Rightarrow> Inl (Error ''Parameter subscriptions cannot be empty!'')
      | Some ss \<Rightarrow>
     (case schema of
        None \<Rightarrow> Inl (Error ''Parameter schema cannot be empty!'')
      | Some s \<Rightarrow>
          if kubeApiUrl = [] then Inl (Error ''Parameter kubeApiUrl cannot be empty!'')
          else
            bind_res (decorateEnum L (Some s) (Some ''UpdateType'')
                        (Some [''ADDED'', ''MODIFIED'', ''DELETED''])) (\<lambda>s1.
            bind_res (decorate_each L configured ss s1) (\<lambda>newSchema.
            Inr (newSchema, TEN_MINUTES * 22 div 10)))))"

subsection \<open>Lemmas\<close>

lemma js_strict_eqD: "js_strict_eq a b \<Longrightarrow> a = b"
  by (cases a) auto

lemma find_subscriptionD:
  "find_subscription subs (JStr fieldName) = Some sub \<Longrightarrow>
    sub \<in> set subs \<and> sub_type sub @ ''Update'' = fieldName"
  by (auto simp: find_subscription_def filter_eq_Cons_iff split: list.splits)

lemma find_subscription_type:
  assumes "distinct (map sub_type subs)" and "sub \<in> set subs"
  shows "find_subscription subs (JStr (sub_type sub @ ''Update'')) = Some sub"
proof -
  have "filter (\<lambda>s. sub_type s = sub_type sub) subs = [sub]"
    using assms by (induction subs) (auto simp: image_iff filter_empty_conv)
  then show ?thesis by (simp add: find_subscription_def)
qed

lemma subscription_filter_check:
  assumes "subscription_filter subs payload variables info context = Inr (Some c)"
  shows "\<exists>metadata sub. js_prop (js_prop payload ''apiObj'') ''metadata'' = metadata
    \<and> js_prop metadata ''namespace'' = js_prop variables ''namespace''
    \<and> (js_prop variables ''name'' = JUndefined \<or> js_prop metadata ''name'' = js_prop variables ''name'')
    \<and> find_subscription subs (js_prop context ''fieldName'') = Some sub
    \<and> c = \<lparr>ck_token = js_prop info ''token'', ck_group = opt_val (sub_group sub),
           ck_resource = JStr (sub_resource sub), ck_namespace = js_prop variables ''namespace'',
           ck_name = js_prop variables ''name''\<rparr>"
  using assms
  by (auto simp: subscription_filter_def bind_res_Inr_iff js_deref_def Let_def
      split: if_splits option.splits dest: js_strict_eqD)

lemma checkPermission_granted:
  assumes "checkPermission fetch c url now now' cache = (Inr True, cache')"
  shows "(\<exists>t. obj_get cache (keyCache (with_defaults c)) = Some t \<and> now - t \<le> TEN_MINUTES)
    \<or> (let d = with_defaults c in
        canWatchResource fetch url (ck_token d) (ck_resource d) (ck_group d) (ck_namespace d) (ck_name d) = Inr True)"
proof (cases "check_start c url now cache")
  case (Pair r cache1)
  show ?thesis
  proof (cases r)
    case Granted
    with Pair check_start_granted [of c url now cache cache1] show ?thesis by blast
  next
    case (AwaitReview d)
    with Pair have "d = with_defaults c"
      by (auto simp: check_start_def Let_def split: sum.splits if_splits prod.splits)
    with AwaitReview Pair assms show ?thesis
      by (auto simp: checkPermission_def check_finish_def Let_def split: sum.splits if_splits)
  qed (use Pair assms in \<open>simp add: checkPermission_def\<close>)
qed

subsection \<open>Properties\<close>

text \<open>the filter of a subscription lets an event through only when the changed object lies in the
  namespace the client asked for, has the name it asked for (if it asked for one), and the client's
  token may watch that resource there: either the API server says so now, or the cache holds a
  positive answer of the last ten minutes for that token, group, resource, namespace and name.\<close>

lemma delivered_event_is_permitted:
  assumes "filter_event fetch subs url now now' payload variables info context cache = (Inr True, cache')"
    and "js_prop context ''fieldName'' = JStr (sub_type sub @ ''Update'')"
    and "sub \<in> set subs" and "distinct (map sub_type subs)"
  shows "js_prop (js_prop (js_prop payload ''apiObj'') ''metadata'') ''namespace'' = js_prop variables ''namespace''
    \<and> (js_prop variables ''name'' = JUndefined \<or>
       js_prop (js_prop (js_prop payload ''apiObj'') ''metadata'') ''name'' = js_prop variables ''name'')
    \<and> (let c = with_defaults
                  \<lparr>ck_token = js_prop info ''token'', ck_group = opt_val (sub_group sub),
                   ck_resource = JStr (sub_resource sub), ck_namespace = js_prop variables ''namespace'',
                   ck_name = js_prop variables ''name''\<rparr>
       in (\<exists>t. obj_get cache (keyCache c) = Some t \<and> now - t \<le> TEN_MINUTES)
          \<or> canWatchResource fetch url (ck_token c) (ck_resource c) (ck_group c) (ck_namespace c) (ck_name c) = Inr True)"
proof -
  from assms(1) obtain c where f: "subscription_filter subs payload variables info context = Inr (Some c)"
    and c: "checkPermission fetch c url now now' cache = (Inr True, cache')"
    by (auto simp: filter_event_def split: sum.splits option.splits)
  from find_subscription_type [OF assms(4,3)] assms(2) subscription_filter_check [OF f]
    checkPermission_granted [OF c] show ?thesis by (auto simp: Let_def)
qed

definition sample_payload :: jsval where
  "sample_payload =
     JObj [(''apiObj'', JObj [(''metadata'', JObj [(''namespace'', JStr ''ns''), (''name'', JStr ''vm'')])]),
           (''type'', JStr ''ADDED'')]"

lemma sample_filter:
  "filter_event yes_fetch subscriptions ''http://k'' 1 2 sample_payload (JObj [(''namespace'', JStr ''ns'')])
     (JObj [(''token'', JStr ''t'')]) (JObj [(''fieldName'', JStr ''itPolitoCrownlabsV1alpha2InstanceUpdate'')]) [] =
   (Inr True, [(''t_crownlabs.polito.it_instances_ns_'', 2)])"
  by (simp add: filter_event_def subscription_filter_def js_deref_def js_nullish_def sample_payload_def
      find_subscription_def subscriptions_def opt_val_def checkPermission_def check_start_def with_defaults_def
      check_guard_def cached_and_fresh_def canWatchResource_def yes_fetch_def review_answer_def check_finish_def
      keyCache_def obj_set_def proto_key_def)

lemma delivered_event_is_permitted_witness:
  "canWatchResource yes_fetch ''http://k'' (JStr ''t'') (JStr ''instances'') (JStr ''crownlabs.polito.it'')
     (JStr ''ns'') (JStr []) = Inr True"
  using delivered_event_is_permitted [OF sample_filter, of "hd subscriptions"]
  by (simp add: subscriptions_def opt_val_def with_defaults_def Let_def)

text \<open>of the shipped configuration, every event the filter lets through was checked for the
  resource of the very subscription whose field delivers it, and the filter never throws for lack
  of one: for each configured subscription, an event in the requested namespace of a client with a
  token leads to a check of that subscription's group and resource.\<close>

lemma shipped_subscription_is_checked:
  assumes "sub \<in> set subscriptions"
    and "js_prop context ''fieldName'' = JStr (sub_type sub @ ''Update'')"
    and "info = JObj ob"
    and "payload = JObj [(''apiObj'', JObj [(''metadata'', JObj md)]), (''type'', type)]"
    and "obj_get md ''namespace'' = Some (JStr ns)"
    and "variables = JObj vs" and "obj_get vs ''namespace'' = Some (JStr ns)" and "obj_get vs ''name'' = None"
  shows "subscription_filter subscriptions payload variables info context =
    Inr (Some \<lparr>ck_token = js_prop info ''token'', ck_group = JStr ''crownlabs.polito.it'',
               ck_resource = JStr (sub_resource sub), ck_namespace = JStr ns, ck_name = JUndefined\<rparr>)"
proof -
  have d: "distinct (map sub_type subscriptions)" by (simp add: subscriptions_def)
  from assms(1) have "opt_val (sub_group sub) = JStr ''crownlabs.polito.it''"
    by (auto simp: subscriptions_def opt_val_def)
  moreover from assms(2) have "\<not> js_nullish context" by (auto simp: js_nullish_def)
  ultimately show ?thesis
    using find_subscription_type [OF d assms(1)] assms
    by (auto simp: subscription_filter_def js_deref_def js_nullish_def)
qed

lemma shipped_subscription_is_checked_witness:
  "subscription_filter subscriptions sample_payload (JObj [(''namespace'', JStr ''ns'')])
     (JObj [(''token'', JStr ''t'')]) (JObj [(''fieldName'', JStr ''itPolitoCrownlabsV1alpha2TemplateUpdate'')]) =
   Inr (Some \<lparr>ck_token = JStr ''t'', ck_group = JStr ''crownlabs.polito.it'',
              ck_resource = JStr ''templates'', ck_namespace = JStr ''ns'', ck_name = JUndefined\<rparr>)"
  using shipped_subscription_is_checked [of "subscriptions ! 1"
      "JObj [(''fieldName'', JStr ''itPolitoCrownlabsV1alpha2TemplateUpdate'')]" "JObj [(''token'', JStr ''t'')]"
      "[(''token'', JStr ''t'')]" sample_payload "[(''namespace'', JStr ''ns''), (''name'', JStr ''vm'')]"
      "JStr ''ADDED''" "''ns''" "JObj [(''namespace'', JStr ''ns'')]" "[(''namespace'', JStr ''ns'')]"]
  by (simp add: subscriptions_def sample_payload_def)

text \<open>C13: from the API server to the client: the event of a watch is published under the label of its
  subscription, and when the filter of that subscription lets it through, the resolvers hand the
  client the kind and the object of that very event, whose namespace is the requested one.\<close>

theorem published_event_reaches_client:
  assumes "filter_event fetch subs url now now' (event_payload e) variables ctx info cache = (Inr True, cache')"
  shows "published (on_event label (ev_type e) (ev_apiObj e) st) = published st @ [(label, e)]
    \<and> (\<exists>p. resolve_subscription (event_payload e) args (ctx, info) = Inr p
          \<and> resolve_updateType p args' ci = Inr (JStr (ev_type e))
          \<and> resolve_payload p args' ci = Inr (ev_apiObj e))
    \<and> js_prop (js_prop (ev_apiObj e) ''metadata'') ''namespace'' = js_prop variables ''namespace''"
proof -
  from assms obtain c where f: "subscription_filter subs (event_payload e) variables ctx info = Inr (Some c)"
    by (auto simp: filter_event_def split: sum.splits option.splits)
  then have "\<not> js_nullish ctx"
    by (auto simp: subscription_filter_def bind_res_Inr_iff js_deref_def Let_def split: if_splits)
  with subscription_filter_check [OF f] show ?thesis
    by (simp add: on_event_def publishEvent_def resolve_subscription_def resolve_updateType_def resolve_payload_def
        event_payload_def js_deref_def js_nullish_def)
qed

definition sample_event :: "jsval watch_event" where
  "sample_event =
     \<lparr>ev_type = ''ADDED'',
      ev_apiObj = JObj [(''metadata'', JObj [(''namespace'', JStr ''ns''), (''name'', JStr ''vm'')])]\<rparr>"

lemma sample_event_payload: "sample_payload = event_payload sample_event"
  by (simp add: sample_payload_def event_payload_def sample_event_def)

theorem published_event_reaches_client_witness:
  "\<exists>p. resolve_subscription (event_payload sample_event) JUndefined (JObj [(''token'', JStr ''t'')], JUndefined) = Inr p
     \<and> resolve_updateType p JUndefined (JUndefined, JUndefined) = Inr (JStr ''ADDED'')"
proof -
  have "ev_type sample_event = ''ADDED''" by (simp add: sample_event_def)
  with published_event_reaches_client [OF sample_filter [unfolded sample_event_payload]] show ?thesis
    by (auto simp: resolve_subscription_def js_deref_def js_nullish_def)
qed

end
