(* ===== verification/Decorate_Openapi.thy ===== *)
theory Decorate_Openapi
  imports Js_Objects
begin

section \<open>qlkube: filtering the OpenAPI document\<close>

text \<open>
  \<open>qlkube/src/decorateOpenapi.js\<close> and its configuration \<open>qlkube/src/apiGroups.js\<close>. The document is a
  record of the two objects the function touches and of everything else (\<open>rest\<close>). The configured
  groups are an argument, because the deployed \<open>apiGroups.js\<close> is generated from the Helm values;
  \<open>apiGroups_paths\<close> is the list of the file in the repository. The contract of the function is the
  reference \<open>keep_matching\<close>, a filter on the property list.
\<close>

record ('p, 'd, 'r) openapi =
  paths :: "'p obj"
  definitions :: "'d obj"
  rest :: 'r

definition apiGroups_paths :: "string list" where
  "apiGroups_paths = [''crownlabs.polito.it'']"

definition k8s :: string where
  "k8s = ''io.k8s.apimachinery''"

subsection \<open>The function\<close>

text \<open>The callback of both \<open>filter\<close> calls: \<open>result\<close> starts as \<open>true\<close> and is and-ed with
  \<open>!key.includes(path)\<close> for every path.\<close>

definition unmatched :: "string list \<Rightarrow> string \<Rightarrow> bool" where
  "unmatched needles key = fold (\<lambda>path result. result \<and> \<not> js_includes key path) needles True"

text \<open>\<open>definition.split('.').reverse().join('.')\<close>\<close>

definition reverse_domain :: "string \<Rightarrow> string" where
  "reverse_domain d = js_join ''.'' (rev (js_split_char (CHR ''.'') d))"

definition remove_keys :: "string list \<Rightarrow> 'v obj \<Rightarrow> 'v obj" where
  "remove_keys needles ob = fold obj_delete (filter (unmatched needles) (obj_keys ob)) ob"

definition decorateOpenapi :: "string list \<Rightarrow> ('p, 'd, 'r) openapi \<Rightarrow> ('p, 'd, 'r) openapi" where
  "decorateOpenapi groups oas =
     (let oas1 = oas\<lparr>paths := remove_keys groups (paths oas)\<rparr>;
          defs = map reverse_domain groups @ [k8s]
      in oas1\<lparr>definitions := remove_keys defs (definitions oas1)\<rparr>)"

subsection \<open>The contract\<close>

definition keep_matching :: "string list \<Rightarrow> 'v obj \<Rightarrow> 'v obj" where
  "keep_matching needles ob = filter (\<lambda>kv. \<exists>n \<in> set needles. sublist n (fst kv)) ob"

lemma unmatched_iff: "unmatched needles key \<longleftrightarrow> (\<forall>n \<in> set needles. \<not> sublist n key)"
proof -
  have "fold (\<lambda>path result. result \<and> \<not> js_includes key path) needles b \<longleftrightarrow>
      b \<and> (\<forall>n \<in> set needles. \<not> sublist n key)" for b
    by (induction needles arbitrary: b) (auto simp: js_includes_sublist)
  then show ?thesis by (simp add: unmatched_def)
qed

lemma remove_keys_eq: "remove_keys needles ob = keep_matching needles ob"
  by (simp add: remove_keys_def obj_prune_eq keep_matching_def unmatched_iff)

lemma keep_matching_idem [simp]: "keep_matching ns (keep_matching ns ob) = keep_matching ns ob"
  by (simp add: keep_matching_def)

lemma reverse_domain_involution: "reverse_domain (reverse_domain d) = d"
proof -
  let ?ws = "js_split_char (CHR ''.'') d"
  have "js_split_char (CHR ''.'') (js_join ''.'' (rev ?ws)) = rev ?ws"
    by (rule js_split_join) (auto dest: js_split_char_fields)
  then show ?thesis by (simp add: reverse_domain_def js_join_split)
qed

subsection \<open>Properties\<close>

text \<open>C25: \<open>decorateOpenapi\<close> keeps exactly the paths whose name contains one of the configured groups,
  and exactly the definitions whose name contains a reversed group or \<open>io.k8s.apimachinery\<close>, in
  their order and with their contents; the rest of the document is unchanged.\<close>

theorem decorateOpenapi_spec:
  "decorateOpenapi groups oas =
     oas\<lparr>paths := keep_matching groups (paths oas),
         definitions := keep_matching (map reverse_domain groups @ [k8s]) (definitions oas)\<rparr>"
  by (simp add: decorateOpenapi_def remove_keys_eq Let_def)

text \<open>filtering an already filtered document changes nothing.\<close>

lemma decorateOpenapi_idempotent:
  "decorateOpenapi groups (decorateOpenapi groups oas) = decorateOpenapi groups oas"
  by (simp add: decorateOpenapi_def remove_keys_eq Let_def)

text \<open>reversing the components of a group name twice gives the name back, so no two groups are
  mapped to the same definition prefix.\<close>

lemma reverse_domain_roundtrip:
  "reverse_domain (reverse_domain d) = d \<and> inj reverse_domain"
proof
  show "reverse_domain (reverse_domain d) = d" by (rule reverse_domain_involution)
  show "inj reverse_domain" by (rule inj_on_inverseI) (rule reverse_domain_involution)
qed

end
