(* ===== verification/Qlkube_Server.thy ===== *)
theory Qlkube_Server
  imports Subscription_Schema Decorate_Openapi
begin

section \<open>qlkube: start-up, connections and requests\<close>

text \<open>
  \<open>qlkube/src/index.js\<close> and \<open>qlkube/src/oas.js\<close>. Starting the server is the function \<open>main\<close>: it reads
  the environment and the token file, fetches the OpenAPI document, builds the schema, and starts
  one watch per subscription. It ends with the running server, with \<open>process.exit(1)\<close>, or with the
  rejection that \<open>main().catch\<close> logs. The packages it calls (\<open>got\<close>, \<open>promise-any\<close>, \<open>oasgraph\<close>, the
  GraphQL packages) and the file system are arguments.
\<close>

subsection \<open>oas.js\<close>

record oas_request =
  oas_path :: string
  oas_baseUrl :: string
  oas_json :: bool
  oas_timeout :: nat
  oas_headers :: "string obj"

definition openApiPaths :: "string list" where
  "openApiPaths = [''/openapi/v2'', ''/swagger.json'']"

definition getOpenApiSpec ::
  "(oas_request \<Rightarrow> 'o result) \<Rightarrow> ('o result list \<Rightarrow> 'o result) \<Rightarrow> string \<Rightarrow> string \<Rightarrow> 'o result" where
  "getOpenApiSpec got promiseAny url token =
     promiseAny (map (\<lambda>p. got \<lparr>oas_path = p, oas_baseUrl = url, oas_json = True, oas_timeout = 5 * 1000,
                               oas_headers = [(''Authorization'', ''Bearer '' @ token)]\<rparr>) openApiPaths)"

subsection \<open>Connections and requests\<close>

text \<open>\<open>onConnect\<close> of a subscription connection, and the context of an operation. \<open>req\<close> and \<open>connection\<close>
  are \<open>undefined\<close> where the operation comes over the other transport.\<close>

definition onConnect :: "jsval \<Rightarrow> jsval result" where
  "onConnect connectionParams =
     bind_res (getBearerToken connectionParams) (\<lambda>token. Inr (JObj [(''token'', JStr token)]))"

definition operation_context :: "jsval \<Rightarrow> jsval \<Rightarrow> jsval result" where
  "operation_context req connection =
     (if js_truthy connection
      then bind_res (js_deref (js_prop connection ''context'') ''token'')
             (\<lambda>token. Inr (JObj [(''token'', token)]))
      else
        bind_res (js_deref req ''headers'') (\<lambda>headers.
        bind_res (js_deref headers ''apollo-query-plan-experimental'') (\<lambda>plan.
        if \<not> js_truthy plan
        then bind_res (getBearerToken headers) (\<lambda>token. Inr (JObj [(''token'', JStr token)]))
        else Inr JUndefined)))"

text \<open>The two routes of the HTTP server besides GraphQL.\<close>

datatype reply = Send "string obj" string | SendStatus nat

definition http_get :: "('s \<Rightarrow> string) \<Rightarrow> 's \<Rightarrow> string \<Rightarrow> reply option" where
  "http_get printSchema schema path =
     (if path = ''/schema'' then Some (Send [(''content-type'', ''text/plain'')] (printSchema schema))
      else if path = ''/healthz'' then Some (SendStatus 200)
      else None)"

subsection \<open>main\<close>

record 's qlkube =
  q_schema :: 's
  q_kubeApiUrl :: string
  q_port :: string
  q_clear_period :: int
  q_watch :: "jsval watch_state"

definition kube_url :: "bool \<Rightarrow> string" where
  "kube_url inCluster =
     (if inCluster then ''https://kubernetes.default.svc'' else ''http://localhost:8001'')"

definition resourceApi :: "subscription \<Rightarrow> string" where
  "resourceApi sub =
     ''/'' @ sub_api sub @ (if missing (sub_group sub) then [] else ''/'' @ the (sub_group sub)) @ ''/'' @
     sub_version sub @ ''/'' @ sub_resource sub"

fun start_watches :: "subscription list \<Rightarrow> 'a watch_state \<Rightarrow> 'a watch_state result" where
  "start_watches [] st = Inr st"
| "start_watches (sub # subs) st =
     bind_res (kwatch (resourceApi sub) (sub_type sub) st) (start_watches subs)"

definition no_watch :: "'a watch_state" where
  "no_watch = \<lparr>active = [], timers = [], published = [], clock = 0\<rparr>"

record ('s, 'd, 'f, 'p, 'e, 'r) world =
  w_lib :: "('s, 'd, 'f) qlkube_lib"
  w_createGraphQlSchema :: "('p, 'e, 'r) openapi \<Rightarrow> oas_options \<Rightarrow> 's result"
  w_got :: "oas_request \<Rightarrow> ('p, 'e, 'r) openapi result"
  w_promiseAny :: "('p, 'e, 'r) openapi result list \<Rightarrow> ('p, 'e, 'r) openapi result"
  w_readFile :: "string \<Rightarrow> string result"
  w_IN_CLUSTER :: "string option"
  w_PORT :: "string option"

definition token_file :: string where
  "token_file = ''/var/run/secrets/kubernetes.io/serviceaccount/token''"

definition serve ::
  "('s, 'd, 'f) qlkube_lib \<Rightarrow> subscription list \<Rightarrow> string \<Rightarrow> string option \<Rightarrow> 's \<Rightarrow> 's qlkube startup" where
  "serve L subs kubeApiUrl PORT schema =
     (case setupSubscriptions L subs (Some subs) (Some schema) kubeApiUrl of
        Inl _ \<Rightarrow> Exited 1
      | Inr (newSchema, period) \<Rightarrow>
          (case start_watches subs no_watch of
             Inl _ \<Rightarrow> Exited 1
           | Inr watch \<Rightarrow>
               Started \<lparr>q_schema = newSchema, q_kubeApiUrl = kubeApiUrl,
                        q_port = (if missing PORT then ''8080'' else the PORT),
                        q_clear_period = period, q_watch = watch\<rparr>))"

definition main ::
  "('s, 'd, 'f, 'p, 'e, 'r) world \<Rightarrow> string list \<Rightarrow> subscription list \<Rightarrow> 's qlkube startup" where
  "main w apiGroups subs =
     (let inCluster = (w_IN_CLUSTER w \<noteq> Some ''false'');
          kubeApiUrl = kube_url inCluster
      in case (if inCluster then w_readFile w token_file else Inr []) of
           Inl e \<Rightarrow> Rejected e
         | Inr inClusterToken \<Rightarrow>
       (case getOpenApiSpec (w_got w) (w_promiseAny w) kubeApiUrl inClusterToken of
           Inl e \<Rightarrow> Rejected e
         | Inr oas \<Rightarrow>
       (case createSchema (w_lib w) (w_createGraphQlSchema w) (decorateOpenapi apiGroups oas) kubeApiUrl
               inClusterToken of
           Rejected e \<Rightarrow> Rejected e
         | Exited n \<Rightarrow> Exited n
         | Started schema \<Rightarrow> serve (w_lib w) subs kubeApiUrl (w_PORT w) schema)))"

subsection \<open>Lemmas\<close>

lemma resourceApi_neq_Nil [simp]: "resourceApi sub \<noteq> []"
  by (simp add: resourceApi_def)

lemma kube_url_neq_Nil [simp]: "kube_url b \<noteq> []"
  by (simp add: kube_url_def)

lemma start_watches_ok:
  "\<forall>sub \<in> set subs. sub_type sub \<noteq> [] \<Longrightarrow>
    start_watches subs st = Inr (st\<lparr>active := active st @ map (\<lambda>sub. (resourceApi sub, sub_type sub)) subs\<rparr>)"
  by (induction subs arbitrary: st) (simp_all add: kwatch_def)

lemma decorate_each_types:
  "decorate_each L subs todo schema = Inr s' \<Longrightarrow> \<forall>sub \<in> set todo. sub_type sub \<noteq> []"
proof (induction todo arbitrary: schema)
  case (Cons sub todo)
  then obtain s1 where "decorateSubscription L subs (Some schema) (Some (sub_type sub)) (Some ''UpdateType'') = Inr s1"
    and s1: "decorate_each L subs todo s1 = Inr s'"
    by (auto simp: bind_res_Inr_iff)
  then have "sub_type sub \<noteq> []" by (auto simp: decorateSubscription_def missing_def)
  with Cons.IH [OF s1] show ?case by simp
qed simp

lemma setup_types:
  "setupSubscriptions L subs (Some subs) (Some schema) url = Inr r \<Longrightarrow>
    (\<forall>sub \<in> set subs. sub_type sub \<noteq> []) \<and> snd r = 1320000"
  by (auto simp: setupSubscriptions_def bind_res_Inr_iff TEN_MINUTES_def split: if_splits
      dest: decorate_each_types)

lemma serve_cases:
  "serve L subs url PORT schema =
    (case setupSubscriptions L subs (Some subs) (Some schema) url of
       Inl _ \<Rightarrow> Exited 1
     | Inr (newSchema, _) \<Rightarrow>
         Started \<lparr>q_schema = newSchema, q_kubeApiUrl = url,
                  q_port = (if missing PORT then ''8080'' else the PORT), q_clear_period = 1320000,
                  q_watch = no_watch\<lparr>active := map (\<lambda>sub. (resourceApi sub, sub_type sub)) subs\<rparr>\<rparr>)"
  using setup_types [of L subs schema url]
  by (auto simp: serve_def start_watches_ok no_watch_def split: sum.split prod.split)

subsection \<open>Properties\<close>

text \<open>a client that connects with a bearer token over a web socket gets that token, and no other, as
  the token its subscription filters check, for every operation on the connection; a connection
  without a usable token is refused.\<close>

lemma connection_token_reaches_filter:
  "case onConnect params of
     Inl e \<Rightarrow> getBearerToken params = Inl e
   | Inr ctx \<Rightarrow>
       (\<exists>token. getBearerToken params = Inr token \<and> token \<noteq> [] \<and> no_space token \<and>
          (\<exists>info. operation_context req (JObj [(''context'', ctx)]) = Inr info \<and>
             js_prop info ''token'' = JStr token))"
proof (cases "getBearerToken params")
  case (Inr token)
  with getBearerToken_token [OF Inr] show ?thesis
    by (simp add: onConnect_def operation_context_def js_deref_def js_nullish_def)
qed (simp add: onConnect_def)

text \<open>C29: an HTTP operation gets a context exactly when its authorization header has a non-empty second
  word, which is the token of the context, with one exception: a request that carries the header \<open>apollo-query-plan-experimental\<close> is let through without any token
  check, with an undefined context.\<close>

theorem http_context_cases:
  "operation_context (JObj [(''headers'', JObj hs)]) JUndefined = Inr ctx \<longleftrightarrow>
    (if js_truthy (js_prop (JObj hs) ''apollo-query-plan-experimental'') then ctx = JUndefined
     else \<exists>auth scheme token ws.
       js_or (js_prop (JObj hs) ''authorization'') (js_prop (JObj hs) ''Authorization'') = JStr auth \<and>
       js_split_ws auth = scheme # token # ws \<and> token \<noteq> [] \<and> ctx = JObj [(''token'', JStr token)])"
proof -
  have "operation_context (JObj [(''headers'', JObj hs)]) JUndefined = Inr ctx \<longleftrightarrow>
    (if js_truthy (js_prop (JObj hs) ''apollo-query-plan-experimental'') then ctx = JUndefined
     else \<exists>token. getBearerToken (JObj hs) = Inr token \<and> ctx = JObj [(''token'', JStr token)])"
    by (auto simp: operation_context_def js_deref_def js_nullish_def bind_res_Inr_iff)
  then show ?thesis by (auto simp: getBearerToken_Inr_iff simp del: js_prop_simps)
qed

end
