(* ===== verification/Sdl_Grammar.thy ===== *)
theory Sdl_Grammar
  imports Subscription_Schema
begin

section \<open>The schema definition language\<close>

text \<open>
  The part of the GraphQL schema definition language in which \<open>qlkube\<close> writes its extensions, after the
  specification of the language and not after the texts of \<open>qlkube\<close>: names, white space and commas, the
  definition and the extension of object types, fields with arguments, named types and their non-null
  forms, and enumerations. Descriptions, directives, interfaces, list types and default values are not in
  this part. The parser is a function; the texts that \<open>qlkube\<close> generates are shown to parse, for all names
  it may be called with, to the definitions that they mean.
\<close>

subsection \<open>Tokens\<close>

datatype token = TkName string | LBrace | RBrace | LParen | RParen | Colon | Bang

definition name_start :: "char \<Rightarrow> bool" where
  "name_start c \<longleftrightarrow> (let n = (of_char c :: nat) in 65 \<le> n \<and> n \<le> 90 \<or> n = 95 \<or> 97 \<le> n \<and> n \<le> 122)"

definition name_char :: "char \<Rightarrow> bool" where
  "name_char c \<longleftrightarrow> name_start c \<or> (let n = (of_char c :: nat) in 48 \<le> n \<and> n \<le> 57)"

text \<open>White space, line ends and commas separate tokens and mean nothing.\<close>

definition ignored :: "char \<Rightarrow> bool" where
  "ignored c \<longleftrightarrow> c \<in> {CHR '' '', CHR '','', CHR 0x09, CHR 0x0A, CHR 0x0D}"

definition punctuator :: "char \<Rightarrow> token option" where
  "punctuator c =
     map_of [(CHR ''{'', LBrace), (CHR ''}'', RBrace), (CHR ''('', LParen), (CHR '')'', RParen),
             (CHR '':'', Colon), (CHR ''!'', Bang)] c"

function (sequential) lex :: "string \<Rightarrow> token list option" where
  "lex [] = Some []"
| "lex (c # cs) =
     (if ignored c then lex cs
      else case punctuator c of
        Some p \<Rightarrow> map_option (Cons p) (lex cs)
      | None \<Rightarrow>
          if name_start c
          then map_option (Cons (TkName (c # takeWhile name_char cs))) (lex (dropWhile name_char cs))
          else None)"
  by pat_completeness auto
termination
  by (relation "measure length") (auto simp: length_dropWhile_le le_imp_less_Suc)

subsection \<open>Documents\<close>

text \<open>A named type and whether it is non-null; a field with its arguments and its type.\<close>

type_synonym sdl_type = "string \<times> bool"

datatype sdl_field = SdlField (fld_name: string) (fld_args: "(string \<times> sdl_type) list") (fld_type: sdl_type)

datatype sdl_def =
    TypeDef string "sdl_field list"
  | ExtendType string "sdl_field list"
  | EnumDef string "string list"

fun parse_args :: "token list \<Rightarrow> ((string \<times> sdl_type) list \<times> token list) option" where
  "parse_args (RParen # ts) = Some ([], ts)"
| "parse_args (TkName a # Colon # TkName t # Bang # ts) =
     (case parse_args ts of None \<Rightarrow> None | Some (as, r) \<Rightarrow> Some ((a, t, True) # as, r))"
| "parse_args (TkName a # Colon # TkName t # ts) =
     (case parse_args ts of None \<Rightarrow> None | Some (as, r) \<Rightarrow> Some ((a, t, False) # as, r))"
| "parse_args _ = None"

lemma parse_args_shorter: "parse_args ts = Some (as, r) \<Longrightarrow> length r < length ts"
  by (induction ts arbitrary: as r rule: parse_args.induct) (fastforce split: option.splits)+

text \<open>The type of a field, and what follows it.\<close>

fun parse_type :: "token list \<Rightarrow> (sdl_type \<times> token list) option" where
  "parse_type (Colon # TkName t # Bang # ts) = Some ((t, True), ts)"
| "parse_type (Colon # TkName t # ts) = Some ((t, False), ts)"
| "parse_type _ = None"

lemma parse_type_shorter: "parse_type ts = Some (t, r) \<Longrightarrow> length r < length ts"
  by (induction ts rule: parse_type.induct) auto

text \<open>The arguments in parentheses, at least one, if there are any.\<close>

fun parse_arguments :: "token list \<Rightarrow> ((string \<times> sdl_type) list \<times> token list) option" where
  "parse_arguments (LParen # ts) =
     (case parse_args ts of Some (a # as, r) \<Rightarrow> Some (a # as, r) | _ \<Rightarrow> None)"
| "parse_arguments ts = Some ([], ts)"

lemma parse_arguments_shorter: "parse_arguments ts = Some (as, r) \<Longrightarrow> length r \<le> length ts"
  by (induction ts rule: parse_arguments.induct) (auto dest!: parse_args_shorter split: option.splits list.splits)

function (sequential) parse_fields :: "token list \<Rightarrow> (sdl_field list \<times> token list) option" where
  "parse_fields (RBrace # ts) = Some ([], ts)"
| "parse_fields (TkName f # ts) =
     (case parse_arguments ts of
        None \<Rightarrow> None
      | Some (as, ts1) \<Rightarrow>
          (case parse_type ts1 of
             None \<Rightarrow> None
           | Some (t, ts2) \<Rightarrow>
               (case parse_fields ts2 of None \<Rightarrow> None | Some (fs, r) \<Rightarrow> Some (SdlField f as t # fs, r))))"
| "parse_fields _ = None"
  by pat_completeness auto
termination
  by (relation "measure length") (auto dest!: parse_arguments_shorter parse_type_shorter)

lemma parse_fields_shorter: "parse_fields ts = Some (fs, r) \<Longrightarrow> length r < length ts"
  by (induction ts arbitrary: fs r rule: parse_fields.induct)
    (fastforce dest!: parse_arguments_shorter parse_type_shorter split: option.splits)+

fun parse_values :: "token list \<Rightarrow> (string list \<times> token list) option" where
  "parse_values (RBrace # ts) = Some ([], ts)"
| "parse_values (TkName v # ts) = (case parse_values ts of None \<Rightarrow> None | Some (vs, r) \<Rightarrow> Some (v # vs, r))"
| "parse_values _ = None"

lemma parse_values_shorter: "parse_values ts = Some (vs, r) \<Longrightarrow> length r < length ts"
  by (induction ts arbitrary: vs r rule: parse_values.induct) (fastforce split: option.splits)+

text \<open>The body of a type has at least one field, that of an enumeration at least one value.\<close>

fun parse_type_body :: "token list \<Rightarrow> (string \<times> sdl_field list \<times> token list) option" where
  "parse_type_body (TkName n # LBrace # ts) =
     (case parse_fields ts of Some (f # fs, r) \<Rightarrow> Some (n, f # fs, r) | _ \<Rightarrow> None)"
| "parse_type_body _ = None"

fun parse_enum_body :: "token list \<Rightarrow> (string \<times> string list \<times> token list) option" where
  "parse_enum_body (TkName n # LBrace # ts) =
     (case parse_values ts of Some (v # vs, r) \<Rightarrow> Some (n, v # vs, r) | _ \<Rightarrow> None)"
| "parse_enum_body _ = None"

lemma parse_type_body_shorter: "parse_type_body ts = Some (n, fs, r) \<Longrightarrow> length r < length ts"
  by (induction ts rule: parse_type_body.induct) (auto dest!: parse_fields_shorter split: option.splits list.splits)

lemma parse_enum_body_shorter: "parse_enum_body ts = Some (n, vs, r) \<Longrightarrow> length r < length ts"
  by (induction ts rule: parse_enum_body.induct) (auto dest!: parse_values_shorter split: option.splits list.splits)

definition parse_definition :: "token list \<Rightarrow> (sdl_def \<times> token list) option" where
  "parse_definition ts =
     (case ts of
        TkName k # ts1 \<Rightarrow>
          if k = ''type''
          then map_option (\<lambda>(n, fs, r). (TypeDef n fs, r)) (parse_type_body ts1)
          else if k = ''enum''
          then map_option (\<lambda>(n, vs, r). (EnumDef n vs, r)) (parse_enum_body ts1)
          else if k = ''extend'' \<and> ts1 \<noteq> [] \<and> hd ts1 = TkName ''type''
          then map_option (\<lambda>(n, fs, r). (ExtendType n fs, r)) (parse_type_body (tl ts1))
          else None
      | _ \<Rightarrow> None)"

lemma parse_definition_shorter: "parse_definition ts = Some (d, r) \<Longrightarrow> length r < length ts"
  by (cases ts)
    (auto simp: parse_definition_def dest!: parse_type_body_shorter parse_enum_body_shorter split: token.splits if_splits)

function parse_document :: "token list \<Rightarrow> sdl_def list option" where
  "parse_document ts =
     (if ts = [] then Some []
      else case parse_definition ts of
        None \<Rightarrow> None
      | Some (d, r) \<Rightarrow> map_option (Cons d) (parse_document r))"
  by pat_completeness auto
termination
  by (relation "measure length") (auto dest!: parse_definition_shorter)

declare parse_document.simps [simp del]

definition parse_sdl :: "string \<Rightarrow> sdl_def list option" where
  "parse_sdl text = Option.bind (lex text) parse_document"

lemma parse_document_simps [simp]:
  "parse_document [] = Some []"
  "parse_document (t # ts) =
     (case parse_definition (t # ts) of None \<Rightarrow> None | Some (d, r) \<Rightarrow> map_option (Cons d) (parse_document r))"
  by (simp_all add: parse_document.simps)

subsection \<open>Names\<close>

text \<open>Names that a schema may declare: those with two underscores in front are reserved. The values of an
  enumeration are names other than the three literals.\<close>

definition gql_name :: "string \<Rightarrow> bool" where
  "gql_name s \<longleftrightarrow> s \<noteq> [] \<and> name_start (hd s) \<and> list_all name_char s \<and> take 2 s \<noteq> ''__''"

definition enum_value :: "string \<Rightarrow> bool" where
  "enum_value v \<longleftrightarrow> gql_name v \<and> v \<notin> {''true'', ''false'', ''null''}"

lemma name_start_not:
  assumes "name_start c"
  shows "\<not> ignored c" "punctuator c = None"
proof -
  have "c \<notin> set '' ,{}():!'' \<union> {CHR 0x09, CHR 0x0A, CHR 0x0D}"
  proof
    assume "c \<in> set '' ,{}():!'' \<union> {CHR 0x09, CHR 0x0A, CHR 0x0D}"
    then have "\<not> name_start c" by (elim UnE) (auto simp: name_start_def)
    with assms show False by simp
  qed
  then show "\<not> ignored c" "punctuator c = None" by (simp_all add: ignored_def punctuator_def)
qed

lemma lex_name:
  assumes "gql_name n" and "s = [] \<or> \<not> name_char (hd s)"
  shows "lex (n @ s) = map_option (Cons (TkName n)) (lex s)"
proof -
  from assms(1) obtain c cs where n: "n = c # cs" and c: "name_start c" and cs: "\<forall>x \<in> set cs. name_char x"
    by (cases n) (auto simp: gql_name_def list_all_iff)
  have "takeWhile name_char (cs @ s) = cs" "dropWhile name_char (cs @ s) = s"
    using cs assms(2) by (simp_all add: takeWhile_append2 dropWhile_append2; cases s; simp)+
  with c show ?thesis by (simp add: n name_start_not)
qed

lemma lex_name_Cons: "gql_name n \<Longrightarrow> \<not> name_char c \<Longrightarrow> lex (n @ c # s) = map_option (Cons (TkName n)) (lex (c # s))"
  using lex_name [of n "c # s"] by simp

subsection \<open>The generated texts\<close>

lemmas lex_simps = lex.simps lex_name_Cons nl_def sp_def ignored_def punctuator_def name_start_def name_char_def Let_def

lemma extension_text_parses:
  assumes "list_all gql_name [t, w, W, q, Q]"
  shows "parse_sdl (extension_text t w W q Q) =
    Some [ExtendType t [SdlField w [] (W, False)], TypeDef W [SdlField q [] (Q, False)]]"
proof -
  have "lex (extension_text t w W q Q) =
      Some [TkName ''extend'', TkName ''type'', TkName t, LBrace, TkName w, Colon, TkName W, RBrace,
            TkName ''type'', TkName W, LBrace, TkName q, Colon, TkName Q, RBrace]"
    using assms unfolding extension_text_def by (simp add: lex_simps eval_nat_numeral)
  then show ?thesis by (simp add: parse_sdl_def parse_definition_def)
qed

lemma subscription_text_parses:
  assumes "list_all gql_name [W, E, T, F]"
  shows "parse_sdl (subscription_text W E T ''type Subscription'' F) =
      Some [TypeDef W [SdlField ''updateType'' [] (E, False), SdlField ''payload'' [] (T, False)],
            TypeDef ''Subscription'' [SdlField F [(''name'', ''String'', False), (''namespace'', ''String'', True)] (W, False)]]"
    and "parse_sdl (subscription_text W E T ''extend type Subscription'' F) =
      Some [TypeDef W [SdlField ''updateType'' [] (E, False), SdlField ''payload'' [] (T, False)],
            ExtendType ''Subscription'' [SdlField F [(''name'', ''String'', False), (''namespace'', ''String'', True)] (W, False)]]"
proof -
  let ?body = "[TkName ''Subscription'', LBrace, TkName F, LParen, TkName ''name'', Colon, TkName ''String'',
      TkName ''namespace'', Colon, TkName ''String'', Bang, RParen, Colon, TkName W, RBrace]"
  let ?first = "[TkName ''type'', TkName W, LBrace, TkName ''updateType'', Colon, TkName E, TkName ''payload'', Colon, TkName T, RBrace]"
  have "lex (subscription_text W E T ''type Subscription'' F) = Some (?first @ TkName ''type'' # ?body)"
    "lex (subscription_text W E T ''extend type Subscription'' F) = Some (?first @ TkName ''extend'' # TkName ''type'' # ?body)"
    using assms unfolding subscription_text_def by (simp_all add: lex_simps eval_nat_numeral)
  then show "parse_sdl (subscription_text W E T ''type Subscription'' F) =
      Some [TypeDef W [SdlField ''updateType'' [] (E, False), SdlField ''payload'' [] (T, False)],
            TypeDef ''Subscription'' [SdlField F [(''name'', ''String'', False), (''namespace'', ''String'', True)] (W, False)]]"
    "parse_sdl (subscription_text W E T ''extend type Subscription'' F) =
      Some [TypeDef W [SdlField ''updateType'' [] (E, False), SdlField ''payload'' [] (T, False)],
            ExtendType ''Subscription'' [SdlField F [(''name'', ''String'', False), (''namespace'', ''String'', True)] (W, False)]]"
    by (simp_all add: parse_sdl_def parse_definition_def)
qed

lemma lex_values:
  assumes "list_all gql_name vs" and "\<not> name_char c"
  shows "lex (concat (map (\<lambda>val. nl @ sp 6 @ val) vs) @ c # s) = map_option (\<lambda>ts. map TkName vs @ ts) (lex (c # s))"
  using assms
proof (induction vs)
  case Nil
  show ?case by (cases "lex (c # s)") simp_all
next
  case (Cons v vs)
  let ?rest = "concat (map (\<lambda>val. nl @ sp 6 @ val) vs) @ c # s"
  have "\<not> name_char (hd ?rest)"
    using Cons.prems(2) by (cases vs) (simp_all add: nl_def name_char_def name_start_def)
  then have "lex (v @ ?rest) = map_option (Cons (TkName v)) (lex ?rest)"
    using Cons.prems(1) by (intro lex_name) auto
  moreover have "lex (nl @ sp 6 @ x) = lex x" for x
    by (simp add: nl_def sp_def ignored_def eval_nat_numeral)
  ultimately have "lex (nl @ sp 6 @ v @ ?rest) = map_option (Cons (TkName v)) (lex ?rest)" by simp
  with Cons show ?case by (cases "lex (c # s)") simp_all
qed

lemma parse_values_names: "parse_values (map TkName vs @ RBrace # ts) = Some (vs, ts)"
  by (induction vs) simp_all

lemma enum_text_parses:
  assumes "list_all gql_name (n # vs)" and "vs \<noteq> []"
  shows "parse_sdl (enum_text n vs) = Some [EnumDef n vs]"
proof -
  obtain v vs' where vs: "vs = v # vs'" using assms(2) by (cases vs) auto
  let ?body = "concat (map (\<lambda>val. nl @ sp 6 @ val) vs) @ CHR 0x0A # sp 4 @ ''}'' @ nl @ sp 2"
  have "lex ?body = Some (map TkName vs @ [RBrace])"
    using lex_values [of vs "CHR 0x0A" "sp 4 @ ''}'' @ nl @ sp 2"] assms(1)
    by (simp add: lex_simps eval_nat_numeral)
  then have "lex (enum_text n vs) = Some (TkName ''enum'' # TkName n # LBrace # map TkName vs @ [RBrace])"
    using assms(1) unfolding enum_text_def by (simp add: lex_simps eval_nat_numeral del: concat.simps map_append list.map)
  then show ?thesis using parse_values_names [of vs "[]"] by (simp add: parse_sdl_def parse_definition_def vs)
qed

end
