(* ===== verification/Server_Startup.thy ===== *)
theory Server_Startup
  imports Qlkube_Server Sdl_Grammar
begin

section \<open>qlkube: the server starts\<close>

text \<open>
  That \<open>main\<close> of \<open>qlkube/src/index.js\<close> brings the server up, from what the GraphQL packages document
  (\<open>schema_laws\<close>): a text of the schema definition language is parsed, a document that is valid against the
  schema extends it by the types and fields it declares, resolvers may be added for fields that exist, and
  queries that exist stay. The laws speak of all texts of the grammar of \<open>Sdl_Grammar\<close> and of all valid
  documents, not of those that \<open>qlkube\<close> writes; that its texts are of the grammar and valid is proved. The
  laws are a hypothesis of the property; \<open>sdl_lib\<close>, a library made of the parser of \<open>Sdl_Grammar\<close>, satisfies
  them and witnesses it.
\<close>

subsection \<open>What the schema library promises\<close>

definition has_query :: "('s, 'd, 'f, 'c, 'x) graphql_lib \<Rightarrow> 's \<Rightarrow> string \<Rightarrow> bool" where
  "has_query L s q \<longleftrightarrow> (case query_fields L s of None \<Rightarrow> False | Some fs \<Rightarrow> fs q \<noteq> None)"

text \<open>\<open>has_field L s t f\<close> reads: \<open>t\<close> is an object type of \<open>s\<close> with the field \<open>f\<close>. \<open>output_type L s t\<close>: fields
  may have the type \<open>t\<close>.\<close>

definition object_type :: "('s, 'd, 'f, 'c, 'x) graphql_lib \<Rightarrow> 's \<Rightarrow> string \<Rightarrow> bool" where
  "object_type L s t \<longleftrightarrow> type_map L s t \<and> output_type L s t \<and> (\<exists>f. has_field L s t f)"

text \<open>The schema \<open>s'\<close> has the types and fields of \<open>s\<close> and the given ones, and the queries of \<open>s\<close>.\<close>

definition grows ::
  "('s, 'd, 'f, 'c, 'x) graphql_lib \<Rightarrow> 's \<Rightarrow> 's \<Rightarrow> string list \<Rightarrow> (string \<times> string) list \<Rightarrow> bool" where
  "grows L s s' ts fs \<longleftrightarrow>
     (\<forall>q. has_query L s q \<longrightarrow> has_query L s' q) \<and>
     (\<forall>n. type_map L s' n = (n \<in> set ts \<or> type_map L s n)) \<and>
     (\<forall>n. output_type L s' n = (n \<in> set ts \<or> output_type L s n)) \<and>
     (\<forall>t f. has_field L s' t f = ((t, f) \<in> set fs \<or> has_field L s t f))"

text \<open>What a document declares, and when it is valid against a schema.\<close>

fun def_types :: "sdl_def \<Rightarrow> string list" where
  "def_types (TypeDef n fs) = [n]"
| "def_types (EnumDef n vs) = [n]"
| "def_types (ExtendType n fs) = []"

fun def_fields :: "sdl_def \<Rightarrow> (string \<times> string) list" where
  "def_fields (TypeDef n fs) = map (\<lambda>f. (n, fld_name f)) fs"
| "def_fields (ExtendType n fs) = map (\<lambda>f. (n, fld_name f)) fs"
| "def_fields (EnumDef n vs) = []"

definition declared_types :: "sdl_def list \<Rightarrow> string list" where
  "declared_types ds = concat (map def_types ds)"

definition declared_fields :: "sdl_def list \<Rightarrow> (string \<times> string) list" where
  "declared_fields ds = concat (map def_fields ds)"

definition builtin_scalars :: "string list" where
  "builtin_scalars = [''Int'', ''Float'', ''String'', ''Boolean'', ''ID'']"

text \<open>Field types are output types that the schema or the document has; types of arguments are built-in scalars
  here.\<close>

definition field_ok :: "('s, 'd, 'f, 'c, 'x) graphql_lib \<Rightarrow> 's \<Rightarrow> sdl_def list \<Rightarrow> sdl_field \<Rightarrow> bool" where
  "field_ok L s ds f \<longleftrightarrow>
     gql_name (fld_name f) \<and>
     (fst (fld_type f) \<in> set builtin_scalars \<or> fst (fld_type f) \<in> set (declared_types ds) \<or> output_type L s (fst (fld_type f))) \<and>
     distinct (map fst (fld_args f)) \<and>
     list_all (\<lambda>a. gql_name (fst a) \<and> fst (snd a) \<in> set builtin_scalars) (fld_args f)"

fun def_ok :: "('s, 'd, 'f, 'c, 'x) graphql_lib \<Rightarrow> 's \<Rightarrow> sdl_def list \<Rightarrow> sdl_def \<Rightarrow> bool" where
  "def_ok L s ds (TypeDef n fs) = (gql_name n \<and> list_all (field_ok L s ds) fs)"
| "def_ok L s ds (ExtendType n fs) =
     (object_type L s n \<and> list_all (field_ok L s ds) fs \<and> list_all (\<lambda>f. \<not> has_field L s n (fld_name f)) fs)"
| "def_ok L s ds (EnumDef n vs) = (gql_name n \<and> list_all enum_value vs \<and> distinct vs)"

definition valid_extension :: "('s, 'd, 'f, 'c, 'x) graphql_lib \<Rightarrow> 's \<Rightarrow> sdl_def list \<Rightarrow> bool" where
  "valid_extension L s ds \<longleftrightarrow>
     ds \<noteq> [] \<and> distinct (declared_types ds) \<and> distinct (declared_fields ds) \<and>
     list_all (\<lambda>n. \<not> type_map L s n \<and> n \<notin> set builtin_scalars) (declared_types ds) \<and>
     list_all (def_ok L s ds) ds"

definition extension_law :: "('s, 'd, 'f, 'c, 'x) graphql_lib \<Rightarrow> bool" where
  "extension_law L \<longleftrightarrow>
     (\<forall>s text ds. parse_sdl text = Some ds \<longrightarrow> valid_extension L s ds \<longrightarrow>
        (\<exists>d s1. gql L text = Inr d \<and> extendSchema L s d = Inr s1 \<and>
           grows L s s1 (declared_types ds) (declared_fields ds)))"

definition resolvers_known :: "('s, 'd, 'f, 'c, 'x) graphql_lib \<Rightarrow> 's \<Rightarrow> ('c, 'x) resolver_map \<Rightarrow> bool" where
  "resolvers_known L s r \<longleftrightarrow> list_all (\<lambda>tf. list_all (\<lambda>f. has_field L s (fst tf) (fst f)) (snd tf)) r"

definition resolver_law :: "('s, 'd, 'f, 'c, 'x) graphql_lib \<Rightarrow> bool" where
  "resolver_law L \<longleftrightarrow>
     (\<forall>s r. resolvers_known L s r \<longrightarrow> (\<exists>s2. addResolversToSchema L s r = Inr s2 \<and> grows L s s2 [] []))"

definition schema_laws :: "('s, 'd, 'f, 'c, 'x) graphql_lib \<Rightarrow> bool" where
  "schema_laws L \<longleftrightarrow> extension_law L \<and> resolver_law L \<and> (\<forall>s. grows L s (useSubscriptionType L s) [] [])"

text \<open>\<open>promise-any\<close>: the result is one of the successes when there is one.\<close>

definition any_law :: "('o result list \<Rightarrow> 'o result) \<Rightarrow> bool" where
  "any_law promiseAny \<longleftrightarrow>
     (\<forall>rs. (\<exists>r \<in> set rs. is_ok r) \<longrightarrow> is_ok (promiseAny rs) \<and> promiseAny rs \<in> set rs)"

text \<open>What the schema generated from the OpenAPI document has to offer.\<close>

definition base_queries :: "string list" where
  "base_queries =
     [''itPolitoCrownlabsV1alpha2Template'', ''itPolitoCrownlabsV1alpha1Tenant'',
      ''itPolitoCrownlabsV1alpha1Workspace'', ''itPolitoCrownlabsV1alpha2Instance'']"

definition base_types :: "string list" where
  "base_types =
     [''TemplateCrownlabsPolitoItTemplateRef'', ''TenantCrownlabsPolitoItTenantRef'', ''WorkspaceRef'',
      ''ItPolitoCrownlabsV1alpha2Template'', ''ItPolitoCrownlabsV1alpha1Tenant'',
      ''ItPolitoCrownlabsV1alpha1Workspace'', ''ItPolitoCrownlabsV1alpha2Instance'']"

definition new_types :: "string list" where
  "new_types =
     [''TemplateWrapper'', ''TenantWrapper'', ''WorkspaceWrapper'', ''UpdateType'',
      ''ItPolitoCrownlabsV1alpha2InstanceUpdate'', ''ItPolitoCrownlabsV1alpha2TemplateUpdate'']"

definition new_fields :: "(string \<times> string) list" where
  "new_fields =
     [(''TemplateCrownlabsPolitoItTemplateRef'', ''templateWrapper''),
      (''TenantCrownlabsPolitoItTenantRef'', ''tenantWrapper''), (''WorkspaceRef'', ''workspaceWrapper''),
      (''Subscription'', ''itPolitoCrownlabsV1alpha2InstanceUpdate''),
      (''Subscription'', ''itPolitoCrownlabsV1alpha2TemplateUpdate'')]"

definition wrapper_fields :: "(string \<times> string) list" where
  "wrapper_fields =
     [(''TemplateCrownlabsPolitoItTemplateRef'', ''templateWrapper''),
      (''TemplateWrapper'', ''itPolitoCrownlabsV1alpha2Template''),
      (''TenantCrownlabsPolitoItTenantRef'', ''tenantWrapper''),
      (''TenantWrapper'', ''itPolitoCrownlabsV1alpha1Tenant''),
      (''WorkspaceRef'', ''workspaceWrapper''), (''WorkspaceWrapper'', ''itPolitoCrownlabsV1alpha1Workspace'')]"

definition base_ready :: "('s, 'd, 'f, 'c, 'x) graphql_lib \<Rightarrow> 's \<Rightarrow> bool" where
  "base_ready L s \<longleftrightarrow>
     list_all (has_query L s) base_queries \<and>
     list_all (object_type L s) base_types \<and>
     list_all (\<lambda>t. \<not> type_map L s t) new_types \<and>
     list_all (\<lambda>tf. \<not> has_field L s (fst tf) (snd tf)) new_fields \<and>
     (type_map L s ''Subscription'' \<longrightarrow> object_type L s ''Subscription'')"

subsection \<open>One step of the decoration\<close>

lemma grows_fields:
  assumes "grows L s s' ts fs"
  shows "has_query L s q \<Longrightarrow> has_query L s' q"
    and "type_map L s' n = (n \<in> set ts \<or> type_map L s n)"
    and "output_type L s' n = (n \<in> set ts \<or> output_type L s n)"
    and "has_field L s' t f = ((t, f) \<in> set fs \<or> has_field L s t f)"
    and "object_type L s t \<Longrightarrow> object_type L s' t"
  using assms by (auto simp: grows_def object_type_def)

lemma grows_trans: "grows L s s1 ts fs \<Longrightarrow> grows L s1 s2 ts' fs' \<Longrightarrow> grows L s s2 (ts @ ts') (fs @ fs')"
  by (auto simp: grows_def)

lemma grows_known: "grows L s s1 ts fs \<Longrightarrow> type_map L s t \<Longrightarrow> output_type L s t \<Longrightarrow> grows L s s1 (ts @ [t]) fs"
  by (auto simp: grows_def)

lemma object_type_is: "object_type L s t \<Longrightarrow> type_map L s t \<and> output_type L s t"
  by (simp add: object_type_def)

text \<open>Parsing, extending and adding resolvers, as all decorations do it.\<close>

lemma extension_step:
  assumes "schema_laws L" and "parse_sdl text = Some ds" and "valid_extension L s ds"
    and "\<And>s1. grows L s s1 (declared_types ds) (declared_fields ds) \<Longrightarrow> resolvers_known L s1 r"
  obtains d s1 s2 where "gql L text = Inr d" and "extendSchema L s d = Inr s1" and "addResolversToSchema L s1 r = Inr s2"
    and "grows L s s1 (declared_types ds) (declared_fields ds)" and "grows L s s2 (declared_types ds) (declared_fields ds)"
proof -
  from assms(1) have laws: "extension_law L" "resolver_law L" by (simp_all add: schema_laws_def)
  from laws(1) assms(2,3) obtain d s1 where d: "gql L text = Inr d" "extendSchema L s d = Inr s1"
    and g: "grows L s s1 (declared_types ds) (declared_fields ds)" unfolding extension_law_def by blast
  from laws(2) assms(4) [OF g] obtain s2 where "addResolversToSchema L s1 r = Inr s2" "grows L s1 s2 [] []"
    unfolding resolver_law_def by blast
  with d g show thesis using that [of d s1 s2] grows_trans [OF g, of s2 "[]" "[]"] by simp
qed

lemmas declared_simps = declared_types_def declared_fields_def field_ok_def builtin_scalars_def

lemma decorateBaseSchema_grows:
  assumes "schema_laws L" and "has_query L s q"
    and "capitalizeType w = Inr W" and "capitalizeType q = Inr Q" and "list_all gql_name [t, w, W, q, Q]"
    and "object_type L s t" and "object_type L s Q" and "\<not> type_map L s W" and "\<not> has_field L s t w"
    and "W \<notin> set builtin_scalars"
  shows "\<exists>s'. decorateBaseSchema L (Some q) (Some t) (Some s) (Some w) (Some args) = Inr s'
    \<and> grows L s s' [W] [(t, w), (W, q)]"
proof -
  let ?ds = "[ExtendType t [SdlField w [] (W, False)], TypeDef W [SdlField q [] (Q, False)]]"
  obtain fs f where f: "query_fields L s = Some fs" "fs q = Some f"
    using assms(2) by (auto simp: has_query_def split: option.splits)
  have tW: "t \<noteq> W" using object_type_is [OF assms(6)] assms(8) by blast
  have dt: "declared_types ?ds = [W]" "declared_fields ?ds = [(t, w), (W, q)]"
    by (simp_all add: declared_types_def declared_fields_def)
  have valid: "valid_extension L s ?ds"
    unfolding valid_extension_def dt using assms(5-10) tW object_type_is [OF assms(7)]
    by (simp add: field_ok_def dt)
  have known: "resolvers_known L s1 (wrapper_resolvers L t w W q f args)" if "grows L s s1 (declared_types ?ds) (declared_fields ?ds)" for s1
    using grows_fields(4) [OF that] tW by (simp add: resolvers_known_def wrapper_resolvers_def dt)
  obtain d s1 s2 where "gql L (extension_text t w W q Q) = Inr d" "extendSchema L s d = Inr s1"
    "addResolversToSchema L s1 (wrapper_resolvers L t w W q f args) = Inr s2" "grows L s s2 [W] [(t, w), (W, q)]"
    using extension_step [OF assms(1) extension_text_parses [OF assms(5)] valid known] unfolding dt by blast
  with f assms(3,4,5) show ?thesis
    by (auto simp: decorateBaseSchema_def query_field_def missing_def gql_name_def)
qed

lemma decorateEnum_grows:
  assumes "schema_laws L" and "gql_name n" and "list_all enum_value vs" and "distinct vs" and "vs \<noteq> []"
    and "\<not> type_map L s n" and "n \<notin> set builtin_scalars"
  shows "\<exists>s'. decorateEnum L (Some s) (Some n) (Some vs) = Inr s' \<and> grows L s s' [n] []"
proof -
  have p: "parse_sdl (enum_text n vs) = Some [EnumDef n vs]"
    using assms(2,3,5) by (intro enum_text_parses) (auto simp: enum_value_def list_all_iff)
  have dt: "declared_types [EnumDef n vs] = [n]" "declared_fields [EnumDef n vs] = []"
    by (simp_all add: declared_types_def declared_fields_def)
  have "valid_extension L s [EnumDef n vs]" using assms(2-7) by (simp add: valid_extension_def dt)
  with p assms(1) obtain d s1 where "gql L (enum_text n vs) = Inr d" "extendSchema L s d = Inr s1" "grows L s s1 [n] []"
    unfolding schema_laws_def extension_law_def by (metis dt)
  with assms(2,6) show ?thesis by (auto simp: decorateEnum_def missing_def gql_name_def)
qed

lemma decorateSubscription_grows:
  assumes "schema_laws L" and "has_query L s q"
    and "capitalizeType (q @ ''Update'') = Inr W" and "capitalizeType q = Inr T"
    and "list_all gql_name [W, E, T, q @ ''Update'']" and "q \<noteq> []" and "W \<noteq> ''Subscription''"
    and "output_type L s E" and "object_type L s T" and "\<not> type_map L s W" and "W \<notin> set builtin_scalars"
    and "\<not> has_field L s ''Subscription'' (q @ ''Update'')"
    and "type_map L s ''Subscription'' \<longrightarrow> object_type L s ''Subscription''"
  shows "\<exists>s'. decorateSubscription L subs (Some s) (Some q) (Some E) = Inr s'
    \<and> grows L s s' [W, ''Subscription'']
        [(W, ''updateType''), (W, ''payload''), (''Subscription'', q @ ''Update'')]"
proof -
  let ?F = "q @ ''Update''" and ?T = "type_map L s ''Subscription''"
  let ?sub = "if ?T then ''extend type Subscription'' else ''type Subscription''"
  let ?f = "SdlField ?F [(''name'', ''String'', False), (''namespace'', ''String'', True)] (W, False)"
  let ?ds = "[TypeDef W [SdlField ''updateType'' [] (E, False), SdlField ''payload'' [] (T, False)],
      if ?T then ExtendType ''Subscription'' [?f] else TypeDef ''Subscription'' [?f]]"
  let ?r = "subscription_resolvers subs q ?F W"
  let ?fs = "[(W, ''updateType''), (W, ''payload''), (''Subscription'', ?F)]"
  have p: "parse_sdl (subscription_text W E T ?sub ?F) = Some ?ds"
    using subscription_text_parses [OF assms(5)] by simp
  have dt: "declared_types ?ds = (if ?T then [W] else [W, ''Subscription''])" "declared_fields ?ds = ?fs"
    by (simp_all add: declared_types_def declared_fields_def)
  have names: "gql_name ''updateType''" "gql_name ''payload''" "gql_name ''name''" "gql_name ''namespace''" "gql_name ''Subscription''"
    by (simp_all add: gql_name_def name_char_def name_start_def)
  have "field_ok L s ?ds ?f" "field_ok L s ?ds (SdlField ''updateType'' [] (E, False))" "field_ok L s ?ds (SdlField ''payload'' [] (T, False))"
    using assms(5,8) object_type_is [OF assms(9)] by (simp_all add: field_ok_def dt names builtin_scalars_def)
  then have valid: "valid_extension L s ?ds"
    unfolding valid_extension_def dt using assms(5,7,10-13) names
    by (cases ?T) (simp_all add: builtin_scalars_def)
  have known: "resolvers_known L s1 ?r" if "grows L s s1 (declared_types ?ds) (declared_fields ?ds)" for s1
    using grows_fields(4) [OF that] assms(7) by (simp add: resolvers_known_def subscription_resolvers_def dt)
  obtain d s1 s2 where d: "gql L (subscription_text W E T ?sub ?F) = Inr d" "extendSchema L s d = Inr s1"
    "addResolversToSchema L s1 ?r = Inr s2" and g: "grows L s s2 (if ?T then [W] else [W, ''Subscription'']) ?fs"
    using extension_step [OF assms(1) p valid known] unfolding dt by blast
  have "grows L s2 (useSubscriptionType L s2) [] []" using assms(1) by (simp add: schema_laws_def)
  from grows_trans [OF g this] have g2: "grows L s (useSubscriptionType L s2) (if ?T then [W] else [W, ''Subscription'']) ?fs" by simp
  have "grows L s (useSubscriptionType L s2) [W, ''Subscription''] ?fs"
  proof (cases ?T)
    case True
    with grows_known [OF g2 True] assms(13) object_type_is [of L s "''Subscription''"] show ?thesis by simp
  qed (use g2 in simp)
  moreover obtain fs f where "query_fields L s = Some fs" "fs q = Some f"
    using assms(2) by (auto simp: has_query_def split: option.splits)
  ultimately show ?thesis
    using d assms(3-6) by (auto simp: decorateSubscription_def query_field_def missing_def gql_name_def Let_def)
qed

lemma capitalized:
  "capitalizeType ''templateWrapper'' = Inr ''TemplateWrapper''"
  "capitalizeType ''tenantWrapper'' = Inr ''TenantWrapper''"
  "capitalizeType ''workspaceWrapper'' = Inr ''WorkspaceWrapper''"
  "capitalizeType ''itPolitoCrownlabsV1alpha2Template'' = Inr ''ItPolitoCrownlabsV1alpha2Template''"
  "capitalizeType ''itPolitoCrownlabsV1alpha2Instance'' = Inr ''ItPolitoCrownlabsV1alpha2Instance''"
  "capitalizeType ''itPolitoCrownlabsV1alpha1Tenant'' = Inr ''ItPolitoCrownlabsV1alpha1Tenant''"
  "capitalizeType ''itPolitoCrownlabsV1alpha1Workspace'' = Inr ''ItPolitoCrownlabsV1alpha1Workspace''"
  "capitalizeType ''itPolitoCrownlabsV1alpha2InstanceUpdate'' = Inr ''ItPolitoCrownlabsV1alpha2InstanceUpdate''"
  "capitalizeType ''itPolitoCrownlabsV1alpha2TemplateUpdate'' = Inr ''ItPolitoCrownlabsV1alpha2TemplateUpdate''"
  by (simp_all add: capitalizeType_def js_upper_def char_of_def bit_0)

lemma known_names:
  "list_all gql_name
     [''templateWrapper'', ''tenantWrapper'', ''workspaceWrapper'', ''TemplateWrapper'', ''TenantWrapper'',
      ''WorkspaceWrapper'', ''itPolitoCrownlabsV1alpha2Template'', ''ItPolitoCrownlabsV1alpha2Template'',
      ''itPolitoCrownlabsV1alpha2Instance'', ''ItPolitoCrownlabsV1alpha2Instance'',
      ''itPolitoCrownlabsV1alpha1Tenant'', ''ItPolitoCrownlabsV1alpha1Tenant'',
      ''itPolitoCrownlabsV1alpha1Workspace'', ''ItPolitoCrownlabsV1alpha1Workspace'',
      ''itPolitoCrownlabsV1alpha2InstanceUpdate'', ''ItPolitoCrownlabsV1alpha2InstanceUpdate'',
      ''itPolitoCrownlabsV1alpha2TemplateUpdate'', ''ItPolitoCrownlabsV1alpha2TemplateUpdate'',
      ''TemplateCrownlabsPolitoItTemplateRef'', ''TenantCrownlabsPolitoItTenantRef'', ''WorkspaceRef'',
      ''UpdateType'', ''ADDED'', ''MODIFIED'', ''DELETED'']"
  by (simp add: gql_name_def name_char_def name_start_def)

lemmas name_lists = base_queries_def base_types_def new_types_def new_fields_def

lemma base_ready_facts:
  "base_ready L s \<Longrightarrow> list_all (has_query L s) base_queries"
  "base_ready L s \<Longrightarrow> list_all (object_type L s) base_types"
  "base_ready L s \<Longrightarrow> list_all (\<lambda>t. \<not> type_map L s t) new_types"
  "base_ready L s \<Longrightarrow> list_all (\<lambda>tf. \<not> has_field L s (fst tf) (snd tf)) new_fields"
  "base_ready L s \<Longrightarrow> type_map L s ''Subscription'' \<Longrightarrow> object_type L s ''Subscription''"
  by (simp_all add: base_ready_def)

lemma decorate_all_grows:
  assumes "schema_laws L" and "base_ready L s"
  shows "\<exists>s'. decorate_all L s = Inr s'
    \<and> grows L s s' [''TemplateWrapper'', ''TenantWrapper'', ''WorkspaceWrapper''] wrapper_fields"
proof -
  note facts = known_names [unfolded list.pred_inject]
    base_ready_facts [OF assms(2), unfolded name_lists list.pred_inject fst_conv snd_conv] builtin_scalars_def
  have "\<exists>s1. decorateBaseSchema L (Some ''itPolitoCrownlabsV1alpha2Template'') (Some ''TemplateCrownlabsPolitoItTemplateRef'')
       (Some s) (Some ''templateWrapper'') (Some [''name'', ''namespace'']) = Inr s1
    \<and> grows L s s1 [''TemplateWrapper''] [(''TemplateCrownlabsPolitoItTemplateRef'', ''templateWrapper''),
         (''TemplateWrapper'', ''itPolitoCrownlabsV1alpha2Template'')]" (is "\<exists>s. ?d1 = Inr s \<and> ?g1 s")
    by (rule decorateBaseSchema_grows [OF assms(1) _ capitalized(1,4)]) (simp_all add: facts)
  then obtain s1 where s1: "?d1 = Inr s1" and g1: "?g1 s1" by blast
  note g1' = grows_fields [OF g1]
  have "\<exists>s2. decorateBaseSchema L (Some ''itPolitoCrownlabsV1alpha1Tenant'') (Some ''TenantCrownlabsPolitoItTenantRef'')
       (Some s1) (Some ''tenantWrapper'') (Some [''name'']) = Inr s2
    \<and> grows L s1 s2 [''TenantWrapper''] [(''TenantCrownlabsPolitoItTenantRef'', ''tenantWrapper''),
         (''TenantWrapper'', ''itPolitoCrownlabsV1alpha1Tenant'')]" (is "\<exists>s. ?d2 = Inr s \<and> ?g2 s")
    by (rule decorateBaseSchema_grows [OF assms(1) _ capitalized(2,6)]) (simp_all add: facts g1')
  then obtain s2 where s2: "?d2 = Inr s2" and g2: "?g2 s2" by blast
  note g2' = grows_fields [OF g2]
  have "\<exists>s3. decorateBaseSchema L (Some ''itPolitoCrownlabsV1alpha1Workspace'') (Some ''WorkspaceRef'')
       (Some s2) (Some ''workspaceWrapper'') (Some [''name'']) = Inr s3
    \<and> grows L s2 s3 [''WorkspaceWrapper''] [(''WorkspaceRef'', ''workspaceWrapper''),
         (''WorkspaceWrapper'', ''itPolitoCrownlabsV1alpha1Workspace'')]" (is "\<exists>s. ?d3 = Inr s \<and> ?g3 s")
    by (rule decorateBaseSchema_grows [OF assms(1) _ capitalized(3,7)]) (simp_all add: facts g1' g2')
  then obtain s3 where s3: "?d3 = Inr s3" and g3: "?g3 s3" by blast
  from s1 s2 s3 have "decorate_all L s = Inr s3" by (simp add: decorate_all_def)
  moreover have "grows L s s3 [''TemplateWrapper'', ''TenantWrapper'', ''WorkspaceWrapper''] wrapper_fields"
    using grows_trans [OF grows_trans [OF g1 g2] g3] by (simp add: wrapper_fields_def)
  ultimately show ?thesis by blast
qed

lemma decorate_each_shipped:
  assumes "decorateSubscription L subscriptions (Some s1) (Some ''itPolitoCrownlabsV1alpha2Instance'') (Some ''UpdateType'') = Inr s2"
    and "decorateSubscription L subscriptions (Some s2) (Some ''itPolitoCrownlabsV1alpha2Template'') (Some ''UpdateType'') = Inr s3"
  shows "decorate_each L subscriptions subscriptions s1 = Inr s3"
proof -
  have "decorate_each L xs subscriptions s1 = Inr s3" if "subscriptions = xs" for xs
    using assms unfolding that by (simp add: that [symmetric] subscriptions_def)
  then show ?thesis by simp
qed

lemma setup_succeeds:
  assumes "schema_laws L" and "base_ready L base" and "decorate_all L base = Inr s" and "url \<noteq> []"
  shows "\<exists>r. setupSubscriptions L subscriptions (Some subscriptions) (Some s) url = Inr r"
proof -
  from decorate_all_grows [OF assms(1,2)] assms(3)
  have g0: "grows L base s [''TemplateWrapper'', ''TenantWrapper'', ''WorkspaceWrapper''] wrapper_fields" by simp
  note facts = known_names [unfolded list.pred_inject]
    base_ready_facts [OF assms(2), unfolded name_lists list.pred_inject fst_conv snd_conv]
    grows_fields [OF g0] wrapper_fields_def builtin_scalars_def
  have "\<exists>s1. decorateEnum L (Some s) (Some ''UpdateType'') (Some [''ADDED'', ''MODIFIED'', ''DELETED'']) = Inr s1
    \<and> grows L s s1 [''UpdateType''] []" (is "\<exists>s. ?d1 = Inr s \<and> ?g1 s")
    by (rule decorateEnum_grows [OF assms(1)]) (simp_all add: facts enum_value_def)
  then obtain s1 where s1: "?d1 = Inr s1" and g1: "?g1 s1" by blast
  note g1' = grows_fields [OF g1]
  have "\<exists>s2. decorateSubscription L subscriptions (Some s1) (Some ''itPolitoCrownlabsV1alpha2Instance'') (Some ''UpdateType'') = Inr s2
    \<and> grows L s1 s2 [''ItPolitoCrownlabsV1alpha2InstanceUpdate'', ''Subscription'']
        [(''ItPolitoCrownlabsV1alpha2InstanceUpdate'', ''updateType''), (''ItPolitoCrownlabsV1alpha2InstanceUpdate'', ''payload''),
         (''Subscription'', ''itPolitoCrownlabsV1alpha2Instance'' @ ''Update'')]" (is "\<exists>s. ?d2 = Inr s \<and> ?g2 s")
    by (rule decorateSubscription_grows [OF assms(1) _ _ capitalized(5)]) (simp_all add: facts g1' capitalized)
  then obtain s2 where s2: "?d2 = Inr s2" and g2: "?g2 s2" by blast
  note g2' = grows_fields [OF g2]
  have sub: "object_type L s2 ''Subscription''" unfolding object_type_def by (auto simp: g2')
  have "\<exists>s3. decorateSubscription L subscriptions (Some s2) (Some ''itPolitoCrownlabsV1alpha2Template'') (Some ''UpdateType'') = Inr s3
    \<and> grows L s2 s3 [''ItPolitoCrownlabsV1alpha2TemplateUpdate'', ''Subscription'']
        [(''ItPolitoCrownlabsV1alpha2TemplateUpdate'', ''updateType''), (''ItPolitoCrownlabsV1alpha2TemplateUpdate'', ''payload''),
         (''Subscription'', ''itPolitoCrownlabsV1alpha2Template'' @ ''Update'')]" (is "\<exists>s. ?d3 = Inr s \<and> ?g3 s")
    by (rule decorateSubscription_grows [OF assms(1) _ _ capitalized(4)]) (simp_all add: facts g1' g2' capitalized sub)
  then obtain s3 where "?d3 = Inr s3" by blast
  from decorate_each_shipped [OF s2 this] s1 assms(4) show ?thesis by (simp add: setupSubscriptions_def)
qed

subsection \<open>A library that satisfies the laws\<close>

text \<open>A schema is the list of its types and the list of its fields; the texts are parsed as in \<open>Sdl_Grammar\<close>,
  and what does not parse is refused. Types of the schema are output types.\<close>

type_synonym sdl_schema = "string list \<times> (string \<times> string) list"

definition sdl_lib :: "(sdl_schema, sdl_def list, unit) qlkube_lib" where
  "sdl_lib =
     \<lparr>query_fields = (\<lambda>s. Some (\<lambda>q. if q \<in> set base_queries then Some () else None)),
      type_map = (\<lambda>s n. n \<in> set (fst s)), has_field = (\<lambda>s t f. (t, f) \<in> set (snd s)),
      output_type = (\<lambda>s n. n \<in> set (fst s)),
      field_resolve = (\<lambda>f parent args ci. Inr parent),
      gql = (\<lambda>text. case parse_sdl text of None \<Rightarrow> Inl (Error ''Syntax Error'') | Some ds \<Rightarrow> Inr ds),
      extendSchema = (\<lambda>s ds. Inr (declared_types ds @ fst s, declared_fields ds @ snd s)),
      addResolversToSchema = (\<lambda>s r. Inr s), useSubscriptionType = (\<lambda>s. s)\<rparr>"

lemma sdl_lib_laws: "schema_laws sdl_lib"
proof -
  have "extension_law sdl_lib"
    unfolding extension_law_def by (auto simp: sdl_lib_def grows_def has_query_def)
  moreover have "resolver_law sdl_lib"
    unfolding resolver_law_def by (auto simp: sdl_lib_def grows_def has_query_def)
  ultimately show ?thesis by (simp add: schema_laws_def sdl_lib_def grows_def)
qed

definition toy_oas :: "(unit, unit, unit) openapi" where
  "toy_oas = \<lparr>paths = [(''/apis/crownlabs.polito.it/v1alpha2/templates'', ())], definitions = [], rest = ()\<rparr>"

text \<open>A cluster in which only the older of the two endpoints answers, and whose schema has a field \<open>apiVersion\<close>
  in every type.\<close>

definition base_schema :: sdl_schema where
  "base_schema = (base_types, map (\<lambda>t. (t, ''apiVersion'')) base_types)"

definition toy_world :: "(sdl_schema, sdl_def list, unit, unit, unit, unit) world" where
  "toy_world =
     \<lparr>w_lib = sdl_lib, w_createGraphQlSchema = (\<lambda>oas opts. Inr base_schema),
      w_got = (\<lambda>r. if oas_path r = ''/swagger.json'' then Inr toy_oas else Inl (Error ''404'')),
      w_promiseAny = (\<lambda>rs. case filter is_ok rs of [] \<Rightarrow> Inl (Error ''none'') | r # _ \<Rightarrow> r),
      w_readFile = (\<lambda>f. Inr ''secret''), w_IN_CLUSTER = None, w_PORT = None\<rparr>"

lemma sdl_base_ready: "base_ready sdl_lib base_schema"
  by (simp add: base_ready_def has_query_def object_type_def sdl_lib_def base_schema_def name_lists)

lemma toy_any_law: "any_law (w_promiseAny toy_world)"
  by (auto simp: any_law_def toy_world_def filter_empty_conv filter_eq_Cons_iff split: list.splits)

subsection \<open>Properties\<close>

lemma any_lawD:
  assumes "any_law promiseAny" and "\<exists>p \<in> set ps. is_ok (f p)"
  shows "\<exists>y p. promiseAny (map f ps) = Inr y \<and> f p = Inr y"
proof -
  from assms(2) have "\<exists>r \<in> set (map f ps). is_ok r" by auto
  with assms(1) have "is_ok (promiseAny (map f ps))" "promiseAny (map f ps) \<in> set (map f ps)"
    unfolding any_law_def by blast+
  then show ?thesis by (auto simp: is_ok_def) (metis imageE)
qed

text \<open>C4: the server starts. Hypotheses: the GraphQL packages keep their documented laws (\<open>schema_laws\<close>: a
  text of the schema definition language whose document is valid against the schema extends it by what it
  declares, resolvers may be added for fields that exist) and \<open>promise-any\<close> its own; the token file can
  be read (inside a cluster; outside it is not needed); one of the two OpenAPI endpoints, \<open>/openapi/v2\<close> or
  \<open>/swagger.json\<close>, no matter which, answers; and the schema generated from any filtered answer has the queries and object
  types that the decoration names and none of those it adds (\<open>base_ready\<close>). Then \<open>main\<close> ends with a running server, neither by exiting nor by
  rejecting, for the shipped subscriptions and any list of API groups: every text that \<open>qlkube\<close> generates
  parses and is valid, and its resolvers are for fields that exist.\<close>

theorem server_starts:
  assumes "schema_laws (w_lib w)" and "any_law (w_promiseAny w)"
    and "w_IN_CLUSTER w \<noteq> Some ''false'' \<Longrightarrow> is_ok (w_readFile w token_file)"
    and "p \<in> {''/openapi/v2'', ''/swagger.json''}"
    and "\<And>url h. is_ok (w_got w \<lparr>oas_path = p, oas_baseUrl = url, oas_json = True,
                             oas_timeout = 5000, oas_headers = h\<rparr>)"
    and "\<And>r oas opts. w_got w r = Inr oas \<Longrightarrow>
      \<exists>base. w_createGraphQlSchema w (decorateOpenapi groups oas) opts = Inr base \<and> base_ready (w_lib w) base"
  shows "\<exists>q. main w groups subscriptions = Started q"
proof -
  let ?url = "kube_url (w_IN_CLUSTER w \<noteq> Some ''false'')"
  obtain token where token: "(if w_IN_CLUSTER w \<noteq> Some ''false'' then w_readFile w token_file else Inr []) = Inr token"
    using assms(3) by (cases "w_IN_CLUSTER w \<noteq> Some ''false''") (auto simp: is_ok_def)
  let ?req = "\<lambda>p. \<lparr>oas_path = p, oas_baseUrl = ?url, oas_json = True, oas_timeout = 5000,
      oas_headers = [(''Authorization'', ''Bearer '' @ token)]\<rparr>"
  let ?rs = "map (\<lambda>p. w_got w (?req p)) openApiPaths"
  have "p \<in> set openApiPaths" using assms(4) by (auto simp: openApiPaths_def)
  with assms(5) have "\<exists>p \<in> set openApiPaths. is_ok (w_got w (?req p))" by blast
  from any_lawD [OF assms(2) this] obtain oas p where
    any_oas: "w_promiseAny w ?rs = Inr oas" and r: "w_got w (?req p) = Inr oas" by blast
  from any_oas have oas: "getOpenApiSpec (w_got w) (w_promiseAny w) ?url token = Inr oas"
    by (simp add: getOpenApiSpec_def)
  obtain base where base: "w_createGraphQlSchema w (decorateOpenapi groups oas) (schema_options ?url token) = Inr base"
    and ready: "base_ready (w_lib w) base" using assms(6) [OF r] by blast
  from decorate_all_grows [OF assms(1) ready] obtain s where s: "decorate_all (w_lib w) base = Inr s" by blast
  from setup_succeeds [OF assms(1) ready s, of ?url] obtain q where
    "serve (w_lib w) subscriptions ?url (w_PORT w) s = Started q"
    by (auto simp: serve_cases)
  with token oas base s show ?thesis
    by (simp add: main_def Let_def createSchema_def oasToGraphQlSchema_def)
qed

theorem server_starts_witness: "\<exists>q. main toy_world apiGroups_paths subscriptions = Started q"
  by (rule server_starts [where p = "''/swagger.json''"])
    (use toy_any_law sdl_lib_laws sdl_base_ready in \<open>auto simp: toy_world_def\<close>)

text \<open>a server that starts watches exactly the configured resources, one watch per subscription
  in their order, each under the label its subscription field listens to, whatever the libraries
  do: no start-up that reaches the watches fails in them.\<close>

lemma started_server_watches_all:
  assumes "main w apiGroups subs = Started q"
  shows "active (q_watch q) = map (\<lambda>sub. (resourceApi sub, sub_type sub)) subs
    \<and> timers (q_watch q) = [] \<and> published (q_watch q) = []
    \<and> q_clear_period q = 1320000 \<and> q_kubeApiUrl q = kube_url (w_IN_CLUSTER w \<noteq> Some ''false'')"
  using assms
  by (auto simp: main_def Let_def serve_cases no_watch_def
      split: sum.splits startup.splits prod.splits if_splits)

lemma started_server_watches_all_witness:
  "\<exists>q. main toy_world apiGroups_paths subscriptions = Started q \<and>
     active (q_watch q) =
       [(''/apis/crownlabs.polito.it/v1alpha2/instances'', ''itPolitoCrownlabsV1alpha2Instance''),
        (''/apis/crownlabs.polito.it/v1alpha2/templates'', ''itPolitoCrownlabsV1alpha2Template'')]"
proof -
  obtain s where "decorate_all sdl_lib base_schema = Inr s"
    using decorate_all_grows [OF sdl_lib_laws sdl_base_ready] by blast
  then obtain q where "main toy_world apiGroups_paths subscriptions = Started q"
    using setup_succeeds [OF sdl_lib_laws sdl_base_ready, of s "kube_url True"]
    by (auto simp: main_def toy_world_def getOpenApiSpec_def openApiPaths_def createSchema_def
        oasToGraphQlSchema_def serve_cases Let_def)
  with started_server_watches_all [OF this] show ?thesis
    by (auto simp: subscriptions_def resourceApi_def missing_def)
qed

end
