(* ===== verification/Event_Delivery.thy ===== *)
theory Event_Delivery
  imports Qlkube_Server "HOL-Library.Multiset"
begin

section \<open>qlkube: from the watches to the clients\<close>

text \<open>
  The parts of qlkube that share state while the server runs, as one machine: the watches of
  \<open>watch.js\<close> publish events (\<open>watch_step\<close>), clients connect and subscribe (\<open>onConnect\<close> and the operation
  context of \<open>index.js\<close>), the filter of \<open>decorateSubscription.js\<close> runs for every subscriber up to the
  access review (\<open>offer\<close>), answers of the API server arrive (\<open>answered\<close>), and the cache is cleared. The
  steps interleave freely, and the clock of the watches and the clock of the cache move together.

  \<open>PubSub\<close> and \<open>withFilter\<close> are library code. Of them the machine has what they promise: an event is
  offered only to subscribers of the label it was published under, and is delivered only when the
  filter answers \<open>true\<close>. Any published event may be offered to any subscriber of its label, at any time
  and more than once: a client that left or that is behind is a run in which it is offered less.

  The API server is a parameter, the answer to a request at a time: permissions come and go. The map to
  \<open>Subscription_Cache\<close>'s machine is a refinement (\<open>broker_step_refines\<close>), so its invariant carries over.
\<close>

subsection \<open>The machine\<close>

record client =
  cl_params :: jsval
  cl_sub :: subscription
  cl_variables :: jsval

record broker =
  br_server :: server
  br_watch :: "jsval watch_state"
  br_clients :: "client list"
  br_pending :: "(client \<times> jsval watch_event \<times> check) list"
  br_delivered :: "(client \<times> jsval watch_event \<times> int) list"

definition init_broker :: "'s qlkube \<Rightarrow> int \<Rightarrow> broker" where
  "init_broker q t =
     \<lparr>br_server = init_server t, br_watch = q_watch q, br_clients = [], br_pending = [], br_delivered = []\<rparr>"

text \<open>The context of the operations of a client's connection, and the resolve info of its subscription.\<close>

definition client_context :: "client \<Rightarrow> jsval result" where
  "client_context cl =
     bind_res (onConnect (cl_params cl))
       (\<lambda>ctx. operation_context JUndefined (JObj [(''context'', ctx)]))"

definition client_info :: "client \<Rightarrow> jsval" where
  "client_info cl = JObj [(''fieldName'', JStr (sub_type (cl_sub cl) @ ''Update''))]"

definition client_filter :: "subscription list \<Rightarrow> client \<Rightarrow> jsval watch_event \<Rightarrow> check option result" where
  "client_filter subs cl e =
     bind_res (client_context cl)
       (\<lambda>ctx. subscription_filter subs (event_payload e) (cl_variables cl) ctx (client_info cl))"

text \<open>The filter runs for an event: without a check, or when the check throws, nothing is delivered; a
  check that the cache grants delivers at once; otherwise the access review is awaited.\<close>

definition offer :: "subscription list \<Rightarrow> string \<Rightarrow> client \<Rightarrow> jsval watch_event \<Rightarrow> broker \<Rightarrow> broker" where
  "offer subs url cl e b =
     (case client_filter subs cl e of
        Inr (Some c) \<Rightarrow>
          (let s = br_server b; b' = b\<lparr>br_server := start_check c url s\<rparr>
           in case fst (check_start c url (sv_now s) (sv_cache s)) of
                Throws _ \<Rightarrow> b'
              | Granted \<Rightarrow> b'\<lparr>br_delivered := (cl, e, sv_now s) # br_delivered b\<rparr>
              | AwaitReview c' \<Rightarrow> b'\<lparr>br_pending := (cl, e, c') # br_pending b\<rparr>)
      | _ \<Rightarrow> b)"

definition review :: "(int \<Rightarrow> http_request \<Rightarrow> fetch_outcome) \<Rightarrow> string \<Rightarrow> int \<Rightarrow> check \<Rightarrow> bool result" where
  "review api url t c =
     canWatchResource (api t) url (ck_token c) (ck_resource c) (ck_group c) (ck_namespace c) (ck_name c)"

text \<open>The answer to the access review arrives, and the filter continues.\<close>

definition answered ::
  "(int \<Rightarrow> http_request \<Rightarrow> fetch_outcome) \<Rightarrow> string \<Rightarrow> client \<Rightarrow> jsval watch_event \<Rightarrow> check \<Rightarrow> broker \<Rightarrow> broker" where
  "answered api url cl e c b =
     (let s = br_server b; answer = review api url (sv_now s) c;
          b' = b\<lparr>br_server := finish_check c answer s, br_pending := remove1 (cl, e, c) (br_pending b)\<rparr>
      in if fst (check_finish c answer (sv_now s) (sv_cache s)) = Inr True
         then b'\<lparr>br_delivered := (cl, e, sv_now s) # br_delivered b\<rparr> else b')"

inductive broker_step ::
  "(int \<Rightarrow> http_request \<Rightarrow> fetch_outcome) \<Rightarrow> string \<Rightarrow> subscription list \<Rightarrow> broker \<Rightarrow> broker \<Rightarrow> bool"
  for api url subs where
  subscribes: "client_context cl = Inr ctx \<Longrightarrow> cl_sub cl \<in> set subs \<Longrightarrow>
    broker_step api url subs b (b\<lparr>br_clients := cl # br_clients b\<rparr>)"
| watches: "watch_step (br_watch b) w \<Longrightarrow>
    broker_step api url subs b
      (b\<lparr>br_watch := w,
         br_server := (br_server b)\<lparr>sv_now := sv_now (br_server b) + int (clock w - clock (br_watch b))\<rparr>\<rparr>)"
| offers: "cl \<in> set (br_clients b) \<Longrightarrow> (sub_type (cl_sub cl), e) \<in> set (published (br_watch b)) \<Longrightarrow>
    broker_step api url subs b (offer subs url cl e b)"
| answers: "(cl, e, c) \<in> set (br_pending b) \<Longrightarrow> broker_step api url subs b (answered api url cl e c b)"
| clears: "broker_step api url subs b
    (b\<lparr>br_server := (br_server b)\<lparr>sv_cache := clearCache (sv_now (br_server b)) (sv_cache (br_server b))\<rparr>\<rparr>)"

inductive broker_run ::
  "(int \<Rightarrow> http_request \<Rightarrow> fetch_outcome) \<Rightarrow> subscription list \<Rightarrow> 's qlkube \<Rightarrow> int \<Rightarrow> broker \<Rightarrow> bool"
  for api subs q t where
  starts: "broker_run api subs q t (init_broker q t)"
| steps: "broker_run api subs q t b \<Longrightarrow> broker_step api (q_kubeApiUrl q) subs b b' \<Longrightarrow>
    broker_run api subs q t b'"

inductive_cases broker_stepE: "broker_step api url subs b b'"

subsection \<open>The refinement\<close>

lemma check_start_await:
  "fst (check_start c url now cache) = AwaitReview c' \<Longrightarrow> c' = with_defaults c"
  by (auto simp: check_start_def Let_def split: sum.splits if_splits prod.splits)

lemma start_check_histories:
  "sv_answers (start_check c url s) = sv_answers s"
  "sv_now (start_check c url s) = sv_now s"
  "set (sv_granted s) \<subseteq> set (sv_granted (start_check c url s))"
  by (auto simp: start_check_def split: prod.splits check_outcome.splits)

lemma start_check_waiting:
  "mset (sv_waiting (start_check c url s)) =
    mset (sv_waiting s) + (case fst (check_start c url (sv_now s) (sv_cache s)) of AwaitReview c' \<Rightarrow> {#c'#} | _ \<Rightarrow> {#})"
  by (auto simp: start_check_def split: prod.splits check_outcome.splits)

lemma start_check_granted:
  "fst (check_start c url (sv_now s) (sv_cache s)) = Granted \<Longrightarrow>
    (with_defaults c, sv_now s) \<in> set (sv_granted (start_check c url s))"
  by (auto simp: start_check_def split: prod.splits check_outcome.splits)

lemma check_finish_True: "fst (check_finish c answer now cache) = Inr True \<longleftrightarrow> answer = Inr True"
  by (auto simp: check_finish_def split: sum.splits)

lemma finish_check_histories:
  "sv_waiting (finish_check c answer s) = remove1 c (sv_waiting s)"
  "sv_now (finish_check c answer s) = sv_now s"
  "sv_answers (finish_check c answer s) = (if answer = Inr True then [(c, sv_now s)] else []) @ sv_answers s"
  "sv_granted (finish_check c answer s) = (if answer = Inr True then [(c, sv_now s)] else []) @ sv_granted s"
  by (auto simp: finish_check_def check_finish_def Let_def split: sum.splits)

lemma offer_server:
  "br_server (offer subs url cl e b) =
    (case client_filter subs cl e of Inr (Some c) \<Rightarrow> start_check c url (br_server b) | _ \<Rightarrow> br_server b)"
  by (simp add: offer_def Let_def split: sum.split option.split check_outcome.split)

lemma answered_server:
  "br_server (answered api url cl e c b) =
    finish_check c (review api url (sv_now (br_server b)) c) (br_server b)"
  by (simp add: answered_def Let_def)

lemma watch_step_published: "watch_step w w' \<Longrightarrow> set (published w) \<subseteq> set (published w')"
  by (induction rule: watch_step.induct)
    (auto simp: on_event_def publishEvent_def on_done_Inr kwatch_published)

text \<open>The checks that wait in the cache machine are those of the pending deliveries.\<close>

definition waiting_pending :: "broker \<Rightarrow> bool" where
  "waiting_pending b \<longleftrightarrow> mset (sv_waiting (br_server b)) = image_mset (snd \<circ> snd) (mset (br_pending b))"

lemma waiting_pending_offer:
  assumes "waiting_pending b"
  shows "waiting_pending (offer subs url cl e b)"
  using assms
  by (auto simp: waiting_pending_def offer_def Let_def start_check_waiting
      split: sum.split option.split check_outcome.split)

lemma waiting_pending_answered:
  assumes "waiting_pending b" and "(cl, e, c) \<in> set (br_pending b)"
  shows "waiting_pending (answered api url cl e c b)"
  using assms
  by (auto simp: waiting_pending_def answered_def Let_def finish_check_histories image_mset_Diff)

lemma pending_waits:
  assumes "waiting_pending b" and "(cl, e, c) \<in> set (br_pending b)"
  shows "c \<in> set (sv_waiting (br_server b))"
proof -
  from assms(2) have "c \<in># image_mset (snd \<circ> snd) (mset (br_pending b))" by force
  with assms(1) show ?thesis by (simp add: waiting_pending_def flip: set_mset_mset)
qed

lemma broker_step_waiting_pending: "broker_step api url subs b b' \<Longrightarrow> waiting_pending b \<Longrightarrow> waiting_pending b'"
proof (induction rule: broker_step.induct)
  case (offers cl b e)
  then show ?case by (simp add: waiting_pending_offer)
next
  case (answers cl e c b)
  then show ?case by (simp add: waiting_pending_answered)
qed (simp_all add: waiting_pending_def)

text \<open>Every step of the whole machine is one of the cache machine, or leaves its state alone.\<close>

lemma broker_step_refines:
  "broker_step api url subs b b' \<Longrightarrow> waiting_pending b \<Longrightarrow>
    br_server b' = br_server b \<or> cache_step (br_server b) (br_server b')"
proof (induction rule: broker_step.induct)
  case (watches b w)
  then show ?case by (simp add: cache_step.time_passes)
next
  case (offers cl b e)
  show ?case
    by (auto simp: offer_server intro: cache_step.check_starts split: sum.split option.split)
next
  case (answers cl e c b)
  with pending_waits show ?case by (simp add: answered_server cache_step.check_answered)
qed (simp_all add: cache_step.cache_cleared)

lemma broker_run_refines: "broker_run api subs q t b \<Longrightarrow> waiting_pending b \<and> reachable (br_server b)"
proof (induction rule: broker_run.induct)
  case starts
  show ?case by (simp add: init_broker_def init_server_def waiting_pending_def reachable.booted [unfolded init_server_def])
next
  case (steps b b')
  with broker_step_refines [OF steps.hyps(2)] broker_step_waiting_pending [OF steps.hyps(2)]
  show ?case by (auto intro: reachable.stepped)
qed

subsection \<open>The invariant of the deliveries\<close>

text \<open>A check belongs to a client and an event: the event was published under the label of the client's
  subscription, and the client's filter asks for this check.\<close>

definition heard :: "subscription list \<Rightarrow> broker \<Rightarrow> client \<Rightarrow> jsval watch_event \<Rightarrow> check \<Rightarrow> bool" where
  "heard subs b cl e c \<longleftrightarrow>
     cl_sub cl \<in> set subs \<and> (sub_type (cl_sub cl), e) \<in> set (published (br_watch b)) \<and>
     (\<exists>c0. client_filter subs cl e = Inr (Some c0) \<and> c = with_defaults c0)"

definition delivery_inv ::
  "(int \<Rightarrow> http_request \<Rightarrow> fetch_outcome) \<Rightarrow> string \<Rightarrow> subscription list \<Rightarrow> broker \<Rightarrow> bool" where
  "delivery_inv api url subs b \<longleftrightarrow>
     (\<forall>cl \<in> set (br_clients b). cl_sub cl \<in> set subs) \<and>
     (\<forall>(cl, e, c) \<in> set (br_pending b). heard subs b cl e c) \<and>
     (\<forall>(cl, e, T) \<in> set (br_delivered b). \<exists>c. heard subs b cl e c \<and> (c, T) \<in> set (sv_granted (br_server b))) \<and>
     (\<forall>(c, t) \<in> set (sv_answers (br_server b)).
        review api url t c = Inr True \<and> (\<exists>cl e. heard subs b cl e c))"

lemma offer_frame [simp]:
  "br_watch (offer subs url cl e b) = br_watch b" "br_clients (offer subs url cl e b) = br_clients b"
  by (simp_all add: offer_def Let_def split: sum.split option.split check_outcome.split)

lemma answered_frame [simp]:
  "br_watch (answered api url cl e c b) = br_watch b" "br_clients (answered api url cl e c b) = br_clients b"
  by (simp_all add: answered_def Let_def)

lemma delivery_inv_watch:
  assumes "delivery_inv api url subs b" and "set (published (br_watch b)) \<subseteq> set (published w)"
  shows "delivery_inv api url subs (b\<lparr>br_watch := w, br_server := (br_server b)\<lparr>sv_now := n\<rparr>\<rparr>)"
proof -
  have "heard subs b cl e c \<Longrightarrow> heard subs (b\<lparr>br_watch := w, br_server := (br_server b)\<lparr>sv_now := n\<rparr>\<rparr>) cl e c"
    for cl e c using assms(2) by (auto simp: heard_def)
  with assms(1) show ?thesis unfolding delivery_inv_def by fastforce
qed

lemma delivery_inv_offer:
  assumes inv: "delivery_inv api url subs b"
    and cl: "cl \<in> set (br_clients b)" "(sub_type (cl_sub cl), e) \<in> set (published (br_watch b))"
  shows "delivery_inv api url subs (offer subs url cl e b)"
proof (cases "\<exists>c. client_filter subs cl e = Inr (Some c)")
  case False
  then have "offer subs url cl e b = b" by (auto simp: offer_def split: sum.split option.split)
  with inv show ?thesis by simp
next
  case True
  then obtain c where c: "client_filter subs cl e = Inr (Some c)" by blast
  let ?s = "br_server b" and ?b' = "offer subs url cl e b"
  let ?r = "fst (check_start c url (sv_now ?s) (sv_cache ?s))"
  have h: "heard subs b cl e (with_defaults c)" using inv cl c by (auto simp: heard_def delivery_inv_def)
  have s: "br_server ?b' = start_check c url ?s" using c by (simp add: offer_server)
  have p: "set (br_pending ?b') \<subseteq> insert (cl, e, with_defaults c) (set (br_pending b))"
    using c check_start_await [of c url "sv_now ?s" "sv_cache ?s"]
    by (auto simp: offer_def Let_def split: check_outcome.splits)
  have d: "x \<in> set (br_delivered b) \<or> x = (cl, e, sv_now ?s) \<and> ?r = Granted"
    if "x \<in> set (br_delivered ?b')" for x
    using that c by (auto simp: offer_def Let_def split: check_outcome.splits)
  have hs: "heard subs ?b' = heard subs b" by (simp add: heard_def fun_eq_iff)
  have "\<exists>c. heard subs b cl' e' c \<and> (c, T) \<in> set (sv_granted (start_check c0 url ?s))"
    if "(cl', e', T) \<in> set (br_delivered b)" for cl' e' T c0
    using inv that start_check_histories(3) [of ?s c0 url] by (fastforce simp: delivery_inv_def)
  with d start_check_granted [of c url ?s] h
  have "\<forall>(cl', e', T) \<in> set (br_delivered ?b').
      \<exists>c'. heard subs b cl' e' c' \<and> (c', T) \<in> set (sv_granted (start_check c url ?s))" by blast
  with inv p h show ?thesis
    unfolding delivery_inv_def hs s start_check_histories offer_frame by blast
qed

lemma delivery_inv_answered:
  assumes inv: "delivery_inv api url subs b" and cl: "(cl, e, c) \<in> set (br_pending b)"
  shows "delivery_inv api url subs (answered api url cl e c b)"
proof -
  let ?s = "br_server b" and ?b' = "answered api url cl e c b"
  let ?a = "review api url (sv_now ?s) c"
  have h: "heard subs b cl e c" using inv cl by (auto simp: delivery_inv_def)
  have p: "set (br_pending ?b') \<subseteq> set (br_pending b)"
    by (simp add: answered_def Let_def set_remove1_subset)
  have d: "br_delivered ?b' = (if ?a = Inr True then [(cl, e, sv_now ?s)] else []) @ br_delivered b"
    by (simp add: answered_def Let_def check_finish_True)
  have hs: "heard subs ?b' = heard subs b" by (simp add: heard_def fun_eq_iff)
  show ?thesis
    using inv p h unfolding delivery_inv_def hs d answered_server finish_check_histories answered_frame
    by (cases "?a = Inr True") (auto 4 4)
qed

lemma broker_step_delivery_inv:
  "broker_step api url subs b b' \<Longrightarrow> delivery_inv api url subs b \<Longrightarrow> delivery_inv api url subs b'"
proof (induction rule: broker_step.induct)
  case (watches b w)
  then show ?case by (simp add: delivery_inv_watch watch_step_published)
next
  case (offers cl b e)
  then show ?case by (simp add: delivery_inv_offer)
next
  case (answers cl e c b)
  then show ?case by (simp add: delivery_inv_answered)
qed (auto simp: delivery_inv_def heard_def)

lemma broker_run_delivery_inv: "broker_run api subs q t b \<Longrightarrow> delivery_inv api (q_kubeApiUrl q) subs b"
proof (induction rule: broker_run.induct)
  case starts
  show ?case by (simp add: delivery_inv_def init_broker_def init_server_def)
next
  case (steps b b')
  then show ?case by (blast intro: broker_step_delivery_inv)
qed

subsection \<open>The checks of a client\<close>

text \<open>Kubernetes names are DNS labels or subdomains: strings without underscores.\<close>

fun k8s_name :: "jsval \<Rightarrow> bool" where
  "k8s_name (JStr s) = (CHR ''_'' \<notin> set s)"
| "k8s_name _ = False"

definition k8s_object :: "jsval \<Rightarrow> bool" where
  "k8s_object ob \<longleftrightarrow> k8s_name (js_prop (js_prop ob ''metadata'') ''namespace'') \<and>
     k8s_name (js_prop (js_prop ob ''metadata'') ''name'')"

definition client_check :: "client \<Rightarrow> string \<Rightarrow> check" where
  "client_check cl token =
     \<lparr>ck_token = JStr token, ck_group = opt_val (sub_group (cl_sub cl)), ck_resource = JStr (sub_resource (cl_sub cl)),
      ck_namespace = js_prop (cl_variables cl) ''namespace'', ck_name = js_prop (cl_variables cl) ''name''\<rparr>"

text \<open>What a client asks for, compared with an event.\<close>

definition wants :: "client \<Rightarrow> jsval watch_event \<Rightarrow> bool" where
  "wants cl e \<longleftrightarrow>
     (let metadata = js_prop (ev_apiObj e) ''metadata'' in
      js_prop metadata ''namespace'' = js_prop (cl_variables cl) ''namespace'' \<and>
      (js_prop (cl_variables cl) ''name'' = JUndefined \<or>
       js_prop metadata ''name'' = js_prop (cl_variables cl) ''name''))"

lemma client_context_iff:
  "client_context cl = Inr ctx \<longleftrightarrow>
    (\<exists>token. getBearerToken (cl_params cl) = Inr token \<and> ctx = JObj [(''token'', JStr token)])"
  by (cases "getBearerToken (cl_params cl)")
    (auto simp: client_context_def onConnect_def operation_context_def js_deref_def js_nullish_def)

lemma k8s_nameE:
  assumes "k8s_name v"
  obtains s where "v = JStr s" and "CHR ''_'' \<notin> set s"
  using assms by (cases v) auto

lemma subscription_types_distinct: "distinct (map sub_type subscriptions)"
  by (simp add: subscriptions_def)

lemma subscription_group:
  assumes "sub \<in> set subscriptions"
  shows "sub_group sub = Some ''crownlabs.polito.it'' \<and> sub_resource sub \<noteq> [] \<and> CHR ''_'' \<notin> set (sub_resource sub)"
proof -
  have "list_all (\<lambda>sub. sub_group sub = Some ''crownlabs.polito.it'' \<and> sub_resource sub \<noteq> [] \<and>
      CHR ''_'' \<notin> set (sub_resource sub)) subscriptions"
    by (simp add: subscriptions_def)
  with assms show ?thesis by (auto simp only: list_all_iff)
qed

lemma client_filter_check:
  assumes "client_filter subscriptions cl e = Inr (Some c)" and "cl_sub cl \<in> set subscriptions"
  shows "wants cl e \<and> (\<exists>token. getBearerToken (cl_params cl) = Inr token \<and> c = client_check cl token)"
proof -
  from assms(1) obtain ctx where ctx: "client_context cl = Inr ctx"
    and f: "subscription_filter subscriptions (event_payload e) (cl_variables cl) ctx (client_info cl) = Inr (Some c)"
    by (auto simp: client_filter_def bind_res_Inr_iff)
  from ctx obtain token where "getBearerToken (cl_params cl) = Inr token" "ctx = JObj [(''token'', JStr token)]"
    by (auto simp: client_context_iff)
  with subscription_filter_check [OF f] find_subscription_type [OF subscription_types_distinct assms(2)]
  show ?thesis by (auto simp: wants_def Let_def client_check_def client_info_def event_payload_def)
qed

lemma client_check_clean:
  assumes "wants cl e" and "k8s_object (ev_apiObj e)" and "cl_sub cl \<in> set subscriptions"
  shows "clean (with_defaults (client_check cl token))"
proof -
  from assms(1,2) have ns: "k8s_name (js_prop (cl_variables cl) ''namespace'')"
    and nm: "js_prop (cl_variables cl) ''name'' = JUndefined \<or> k8s_name (js_prop (cl_variables cl) ''name'')"
    by (auto simp: wants_def k8s_object_def Let_def)
  from subscription_group [OF assms(3)] ns nm show ?thesis
    by (auto simp: clean_def with_defaults_def client_check_def opt_val_def elim!: k8s_nameE)
qed

lemma heard_clean:
  assumes "heard subscriptions b cl e c"
    and "\<forall>(label, e) \<in> set (published (br_watch b)). k8s_object (ev_apiObj e)"
  shows "clean c"
  using assms client_filter_check [of cl e] client_check_clean [of cl e] by (fastforce simp: heard_def)

text \<open>Every granted check of the server had a positive answer of the API server for the very same check
  in the ten minutes before.\<close>

lemma granted_was_allowed:
  assumes "broker_run api subscriptions q t0 b" and "(c, T) \<in> set (sv_granted (br_server b))"
    and "clean c" and names: "\<forall>(label, e) \<in> set (published (br_watch b)). k8s_object (ev_apiObj e)"
  shows "\<exists>t. t \<le> T \<and> T - t \<le> TEN_MINUTES \<and> review api (q_kubeApiUrl q) t c = Inr True"
proof -
  from broker_run_refines [OF assms(1)] have "cache_inv (br_server b)" by (simp add: reachable_inv)
  with assms(2) obtain t c' where c': "(c', t) \<in> set (sv_answers (br_server b))" "keyCache c' = keyCache c"
    and t: "t \<le> T" "T - t \<le> TEN_MINUTES"
    by (fastforce simp: cache_inv_def backed_def)
  from broker_run_delivery_inv [OF assms(1)] c'(1)
  obtain cl e where "review api (q_kubeApiUrl q) t c' = Inr True" "heard subscriptions b cl e c'"
    by (fastforce simp: delivery_inv_def)
  moreover from this(2) names have "clean c'" by (rule heard_clean)
  with assms(3) c'(2) have "c' = c" by (rule keyCache_inj [rotated])
  ultimately show ?thesis using t by blast
qed

text \<open>The filter of a client that wants an event asks for the client's check, which is not refused
  without asking: it is granted from the cache or sent to the API server.\<close>

lemma client_filter_asks:
  assumes "getBearerToken (cl_params cl) = Inr token" and "cl_sub cl \<in> set subscriptions"
    and "wants cl e" and "k8s_object (ev_apiObj e)"
  shows "client_filter subscriptions cl e = Inr (Some (client_check cl token))"
proof -
  let ?v = "cl_variables cl" and ?m = "js_prop (ev_apiObj e) ''metadata''"
  from assms(4) obtain ns nm where m: "js_prop ?m ''namespace'' = JStr ns" "js_prop ?m ''name'' = JStr nm"
    unfolding k8s_object_def by (metis k8s_nameE)
  with assms(3) have v: "js_prop ?v ''namespace'' = JStr ns"
    and nm: "js_prop ?v ''name'' = JUndefined \<or> js_prop ?v ''name'' = JStr nm"
    by (auto simp: wants_def Let_def)
  have nn: "js_prop u k = JStr s \<Longrightarrow> \<not> js_nullish u" for u k s by (auto simp: js_nullish_def)
  from m have ob: "\<not> js_nullish ?m" "\<not> js_nullish (ev_apiObj e)" by (auto simp: js_nullish_def)
  have "client_context cl = Inr (JObj [(''token'', JStr token)])" using assms(1) by (simp add: client_context_iff)
  with m v nm ob nn [OF v] find_subscription_type [OF subscription_types_distinct assms(2)] show ?thesis
    by (auto simp: client_filter_def subscription_filter_def js_deref_def event_payload_def client_info_def
        client_check_def Let_def js_nullish_def [of "JObj _"])
qed

lemma client_check_starts:
  assumes "cl_sub cl \<in> set subscriptions" and "token \<noteq> []" and "url \<noteq> []"
    and "js_truthy (js_prop (cl_variables cl) ''namespace'')"
  shows "fst (check_start (client_check cl token) url now cache) \<in>
    {Granted, AwaitReview (with_defaults (client_check cl token))}"
proof -
  have "check_guard (with_defaults (client_check cl token)) url = Inr ()"
    using assms subscription_group [OF assms(1)] by (simp add: check_guard_def with_defaults_def client_check_def)
  then show ?thesis by (auto simp: check_start_def Let_def split: prod.split)
qed

subsection \<open>Properties\<close>

text \<open>A run: a client subscribes to the instances of a namespace, an event is published there, the filter
  asks the API server, which allows it until time 100, and the event is delivered.\<close>

definition sample_client :: client where
  "sample_client =
     \<lparr>cl_params = JObj [(''authorization'', JStr ''Bearer t'')], cl_sub = hd subscriptions,
      cl_variables = JObj [(''namespace'', JStr ''ns'')]\<rparr>"

definition sample_qlkube :: "unit qlkube" where
  "sample_qlkube =
     \<lparr>q_schema = (), q_kubeApiUrl = ''http://k'', q_port = ''8080'', q_clear_period = 1320000,
      q_watch = no_watch\<lparr>active := map (\<lambda>sub. (resourceApi sub, sub_type sub)) subscriptions\<rparr>\<rparr>"

definition revoking :: "int \<Rightarrow> http_request \<Rightarrow> fetch_outcome" where
  "revoking t = (if t \<le> 100 then yes_fetch else no_fetch)"

definition offered_broker :: broker where
  "offered_broker =
     (let b = init_broker sample_qlkube 5
      in b\<lparr>br_clients := [sample_client],
           br_watch := on_event (sub_type (hd subscriptions)) (ev_type sample_event) (ev_apiObj sample_event) (br_watch b)\<rparr>)"

definition served_broker :: broker where
  "served_broker =
     answered revoking ''http://k'' sample_client sample_event (with_defaults (client_check sample_client ''t''))
       (offer subscriptions ''http://k'' sample_client sample_event offered_broker)"

lemma sample_client_token: "getBearerToken (cl_params sample_client) = Inr ''t''"
  by (simp add: sample_client_def getBearerToken_def js_or_def js_simps js_space_def)

lemma sample_client_sub: "cl_sub sample_client \<in> set subscriptions"
  by (simp add: sample_client_def subscriptions_def)

lemma sample_client_wants: "wants sample_client sample_event" "k8s_object (ev_apiObj sample_event)"
  "js_truthy (js_prop (cl_variables sample_client) ''namespace'')"
  by (simp_all add: wants_def sample_client_def sample_event_def k8s_object_def)

lemma offered_broker_fields:
  "br_clients offered_broker = [sample_client]" "sv_now (br_server offered_broker) = 5"
  "published (br_watch offered_broker) = [(sub_type (hd subscriptions), sample_event)]"
  by (simp_all add: offered_broker_def init_broker_def init_server_def sample_qlkube_def on_event_def
      publishEvent_def no_watch_def Let_def)

lemma sample_review:
  "t \<le> 100 \<Longrightarrow> review revoking ''http://k'' t (with_defaults (client_check sample_client ''t'')) = Inr True"
  by (simp add: review_def revoking_def canWatchResource_def yes_fetch_def review_answer_def js_deref_def js_nullish_def)

lemma offered_broker_run: "broker_run revoking subscriptions sample_qlkube 5 offered_broker"
proof -
  let ?b = "init_broker sample_qlkube 5"
  let ?b1 = "?b\<lparr>br_clients := sample_client # br_clients ?b\<rparr>"
  have "client_context sample_client = Inr (JObj [(''token'', JStr ''t'')])"
    by (simp add: client_context_iff sample_client_token)
  then have "broker_run revoking subscriptions sample_qlkube 5 ?b1"
    using sample_client_sub by (blast intro: broker_run.intros broker_step.subscribes)
  moreover have "(resourceApi (hd subscriptions), sub_type (hd subscriptions)) \<in> set (active (br_watch ?b1))"
    by (simp add: init_broker_def sample_qlkube_def subscriptions_def)
  then have "watch_step (br_watch ?b1)
      (on_event (sub_type (hd subscriptions)) (ev_type sample_event) (ev_apiObj sample_event) (br_watch ?b1))"
    by (rule watch_step.event)
  from broker_step.watches [OF this, of revoking "q_kubeApiUrl sample_qlkube" subscriptions]
  have "broker_step revoking (q_kubeApiUrl sample_qlkube) subscriptions ?b1 offered_broker"
    by (simp add: offered_broker_def init_broker_def on_event_def publishEvent_def)
  ultimately show ?thesis by (rule broker_run.steps)
qed

text \<open>C1: whatever watches, clients, answers, clean-ups and time do in between: an event that a client
  receives at time \<open>T\<close> was published for its subscription, lies in the namespace and has the name the
  client asked for, and in the ten minutes before \<open>T\<close> the API server answered the access review for that
  subscription's resource, that namespace and that name with yes, asked with the token the client
  connected with. A client whose permission is withdrawn gets nothing ten minutes later. Objects have
  Kubernetes names.\<close>

theorem deliveries_are_authorised:
  assumes "broker_run api subscriptions q t0 b"
    and "(cl, e, T) \<in> set (br_delivered b)"
    and "\<forall>(label, e) \<in> set (published (br_watch b)). k8s_object (ev_apiObj e)"
  shows "(sub_type (cl_sub cl), e) \<in> set (published (br_watch b)) \<and> wants cl e \<and>
    (\<exists>token t. getBearerToken (cl_params cl) = Inr token \<and> t \<le> T \<and> T - t \<le> TEN_MINUTES \<and>
       canWatchResource (api t) (q_kubeApiUrl q) (JStr token) (JStr (sub_resource (cl_sub cl)))
         (JStr ''crownlabs.polito.it'') (js_prop (cl_variables cl) ''namespace'')
         (if js_prop (cl_variables cl) ''name'' = JUndefined then JStr [] else js_prop (cl_variables cl) ''name'') = Inr True)"
proof -
  from broker_run_delivery_inv [OF assms(1)] assms(2) obtain c where h: "heard subscriptions b cl e c"
    and g: "(c, T) \<in> set (sv_granted (br_server b))"
    by (fastforce simp: delivery_inv_def)
  from granted_was_allowed [OF assms(1) g heard_clean [OF h assms(3)] assms(3)] obtain t where
    t: "t \<le> T" "T - t \<le> TEN_MINUTES" "review api (q_kubeApiUrl q) t c = Inr True" by blast
  from h client_filter_check [of cl e] obtain token where "getBearerToken (cl_params cl) = Inr token"
    "c = with_defaults (client_check cl token)" "wants cl e"
    by (auto simp: heard_def)
  with h t subscription_group [of "cl_sub cl"] show ?thesis
    by (auto simp: heard_def review_def with_defaults_def client_check_def opt_val_def)
qed

lemma served_broker_run: "broker_run revoking subscriptions sample_qlkube 5 served_broker"
  and served_broker_delivered: "br_delivered served_broker = [(sample_client, sample_event, 5)]"
  and served_broker_published: "published (br_watch served_broker) = [(sub_type (hd subscriptions), sample_event)]"
proof -
  let ?c = "with_defaults (client_check sample_client ''t'')" and ?s = "br_server offered_broker"
  let ?b1 = "offer subscriptions ''http://k'' sample_client sample_event offered_broker"
  have f: "client_filter subscriptions sample_client sample_event = Inr (Some (client_check sample_client ''t''))"
    using sample_client_token sample_client_sub sample_client_wants(1,2) by (rule client_filter_asks)
  have "sv_cache ?s = []" by (simp add: offered_broker_def init_broker_def init_server_def)
  moreover have "fst (check_start (client_check sample_client ''t'') ''http://k'' (sv_now ?s) (sv_cache ?s)) \<in> {Granted, AwaitReview ?c}"
    using sample_client_sub sample_client_wants(3) by (intro client_check_starts) simp_all
  ultimately have a: "fst (check_start (client_check sample_client ''t'') ''http://k'' (sv_now ?s) (sv_cache ?s)) = AwaitReview ?c"
    by (auto simp: check_start_def Let_def cached_and_fresh_def split: sum.splits)
  have d: "br_delivered offered_broker = []" "br_pending offered_broker = []"
    by (simp_all add: offered_broker_def init_broker_def)
  from a f d have b1: "br_pending ?b1 = [(sample_client, sample_event, ?c)]" "br_delivered ?b1 = []"
    "sv_now (br_server ?b1) = 5"
    by (simp_all add: offer_def Let_def start_check_histories offered_broker_fields)
  then show "br_delivered served_broker = [(sample_client, sample_event, 5)]"
    by (simp add: served_broker_def answered_def Let_def check_finish_True sample_review)
  show "published (br_watch served_broker) = [(sub_type (hd subscriptions), sample_event)]"
    by (simp add: served_broker_def offered_broker_fields)
  have u: "q_kubeApiUrl sample_qlkube = ''http://k''" by (simp add: sample_qlkube_def)
  have "(sub_type (cl_sub sample_client), sample_event) \<in> set (published (br_watch offered_broker))"
    by (simp add: offered_broker_fields sample_client_def)
  then have "broker_step revoking ''http://k'' subscriptions offered_broker ?b1"
    by (intro broker_step.offers) (simp_all add: offered_broker_fields)
  moreover have "broker_step revoking ''http://k'' subscriptions ?b1 served_broker"
    unfolding served_broker_def by (rule broker_step.answers) (simp add: b1)
  ultimately show "broker_run revoking subscriptions sample_qlkube 5 served_broker"
    using offered_broker_run broker_run.steps u by metis
qed

theorem deliveries_are_authorised_witness:
  "\<exists>token t. getBearerToken (cl_params sample_client) = Inr token \<and> t \<le> 5 \<and> 5 - t \<le> TEN_MINUTES \<and>
     canWatchResource (revoking t) ''http://k'' (JStr token) (JStr ''instances'')
       (JStr ''crownlabs.polito.it'') (JStr ''ns'') (JStr []) = Inr True"
proof -
  have v: "js_prop (cl_variables sample_client) ''namespace'' = JStr ''ns''"
    "js_prop (cl_variables sample_client) ''name'' = JUndefined" "sub_resource (cl_sub sample_client) = ''instances''"
    "q_kubeApiUrl sample_qlkube = ''http://k''"
    by (simp_all add: sample_client_def subscriptions_def sample_qlkube_def)
  show ?thesis
    using deliveries_are_authorised [OF served_broker_run, of sample_client sample_event 5]
    by (simp add: served_broker_delivered served_broker_published sample_client_wants(2) v)
qed

text \<open>C2: the filter keeps nothing back. Take a connected client whose token is readable and that
  asked for a namespace (a truthy one: the check throws without), an event published for its subscription
  that the client wants and whose object has metadata as Kubernetes objects do, and a configured API
  server address. If the API server answers the access review with yes now, then one step of the server
  (the filter, where the cache grants the check) or two (the filter and the answer to the review) deliver
  exactly this event to the client, on top of what was delivered before, and no time passes.\<close>

theorem permitted_event_arrives:
  assumes "cl \<in> set (br_clients b)" and "cl_sub cl \<in> set subscriptions" and "url \<noteq> []"
    and "(sub_type (cl_sub cl), e) \<in> set (published (br_watch b))"
    and "wants cl e" and "k8s_object (ev_apiObj e)" and "js_truthy (js_prop (cl_variables cl) ''namespace'')"
    and "getBearerToken (cl_params cl) = Inr token"
    and "review api url (sv_now (br_server b)) (with_defaults (client_check cl token)) = Inr True"
  shows "\<exists>n b'. n \<in> {1, 2} \<and> (broker_step api url subscriptions ^^ n) b b' \<and>
    sv_now (br_server b') = sv_now (br_server b) \<and>
    br_delivered b' = (cl, e, sv_now (br_server b)) # br_delivered b"
proof -
  let ?c = "client_check cl token" and ?s = "br_server b" and ?b1 = "offer subscriptions url cl e b"
  have f: "client_filter subscriptions cl e = Inr (Some ?c)" using assms by (simp add: client_filter_asks)
  have s1: "broker_step api url subscriptions b ?b1" using assms(1,4) by (rule broker_step.offers)
  have n1: "sv_now (br_server ?b1) = sv_now ?s" using f by (simp add: offer_server start_check_histories)
  from getBearerToken_token [OF assms(8)] have "token \<noteq> []" by simp
  from client_check_starts [OF assms(2) this assms(3,7), of "sv_now ?s" "sv_cache ?s"]
  consider "fst (check_start ?c url (sv_now ?s) (sv_cache ?s)) = Granted"
    | "fst (check_start ?c url (sv_now ?s) (sv_cache ?s)) = AwaitReview (with_defaults ?c)" by blast
  then show ?thesis
  proof cases
    case 1
    with f have "br_delivered ?b1 = (cl, e, sv_now ?s) # br_delivered b" by (simp add: offer_def Let_def)
    moreover have "(broker_step api url subscriptions ^^ 1) b ?b1" using s1 by (simp add: eq_OO)
    ultimately show ?thesis using n1 by blast
  next
    case 2
    let ?b2 = "answered api url cl e (with_defaults ?c) ?b1"
    from 2 f have p: "(cl, e, with_defaults ?c) \<in> set (br_pending ?b1)" and d: "br_delivered ?b1 = br_delivered b"
      by (simp_all add: offer_def Let_def)
    from n1 assms(9) d have "br_delivered ?b2 = (cl, e, sv_now ?s) # br_delivered b"
      by (simp add: answered_def Let_def check_finish_True)
    moreover from n1 have "sv_now (br_server ?b2) = sv_now ?s"
      by (simp add: answered_def Let_def finish_check_histories)
    moreover from s1 broker_step.answers [OF p] have "(broker_step api url subscriptions ^^ 2) b ?b2"
      by (auto simp: numeral_2_eq_2)
    ultimately show ?thesis by blast
  qed
qed

theorem permitted_event_arrives_witness:
  "\<exists>n b'. n \<in> {1, 2} \<and> (broker_step revoking ''http://k'' subscriptions ^^ n) offered_broker b' \<and>
     sv_now (br_server b') = 5 \<and> br_delivered b' = (sample_client, sample_event, 5) # br_delivered offered_broker"
proof -
  have "sub_type (cl_sub sample_client) = sub_type (hd subscriptions)" by (simp add: sample_client_def)
  then show ?thesis
    using permitted_event_arrives [OF _ sample_client_sub _ _ sample_client_wants sample_client_token,
      of offered_broker "''http://k''" revoking]
    by (simp add: offered_broker_fields sample_review)
qed

end
