(* ===== verification/Gql_Schema.thy ===== *)
theory Gql_Schema
  imports Js_Objects
begin

section \<open>frontend: the generated schema types\<close>

text \<open>
  The output side of \<open>frontend/src/generated-types.tsx\<close>: every type that a query, a subscription or a
  mutation can return, and the argument types of the operations the application uses. A TypeScript declaration is a
  value: an object type with its \<open>__typename\<close> and its fields (name, whether it is optional, type), or an
  enum with its members. \<open>ts_name\<close> has one constructor per declared name, so a reference to a type that
  is not declared does not even parse here, as it does not compile there. The types of
  inputs and the arguments of all operations are in \<open>Gql_Inputs\<close> and \<open>Gql_Operations\<close>.
\<close>

subsection \<open>Names, types, declarations\<close>

datatype (plugins only: size) ts_name =
    EnvironmentListListItem
  | EnvironmentRef
  | EnvironmentType
  | ImagesListItem
  | InstanceRef
  | IoK8sApimachineryPkgApisMetaV1ListMeta
  | IoK8sApimachineryPkgApisMetaV1ManagedFieldsEntry
  | IoK8sApimachineryPkgApisMetaV1ObjectMetaV2
  | IoK8sApimachineryPkgApisMetaV1OwnerReferenceV2
  | ItPolitoCrownlabsV1alpha1ImageList
  | ItPolitoCrownlabsV1alpha1ImageListList
  | ItPolitoCrownlabsV1alpha1ImageListUpdate
  | ItPolitoCrownlabsV1alpha1Tenant
  | ItPolitoCrownlabsV1alpha1TenantList
  | ItPolitoCrownlabsV1alpha1TenantUpdate
  | ItPolitoCrownlabsV1alpha1Workspace
  | ItPolitoCrownlabsV1alpha1WorkspaceList
  | ItPolitoCrownlabsV1alpha1WorkspaceUpdate
  | ItPolitoCrownlabsV1alpha2Instance
  | ItPolitoCrownlabsV1alpha2InstanceList
  | ItPolitoCrownlabsV1alpha2InstanceSnapshot
  | ItPolitoCrownlabsV1alpha2InstanceSnapshotList
  | ItPolitoCrownlabsV1alpha2InstanceSnapshotUpdate
  | ItPolitoCrownlabsV1alpha2InstanceUpdate
  | ItPolitoCrownlabsV1alpha2Template
  | ItPolitoCrownlabsV1alpha2TemplateList
  | ItPolitoCrownlabsV1alpha2TemplateUpdate
  | Namespace
  | PersonalNamespace
  | Query
  | QueryItPolitoCrownlabsV1alpha1TenantArgs
  | QueryItPolitoCrownlabsV1alpha2TemplateListArgs
  | QueryListCrownlabsPolitoItV1alpha2NamespacedInstanceArgs
  | Resources
  | Role
  | SandboxNamespace
  | Spec
  | Spec2
  | Spec3
  | Spec4
  | Spec5
  | Spec6
  | Status
  | Status2
  | Status3
  | Status4
  | Subscription
  | SubscriptionItPolitoCrownlabsV1alpha2InstanceUpdateArgs
  | SubscriptionItPolitoCrownlabsV1alpha2InstanceSnapshotUpdateArgs
  | SubscriptionItPolitoCrownlabsV1alpha2TemplateUpdateArgs
  | SubscriptionItPolitoCrownlabsV1alpha1TenantUpdateArgs
  | SubscriptionItPolitoCrownlabsV1alpha1WorkspaceUpdateArgs
  | SubscriptionItPolitoCrownlabsV1alpha1ImageListUpdateArgs
  | TemplateCrownlabsPolitoItTemplateRef
  | TemplateWrapper
  | TenantCrownlabsPolitoItTenantRef
  | TenantWrapper
  | UpdateType
  | WorkspaceCrownlabsPolitoItWorkspaceRef
  | WorkspaceRef
  | WorkspaceWrapper
  | WorkspacesListItem
  | IoK8sApimachineryPkgApisMetaV1StatusCause
  | IoK8sApimachineryPkgApisMetaV1StatusDetailsV2
  | IoK8sApimachineryPkgApisMetaV1StatusV2
  | Mutation

datatype ts_type =
    TScalar string
  | TRef ts_name
  | TMaybe ts_type
  | TArray ts_type

datatype ts_decl =
    TsObject "string option" "(string \<times> bool \<times> ts_type) list"
  | TsEnum "(string \<times> string) list"

subsection \<open>The declarations\<close>

definition ts_EnvironmentListListItem :: ts_decl where
  "ts_EnvironmentListListItem = TsObject (Some ''EnvironmentListListItem'')
     [(''environmentType'', True, TMaybe (TRef EnvironmentType)),
      (''guiEnabled'', True, TMaybe (TScalar ''Boolean'')),
      (''image'', True, TMaybe (TScalar ''String'')),
      (''name'', True, TMaybe (TScalar ''String'')),
      (''persistent'', True, TMaybe (TScalar ''Boolean'')),
      (''resources'', True, TMaybe (TRef Resources))]"

definition ts_EnvironmentRef :: ts_decl where
  "ts_EnvironmentRef = TsObject (Some ''EnvironmentRef'')
     [(''name'', True, TMaybe (TScalar ''String'')),
      (''namespace'', True, TMaybe (TScalar ''String''))]"

definition ts_EnvironmentType :: ts_decl where
  "ts_EnvironmentType = TsEnum [(''VirtualMachine'', ''VirtualMachine''), (''Container'', ''Container'')]"

definition ts_ImagesListItem :: ts_decl where
  "ts_ImagesListItem = TsObject (Some ''ImagesListItem'')
     [(''name'', True, TMaybe (TScalar ''String'')),
      (''versions'', True, TMaybe (TArray (TMaybe (TScalar ''String''))))]"

definition ts_InstanceRef :: ts_decl where
  "ts_InstanceRef = TsObject (Some ''InstanceRef'')
     [(''name'', True, TMaybe (TScalar ''String'')),
      (''namespace'', True, TMaybe (TScalar ''String''))]"

definition ts_IoK8sApimachineryPkgApisMetaV1ListMeta :: ts_decl where
  "ts_IoK8sApimachineryPkgApisMetaV1ListMeta = TsObject (Some ''IoK8sApimachineryPkgApisMetaV1ListMeta'')
     [(''continue'', True, TMaybe (TScalar ''String'')),
      (''remainingItemCount'', True, TMaybe (TScalar ''Float'')),
      (''resourceVersion'', True, TMaybe (TScalar ''String'')),
      (''selfLink'', True, TMaybe (TScalar ''String''))]"

definition ts_IoK8sApimachineryPkgApisMetaV1ManagedFieldsEntry :: ts_decl where
  "ts_IoK8sApimachineryPkgApisMetaV1ManagedFieldsEntry = TsObject (Some ''IoK8sApimachineryPkgApisMetaV1ManagedFieldsEntry'')
     [(''apiVersion'', True, TMaybe (TScalar ''String'')),
      (''fieldsType'', True, TMaybe (TScalar ''String'')),
      (''fieldsV1'', True, TMaybe (TScalar ''String'')),
      (''manager'', True, TMaybe (TScalar ''String'')),
      (''operation'', True, TMaybe (TScalar ''String'')),
      (''time'', True, TMaybe (TScalar ''String''))]"

definition ts_IoK8sApimachineryPkgApisMetaV1ObjectMetaV2 :: ts_decl where
  "ts_IoK8sApimachineryPkgApisMetaV1ObjectMetaV2 = TsObject (Some ''IoK8sApimachineryPkgApisMetaV1ObjectMetaV2'')
     [(''annotations'', True, TMaybe (TScalar ''JSON'')),
      (''clusterName'', True, TMaybe (TScalar ''String'')),
      (''creationTimestamp'', True, TMaybe (TScalar ''String'')),
      (''deletionGracePeriodSeconds'', True, TMaybe (TScalar ''Float'')),
      (''deletionTimestamp'', True, TMaybe (TScalar ''String'')),
      (''finalizers'', True, TMaybe (TArray (TMaybe (TScalar ''String'')))),
      (''generateName'', True, TMaybe (TScalar ''String'')),
      (''generation'', True, TMaybe (TScalar ''Float'')),
      (''labels'', True, TMaybe (TScalar ''JSON'')),
      (''managedFields'', True, TMaybe (TArray (TMaybe (TRef IoK8sApimachineryPkgApisMetaV1ManagedFieldsEntry)))),
      (''name'', True, TMaybe (TScalar ''String'')),
      (''namespace'', True, TMaybe (TScalar ''String'')),
      (''ownerReferences'', True, TMaybe (TArray (TMaybe (TRef IoK8sApimachineryPkgApisMetaV1OwnerReferenceV2)))),
      (''resourceVersion'', True, TMaybe (TScalar ''String'')),
      (''selfLink'', True, TMaybe (TScalar ''String'')),
      (''uid'', True, TMaybe (TScalar ''String''))]"

definition ts_IoK8sApimachineryPkgApisMetaV1OwnerReferenceV2 :: ts_decl where
  "ts_IoK8sApimachineryPkgApisMetaV1OwnerReferenceV2 = TsObject (Some ''IoK8sApimachineryPkgApisMetaV1OwnerReferenceV2'')
     [(''apiVersion'', True, TMaybe (TScalar ''String'')),
      (''blockOwnerDeletion'', True, TMaybe (TScalar ''Boolean'')),
      (''controller'', True, TMaybe (TScalar ''Boolean'')),
      (''kind'', True, TMaybe (TScalar ''String'')),
      (''name'', True, TMaybe (TScalar ''String'')),
      (''uid'', True, TMaybe (TScalar ''String''))]"

definition ts_ItPolitoCrownlabsV1alpha1ImageList :: ts_decl where
  "ts_ItPolitoCrownlabsV1alpha1ImageList = TsObject (Some ''ItPolitoCrownlabsV1alpha1ImageList'')
     [(''apiVersion'', True, TMaybe (TScalar ''String'')),
      (''kind'', True, TMaybe (TScalar ''String'')),
      (''metadata'', True, TMaybe (TRef IoK8sApimachineryPkgApisMetaV1ObjectMetaV2)),
      (''spec'', True, TMaybe (TRef Spec)),
      (''status'', True, TMaybe (TScalar ''String''))]"

definition ts_ItPolitoCrownlabsV1alpha1ImageListList :: ts_decl where
  "ts_ItPolitoCrownlabsV1alpha1ImageListList = TsObject (Some ''ItPolitoCrownlabsV1alpha1ImageListList'')
     [(''apiVersion'', True, TMaybe (TScalar ''String'')),
      (''items'', True, TMaybe (TArray (TMaybe (TRef ItPolitoCrownlabsV1alpha1ImageList)))),
      (''kind'', True, TMaybe (TScalar ''String'')),
      (''metadata'', True, TMaybe (TRef IoK8sApimachineryPkgApisMetaV1ListMeta))]"

definition ts_ItPolitoCrownlabsV1alpha1ImageListUpdate :: ts_decl where
  "ts_ItPolitoCrownlabsV1alpha1ImageListUpdate = TsObject (Some ''ItPolitoCrownlabsV1alpha1ImageListUpdate'')
     [(''updateType'', True, TMaybe (TRef UpdateType)),
      (''payload'', True, TMaybe (TRef ItPolitoCrownlabsV1alpha1ImageList))]"

definition ts_ItPolitoCrownlabsV1alpha1Tenant :: ts_decl where
  "ts_ItPolitoCrownlabsV1alpha1Tenant = TsObject (Some ''ItPolitoCrownlabsV1alpha1Tenant'')
     [(''apiVersion'', True, TMaybe (TScalar ''String'')),
      (''kind'', True, TMaybe (TScalar ''String'')),
      (''metadata'', True, TMaybe (TRef IoK8sApimachineryPkgApisMetaV1ObjectMetaV2)),
      (''spec'', True, TMaybe (TRef Spec2)),
      (''status'', True, TMaybe (TRef Status))]"

definition ts_ItPolitoCrownlabsV1alpha1TenantList :: ts_decl where
  "ts_ItPolitoCrownlabsV1alpha1TenantList = TsObject (Some ''ItPolitoCrownlabsV1alpha1TenantList'')
     [(''apiVersion'', True, TMaybe (TScalar ''String'')),
      (''items'', True, TMaybe (TArray (TMaybe (TRef ItPolitoCrownlabsV1alpha1Tenant)))),
      (''kind'', True, TMaybe (TScalar ''String'')),
      (''metadata'', True, TMaybe (TRef IoK8sApimachineryPkgApisMetaV1ListMeta))]"

definition ts_ItPolitoCrownlabsV1alpha1TenantUpdate :: ts_decl where
  "ts_ItPolitoCrownlabsV1alpha1TenantUpdate = TsObject (Some ''ItPolitoCrownlabsV1alpha1TenantUpdate'')
     [(''updateType'', True, TMaybe (TRef UpdateType)),
      (''payload'', True, TMaybe (TRef ItPolitoCrownlabsV1alpha1Tenant))]"

definition ts_ItPolitoCrownlabsV1alpha1Workspace :: ts_decl where
  "ts_ItPolitoCrownlabsV1alpha1Workspace = TsObject (Some ''ItPolitoCrownlabsV1alpha1Workspace'')
     [(''apiVersion'', True, TMaybe (TScalar ''String'')),
      (''kind'', True, TMaybe (TScalar ''String'')),
      (''metadata'', True, TMaybe (TRef IoK8sApimachineryPkgApisMetaV1ObjectMetaV2)),
      (''spec'', True, TMaybe (TRef Spec3)),
      (''status'', True, TMaybe (TRef Status2))]"

definition ts_ItPolitoCrownlabsV1alpha1WorkspaceList :: ts_decl where
  "ts_ItPolitoCrownlabsV1alpha1WorkspaceList = TsObject (Some ''ItPolitoCrownlabsV1alpha1WorkspaceList'')
     [(''apiVersion'', True, TMaybe (TScalar ''String'')),
      (''items'', True, TMaybe (TArray (TMaybe (TRef ItPolitoCrownlabsV1alpha1Workspace)))),
      (''kind'', True, TMaybe (TScalar ''String'')),
      (''metadata'', True, TMaybe (TRef IoK8sApimachineryPkgApisMetaV1ListMeta))]"

definition ts_ItPolitoCrownlabsV1alpha1WorkspaceUpdate :: ts_decl where
  "ts_ItPolitoCrownlabsV1alpha1WorkspaceUpdate = TsObject (Some ''ItPolitoCrownlabsV1alpha1WorkspaceUpdate'')
     [(''updateType'', True, TMaybe (TRef UpdateType)),
      (''payload'', True, TMaybe (TRef ItPolitoCrownlabsV1alpha1Workspace))]"

definition ts_ItPolitoCrownlabsV1alpha2Instance :: ts_decl where
  "ts_ItPolitoCrownlabsV1alpha2Instance = TsObject (Some ''ItPolitoCrownlabsV1alpha2Instance'')
     [(''apiVersion'', True, TMaybe (TScalar ''String'')),
      (''kind'', True, TMaybe (TScalar ''String'')),
      (''metadata'', True, TMaybe (TRef IoK8sApimachineryPkgApisMetaV1ObjectMetaV2)),
      (''spec'', True, TMaybe (TRef Spec4)),
      (''status'', True, TMaybe (TRef Status3))]"

definition ts_ItPolitoCrownlabsV1alpha2InstanceList :: ts_decl where
  "ts_ItPolitoCrownlabsV1alpha2InstanceList = TsObject (Some ''ItPolitoCrownlabsV1alpha2InstanceList'')
     [(''apiVersion'', True, TMaybe (TScalar ''String'')),
      (''items'', True, TMaybe (TArray (TMaybe (TRef ItPolitoCrownlabsV1alpha2Instance)))),
      (''kind'', True, TMaybe (TScalar ''String'')),
      (''metadata'', True, TMaybe (TRef IoK8sApimachineryPkgApisMetaV1ListMeta))]"

definition ts_ItPolitoCrownlabsV1alpha2InstanceSnapshot :: ts_decl where
  "ts_ItPolitoCrownlabsV1alpha2InstanceSnapshot = TsObject (Some ''ItPolitoCrownlabsV1alpha2InstanceSnapshot'')
     [(''apiVersion'', True, TMaybe (TScalar ''String'')),
      (''kind'', True, TMaybe (TScalar ''String'')),
      (''metadata'', True, TMaybe (TRef IoK8sApimachineryPkgApisMetaV1ObjectMetaV2)),
      (''spec'', True, TMaybe (TRef Spec5)),
      (''status'', True, TMaybe (TRef Status4))]"

definition ts_ItPolitoCrownlabsV1alpha2InstanceSnapshotList :: ts_decl where
  "ts_ItPolitoCrownlabsV1alpha2InstanceSnapshotList = TsObject (Some ''ItPolitoCrownlabsV1alpha2InstanceSnapshotList'')
     [(''apiVersion'', True, TMaybe (TScalar ''String'')),
      (''items'', True, TMaybe (TArray (TMaybe (TRef ItPolitoCrownlabsV1alpha2InstanceSnapshot)))),
      (''kind'', True, TMaybe (TScalar ''String'')),
      (''metadata'', True, TMaybe (TRef IoK8sApimachineryPkgApisMetaV1ListMeta))]"

definition ts_ItPolitoCrownlabsV1alpha2InstanceSnapshotUpdate :: ts_decl where
  "ts_ItPolitoCrownlabsV1alpha2InstanceSnapshotUpdate = TsObject (Some ''ItPolitoCrownlabsV1alpha2InstanceSnapshotUpdate'')
     [(''updateType'', True, TMaybe (TRef UpdateType)),
      (''payload'', True, TMaybe (TRef ItPolitoCrownlabsV1alpha2InstanceSnapshot))]"

definition ts_ItPolitoCrownlabsV1alpha2InstanceUpdate :: ts_decl where
  "ts_ItPolitoCrownlabsV1alpha2InstanceUpdate = TsObject (Some ''ItPolitoCrownlabsV1alpha2InstanceUpdate'')
     [(''updateType'', True, TMaybe (TRef UpdateType)),
      (''payload'', True, TMaybe (TRef ItPolitoCrownlabsV1alpha2Instance))]"

definition ts_ItPolitoCrownlabsV1alpha2Template :: ts_decl where
  "ts_ItPolitoCrownlabsV1alpha2Template = TsObject (Some ''ItPolitoCrownlabsV1alpha2Template'')
     [(''apiVersion'', True, TMaybe (TScalar ''String'')),
      (''kind'', True, TMaybe (TScalar ''String'')),
      (''metadata'', True, TMaybe (TRef IoK8sApimachineryPkgApisMetaV1ObjectMetaV2)),
      (''spec'', True, TMaybe (TRef Spec6)),
      (''status'', True, TMaybe (TScalar ''String''))]"

definition ts_ItPolitoCrownlabsV1alpha2TemplateList :: ts_decl where
  "ts_ItPolitoCrownlabsV1alpha2TemplateList = TsObject (Some ''ItPolitoCrownlabsV1alpha2TemplateList'')
     [(''apiVersion'', True, TMaybe (TScalar ''String'')),
      (''items'', True, TMaybe (TArray (TMaybe (TRef ItPolitoCrownlabsV1alpha2Template)))),
      (''kind'', True, TMaybe (TScalar ''String'')),
      (''metadata'', True, TMaybe (TRef IoK8sApimachineryPkgApisMetaV1ListMeta))]"

definition ts_ItPolitoCrownlabsV1alpha2TemplateUpdate :: ts_decl where
  "ts_ItPolitoCrownlabsV1alpha2TemplateUpdate = TsObject (Some ''ItPolitoCrownlabsV1alpha2TemplateUpdate'')
     [(''updateType'', True, TMaybe (TRef UpdateType)),
      (''payload'', True, TMaybe (TRef ItPolitoCrownlabsV1alpha2Template))]"

definition ts_Namespace :: ts_decl where
  "ts_Namespace = TsObject (Some ''Namespace'')
     [(''created'', True, TMaybe (TScalar ''Boolean'')),
      (''name'', True, TMaybe (TScalar ''String''))]"

definition ts_PersonalNamespace :: ts_decl where
  "ts_PersonalNamespace = TsObject (Some ''PersonalNamespace'')
     [(''created'', True, TMaybe (TScalar ''Boolean'')),
      (''name'', True, TMaybe (TScalar ''String''))]"

definition ts_Query :: ts_decl where
  "ts_Query = TsObject (Some ''Query'')
     [(''itPolitoCrownlabsV1alpha1ImageList'', True, TMaybe (TRef ItPolitoCrownlabsV1alpha1ImageList)),
      (''itPolitoCrownlabsV1alpha1ImageListList'', True, TMaybe (TRef ItPolitoCrownlabsV1alpha1ImageListList)),
      (''itPolitoCrownlabsV1alpha1Tenant'', True, TMaybe (TRef ItPolitoCrownlabsV1alpha1Tenant)),
      (''itPolitoCrownlabsV1alpha1TenantList'', True, TMaybe (TRef ItPolitoCrownlabsV1alpha1TenantList)),
      (''itPolitoCrownlabsV1alpha1Workspace'', True, TMaybe (TRef ItPolitoCrownlabsV1alpha1Workspace)),
      (''itPolitoCrownlabsV1alpha1WorkspaceList'', True, TMaybe (TRef ItPolitoCrownlabsV1alpha1WorkspaceList)),
      (''itPolitoCrownlabsV1alpha2Instance'', True, TMaybe (TRef ItPolitoCrownlabsV1alpha2Instance)),
      (''itPolitoCrownlabsV1alpha2InstanceList'', True, TMaybe (TRef ItPolitoCrownlabsV1alpha2InstanceList)),
      (''itPolitoCrownlabsV1alpha2InstanceSnapshot'', True, TMaybe (TRef ItPolitoCrownlabsV1alpha2InstanceSnapshot)),
      (''itPolitoCrownlabsV1alpha2InstanceSnapshotList'', True, TMaybe (TRef ItPolitoCrownlabsV1alpha2InstanceSnapshotList)),
      (''itPolitoCrownlabsV1alpha2Template'', True, TMaybe (TRef ItPolitoCrownlabsV1alpha2Template)),
      (''itPolitoCrownlabsV1alpha2TemplateList'', True, TMaybe (TRef ItPolitoCrownlabsV1alpha2TemplateList)),
      (''listCrownlabsPolitoItV1alpha2NamespacedInstance'', True, TMaybe (TRef ItPolitoCrownlabsV1alpha2InstanceList)),
      (''listCrownlabsPolitoItV1alpha2NamespacedInstanceSnapshot'', True, TMaybe (TRef ItPolitoCrownlabsV1alpha2InstanceSnapshotList)),
      (''listCrownlabsPolitoItV1alpha2TemplateForAllNamespaces'', True, TMaybe (TRef ItPolitoCrownlabsV1alpha2TemplateList)),
      (''readCrownlabsPolitoItV1alpha1ImageListStatus'', True, TMaybe (TRef ItPolitoCrownlabsV1alpha1ImageList)),
      (''readCrownlabsPolitoItV1alpha1TenantStatus'', True, TMaybe (TRef ItPolitoCrownlabsV1alpha1Tenant)),
      (''readCrownlabsPolitoItV1alpha1WorkspaceStatus'', True, TMaybe (TRef ItPolitoCrownlabsV1alpha1Workspace)),
      (''readCrownlabsPolitoItV1alpha2NamespacedInstanceSnapshotStatus'', True, TMaybe (TRef ItPolitoCrownlabsV1alpha2InstanceSnapshot)),
      (''readCrownlabsPolitoItV1alpha2NamespacedInstanceStatus'', True, TMaybe (TRef ItPolitoCrownlabsV1alpha2Instance)),
      (''readCrownlabsPolitoItV1alpha2NamespacedTemplateStatus'', True, TMaybe (TRef ItPolitoCrownlabsV1alpha2Template))]"

definition ts_QueryItPolitoCrownlabsV1alpha1TenantArgs :: ts_decl where
  "ts_QueryItPolitoCrownlabsV1alpha1TenantArgs = TsObject (None)
     [(''name'', False, TScalar ''String''),
      (''pretty'', True, TMaybe (TScalar ''String'')),
      (''resourceVersion'', True, TMaybe (TScalar ''String''))]"

definition ts_QueryItPolitoCrownlabsV1alpha2TemplateListArgs :: ts_decl where
  "ts_QueryItPolitoCrownlabsV1alpha2TemplateListArgs = TsObject (None)
     [(''namespace'', False, TScalar ''String''),
      (''pretty'', True, TMaybe (TScalar ''String'')),
      (''allowWatchBookmarks'', True, TMaybe (TScalar ''Boolean'')),
      (''continue'', True, TMaybe (TScalar ''String'')),
      (''fieldSelector'', True, TMaybe (TScalar ''String'')),
      (''labelSelector'', True, TMaybe (TScalar ''String'')),
      (''limit'', True, TMaybe (TScalar ''Int'')),
      (''resourceVersion'', True, TMaybe (TScalar ''String'')),
      (''resourceVersionMatch'', True, TMaybe (TScalar ''String'')),
      (''timeoutSeconds'', True, TMaybe (TScalar ''Int'')),
      (''watch'', True, TMaybe (TScalar ''Boolean''))]"

definition ts_QueryListCrownlabsPolitoItV1alpha2NamespacedInstanceArgs :: ts_decl where
  "ts_QueryListCrownlabsPolitoItV1alpha2NamespacedInstanceArgs = TsObject (None)
     [(''namespace'', False, TScalar ''String''),
      (''pretty'', True, TMaybe (TScalar ''String'')),
      (''allowWatchBookmarks'', True, TMaybe (TScalar ''Boolean'')),
      (''continue'', True, TMaybe (TScalar ''String'')),
      (''fieldSelector'', True, TMaybe (TScalar ''String'')),
      (''labelSelector'', True, TMaybe (TScalar ''String'')),
      (''limit'', True, TMaybe (TScalar ''Int'')),
      (''resourceVersion'', True, TMaybe (TScalar ''String'')),
      (''resourceVersionMatch'', True, TMaybe (TScalar ''String'')),
      (''timeoutSeconds'', True, TMaybe (TScalar ''Int'')),
      (''watch'', True, TMaybe (TScalar ''Boolean''))]"

definition ts_Resources :: ts_decl where
  "ts_Resources = TsObject (Some ''Resources'')
     [(''cpu'', True, TMaybe (TScalar ''Int'')),
      (''disk'', True, TMaybe (TScalar ''String'')),
      (''memory'', True, TMaybe (TScalar ''String'')),
      (''reservedCPUPercentage'', True, TMaybe (TScalar ''Int''))]"

definition ts_Role :: ts_decl where
  "ts_Role = TsEnum [(''Manager'', ''manager''), (''User'', ''user'')]"

definition ts_SandboxNamespace :: ts_decl where
  "ts_SandboxNamespace = TsObject (Some ''SandboxNamespace'')
     [(''created'', True, TMaybe (TScalar ''Boolean'')),
      (''name'', True, TMaybe (TScalar ''String''))]"

definition ts_Spec :: ts_decl where
  "ts_Spec = TsObject (Some ''Spec'')
     [(''images'', True, TMaybe (TArray (TMaybe (TRef ImagesListItem)))),
      (''registryName'', True, TMaybe (TScalar ''String''))]"

definition ts_Spec2 :: ts_decl where
  "ts_Spec2 = TsObject (Some ''Spec2'')
     [(''createSandbox'', True, TMaybe (TScalar ''Boolean'')),
      (''email'', True, TMaybe (TScalar ''String'')),
      (''firstName'', True, TMaybe (TScalar ''String'')),
      (''lastName'', True, TMaybe (TScalar ''String'')),
      (''publicKeys'', True, TMaybe (TArray (TMaybe (TScalar ''String'')))),
      (''workspaces'', True, TMaybe (TArray (TMaybe (TRef WorkspacesListItem))))]"

definition ts_Spec3 :: ts_decl where
  "ts_Spec3 = TsObject (Some ''Spec3'')
     [(''prettyName'', True, TMaybe (TScalar ''String''))]"

definition ts_Spec4 :: ts_decl where
  "ts_Spec4 = TsObject (Some ''Spec4'')
     [(''running'', True, TMaybe (TScalar ''Boolean'')),
      (''templateCrownlabsPolitoItTemplateRef'', True, TMaybe (TRef TemplateCrownlabsPolitoItTemplateRef)),
      (''tenantCrownlabsPolitoItTenantRef'', True, TMaybe (TRef TenantCrownlabsPolitoItTenantRef))]"

definition ts_Spec5 :: ts_decl where
  "ts_Spec5 = TsObject (Some ''Spec5'')
     [(''environmentRef'', True, TMaybe (TRef EnvironmentRef)),
      (''imageName'', True, TMaybe (TScalar ''String'')),
      (''instanceRef'', True, TMaybe (TRef InstanceRef))]"

definition ts_Spec6 :: ts_decl where
  "ts_Spec6 = TsObject (Some ''Spec6'')
     [(''deleteAfter'', True, TMaybe (TScalar ''String'')),
      (''description'', True, TMaybe (TScalar ''String'')),
      (''environmentList'', True, TMaybe (TArray (TMaybe (TRef EnvironmentListListItem)))),
      (''prettyName'', True, TMaybe (TScalar ''String'')),
      (''workspaceCrownlabsPolitoItWorkspaceRef'', True, TMaybe (TRef WorkspaceCrownlabsPolitoItWorkspaceRef))]"

definition ts_Status :: ts_decl where
  "ts_Status = TsObject (Some ''Status'')
     [(''failingWorkspaces'', True, TMaybe (TArray (TMaybe (TScalar ''String'')))),
      (''personalNamespace'', True, TMaybe (TRef PersonalNamespace)),
      (''ready'', True, TMaybe (TScalar ''Boolean'')),
      (''sandboxNamespace'', True, TMaybe (TRef SandboxNamespace)),
      (''subscriptions'', True, TMaybe (TScalar ''JSON''))]"

definition ts_Status2 :: ts_decl where
  "ts_Status2 = TsObject (Some ''Status2'')
     [(''namespace'', True, TMaybe (TRef Namespace)),
      (''ready'', True, TMaybe (TScalar ''Boolean'')),
      (''subscription'', True, TMaybe (TScalar ''JSON''))]"

definition ts_Status3 :: ts_decl where
  "ts_Status3 = TsObject (Some ''Status3'')
     [(''ip'', True, TMaybe (TScalar ''String'')),
      (''phase'', True, TMaybe (TScalar ''String'')),
      (''url'', True, TMaybe (TScalar ''String''))]"

definition ts_Status4 :: ts_decl where
  "ts_Status4 = TsObject (Some ''Status4'')
     [(''phase'', True, TMaybe (TScalar ''String''))]"

definition ts_Subscription :: ts_decl where
  "ts_Subscription = TsObject (Some ''Subscription'')
     [(''itPolitoCrownlabsV1alpha2InstanceUpdate'', True, TMaybe (TRef ItPolitoCrownlabsV1alpha2InstanceUpdate)),
      (''itPolitoCrownlabsV1alpha2InstanceSnapshotUpdate'', True, TMaybe (TRef ItPolitoCrownlabsV1alpha2InstanceSnapshotUpdate)),
      (''itPolitoCrownlabsV1alpha2TemplateUpdate'', True, TMaybe (TRef ItPolitoCrownlabsV1alpha2TemplateUpdate)),
      (''itPolitoCrownlabsV1alpha1TenantUpdate'', True, TMaybe (TRef ItPolitoCrownlabsV1alpha1TenantUpdate)),
      (''itPolitoCrownlabsV1alpha1WorkspaceUpdate'', True, TMaybe (TRef ItPolitoCrownlabsV1alpha1WorkspaceUpdate)),
      (''itPolitoCrownlabsV1alpha1ImageListUpdate'', True, TMaybe (TRef ItPolitoCrownlabsV1alpha1ImageListUpdate))]"

definition ts_SubscriptionItPolitoCrownlabsV1alpha2InstanceUpdateArgs :: ts_decl where
  "ts_SubscriptionItPolitoCrownlabsV1alpha2InstanceUpdateArgs = TsObject (None)
     [(''name'', True, TMaybe (TScalar ''String'')),
      (''namespace'', False, TScalar ''String'')]"

definition ts_SubscriptionItPolitoCrownlabsV1alpha2InstanceSnapshotUpdateArgs :: ts_decl where
  "ts_SubscriptionItPolitoCrownlabsV1alpha2InstanceSnapshotUpdateArgs = TsObject (None)
     [(''name'', True, TMaybe (TScalar ''String'')),
      (''namespace'', False, TScalar ''String'')]"

definition ts_SubscriptionItPolitoCrownlabsV1alpha2TemplateUpdateArgs :: ts_decl where
  "ts_SubscriptionItPolitoCrownlabsV1alpha2TemplateUpdateArgs = TsObject (None)
     [(''name'', True, TMaybe (TScalar ''String'')),
      (''namespace'', False, TScalar ''String'')]"

definition ts_SubscriptionItPolitoCrownlabsV1alpha1TenantUpdateArgs :: ts_decl where
  "ts_SubscriptionItPolitoCrownlabsV1alpha1TenantUpdateArgs = TsObject (None)
     [(''name'', True, TMaybe (TScalar ''String'')),
      (''namespace'', False, TScalar ''String'')]"

definition ts_SubscriptionItPolitoCrownlabsV1alpha1WorkspaceUpdateArgs :: ts_decl where
  "ts_SubscriptionItPolitoCrownlabsV1alpha1WorkspaceUpdateArgs = TsObject (None)
     [(''name'', True, TMaybe (TScalar ''String'')),
      (''namespace'', False, TScalar ''String'')]"

definition ts_SubscriptionItPolitoCrownlabsV1alpha1ImageListUpdateArgs :: ts_decl where
  "ts_SubscriptionItPolitoCrownlabsV1alpha1ImageListUpdateArgs = TsObject (None)
     [(''name'', True, TMaybe (TScalar ''String'')),
      (''namespace'', False, TScalar ''String'')]"

definition ts_TemplateCrownlabsPolitoItTemplateRef :: ts_decl where
  "ts_TemplateCrownlabsPolitoItTemplateRef = TsObject (Some ''TemplateCrownlabsPolitoItTemplateRef'')
     [(''name'', True, TMaybe (TScalar ''String'')),
      (''namespace'', True, TMaybe (TScalar ''String'')),
      (''templateWrapper'', True, TMaybe (TRef TemplateWrapper))]"

definition ts_TemplateWrapper :: ts_decl where
  "ts_TemplateWrapper = TsObject (Some ''TemplateWrapper'')
     [(''itPolitoCrownlabsV1alpha2Template'', True, TMaybe (TRef ItPolitoCrownlabsV1alpha2Template))]"

definition ts_TenantCrownlabsPolitoItTenantRef :: ts_decl where
  "ts_TenantCrownlabsPolitoItTenantRef = TsObject (Some ''TenantCrownlabsPolitoItTenantRef'')
     [(''name'', True, TMaybe (TScalar ''String'')),
      (''namespace'', True, TMaybe (TScalar ''String'')),
      (''tenantWrapper'', True, TMaybe (TRef TenantWrapper))]"

definition ts_TenantWrapper :: ts_decl where
  "ts_TenantWrapper = TsObject (Some ''TenantWrapper'')
     [(''itPolitoCrownlabsV1alpha1Tenant'', True, TMaybe (TRef ItPolitoCrownlabsV1alpha1Tenant))]"

definition ts_UpdateType :: ts_decl where
  "ts_UpdateType = TsEnum [(''Added'', ''ADDED''), (''Modified'', ''MODIFIED''), (''Deleted'', ''DELETED'')]"

definition ts_WorkspaceCrownlabsPolitoItWorkspaceRef :: ts_decl where
  "ts_WorkspaceCrownlabsPolitoItWorkspaceRef = TsObject (Some ''WorkspaceCrownlabsPolitoItWorkspaceRef'')
     [(''name'', True, TMaybe (TScalar ''String'')),
      (''namespace'', True, TMaybe (TScalar ''String''))]"

definition ts_WorkspaceRef :: ts_decl where
  "ts_WorkspaceRef = TsObject (Some ''WorkspaceRef'')
     [(''name'', True, TMaybe (TScalar ''String'')),
      (''namespace'', True, TMaybe (TScalar ''String'')),
      (''workspaceWrapper'', True, TMaybe (TRef WorkspaceWrapper))]"

definition ts_WorkspaceWrapper :: ts_decl where
  "ts_WorkspaceWrapper = TsObject (Some ''WorkspaceWrapper'')
     [(''itPolitoCrownlabsV1alpha1Workspace'', True, TMaybe (TRef ItPolitoCrownlabsV1alpha1Workspace))]"

definition ts_WorkspacesListItem :: ts_decl where
  "ts_WorkspacesListItem = TsObject (Some ''WorkspacesListItem'')
     [(''groupNumber'', True, TMaybe (TScalar ''Int'')),
      (''role'', True, TMaybe (TRef Role)),
      (''workspaceRef'', True, TMaybe (TRef WorkspaceRef))]"

definition ts_IoK8sApimachineryPkgApisMetaV1StatusCause :: ts_decl where
  "ts_IoK8sApimachineryPkgApisMetaV1StatusCause = TsObject (Some ''IoK8sApimachineryPkgApisMetaV1StatusCause'')
     [(''field'', True, TMaybe (TScalar ''String'')),
      (''message'', True, TMaybe (TScalar ''String'')),
      (''reason'', True, TMaybe (TScalar ''String''))]"

definition ts_IoK8sApimachineryPkgApisMetaV1StatusDetailsV2 :: ts_decl where
  "ts_IoK8sApimachineryPkgApisMetaV1StatusDetailsV2 = TsObject (Some ''IoK8sApimachineryPkgApisMetaV1StatusDetailsV2'')
     [(''causes'', True, TMaybe (TArray (TMaybe (TRef IoK8sApimachineryPkgApisMetaV1StatusCause)))),
      (''group'', True, TMaybe (TScalar ''String'')),
      (''kind'', True, TMaybe (TScalar ''String'')),
      (''name'', True, TMaybe (TScalar ''String'')),
      (''retryAfterSeconds'', True, TMaybe (TScalar ''Int'')),
      (''uid'', True, TMaybe (TScalar ''String''))]"

definition ts_IoK8sApimachineryPkgApisMetaV1StatusV2 :: ts_decl where
  "ts_IoK8sApimachineryPkgApisMetaV1StatusV2 = TsObject (Some ''IoK8sApimachineryPkgApisMetaV1StatusV2'')
     [(''apiVersion'', True, TMaybe (TScalar ''String'')),
      (''code'', True, TMaybe (TScalar ''Int'')),
      (''details'', True, TMaybe (TRef IoK8sApimachineryPkgApisMetaV1StatusDetailsV2)),
      (''kind'', True, TMaybe (TScalar ''String'')),
      (''message'', True, TMaybe (TScalar ''String'')),
      (''metadata'', True, TMaybe (TRef IoK8sApimachineryPkgApisMetaV1ListMeta)),
      (''reason'', True, TMaybe (TScalar ''String'')),
      (''status'', True, TMaybe (TScalar ''String''))]"

definition ts_Mutation :: ts_decl where
  "ts_Mutation = TsObject (Some ''Mutation'')
     [(''createCrownlabsPolitoItV1alpha1ImageList'', True, TMaybe (TRef ItPolitoCrownlabsV1alpha1ImageList)),
      (''createCrownlabsPolitoItV1alpha1Tenant'', True, TMaybe (TRef ItPolitoCrownlabsV1alpha1Tenant)),
      (''createCrownlabsPolitoItV1alpha1Workspace'', True, TMaybe (TRef ItPolitoCrownlabsV1alpha1Workspace)),
      (''createCrownlabsPolitoItV1alpha2NamespacedInstance'', True, TMaybe (TRef ItPolitoCrownlabsV1alpha2Instance)),
      (''createCrownlabsPolitoItV1alpha2NamespacedInstanceSnapshot'', True, TMaybe (TRef ItPolitoCrownlabsV1alpha2InstanceSnapshot)),
      (''createCrownlabsPolitoItV1alpha2NamespacedTemplate'', True, TMaybe (TRef ItPolitoCrownlabsV1alpha2Template)),
      (''deleteCrownlabsPolitoItV1alpha1CollectionImageList'', True, TMaybe (TRef IoK8sApimachineryPkgApisMetaV1StatusV2)),
      (''deleteCrownlabsPolitoItV1alpha1CollectionTenant'', True, TMaybe (TRef IoK8sApimachineryPkgApisMetaV1StatusV2)),
      (''deleteCrownlabsPolitoItV1alpha1CollectionWorkspace'', True, TMaybe (TRef IoK8sApimachineryPkgApisMetaV1StatusV2)),
      (''deleteCrownlabsPolitoItV1alpha1ImageList'', True, TMaybe (TRef IoK8sApimachineryPkgApisMetaV1StatusV2)),
      (''deleteCrownlabsPolitoItV1alpha1Tenant'', True, TMaybe (TRef IoK8sApimachineryPkgApisMetaV1StatusV2)),
      (''deleteCrownlabsPolitoItV1alpha1Workspace'', True, TMaybe (TRef IoK8sApimachineryPkgApisMetaV1StatusV2)),
      (''deleteCrownlabsPolitoItV1alpha2CollectionNamespacedInstance'', True, TMaybe (TRef IoK8sApimachineryPkgApisMetaV1StatusV2)),
      (''deleteCrownlabsPolitoItV1alpha2CollectionNamespacedInstanceSnapshot'', True, TMaybe (TRef IoK8sApimachineryPkgApisMetaV1StatusV2)),
      (''deleteCrownlabsPolitoItV1alpha2CollectionNamespacedTemplate'', True, TMaybe (TRef IoK8sApimachineryPkgApisMetaV1StatusV2)),
      (''deleteCrownlabsPolitoItV1alpha2NamespacedInstance'', True, TMaybe (TRef IoK8sApimachineryPkgApisMetaV1StatusV2)),
      (''deleteCrownlabsPolitoItV1alpha2NamespacedInstanceSnapshot'', True, TMaybe (TRef IoK8sApimachineryPkgApisMetaV1StatusV2)),
      (''deleteCrownlabsPolitoItV1alpha2NamespacedTemplate'', True, TMaybe (TRef IoK8sApimachineryPkgApisMetaV1StatusV2)),
      (''patchCrownlabsPolitoItV1alpha1ImageList'', True, TMaybe (TRef ItPolitoCrownlabsV1alpha1ImageList)),
      (''patchCrownlabsPolitoItV1alpha1ImageListStatus'', True, TMaybe (TRef ItPolitoCrownlabsV1alpha1ImageList)),
      (''patchCrownlabsPolitoItV1alpha1Tenant'', True, TMaybe (TRef ItPolitoCrownlabsV1alpha1Tenant)),
      (''patchCrownlabsPolitoItV1alpha1TenantStatus'', True, TMaybe (TRef ItPolitoCrownlabsV1alpha1Tenant)),
      (''patchCrownlabsPolitoItV1alpha1Workspace'', True, TMaybe (TRef ItPolitoCrownlabsV1alpha1Workspace)),
      (''patchCrownlabsPolitoItV1alpha1WorkspaceStatus'', True, TMaybe (TRef ItPolitoCrownlabsV1alpha1Workspace)),
      (''patchCrownlabsPolitoItV1alpha2NamespacedInstance'', True, TMaybe (TRef ItPolitoCrownlabsV1alpha2Instance)),
      (''patchCrownlabsPolitoItV1alpha2NamespacedInstanceSnapshot'', True, TMaybe (TRef ItPolitoCrownlabsV1alpha2InstanceSnapshot)),
      (''patchCrownlabsPolitoItV1alpha2NamespacedInstanceSnapshotStatus'', True, TMaybe (TRef ItPolitoCrownlabsV1alpha2InstanceSnapshot)),
      (''patchCrownlabsPolitoItV1alpha2NamespacedInstanceStatus'', True, TMaybe (TRef ItPolitoCrownlabsV1alpha2Instance)),
      (''patchCrownlabsPolitoItV1alpha2NamespacedTemplate'', True, TMaybe (TRef ItPolitoCrownlabsV1alpha2Template)),
      (''patchCrownlabsPolitoItV1alpha2NamespacedTemplateStatus'', True, TMaybe (TRef ItPolitoCrownlabsV1alpha2Template)),
      (''replaceCrownlabsPolitoItV1alpha1ImageList'', True, TMaybe (TRef ItPolitoCrownlabsV1alpha1ImageList)),
      (''replaceCrownlabsPolitoItV1alpha1ImageListStatus'', True, TMaybe (TRef ItPolitoCrownlabsV1alpha1ImageList)),
      (''replaceCrownlabsPolitoItV1alpha1Tenant'', True, TMaybe (TRef ItPolitoCrownlabsV1alpha1Tenant)),
      (''replaceCrownlabsPolitoItV1alpha1TenantStatus'', True, TMaybe (TRef ItPolitoCrownlabsV1alpha1Tenant)),
      (''replaceCrownlabsPolitoItV1alpha1Workspace'', True, TMaybe (TRef ItPolitoCrownlabsV1alpha1Workspace)),
      (''replaceCrownlabsPolitoItV1alpha1WorkspaceStatus'', True, TMaybe (TRef ItPolitoCrownlabsV1alpha1Workspace)),
      (''replaceCrownlabsPolitoItV1alpha2NamespacedInstance'', True, TMaybe (TRef ItPolitoCrownlabsV1alpha2Instance)),
      (''replaceCrownlabsPolitoItV1alpha2NamespacedInstanceSnapshot'', True, TMaybe (TRef ItPolitoCrownlabsV1alpha2InstanceSnapshot)),
      (''replaceCrownlabsPolitoItV1alpha2NamespacedInstanceSnapshotStatus'', True, TMaybe (TRef ItPolitoCrownlabsV1alpha2InstanceSnapshot)),
      (''replaceCrownlabsPolitoItV1alpha2NamespacedInstanceStatus'', True, TMaybe (TRef ItPolitoCrownlabsV1alpha2Instance)),
      (''replaceCrownlabsPolitoItV1alpha2NamespacedTemplate'', True, TMaybe (TRef ItPolitoCrownlabsV1alpha2Template)),
      (''replaceCrownlabsPolitoItV1alpha2NamespacedTemplateStatus'', True, TMaybe (TRef ItPolitoCrownlabsV1alpha2Template))]"

primrec decl_of :: "ts_name \<Rightarrow> ts_decl" where
  "decl_of EnvironmentListListItem = ts_EnvironmentListListItem"
| "decl_of EnvironmentRef = ts_EnvironmentRef"
| "decl_of EnvironmentType = ts_EnvironmentType"
| "decl_of ImagesListItem = ts_ImagesListItem"
| "decl_of InstanceRef = ts_InstanceRef"
| "decl_of IoK8sApimachineryPkgApisMetaV1ListMeta = ts_IoK8sApimachineryPkgApisMetaV1ListMeta"
| "decl_of IoK8sApimachineryPkgApisMetaV1ManagedFieldsEntry = ts_IoK8sApimachineryPkgApisMetaV1ManagedFieldsEntry"
| "decl_of IoK8sApimachineryPkgApisMetaV1ObjectMetaV2 = ts_IoK8sApimachineryPkgApisMetaV1ObjectMetaV2"
| "decl_of IoK8sApimachineryPkgApisMetaV1OwnerReferenceV2 = ts_IoK8sApimachineryPkgApisMetaV1OwnerReferenceV2"
| "decl_of ItPolitoCrownlabsV1alpha1ImageList = ts_ItPolitoCrownlabsV1alpha1ImageList"
| "decl_of ItPolitoCrownlabsV1alpha1ImageListList = ts_ItPolitoCrownlabsV1alpha1ImageListList"
| "decl_of ItPolitoCrownlabsV1alpha1ImageListUpdate = ts_ItPolitoCrownlabsV1alpha1ImageListUpdate"
| "decl_of ItPolitoCrownlabsV1alpha1Tenant = ts_ItPolitoCrownlabsV1alpha1Tenant"
| "decl_of ItPolitoCrownlabsV1alpha1TenantList = ts_ItPolitoCrownlabsV1alpha1TenantList"
| "decl_of ItPolitoCrownlabsV1alpha1TenantUpdate = ts_ItPolitoCrownlabsV1alpha1TenantUpdate"
| "decl_of ItPolitoCrownlabsV1alpha1Workspace = ts_ItPolitoCrownlabsV1alpha1Workspace"
| "decl_of ItPolitoCrownlabsV1alpha1WorkspaceList = ts_ItPolitoCrownlabsV1alpha1WorkspaceList"
| "decl_of ItPolitoCrownlabsV1alpha1WorkspaceUpdate = ts_ItPolitoCrownlabsV1alpha1WorkspaceUpdate"
| "decl_of ItPolitoCrownlabsV1alpha2Instance = ts_ItPolitoCrownlabsV1alpha2Instance"
| "decl_of ItPolitoCrownlabsV1alpha2InstanceList = ts_ItPolitoCrownlabsV1alpha2InstanceList"
| "decl_of ItPolitoCrownlabsV1alpha2InstanceSnapshot = ts_ItPolitoCrownlabsV1alpha2InstanceSnapshot"
| "decl_of ItPolitoCrownlabsV1alpha2InstanceSnapshotList = ts_ItPolitoCrownlabsV1alpha2InstanceSnapshotList"
| "decl_of ItPolitoCrownlabsV1alpha2InstanceSnapshotUpdate = ts_ItPolitoCrownlabsV1alpha2InstanceSnapshotUpdate"
| "decl_of ItPolitoCrownlabsV1alpha2InstanceUpdate = ts_ItPolitoCrownlabsV1alpha2InstanceUpdate"
| "decl_of ItPolitoCrownlabsV1alpha2Template = ts_ItPolitoCrownlabsV1alpha2Template"
| "decl_of ItPolitoCrownlabsV1alpha2TemplateList = ts_ItPolitoCrownlabsV1alpha2TemplateList"
| "decl_of ItPolitoCrownlabsV1alpha2TemplateUpdate = ts_ItPolitoCrownlabsV1alpha2TemplateUpdate"
| "decl_of Namespace = ts_Namespace"
| "decl_of PersonalNamespace = ts_PersonalNamespace"
| "decl_of Query = ts_Query"
| "decl_of QueryItPolitoCrownlabsV1alpha1TenantArgs = ts_QueryItPolitoCrownlabsV1alpha1TenantArgs"
| "decl_of QueryItPolitoCrownlabsV1alpha2TemplateListArgs = ts_QueryItPolitoCrownlabsV1alpha2TemplateListArgs"
| "decl_of QueryListCrownlabsPolitoItV1alpha2NamespacedInstanceArgs = ts_QueryListCrownlabsPolitoItV1alpha2NamespacedInstanceArgs"
| "decl_of Resources = ts_Resources"
| "decl_of Role = ts_Role"
| "decl_of SandboxNamespace = ts_SandboxNamespace"
| "decl_of Spec = ts_Spec"
| "decl_of Spec2 = ts_Spec2"
| "decl_of Spec3 = ts_Spec3"
| "decl_of Spec4 = ts_Spec4"
| "decl_of Spec5 = ts_Spec5"
| "decl_of Spec6 = ts_Spec6"
| "decl_of Status = ts_Status"
| "decl_of Status2 = ts_Status2"
| "decl_of Status3 = ts_Status3"
| "decl_of Status4 = ts_Status4"
| "decl_of Subscription = ts_Subscription"
| "decl_of SubscriptionItPolitoCrownlabsV1alpha2InstanceUpdateArgs = ts_SubscriptionItPolitoCrownlabsV1alpha2InstanceUpdateArgs"
| "decl_of SubscriptionItPolitoCrownlabsV1alpha2InstanceSnapshotUpdateArgs = ts_SubscriptionItPolitoCrownlabsV1alpha2InstanceSnapshotUpdateArgs"
| "decl_of SubscriptionItPolitoCrownlabsV1alpha2TemplateUpdateArgs = ts_SubscriptionItPolitoCrownlabsV1alpha2TemplateUpdateArgs"
| "decl_of SubscriptionItPolitoCrownlabsV1alpha1TenantUpdateArgs = ts_SubscriptionItPolitoCrownlabsV1alpha1TenantUpdateArgs"
| "decl_of SubscriptionItPolitoCrownlabsV1alpha1WorkspaceUpdateArgs = ts_SubscriptionItPolitoCrownlabsV1alpha1WorkspaceUpdateArgs"
| "decl_of SubscriptionItPolitoCrownlabsV1alpha1ImageListUpdateArgs = ts_SubscriptionItPolitoCrownlabsV1alpha1ImageListUpdateArgs"
| "decl_of TemplateCrownlabsPolitoItTemplateRef = ts_TemplateCrownlabsPolitoItTemplateRef"
| "decl_of TemplateWrapper = ts_TemplateWrapper"
| "decl_of TenantCrownlabsPolitoItTenantRef = ts_TenantCrownlabsPolitoItTenantRef"
| "decl_of TenantWrapper = ts_TenantWrapper"
| "decl_of UpdateType = ts_UpdateType"
| "decl_of WorkspaceCrownlabsPolitoItWorkspaceRef = ts_WorkspaceCrownlabsPolitoItWorkspaceRef"
| "decl_of WorkspaceRef = ts_WorkspaceRef"
| "decl_of WorkspaceWrapper = ts_WorkspaceWrapper"
| "decl_of WorkspacesListItem = ts_WorkspacesListItem"
| "decl_of IoK8sApimachineryPkgApisMetaV1StatusCause = ts_IoK8sApimachineryPkgApisMetaV1StatusCause"
| "decl_of IoK8sApimachineryPkgApisMetaV1StatusDetailsV2 = ts_IoK8sApimachineryPkgApisMetaV1StatusDetailsV2"
| "decl_of IoK8sApimachineryPkgApisMetaV1StatusV2 = ts_IoK8sApimachineryPkgApisMetaV1StatusV2"
| "decl_of Mutation = ts_Mutation"

subsection \<open>Scalars and names\<close>

text \<open>\<open>Scalars\<close>: the TypeScript type of a GraphQL scalar.\<close>

definition Scalars :: "(string \<times> string) list" where
  "Scalars =
     [(''ID'', ''string''), (''String'', ''string''), (''Boolean'', ''boolean''), (''Int'', ''number''),
      (''Float'', ''number''), (''JSON'', ''any'')]"

definition typename_of :: "ts_name \<Rightarrow> string option" where
  "typename_of n = (case decl_of n of TsObject tn _ \<Rightarrow> tn | TsEnum _ \<Rightarrow> None)"

definition fields_of :: "ts_name \<Rightarrow> (string \<times> bool \<times> ts_type) list" where
  "fields_of n = (case decl_of n of TsObject _ fs \<Rightarrow> fs | TsEnum _ \<Rightarrow> [])"

end
