(* ===== verification/Schema_Agreement.thy ===== *)
theory Schema_Agreement
  imports Gql_Schema Server_Startup
begin

section \<open>The generated types of the frontend against the schema the server builds\<close>

text \<open>
  \<open>qlkube\<close> adds types and fields to the schema that it generates from the OpenAPI document; the frontend's
  \<open>generated-types.tsx\<close> was generated from the schema of a running server. The property of this theory
  says that the two agree on everything the server adds.
\<close>

text \<open>The generated types have what \<open>decorateBaseSchema q t _ w _\<close> declares: the field \<open>w\<close> of the type \<open>t\<close>,
  and its type with the only field \<open>q\<close>.\<close>

definition wrapper_generated :: "ts_name \<Rightarrow> string \<Rightarrow> string \<Rightarrow> string \<Rightarrow> bool" where
  "wrapper_generated T q t w \<longleftrightarrow>
     typename_of T = Some t \<and>
     (case map_of (fields_of T) w of
        Some (opt, TMaybe (TRef W)) \<Rightarrow>
          opt \<and> map_option Inr (typename_of W) = Some (capitalizeType w) \<and>
          (case fields_of W of
             [(q', opt', TMaybe (TRef Q))] \<Rightarrow>
               opt' \<and> q' = q \<and> map_option Inr (typename_of Q) = Some (capitalizeType q)
           | _ \<Rightarrow> False)
      | _ \<Rightarrow> False)"

text \<open>And what \<open>decorateSubscription _ q ''UpdateType''\<close> declares.\<close>

definition update_generated :: "string \<Rightarrow> bool" where
  "update_generated q \<longleftrightarrow>
     (case map_of (fields_of Subscription) (q @ ''Update'') of
        Some (opt, TMaybe (TRef U)) \<Rightarrow>
          opt \<and> map_option Inr (typename_of U) = Some (capitalizeType (q @ ''Update'')) \<and>
          (case fields_of U of
             [(u, opt1, TMaybe (TRef E)), (p, opt2, TMaybe (TRef P))] \<Rightarrow>
               opt1 \<and> opt2 \<and> u = ''updateType'' \<and> p = ''payload'' \<and> E = UpdateType \<and>
               map_option Inr (typename_of P) = Some (capitalizeType q)
           | _ \<Rightarrow> False)
      | _ \<Rightarrow> False)"

lemmas agreement_simps = typename_of_def fields_of_def capitalized ts_Subscription_def
  ts_TemplateCrownlabsPolitoItTemplateRef_def ts_TemplateWrapper_def ts_ItPolitoCrownlabsV1alpha2Template_def
  ts_TenantCrownlabsPolitoItTenantRef_def ts_TenantWrapper_def ts_ItPolitoCrownlabsV1alpha1Tenant_def
  ts_WorkspaceRef_def ts_WorkspaceWrapper_def ts_ItPolitoCrownlabsV1alpha1Workspace_def
  ts_ItPolitoCrownlabsV1alpha2InstanceUpdate_def ts_ItPolitoCrownlabsV1alpha2TemplateUpdate_def
  ts_ItPolitoCrownlabsV1alpha2Instance_def ts_UpdateType_def

text \<open>the frontend's generated types contain exactly what the server's decoration adds: the three wrapper
  fields with their wrapper types, for each shipped subscription its update field with the type of
  its events, and the enum of update kinds with the values that the server declares; the arguments of
  a subscription field are an optional name and a required namespace.\<close>

lemma generated_types_match_server:
  "wrapper_generated TemplateCrownlabsPolitoItTemplateRef ''itPolitoCrownlabsV1alpha2Template''
     ''TemplateCrownlabsPolitoItTemplateRef'' ''templateWrapper''
   \<and> wrapper_generated TenantCrownlabsPolitoItTenantRef ''itPolitoCrownlabsV1alpha1Tenant''
     ''TenantCrownlabsPolitoItTenantRef'' ''tenantWrapper''
   \<and> wrapper_generated WorkspaceRef ''itPolitoCrownlabsV1alpha1Workspace'' ''WorkspaceRef'' ''workspaceWrapper''
   \<and> list_all (\<lambda>sub. update_generated (sub_type sub)) subscriptions
   \<and> (\<exists>ms. decl_of UpdateType = TsEnum ms \<and> map snd ms = [''ADDED'', ''MODIFIED'', ''DELETED''])
   \<and> list_all (\<lambda>A. map (\<lambda>f. (fst f, fst (snd f))) (fields_of A) = [(''name'', True), (''namespace'', False)])
       [SubscriptionItPolitoCrownlabsV1alpha2InstanceUpdateArgs, SubscriptionItPolitoCrownlabsV1alpha2TemplateUpdateArgs]"
  by (simp add: wrapper_generated_def update_generated_def subscriptions_def agreement_simps
      ts_SubscriptionItPolitoCrownlabsV1alpha2InstanceUpdateArgs_def
      ts_SubscriptionItPolitoCrownlabsV1alpha2TemplateUpdateArgs_def)

end
