(* ===== verification/Env_Config.thy ===== *)
theory Env_Config
  imports Js_Objects
begin

section \<open>frontend: environment variables\<close>

text \<open>
  \<open>frontend/src/env.ts\<close>. \<open>process.env\<close> and \<open>window\<close> are objects of JavaScript values; loading the
  module evaluates the six exported constants in the order of the file, and the first missing
  variable makes the import throw.
\<close>

datatype envVarNames =
    REACT_APP_CROWNLABS_GRAPHQL_URL
  | REACT_APP_CROWNLABS_OIDC_PROVIDER_URL
  | REACT_APP_CROWNLABS_OIDC_CLIENT_ID
  | REACT_APP_CROWNLABS_OIDC_CLIENT_SECRET
  | REACT_APP_CROWNLABS_OIDC_REDIRECT_URI
  | PUBLIC_URL

fun env_name :: "envVarNames \<Rightarrow> string" where
  "env_name REACT_APP_CROWNLABS_GRAPHQL_URL = ''REACT_APP_CROWNLABS_GRAPHQL_URL''"
| "env_name REACT_APP_CROWNLABS_OIDC_PROVIDER_URL = ''REACT_APP_CROWNLABS_OIDC_PROVIDER_URL''"
| "env_name REACT_APP_CROWNLABS_OIDC_CLIENT_ID = ''REACT_APP_CROWNLABS_OIDC_CLIENT_ID''"
| "env_name REACT_APP_CROWNLABS_OIDC_CLIENT_SECRET = ''REACT_APP_CROWNLABS_OIDC_CLIENT_SECRET''"
| "env_name REACT_APP_CROWNLABS_OIDC_REDIRECT_URI = ''REACT_APP_CROWNLABS_OIDC_REDIRECT_URI''"
| "env_name PUBLIC_URL = ''PUBLIC_URL''"

definition getEnvVar :: "jsval \<Rightarrow> jsval \<Rightarrow> envVarNames \<Rightarrow> jsval result" where
  "getEnvVar processEnv window envVarName =
     (let envVar = js_coalesce (js_prop processEnv (env_name envVarName))
                               (js_prop window (env_name envVarName))
      in if envVar = JUndefined
         then Inl (Error (''ERROR: ENV VAR '' @ env_name envVarName @ '' NOT DEFINED''))
         else Inr envVar)"

text \<open>The exported constants, in the order the module evaluates them.\<close>

definition env_exports :: "envVarNames list" where
  "env_exports =
     [REACT_APP_CROWNLABS_OIDC_PROVIDER_URL, REACT_APP_CROWNLABS_OIDC_CLIENT_ID,
      REACT_APP_CROWNLABS_OIDC_CLIENT_SECRET, REACT_APP_CROWNLABS_OIDC_REDIRECT_URI,
      REACT_APP_CROWNLABS_GRAPHQL_URL, PUBLIC_URL]"

fun load_consts :: "jsval \<Rightarrow> jsval \<Rightarrow> envVarNames list \<Rightarrow> (envVarNames \<times> jsval) list result" where
  "load_consts processEnv window [] = Inr []"
| "load_consts processEnv window (n # ns) =
     bind_res (getEnvVar processEnv window n)
       (\<lambda>v. bind_res (load_consts processEnv window ns) (\<lambda>vs. Inr ((n, v) # vs)))"

definition env_module :: "jsval \<Rightarrow> jsval \<Rightarrow> (envVarNames \<times> jsval) list result" where
  "env_module processEnv window = load_consts processEnv window env_exports"

text \<open>\<open>frontend/public/config.js\<close> as it is before the container that serves the page fills it in.\<close>

definition config_js :: jsval where
  "config_js =
     JObj [(''REACT_APP_CROWNLABS_GRAPHQL_URL'', JUndefined), (''REACT_APP_CROWNLABS_OIDC_PROVIDER_URL'', JUndefined),
           (''REACT_APP_CROWNLABS_OIDC_CLIENT_ID'', JUndefined), (''REACT_APP_CROWNLABS_OIDC_CLIENT_SECRET'', JUndefined),
           (''REACT_APP_CROWNLABS_OIDC_REDIRECT_URI'', JUndefined)]"

subsection \<open>Lemmas\<close>

definition defined_in :: "jsval \<Rightarrow> jsval \<Rightarrow> envVarNames \<Rightarrow> bool" where
  "defined_in processEnv window n \<longleftrightarrow>
     \<not> js_nullish (js_prop processEnv (env_name n)) \<or> js_prop window (env_name n) \<noteq> JUndefined"

lemma getEnvVar_ok_iff: "is_ok (getEnvVar p w n) \<longleftrightarrow> defined_in p w n"
  by (auto simp: getEnvVar_def Let_def js_coalesce_def defined_in_def js_nullish_def)

lemma getEnvVar_error:
  "getEnvVar p w n = Inl e \<longleftrightarrow>
    \<not> defined_in p w n \<and> e = Error (''ERROR: ENV VAR '' @ env_name n @ '' NOT DEFINED'')"
  by (auto simp: getEnvVar_def Let_def js_coalesce_def defined_in_def js_nullish_def)

lemma getEnvVar_process_first:
  "\<not> js_nullish (js_prop p (env_name n)) \<Longrightarrow> getEnvVar p w n = Inr (js_prop p (env_name n))"
  by (auto simp: getEnvVar_def js_coalesce_def js_nullish_def)

lemma load_consts_cases:
  "load_consts p w ns =
    (case dropWhile (defined_in p w) ns of
       [] \<Rightarrow> Inr (map (\<lambda>n. (n, projr (getEnvVar p w n))) ns)
     | n # _ \<Rightarrow> Inl (Error (''ERROR: ENV VAR '' @ env_name n @ '' NOT DEFINED'')))"
proof (induction ns)
  case (Cons n ns)
  show ?case
  proof (cases "defined_in p w n")
    case True
    then obtain v where "getEnvVar p w n = Inr v"
      using getEnvVar_ok_iff [of p w n] by (auto simp: is_ok_def)
    with True Cons show ?thesis by (cases "dropWhile (defined_in p w) ns") (simp_all del: dropWhile_eq_Nil_conv)
  next
    case False
    then have "getEnvVar p w n = Inl (Error (''ERROR: ENV VAR '' @ env_name n @ '' NOT DEFINED''))"
      by (simp add: getEnvVar_error)
    with False show ?thesis by simp
  qed
qed simp

subsection \<open>Properties\<close>

text \<open>the module loads iff each of the six variables is defined in \<open>process.env\<close> or on
  \<open>window\<close>; otherwise the import throws and the message names the first undefined one in the order
  of the file. A value of \<open>process.env\<close> wins over one of \<open>window\<close>.\<close>

lemma env_module_loads:
  "env_module p w =
     (case dropWhile (defined_in p w) env_exports of
        [] \<Rightarrow> Inr (map (\<lambda>n. (n, projr (getEnvVar p w n))) env_exports)
      | n # _ \<Rightarrow> Inl (Error (''ERROR: ENV VAR '' @ env_name n @ '' NOT DEFINED'')))
   \<and> set env_exports = UNIV
   \<and> getEnvVar p w v =
       (if js_nullish (js_prop p (env_name v))
        then if js_prop w (env_name v) = JUndefined
          then Inl (Error (''ERROR: ENV VAR '' @ env_name v @ '' NOT DEFINED''))
          else Inr (js_prop w (env_name v))
        else Inr (js_prop p (env_name v)))"
proof -
  have "n \<in> set env_exports" for n
    by (cases n) (simp_all add: env_exports_def)
  then show ?thesis
    by (auto simp: env_module_def load_consts_cases getEnvVar_def Let_def js_coalesce_def
        js_nullish_def)
qed

text \<open>with the template of \<open>config.js\<close> a variable has its value from \<open>process.env\<close> only: the file falls
  back to the local environment, as its comment says.\<close>

lemma config_js_falls_back:
  "getEnvVar p config_js v =
     (if js_nullish (js_prop p (env_name v))
      then Inl (Error (''ERROR: ENV VAR '' @ env_name v @ '' NOT DEFINED''))
      else Inr (js_prop p (env_name v)))"
proof -
  have "js_prop config_js (env_name v) = JUndefined" by (cases v) (simp_all add: config_js_def js_prop_def)
  then show ?thesis by (auto simp: getEnvVar_def Let_def js_coalesce_def js_nullish_def)
qed

end
