(* ===== verification/Jsx.thy ===== *)
theory Jsx
  imports Js_Json
begin

section \<open>frontend: rendered elements and pages\<close>

text \<open>
  What a React component returns: a tree of elements and texts. A component of the source is a
  function from its props to a list of nodes (a fragment; \<open>false\<close>, \<open>undefined\<close> and \<open>''\<close> render
  nothing and are the empty list, and so are line breaks between elements). Elements of libraries (antd, icons) and HTML elements are leaves of
  the model: \<open>El\<close> with the tag as the source writes it, the props and the children. A prop is a
  literal, a value, rendered nodes, or a handler; a handler is the message it sends to the component
  that owns the state.

  \<open>page\<close> is the interface of a stateful component: its initial state, what a message does to the
  state, what it renders. The only messages it ever gets are those of handlers it has rendered, and
  an invariant that these keep holds in every state of the page.
\<close>

datatype 'm vnode =
    Txt string
  | El string "(string \<times> 'm attr) list" "'m vnode list"
and 'm attr =
    PStr string
  | PNum int
  | PBool bool
  | PVal jsval
  | PNodes "'m vnode list"
  | POn 'm

type_synonym 'm nodes = "'m vnode list"

abbreviation cls :: "string \<Rightarrow> string \<times> 'm attr" where
  "cls s \<equiv> (''className'', PStr s)"

definition render_str :: "string \<Rightarrow> 'm nodes" where
  "render_str s = (if s = [] then [] else [Txt s])"

text \<open>The handlers and the texts of a tree.\<close>

fun handlers :: "'m vnode \<Rightarrow> 'm list" and prop_handlers :: "'m attr \<Rightarrow> 'm list" where
  "handlers (Txt s) = []"
| "handlers (El t ps cs) = concat (map (\<lambda>p. prop_handlers (snd p)) ps) @ concat (map handlers cs)"
| "prop_handlers (POn m) = [m]"
| "prop_handlers (PNodes ns) = concat (map handlers ns)"
| "prop_handlers _ = []"

fun texts :: "'m vnode \<Rightarrow> string list" where
  "texts (Txt s) = [s]"
| "texts (El t ps cs) = concat (map texts cs)"

text \<open>The props of the elements with a given tag.\<close>

fun elements :: "string \<Rightarrow> 'm vnode \<Rightarrow> (string \<times> 'm attr) list list"
  and prop_elements :: "string \<Rightarrow> 'm attr \<Rightarrow> (string \<times> 'm attr) list list" where
  "elements tag (Txt s) = []"
| "elements tag (El t ps cs) =
     (if t = tag then [ps] else []) @ concat (map (\<lambda>p. prop_elements tag (snd p)) ps) @
     concat (map (elements tag) cs)"
| "prop_elements tag (PNodes ns) = concat (map (elements tag) ns)"
| "prop_elements tag _ = []"

definition all_elements :: "string \<Rightarrow> 'm nodes \<Rightarrow> (string \<times> 'm attr) list list" where
  "all_elements tag ns = concat (map (elements tag) ns)"

text \<open>Function props that the library calls are tabulated over the arguments it may pass: a render
  function by what it renders for each of them, a callback by one message for each.\<close>

definition renders :: "('a \<Rightarrow> 'm nodes) \<Rightarrow> 'a list \<Rightarrow> 'm attr" where
  "renders f xs = PNodes (concat (map f xs))"

definition calls :: "string \<Rightarrow> ('a \<Rightarrow> 'm) \<Rightarrow> 'a list \<Rightarrow> (string \<times> 'm attr) list" where
  "calls name f xs = map (\<lambda>x. (name, POn (f x))) xs"

definition all_handlers :: "'m nodes \<Rightarrow> 'm list" where
  "all_handlers ns = concat (map handlers ns)"

definition all_texts :: "'m nodes \<Rightarrow> string list" where
  "all_texts ns = concat (map texts ns)"

lemma all_handlers_simps [simp]:
  "all_handlers [] = []"
  "all_handlers (n # ns) = handlers n @ all_handlers ns"
  "all_handlers (ns @ ns') = all_handlers ns @ all_handlers ns'"
  by (simp_all add: all_handlers_def)

lemma all_texts_simps [simp]:
  "all_texts [] = []"
  "all_texts (n # ns) = texts n @ all_texts ns"
  "all_texts (ns @ ns') = all_texts ns @ all_texts ns'"
  by (simp_all add: all_texts_def)

lemma all_elements_simps [simp]:
  "all_elements tag [] = []"
  "all_elements tag (n # ns) = elements tag n @ all_elements tag ns"
  "all_elements tag (ns @ ns') = all_elements tag ns @ all_elements tag ns'"
  by (simp_all add: all_elements_def)

lemma elements_El [simp]:
  "elements tag (El t ps cs) =
     (if t = tag then [ps] else []) @ concat (map (\<lambda>p. prop_elements tag (snd p)) ps) @ all_elements tag cs"
  by (simp add: all_elements_def)

lemma prop_elements_PNodes [simp]: "prop_elements tag (PNodes ns) = all_elements tag ns"
  by (simp add: all_elements_def)

lemma all_elements_concat: "all_elements tag (concat nss) = concat (map (all_elements tag) nss)"
  by (induction nss) simp_all

lemma handlers_El [simp]:
  "handlers (El t ps cs) = concat (map (\<lambda>p. prop_handlers (snd p)) ps) @ all_handlers cs"
  by (simp add: all_handlers_def)

lemma prop_handlers_PNodes [simp]: "prop_handlers (PNodes ns) = all_handlers ns"
  by (simp add: all_handlers_def)

lemma texts_El [simp]: "texts (El t ps cs) = all_texts cs"
  by (simp add: all_texts_def)

lemma all_handlers_concat: "all_handlers (concat nss) = concat (map all_handlers nss)"
  by (induction nss) simp_all

declare handlers.simps(2) [simp del] elements.simps(2) [simp del] prop_elements.simps(1) [simp del] prop_handlers.simps(2) [simp del] texts.simps(2) [simp del]

lemma tabulated [simp]:
  "prop_handlers (renders f xs) = concat (map (\<lambda>x. all_handlers (f x)) xs)"
  "prop_elements tag (renders f xs) = concat (map (\<lambda>x. all_elements tag (f x)) xs)"
  "concat (map (\<lambda>p. prop_handlers (snd p)) (calls name g ys)) = map g ys"
  "concat (map (\<lambda>p. prop_elements tag (snd p)) (calls name g ys)) = []"
proof -
  show "prop_handlers (renders f xs) = concat (map (\<lambda>x. all_handlers (f x)) xs)"
    by (induction xs) (simp_all add: renders_def)
  show "prop_elements tag (renders f xs) = concat (map (\<lambda>x. all_elements tag (f x)) xs)"
    by (induction xs) (simp_all add: renders_def)
  show "concat (map (\<lambda>p. prop_handlers (snd p)) (calls name g ys)) = map g ys"
    by (induction ys) (simp_all add: calls_def)
  show "concat (map (\<lambda>p. prop_elements tag (snd p)) (calls name g ys)) = []"
    by (induction ys) (simp_all add: calls_def)
qed

lemma render_str_simps [simp]: "all_handlers (render_str s) = []" "all_elements tag (render_str s) = []"
  "all_texts (render_str s) = (if s = [] then [] else [s])"
  by (simp_all add: render_str_def)

subsection \<open>Pages\<close>

inductive page_state :: "'s \<Rightarrow> ('m \<Rightarrow> 's \<Rightarrow> 's) \<Rightarrow> ('s \<Rightarrow> 'm nodes) \<Rightarrow> 's \<Rightarrow> bool"
  for init :: 's and update :: "'m \<Rightarrow> 's \<Rightarrow> 's" and view :: "'s \<Rightarrow> 'm nodes" where
  mounted: "page_state init update view init"
| handled: "page_state init update view s \<Longrightarrow> m \<in> set (all_handlers (view s)) \<Longrightarrow>
    page_state init update view (update m s)"

locale page =
  fixes init :: 's and update :: "'m \<Rightarrow> 's \<Rightarrow> 's" and view :: "'s \<Rightarrow> 'm nodes" and inv :: "'s \<Rightarrow> bool"
  assumes inv_init: "inv init"
    and inv_update: "inv s \<Longrightarrow> m \<in> set (all_handlers (view s)) \<Longrightarrow> inv (update m s)"
begin

lemma page_inv: "page_state init update view s \<Longrightarrow> inv s"
  by (induction rule: page_state.induct) (auto intro: inv_init inv_update)

lemma after_click:
  "page_state init update view s \<Longrightarrow> m \<in> set (all_handlers (view s)) \<Longrightarrow>
    page_state init update view (update m s) \<and> inv (update m s)"
  using page_inv by (blast intro: page_state.intros)

end

subsection \<open>Accordions\<close>

text \<open>Tables whose rows expand one at a time: the state is the list of expanded keys, \<open>toggle\<close> the
  handler of the table's \<open>onExpand\<close>. At most one key is expanded, and expanding a row collapses any
  other.\<close>

locale accordion =
  fixes toggle :: "bool \<Rightarrow> string \<Rightarrow> string list \<Rightarrow> string list"
  assumes toggle_open: "toggle True k e = [k]"
    and toggle_close: "toggle False k e = [[]]"
begin

definition run :: "(bool \<times> string) list \<Rightarrow> string list" where
  "run cs = fold (\<lambda>(b, k). toggle b k) cs [[]]"

lemma run_snoc: "run (cs @ [(b, k)]) = [if b then k else []]"
  by (simp add: run_def toggle_open toggle_close)

lemma run_last: "run cs = [if cs \<noteq> [] \<and> fst (last cs) then snd (last cs) else []]"
  by (cases cs rule: rev_cases) (auto simp: run_def toggle_open toggle_close)

lemma at_most_one: "j \<in> set (run cs) \<Longrightarrow> k \<in> set (run cs) \<Longrightarrow> j = k"
  by (simp add: run_last split: if_splits)

end

end
