(* ===== verification/App_Shell.thy ===== *)
theory App_Shell
  imports Env_Config Jsx Qlkube_Server
begin

section \<open>frontend: the application shell and the Apollo client\<close>

text \<open>
  \<open>frontend/src/App.tsx\<close>, \<open>index.tsx\<close> and \<open>graphql-components/apolloClientSetup.ts\<close>. Loading the bundle
  evaluates \<open>env.ts\<close> first, so nothing is rendered when a variable is missing (\<open>render_root\<close>). The
  Apollo client sends every request through \<open>authLink\<close>, whose headers the server of the theory
  \<open>Qlkube_Server\<close> reads.
\<close>

subsection \<open>apolloClientSetup.ts\<close>

definition TOKEN :: string where
  "TOKEN = []"

text \<open>\<open>{...headers, authorization: ...}\<close>; spreading \<open>undefined\<close> adds nothing.\<close>

definition authLink :: "string \<Rightarrow> jsval \<Rightarrow> jsval obj" where
  "authLink token headers =
     obj_put ''authorization'' (JStr (if token \<noteq> [] then ''Bearer '' @ token else []))
       (case headers of JObj hs \<Rightarrow> hs | _ \<Rightarrow> [])"

record apollo_client =
  link_uri :: jsval
  link_headers :: "jsval \<Rightarrow> jsval obj"

definition client :: "jsval \<Rightarrow> apollo_client" where
  "client uri = \<lparr>link_uri = uri, link_headers = authLink TOKEN\<rparr>"

subsection \<open>App.tsx\<close>

definition render_val :: "jsval \<Rightarrow> 'm nodes" where
  "render_val v =
     (case v of JStr s \<Rightarrow> render_str s | JNum n \<Rightarrow> [Txt (int_to_string n)] | _ \<Rightarrow> [])"

definition app_style :: jsval where
  "app_style =
     JObj [(''backgroundColor'', JStr ''#003676''), (''color'', JStr ''white''), (''margin'', JStr ''auto''),
           (''width'', JStr ''100%''), (''height'', JStr ''100%''), (''fontSize'', JStr ''2.7rem''),
           (''display'', JStr ''flex''), (''flexDirection'', JStr ''column''), (''justifyContent'', JStr ''center''),
           (''alignItems'', JStr ''center''), (''textAlign'', JStr ''center'')]"

definition link_to :: "string \<Rightarrow> string \<Rightarrow> 'm vnode" where
  "link_to path label = El ''Link'' [(''to'', PStr path)] [Txt label]"

definition App :: "jsval \<Rightarrow> jsval \<Rightarrow> 'm nodes" where
  "App publicUrl graphqlUrl =
     [El ''div'' [(''style'', PVal app_style)]
        [El ''BrowserRouter'' [(''basename'', PVal publicUrl)]
           [El ''Switch'' []
              [El ''Route'' [(''path'', PStr ''/active'')] [El ''div'' [] [Txt ''Active''], link_to ''/'' ''Go Home''],
               El ''Route'' [(''path'', PStr ''/account'')] [El ''div'' [] [Txt ''Account''], link_to ''/'' ''Go Home''],
               El ''Route'' [(''path'', PStr ''/''), (''exact'', PBool True)]
                 [El ''div'' [cls ''p-10 m-10'']
                    ([Txt ''CrownLabs will get a new look!'', El ''br'' [] [], Txt '' GraphQL at ''] @
                     render_val graphqlUrl @ [Txt '' '']),
                  link_to ''/active'' ''Go to active'', link_to ''/account'' ''Go to account'']]]]]"

subsection \<open>index.tsx\<close>

definition render_root :: "jsval \<Rightarrow> jsval \<Rightarrow> (apollo_client \<times> 'm nodes) result" where
  "render_root processEnv window =
     bind_res (env_module processEnv window) (\<lambda>env.
       let var = (\<lambda>n. the (map_of env n))
       in Inr (client (var REACT_APP_CROWNLABS_GRAPHQL_URL),
               [El ''React.StrictMode'' []
                  [El ''ApolloProvider'' [(''client'', PStr ''client'')]
                     (App (var PUBLIC_URL) (var REACT_APP_CROWNLABS_GRAPHQL_URL))]]))"

subsection \<open>Lemmas\<close>

lemma authLink_get:
  "obj_get (authLink token headers) k =
     (if k = ''authorization'' then Some (JStr (if token \<noteq> [] then ''Bearer '' @ token else []))
      else case headers of JObj hs \<Rightarrow> obj_get hs k | _ \<Rightarrow> None)"
  by (simp add: authLink_def obj_get_put split: jsval.split)

lemma operation_context_http:
  "js_prop (JObj hs) ''apollo-query-plan-experimental'' = JUndefined \<Longrightarrow>
    operation_context (JObj [(''headers'', JObj hs)]) JUndefined =
      bind_res (getBearerToken (JObj hs)) (\<lambda>token. Inr (JObj [(''token'', JStr token)]))"
  by (simp add: operation_context_def js_deref_def js_nullish_def)

lemma env_value:
  assumes "env_module p w = Inr env" and "getEnvVar p w n = Inr v"
  shows "map_of env n = Some v"
proof -
  have "n \<in> set env_exports" by (cases n) (simp_all add: env_exports_def)
  moreover from assms(1) have "env = map (\<lambda>n. (n, projr (getEnvVar p w n))) env_exports"
    by (auto simp: env_module_def load_consts_cases split: list.splits)
  ultimately show ?thesis using assms(2) by (simp add: map_of_map_restrict)
qed

subsection \<open>Properties\<close>

text \<open>C5: client and server agree on the token: a request that the Apollo client sends with a non-empty token
  without white space is accepted by the server, whose operation context holds that very token. The
  client as shipped has an empty token, and a request of it (with no other credentials) is refused
  as one without a token.\<close>

theorem client_token_reaches_server:
  assumes "js_prop headers ''apollo-query-plan-experimental'' = JUndefined"
    and "js_prop headers ''Authorization'' = JUndefined"
  shows "(token \<noteq> [] \<and> no_space token \<longrightarrow>
      operation_context (JObj [(''headers'', JObj (authLink token headers))]) JUndefined =
        Inr (JObj [(''token'', JStr token)]))
    \<and> operation_context (JObj [(''headers'', JObj (link_headers (client uri) headers))]) JUndefined =
        Inl (ForbiddenError ''Token Error! Token absent!'')"
proof -
  have plan: "js_prop (JObj (authLink t headers)) ''apollo-query-plan-experimental'' = JUndefined"
    and upper: "js_prop (JObj (authLink t headers)) ''Authorization'' = JUndefined"
    and lower: "js_prop (JObj (authLink t headers)) ''authorization'' = JStr (if t \<noteq> [] then bearer t else [])" for t
    using assms by (cases headers; simp add: authLink_get bearer_def)+
  have "getBearerToken (JObj (authLink token headers)) = Inr token" if "token \<noteq> []" "no_space token"
  proof -
    have "bearer token \<noteq> []" by (simp add: bearer_def)
    with lower [of token] that have
      "js_or (js_prop (JObj (authLink token headers)) ''authorization'')
         (js_prop (JObj (authLink token headers)) ''Authorization'') = JStr (bearer token)"
      by (simp add: js_or_def del: js_prop_simps)
    from getBearerToken_of_string [OF this \<open>bearer token \<noteq> []\<close>] that show ?thesis
      by (simp add: split_bearer)
  qed
  moreover have "getBearerToken (JObj (authLink [] headers)) = Inl (ForbiddenError ''Token Error! Token absent!'')"
    using lower [of "[]"] upper [of "[]"] by (simp add: getBearerToken_def js_or_def del: js_prop_simps(1))
  ultimately show ?thesis
    by (simp add: operation_context_http plan client_def TOKEN_def del: js_prop_simps)
qed

theorem client_token_reaches_server_witness:
  "operation_context (JObj [(''headers'', JObj (authLink ''abc'' JUndefined))]) JUndefined =
     Inr (JObj [(''token'', JStr ''abc'')])"
  using client_token_reaches_server [of JUndefined "''abc''" JUndefined]
  by (simp add: no_space_def js_space_def)

text \<open>the application is rendered exactly when all six environment variables are defined; it then talks to
  the configured GraphQL endpoint under the configured base path, and every link of it leads to a
  route it declares.\<close>

lemma application_renders:
  "case render_root p w of
     Inl e \<Rightarrow> (\<exists>n. \<not> defined_in p w n \<and> e = Error (''ERROR: ENV VAR '' @ env_name n @ '' NOT DEFINED''))
   | Inr (c, tree) \<Rightarrow>
       (\<forall>n. defined_in p w n) \<and>
       getEnvVar p w REACT_APP_CROWNLABS_GRAPHQL_URL = Inr (link_uri c) \<and>
       (\<exists>base. getEnvVar p w PUBLIC_URL = Inr base \<and>
          all_elements ''BrowserRouter'' tree = [[(''basename'', PVal base)]]) \<and>
       (\<forall>l. l \<in> set (all_elements ''Link'' tree) \<longrightarrow>
          (\<exists>r path. r \<in> set (all_elements ''Route'' tree) \<and> l = [(''to'', PStr path)] \<and>
             map_of r ''path'' = Some (PStr path)))"
proof (cases "dropWhile (defined_in p w) env_exports")
  case (Cons n ns)
  then have "env_module p w = Inl (Error (''ERROR: ENV VAR '' @ env_name n @ '' NOT DEFINED''))"
    by (simp add: env_module_def load_consts_cases)
  moreover from Cons have "\<not> defined_in p w n"
    by (metis hd_dropWhile list.sel(1) list.distinct(1))
  ultimately show ?thesis by (auto simp: render_root_def)
next
  case Nil
  then obtain env where env: "env_module p w = Inr env"
    by (simp add: env_module_def load_consts_cases)
  have "n \<in> set env_exports" for n by (cases n) (simp_all add: env_exports_def)
  with Nil have all: "defined_in p w n" for n by simp
  then obtain g b where g: "getEnvVar p w REACT_APP_CROWNLABS_GRAPHQL_URL = Inr g"
    and b: "getEnvVar p w PUBLIC_URL = Inr b"
    using getEnvVar_ok_iff [of p w] unfolding is_ok_def by blast
  have v: "all_elements tag (render_val g) = []" for tag :: string
    by (simp add: render_val_def split: jsval.split)
  show ?thesis
    using env all g b env_value [OF env g] env_value [OF env b] v
    by (auto simp: render_root_def Let_def client_def App_def link_to_def)
qed

definition sample_env :: jsval where
  "sample_env = JObj (map (\<lambda>n. (env_name n, JStr ''x'')) env_exports)"

lemma application_renders_witness:
  "\<exists>c tree. render_root sample_env (JObj []) = Inr (c, tree :: unit nodes) \<and> link_uri c = JStr ''x''"
proof -
  have "defined_in sample_env (JObj []) n" for n
    by (cases n) (simp_all add: defined_in_def sample_env_def env_exports_def js_nullish_def)
  then show ?thesis
    using application_renders [of sample_env "JObj []"]
    by (auto split: sum.splits simp: getEnvVar_def sample_env_def env_exports_def js_coalesce_def js_nullish_def)
qed

end
