(* ===== verification/Gql_Response.thy ===== *)
theory Gql_Response
  imports Js_Objects
begin

section \<open>Flattening GraphQL responses\<close>

text \<open>
  \<open>beautifyGqlResponse\<close> of \<open>frontend/src/graphql-components/utiles.ts\<close>: a response is turned into
  one flat object per level of arrays by moving the properties of nested objects into the object
  that contains them. The reference definition is \<open>leaves\<close>: the non-object properties of a value,
  in document order, each under its own key.
\<close>

subsection \<open>The function\<close>

text \<open>The body of the outer \<open>forEach\<close>: what becomes of one key and its flattened value \<open>tmp\<close>.\<close>

definition merge_key :: "string \<Rightarrow> jsval \<Rightarrow> jsval obj \<Rightarrow> jsval obj" where
  "merge_key key tmp newObj =
     (case tmp of
        JObj t \<Rightarrow> fold (\<lambda>keyTmp acc. obj_set keyTmp (js_prop tmp keyTmp) acc) (obj_keys t) newObj
      | _ \<Rightarrow> obj_set key tmp newObj)"

function beautifyGqlResponse :: "jsval \<Rightarrow> jsval" where
  "beautifyGqlResponse JUndefined = JUndefined"
| "beautifyGqlResponse JNull = JNull"
| "beautifyGqlResponse (JBool b) = JBool b"
| "beautifyGqlResponse (JNum n) = JNum n"
| "beautifyGqlResponse (JStr s) = JStr s"
| "beautifyGqlResponse (JArr vs) = JArr (map beautifyGqlResponse vs)"
| "beautifyGqlResponse (JObj ob) =
     JObj (fold
       (\<lambda>key newObj.
          merge_key key
            (case obj_get ob key of None \<Rightarrow> JUndefined | Some v \<Rightarrow> beautifyGqlResponse v) newObj)
       (obj_keys ob) [])"
  by pat_completeness auto
termination
  by (relation "measure size") (auto simp: size_list_estimation' le_imp_less_Suc dest: size_obj_get)

subsection \<open>The reference: leaves in document order\<close>

fun is_obj :: "jsval \<Rightarrow> bool" where
  "is_obj (JObj _) = True"
| "is_obj _ = False"

fun obj_of :: "jsval \<Rightarrow> jsval obj" where
  "obj_of (JObj ob) = ob"
| "obj_of _ = []"

fun leaves :: "jsval \<Rightarrow> (string \<times> jsval) list" where
  "leaves (JObj ob) =
     concat (map (\<lambda>kv. if is_obj (snd kv) then leaves (snd kv)
                       else if fst kv = proto_key then []
                       else [(fst kv, beautifyGqlResponse (snd kv))]) ob)"
| "leaves _ = []"

text \<open>A normal value: no property of an object is an object, at any depth of arrays, and every
  object is well formed and free of the key \<open>__proto__\<close>.\<close>

definition no_proto :: "'v obj \<Rightarrow> bool" where
  "no_proto ob \<longleftrightarrow> proto_key \<notin> set (map fst ob)"

fun normal :: "jsval \<Rightarrow> bool" where
  "normal (JObj ob) =
     (obj_ok ob \<and> no_proto ob \<and> list_all (\<lambda>kv. \<not> is_obj (snd kv) \<and> normal (snd kv)) ob)"
| "normal (JArr vs) = list_all normal vs"
| "normal _ = True"

subsection \<open>Lemmas\<close>

lemma is_obj_beautify [simp]: "is_obj (beautifyGqlResponse v) = is_obj v"
  by (cases v) simp_all

lemma merge_key_leaf: "\<not> is_obj tmp \<Longrightarrow> merge_key k tmp ob = obj_set k tmp ob"
  by (cases tmp) (simp_all add: merge_key_def)

lemma fold_keys_get:
  "obj_ok ob \<Longrightarrow> fold (\<lambda>k acc. f k (obj_get ob k) acc) (obj_keys ob) s =
     fold (\<lambda>(k, v) acc. f k (Some v) acc) ob s"
proof -
  assume ok: "obj_ok ob"
  have "f (fst kv) (obj_get ob (fst kv)) = (case kv of (k, v) \<Rightarrow> f k (Some v))" if "kv \<in> set ob" for kv
    using that obj_get_eq_Some [OF ok, of "fst kv" "snd kv"] by (simp add: case_prod_beta)
  then show ?thesis by (auto simp: obj_keys_def fold_map comp_def intro!: fold_cong)
qed

lemma merge_key_obj:
  assumes "obj_ok t"
  shows "merge_key k (JObj t) ob = fold (\<lambda>(k, v). obj_set k v) t ob"
  using fold_keys_get [OF assms, of "\<lambda>k v. obj_set k (case v of None \<Rightarrow> JUndefined | Some x \<Rightarrow> x)" ob]
  by (simp add: merge_key_def case_prod_beta)

lemma beautify_obj:
  assumes "obj_ok ob"
  shows "beautifyGqlResponse (JObj ob) =
    JObj (fold (\<lambda>(k, v). merge_key k (beautifyGqlResponse v)) ob [])"
  using fold_keys_get [OF assms, of "\<lambda>k v. merge_key k
    (case v of None \<Rightarrow> JUndefined | Some x \<Rightarrow> beautifyGqlResponse x)" "[]"]
  by (simp add: case_prod_beta)

lemma no_proto_set: "no_proto ob \<Longrightarrow> no_proto (obj_set k v ob)"
  by (auto simp: no_proto_def obj_set_def keys_put simp del: set_map)

lemma no_proto_in: "no_proto ob \<Longrightarrow> (k, v) \<in> set ob \<Longrightarrow> k \<noteq> proto_key"
  by (auto simp: no_proto_def rev_image_eqI)

lemma list_all_obj_set: "P (k, v) \<Longrightarrow> list_all P ob \<Longrightarrow> list_all P (obj_set k v ob)"
  by (induction ob) (auto simp: obj_set_def)

subsection \<open>The result is normal\<close>

abbreviation normal_obj :: "jsval obj \<Rightarrow> bool" where
  "normal_obj ob \<equiv> normal (JObj ob)"

lemma normal_obj_set: "normal_obj ob \<Longrightarrow> \<not> is_obj v \<Longrightarrow> normal v \<Longrightarrow> normal_obj (obj_set k v ob)"
  by (simp add: no_proto_set list_all_obj_set)

lemma merge_key_normal:
  assumes "normal tmp" and "normal_obj ob"
  shows "normal_obj (merge_key k tmp ob)"
proof (cases "is_obj tmp")
  case True
  then obtain t where t: "tmp = JObj t" by (cases tmp) auto
  have "\<not> is_obj (js_prop tmp k') \<and> normal (js_prop tmp k')" if "k' \<in> set (obj_keys t)" for k'
    using that assms(1) t obj_keys_dom [of k' t]
    by (auto simp: list_all_iff split: option.splits dest!: obj_get_in_set)
  with assms(2) have "normal_obj (fold (\<lambda>k acc. obj_set k (js_prop tmp k) acc) (obj_keys t) ob)"
    by (intro fold_inv [where P = normal_obj] normal_obj_set) auto
  with t show ?thesis by (simp add: merge_key_def)
next
  case False
  with assms show ?thesis by (simp only: merge_key_leaf normal_obj_set not_False_eq_True)
qed

lemma beautify_normal_all: "normal (beautifyGqlResponse v)"
proof (induction v rule: beautifyGqlResponse.induct)
  case (7 ob)
  have "normal (case obj_get ob k of None \<Rightarrow> JUndefined | Some v \<Rightarrow> beautifyGqlResponse v)"
    if "k \<in> set (obj_keys ob)" for k
    using that 7 by (auto split: option.split)
  then show ?case
    unfolding beautifyGqlResponse.simps
    by (intro fold_inv [where P = normal_obj] merge_key_normal) (auto simp: no_proto_def)
qed (auto simp: list_all_iff)

subsection \<open>A normal value is left as it is\<close>

lemma beautify_normal_id: "normal v \<Longrightarrow> beautifyGqlResponse v = v"
proof (induction v rule: normal.induct)
  case (1 ob)
  then have ok: "obj_ok ob" by simp
  have "(case kv of (k, v) \<Rightarrow> merge_key k (beautifyGqlResponse v)) = (case kv of (k, v) \<Rightarrow> obj_put k v)"
    if "kv \<in> set ob" for kv
  proof (cases kv)
    case (Pair k v)
    with 1 that have "\<not> is_obj v" "beautifyGqlResponse v = v" "k \<noteq> proto_key"
      by (auto simp: list_all_iff dest: no_proto_in)
    with Pair show ?thesis by (auto simp: merge_key_leaf obj_set_def)
  qed
  then have "fold (\<lambda>(k, v). merge_key k (beautifyGqlResponse v)) ob [] =
      fold (\<lambda>(k, v). obj_put k v) ob []"
    by (intro fold_cong) auto
  with ok show ?case by (simp add: beautify_obj obj_rebuild del: beautifyGqlResponse.simps)
next
  case (2 vs)
  then show ?case by (auto simp: list_all_iff intro: map_idI)
qed simp_all

subsection \<open>No leaf is lost, the last one under a key wins\<close>

definition leaf_entry :: "string \<times> jsval \<Rightarrow> (string \<times> jsval) list" where
  "leaf_entry kv =
     (if is_obj (snd kv) then leaves (snd kv)
      else if fst kv = proto_key then [] else [(fst kv, beautifyGqlResponse (snd kv))])"

lemma leaves_obj: "leaves (JObj ob) = concat (map leaf_entry ob)"
  by (simp add: leaf_entry_def cong: map_cong)

lemma get_merge_obj:
  assumes "normal (JObj t)"
  shows "obj_get (merge_key k0 (JObj t) s) = obj_get s ++ obj_get t"
proof
  fix k
  from assms have ok: "obj_ok t" and np: "\<And>k v. (k, v) \<in> set t \<Longrightarrow> k \<noteq> proto_key"
    by (auto dest: no_proto_in)
  from ok have "map_of (rev t) = obj_get t"
    using map_of_inject_set [of "rev t" t]
    by (simp add: obj_ok_def obj_get_def fun_eq_iff rev_map [symmetric])
  moreover have "obj_get (fold (\<lambda>(k, v). obj_set k v) t s) k =
      (case map_of (rev t) k of None \<Rightarrow> obj_get s k | Some v \<Rightarrow> Some v)"
    by (rule objstore.get_set_all) (rule np)
  ultimately show "obj_get (merge_key k0 (JObj t) s) k = (obj_get s ++ obj_get t) k"
    using ok by (simp add: merge_key_obj map_add_def)
qed

lemma get_merge_leaf:
  assumes "is_obj v \<Longrightarrow> obj_get (obj_of (beautifyGqlResponse v)) = map_of (rev (leaves v))"
  shows "obj_get (merge_key k (beautifyGqlResponse v) s) = obj_get s ++ map_of (rev (leaf_entry (k, v)))"
proof (cases "is_obj v")
  case True
  then obtain t where t: "beautifyGqlResponse v = JObj t"
    using is_obj_beautify [of v] by (cases "beautifyGqlResponse v") auto
  with beautify_normal_all [of v] have "normal (JObj t)" by simp
  from get_merge_obj [OF this] t assms [OF True] True show ?thesis
    by (simp add: leaf_entry_def)
next
  case False
  then show ?thesis
    by (auto simp: leaf_entry_def merge_key_leaf fun_eq_iff map_add_def) (simp add: obj_set_def)
qed

lemma get_fold_merge:
  assumes "\<And>k v. (k, v) \<in> set ob \<Longrightarrow> is_obj v \<Longrightarrow>
    obj_get (obj_of (beautifyGqlResponse v)) = map_of (rev (leaves v))"
  shows "obj_get (fold (\<lambda>(k, v). merge_key k (beautifyGqlResponse v)) ob s) =
    obj_get s ++ map_of (rev (concat (map leaf_entry ob)))"
  using assms
proof (induction ob arbitrary: s)
  case (Cons kv ob)
  obtain k v where kv: "kv = (k, v)" by (cases kv)
  with Cons.prems have "obj_get (merge_key k (beautifyGqlResponse v) s) =
      obj_get s ++ map_of (rev (leaf_entry (k, v)))"
    by (intro get_merge_leaf) auto
  moreover have "obj_get (fold (\<lambda>(k, v). merge_key k (beautifyGqlResponse v)) ob s') =
      obj_get s' ++ map_of (rev (concat (map leaf_entry ob)))" for s'
    using Cons.prems by (intro Cons.IH) auto
  ultimately show ?case using kv by simp
qed simp

lemma get_beautify:
  "is_obj v \<Longrightarrow> wf_val v \<Longrightarrow> obj_get (obj_of (beautifyGqlResponse v)) = map_of (rev (leaves v))"
proof (induction v rule: leaves.induct)
  case (1 ob)
  then have ok: "obj_ok ob" by simp
  have "obj_get (fold (\<lambda>(k, v). merge_key k (beautifyGqlResponse v)) ob []) =
      obj_get [] ++ map_of (rev (concat (map leaf_entry ob)))"
    using 1 by (intro get_fold_merge) (fastforce simp: list_all_iff)
  with ok show ?case
    by (simp add: beautify_obj leaves_obj del: beautifyGqlResponse.simps leaves.simps)
qed simp_all

subsection \<open>Properties\<close>

text \<open>the result of \<open>beautifyGqlResponse\<close> is flat: whatever the response is, no object inside the
  result has an object as a property value, at any depth of arrays.\<close>

lemma beautify_is_flat: "normal (beautifyGqlResponse response)"
  by (rule beautify_normal_all)

text \<open>flattening twice is flattening once.\<close>

lemma beautify_idempotent:
  "beautifyGqlResponse (beautifyGqlResponse response) = beautifyGqlResponse response"
  by (rule beautify_normal_id) (rule beautify_normal_all)

text \<open>C24: the flattened object holds exactly the leaves of the response: a key is present iff some
  nested object has a non-object property of that name, and its value is the (flattened) value of
  the last such property in document order.\<close>

theorem beautify_keeps_leaves:
  assumes "wf_val (JObj ob)"
  shows "js_prop (beautifyGqlResponse (JObj ob)) k =
    (case map_of (rev (leaves (JObj ob))) k of None \<Rightarrow> JUndefined | Some v \<Rightarrow> v)"
  using get_beautify [of "JObj ob"] assms
  by (simp del: leaves.simps wf_val.simps)

theorem beautify_keeps_leaves_witness:
  "js_prop (beautifyGqlResponse
      (JObj [(''spec'', JObj [(''name'', JStr ''a'')]), (''status'', JObj [(''name'', JStr ''b'')])])) ''name'' = JStr ''b''"
  using beautify_keeps_leaves
    [of "[(''spec'', JObj [(''name'', JStr ''a'')]), (''status'', JObj [(''name'', JStr ''b'')])]" "''name''"]
  by (simp add: obj_ok_def key_before_def is_array_index_def is_digit_char_def leaf_entry_def proto_key_def)

end
