(* ===== verification/Gql_Queries.thy ===== *)
theory Gql_Queries
  imports Gql_Schema Gql_Response
begin

section \<open>frontend: queries, their types, their hooks\<close>

text \<open>
  The operations of \<open>frontend/src/generated-types.tsx\<close>: the four query documents (what \<open>gql\<close> makes of the
  texts: a name, variables, selections with alias, field and arguments), the TypeScript types of their
  results and variables, the hooks and the query components, with \<open>Apollo.useQuery\<close> and
  \<open>Apollo.useLazyQuery\<close> as arguments. \<open>infer\<close> is the type of a selection against the schema of
  \<open>Gql_Schema\<close>, by the rules of GraphQL; the generated result types have to agree with it.
\<close>

subsection \<open>Result types\<close>

datatype shape =
    SPrim string
  | SEnum ts_name
  | SMaybe shape
  | SArray shape
  | SObj string "(string \<times> bool \<times> shape) list"

definition OwnedInstancesQueryVariables :: "(string \<times> bool \<times> ts_type) list" where
  "OwnedInstancesQueryVariables = [(''tenantName'', False, TScalar ''String'')]"

definition OwnedInstancesQuery :: shape where
  "OwnedInstancesQuery =
     SObj ''Query''
      [(''instanceList'', True, SMaybe (SObj ''ItPolitoCrownlabsV1alpha2InstanceList''
         [(''instances'', True, SMaybe (SArray (SMaybe (SObj ''ItPolitoCrownlabsV1alpha2Instance''
            [(''status'', True, SMaybe (SObj ''Status3''
               [(''ip'', True, SMaybe (SPrim ''string'')),
                (''phase'', True, SMaybe (SPrim ''string'')),
                (''url'', True, SMaybe (SPrim ''string''))])),
             (''spec'', True, SMaybe (SObj ''Spec4''
               [(''running'', True, SMaybe (SPrim ''boolean'')),
                (''templateCrownlabsPolitoItTemplateRef'', True, SMaybe (SObj ''TemplateCrownlabsPolitoItTemplateRef''
                  [(''name'', True, SMaybe (SPrim ''string'')),
                   (''namespace'', True, SMaybe (SPrim ''string'')),
                   (''templateWrapper'', True, SMaybe (SObj ''TemplateWrapper''
                     [(''itPolitoCrownlabsV1alpha2Template'', True, SMaybe (SObj ''ItPolitoCrownlabsV1alpha2Template''
                        [(''spec'', True, SMaybe (SObj ''Spec6''
                           [(''templateName'', True, SMaybe (SPrim ''string'')),
                            (''templateDescription'', True, SMaybe (SPrim ''string'')),
                            (''environmentList'', True, SMaybe (SArray (SMaybe (SObj ''EnvironmentListListItem''
                              [(''guiEnabled'', True, SMaybe (SPrim ''boolean'')),
                               (''persistent'', True, SMaybe (SPrim ''boolean''))]))))]))]))]))]))]))]))))]))]"

definition OwnedKeyQueryVariables :: "(string \<times> bool \<times> ts_type) list" where
  "OwnedKeyQueryVariables = [(''tenantId'', False, TScalar ''String'')]"

definition OwnedKeyQuery :: shape where
  "OwnedKeyQuery =
     SObj ''Query''
      [(''tenant'', True, SMaybe (SObj ''ItPolitoCrownlabsV1alpha1Tenant''
         [(''spec'', True, SMaybe (SObj ''Spec2''
            [(''email'', True, SMaybe (SPrim ''string'')),
             (''firstName'', True, SMaybe (SPrim ''string'')),
             (''lastName'', True, SMaybe (SPrim ''string'')),
             (''publicKeys'', True, SMaybe (SArray (SMaybe (SPrim ''string''))))]))]))]"

definition TemplatesQueryVariables :: "(string \<times> bool \<times> ts_type) list" where
  "TemplatesQueryVariables = [(''workspaceNamespace'', False, TScalar ''String'')]"

definition TemplatesQuery :: shape where
  "TemplatesQuery =
     SObj ''Query''
      [(''templateList'', True, SMaybe (SObj ''ItPolitoCrownlabsV1alpha2TemplateList''
         [(''templates'', True, SMaybe (SArray (SMaybe (SObj ''ItPolitoCrownlabsV1alpha2Template''
            [(''spec'', True, SMaybe (SObj ''Spec6''
               [(''description'', True, SMaybe (SPrim ''string'')),
                (''name'', True, SMaybe (SPrim ''string'')),
                (''environmentList'', True, SMaybe (SArray (SMaybe (SObj ''EnvironmentListListItem''
                  [(''guiEnabled'', True, SMaybe (SPrim ''boolean'')),
                   (''persistent'', True, SMaybe (SPrim ''boolean'')),
                   (''resources'', True, SMaybe (SObj ''Resources''
                     [(''cpu'', True, SMaybe (SPrim ''number'')),
                      (''disk'', True, SMaybe (SPrim ''string'')),
                      (''memory'', True, SMaybe (SPrim ''string''))]))]))))])),
             (''metadata'', True, SMaybe (SObj ''IoK8sApimachineryPkgApisMetaV1ObjectMetaV2''
               [(''id'', True, SMaybe (SPrim ''string''))]))]))))]))]"

definition TenantQueryVariables :: "(string \<times> bool \<times> ts_type) list" where
  "TenantQueryVariables = [(''tenantId'', False, TScalar ''String'')]"

definition TenantQuery :: shape where
  "TenantQuery =
     SObj ''Query''
      [(''tenant'', True, SMaybe (SObj ''ItPolitoCrownlabsV1alpha1Tenant''
         [(''spec'', True, SMaybe (SObj ''Spec2''
            [(''email'', True, SMaybe (SPrim ''string'')),
             (''firstName'', True, SMaybe (SPrim ''string'')),
             (''lastName'', True, SMaybe (SPrim ''string'')),
             (''workspaces'', True, SMaybe (SArray (SMaybe (SObj ''WorkspacesListItem''
               [(''role'', True, SMaybe (SEnum Role)),
                (''workspaceRef'', True, SMaybe (SObj ''WorkspaceRef''
                  [(''workspaceId'', True, SMaybe (SPrim ''string'')),
                   (''workspaceWrapper'', True, SMaybe (SObj ''WorkspaceWrapper''
                     [(''itPolitoCrownlabsV1alpha1Workspace'', True, SMaybe (SObj ''ItPolitoCrownlabsV1alpha1Workspace''
                        [(''spec'', True, SMaybe (SObj ''Spec3''
                           [(''workspaceName'', True, SMaybe (SPrim ''string''))])),
                         (''status'', True, SMaybe (SObj ''Status2''
                           [(''namespace'', True, SMaybe (SObj ''Namespace''
                              [(''workspaceNamespace'', True, SMaybe (SPrim ''string''))]))]))]))]))]))]))))]))]))]"

subsection \<open>Documents\<close>

datatype sel = Sel (sel_alias: string) (sel_field: string) (sel_args: "(string \<times> string) list") (sel_sels: "sel list")

record document =
  doc_name :: string
  doc_vars :: "(string \<times> string \<times> bool) list"
  doc_sels :: "sel list"

definition OwnedInstancesDocument :: document where
  "OwnedInstancesDocument =
     \<lparr>doc_name = ''ownedInstances'',
      doc_vars = [(''tenantName'', ''String'', True)],
      doc_sels =
       [Sel ''instanceList'' ''listCrownlabsPolitoItV1alpha2NamespacedInstance'' [(''namespace'', ''tenantName'')]
         [Sel ''instances'' ''items'' []
           [Sel ''status'' ''status'' []
             [Sel ''ip'' ''ip'' [] [],
              Sel ''phase'' ''phase'' [] [],
              Sel ''url'' ''url'' [] []],
            Sel ''spec'' ''spec'' []
             [Sel ''running'' ''running'' [] [],
              Sel ''templateCrownlabsPolitoItTemplateRef'' ''templateCrownlabsPolitoItTemplateRef'' []
               [Sel ''name'' ''name'' [] [],
                Sel ''namespace'' ''namespace'' [] [],
                Sel ''templateWrapper'' ''templateWrapper'' []
                 [Sel ''itPolitoCrownlabsV1alpha2Template'' ''itPolitoCrownlabsV1alpha2Template'' []
                   [Sel ''spec'' ''spec'' []
                     [Sel ''templateName'' ''prettyName'' [] [],
                      Sel ''templateDescription'' ''description'' [] [],
                      Sel ''environmentList'' ''environmentList'' []
                       [Sel ''guiEnabled'' ''guiEnabled'' [] [],
                        Sel ''persistent'' ''persistent'' [] []]]]]]]]]]\<rparr>"

definition OwnedKeyDocument :: document where
  "OwnedKeyDocument =
     \<lparr>doc_name = ''ownedKey'',
      doc_vars = [(''tenantId'', ''String'', True)],
      doc_sels =
       [Sel ''tenant'' ''itPolitoCrownlabsV1alpha1Tenant'' [(''name'', ''tenantId'')]
         [Sel ''spec'' ''spec'' []
           [Sel ''email'' ''email'' [] [],
            Sel ''firstName'' ''firstName'' [] [],
            Sel ''lastName'' ''lastName'' [] [],
            Sel ''publicKeys'' ''publicKeys'' [] []]]]\<rparr>"

definition TemplatesDocument :: document where
  "TemplatesDocument =
     \<lparr>doc_name = ''templates'',
      doc_vars = [(''workspaceNamespace'', ''String'', True)],
      doc_sels =
       [Sel ''templateList'' ''itPolitoCrownlabsV1alpha2TemplateList'' [(''namespace'', ''workspaceNamespace'')]
         [Sel ''templates'' ''items'' []
           [Sel ''spec'' ''spec'' []
             [Sel ''name'' ''prettyName'' [] [],
              Sel ''description'' ''description'' [] [],
              Sel ''environmentList'' ''environmentList'' []
               [Sel ''guiEnabled'' ''guiEnabled'' [] [],
                Sel ''persistent'' ''persistent'' [] [],
                Sel ''resources'' ''resources'' []
                 [Sel ''cpu'' ''cpu'' [] [],
                  Sel ''disk'' ''disk'' [] [],
                  Sel ''memory'' ''memory'' [] []]]],
            Sel ''metadata'' ''metadata'' []
             [Sel ''id'' ''name'' [] []]]]]\<rparr>"

definition TenantDocument :: document where
  "TenantDocument =
     \<lparr>doc_name = ''tenant'',
      doc_vars = [(''tenantId'', ''String'', True)],
      doc_sels =
       [Sel ''tenant'' ''itPolitoCrownlabsV1alpha1Tenant'' [(''name'', ''tenantId'')]
         [Sel ''spec'' ''spec'' []
           [Sel ''email'' ''email'' [] [],
            Sel ''firstName'' ''firstName'' [] [],
            Sel ''lastName'' ''lastName'' [] [],
            Sel ''workspaces'' ''workspaces'' []
             [Sel ''role'' ''role'' [] [],
              Sel ''workspaceRef'' ''workspaceRef'' []
               [Sel ''workspaceId'' ''name'' [] [],
                Sel ''workspaceWrapper'' ''workspaceWrapper'' []
                 [Sel ''itPolitoCrownlabsV1alpha1Workspace'' ''itPolitoCrownlabsV1alpha1Workspace'' []
                   [Sel ''spec'' ''spec'' []
                     [Sel ''workspaceName'' ''prettyName'' [] []],
                    Sel ''status'' ''status'' []
                     [Sel ''namespace'' ''namespace'' []
                       [Sel ''workspaceNamespace'' ''name'' [] []]]]]]]]]]\<rparr>"

text \<open>The source of the first one, \<open>graphql-components/query/instances.query.graphql\<close>.\<close>

definition instances_query :: document where
  "instances_query =
     \<lparr>doc_name = ''ownedInstances'',
      doc_vars = [(''tenantNamespace'', ''String'', True)],
      doc_sels =
       [Sel ''instanceList'' ''listCrownlabsPolitoItV1alpha2NamespacedInstance'' [(''namespace'', ''tenantName'')]
         [Sel ''instances'' ''items'' []
           [Sel ''status'' ''status'' []
             [Sel ''ip'' ''ip'' [] [],
              Sel ''phase'' ''phase'' [] [],
              Sel ''url'' ''url'' [] []],
            Sel ''spec'' ''spec'' []
             [Sel ''running'' ''running'' [] [],
              Sel ''templateCrownlabsPolitoItTemplateRef'' ''templateCrownlabsPolitoItTemplateRef'' []
               [Sel ''name'' ''name'' [] [],
                Sel ''namespace'' ''namespace'' [] [],
                Sel ''templateWrapper'' ''templateWrapper'' []
                 [Sel ''itPolitoCrownlabsV1alpha2Template'' ''itPolitoCrownlabsV1alpha2Template'' []
                   [Sel ''spec'' ''spec'' []
                     [Sel ''templateName'' ''prettyName'' [] [],
                      Sel ''templateDescription'' ''description'' [] [],
                      Sel ''environmentList'' ''environmentList'' []
                       [Sel ''guiEnabled'' ''guiEnabled'' [] [],
                        Sel ''persistent'' ''persistent'' [] []]]]]]]]]]\<rparr>"

subsection \<open>Hooks and components\<close>

text \<open>\<open>{...a, ...b}\<close>; spreading \<open>undefined\<close> adds nothing.\<close>

definition js_spread :: "jsval list \<Rightarrow> jsval obj" where
  "js_spread vs = fold (\<lambda>v acc. fold (\<lambda>(k, x). obj_put k x) (case v of JObj ob \<Rightarrow> ob | _ \<Rightarrow> []) acc) vs []"

definition defaultOptions :: jsval where
  "defaultOptions = JObj []"

datatype query_prop = QueryDoc document | QueryProp jsval

definition query_element :: "document \<Rightarrow> (string \<times> query_prop) list \<Rightarrow> (string \<times> query_prop) list" where
  "query_element doc props = fold (\<lambda>(k, x). obj_put k x) props [(''query'', QueryDoc doc)]"

definition useOwnedInstancesQuery :: "(document \<Rightarrow> jsval obj \<Rightarrow> 'r) \<Rightarrow> jsval \<Rightarrow> 'r" where
  "useOwnedInstancesQuery useQuery baseOptions = useQuery OwnedInstancesDocument (js_spread [defaultOptions, baseOptions])"

definition useOwnedInstancesLazyQuery :: "(document \<Rightarrow> jsval obj \<Rightarrow> 'r) \<Rightarrow> jsval \<Rightarrow> 'r" where
  "useOwnedInstancesLazyQuery useLazyQuery baseOptions = useLazyQuery OwnedInstancesDocument (js_spread [defaultOptions, baseOptions])"

definition OwnedInstancesComponent :: "(string \<times> query_prop) list \<Rightarrow> (string \<times> query_prop) list" where
  "OwnedInstancesComponent props = query_element OwnedInstancesDocument props"

definition useOwnedKeyQuery :: "(document \<Rightarrow> jsval obj \<Rightarrow> 'r) \<Rightarrow> jsval \<Rightarrow> 'r" where
  "useOwnedKeyQuery useQuery baseOptions = useQuery OwnedKeyDocument (js_spread [defaultOptions, baseOptions])"

definition useOwnedKeyLazyQuery :: "(document \<Rightarrow> jsval obj \<Rightarrow> 'r) \<Rightarrow> jsval \<Rightarrow> 'r" where
  "useOwnedKeyLazyQuery useLazyQuery baseOptions = useLazyQuery OwnedKeyDocument (js_spread [defaultOptions, baseOptions])"

definition OwnedKeyComponent :: "(string \<times> query_prop) list \<Rightarrow> (string \<times> query_prop) list" where
  "OwnedKeyComponent props = query_element OwnedKeyDocument props"

definition useTemplatesQuery :: "(document \<Rightarrow> jsval obj \<Rightarrow> 'r) \<Rightarrow> jsval \<Rightarrow> 'r" where
  "useTemplatesQuery useQuery baseOptions = useQuery TemplatesDocument (js_spread [defaultOptions, baseOptions])"

definition useTemplatesLazyQuery :: "(document \<Rightarrow> jsval obj \<Rightarrow> 'r) \<Rightarrow> jsval \<Rightarrow> 'r" where
  "useTemplatesLazyQuery useLazyQuery baseOptions = useLazyQuery TemplatesDocument (js_spread [defaultOptions, baseOptions])"

definition TemplatesComponent :: "(string \<times> query_prop) list \<Rightarrow> (string \<times> query_prop) list" where
  "TemplatesComponent props = query_element TemplatesDocument props"

definition useTenantQuery :: "(document \<Rightarrow> jsval obj \<Rightarrow> 'r) \<Rightarrow> jsval \<Rightarrow> 'r" where
  "useTenantQuery useQuery baseOptions = useQuery TenantDocument (js_spread [defaultOptions, baseOptions])"

definition useTenantLazyQuery :: "(document \<Rightarrow> jsval obj \<Rightarrow> 'r) \<Rightarrow> jsval \<Rightarrow> 'r" where
  "useTenantLazyQuery useLazyQuery baseOptions = useLazyQuery TenantDocument (js_spread [defaultOptions, baseOptions])"

definition TenantComponent :: "(string \<times> query_prop) list \<Rightarrow> (string \<times> query_prop) list" where
  "TenantComponent props = query_element TenantDocument props"

subsection \<open>The type of a selection\<close>

definition scalar_type :: "string \<Rightarrow> string option" where
  "scalar_type s = map_of Scalars s"

function (sequential) infer :: "ts_type \<Rightarrow> sel list \<Rightarrow> shape option"
  and infer_fields :: "(string \<times> bool \<times> ts_type) list \<Rightarrow> sel list \<Rightarrow> (string \<times> bool \<times> shape) list option" where
  "infer (TScalar s) ss = (if ss = [] then map_option SPrim (scalar_type s) else None)"
| "infer (TMaybe t) ss = map_option SMaybe (infer t ss)"
| "infer (TArray t) ss = map_option SArray (infer t ss)"
| "infer (TRef n) ss =
     (case decl_of n of
        TsEnum _ \<Rightarrow> (if ss = [] then Some (SEnum n) else None)
      | TsObject None _ \<Rightarrow> None
      | TsObject (Some tn) fs \<Rightarrow> (if ss = [] then None else map_option (SObj tn) (infer_fields fs ss)))"
| "infer_fields fs [] = Some []"
| "infer_fields fs (Sel a f args subs # rest) =
     (case map_of fs f of
        None \<Rightarrow> None
      | Some (opt, t) \<Rightarrow>
          (case infer t subs of
             None \<Rightarrow> None
           | Some s \<Rightarrow> map_option (Cons (a, opt, s)) (infer_fields fs rest)))"
  by pat_completeness auto
termination
  by (relation "measures [\<lambda>x. case x of Inl (t, ss) \<Rightarrow> size_list size ss | Inr (fs, ss) \<Rightarrow> size_list size ss,
                          \<lambda>x. case x of Inl (t, ss) \<Rightarrow> Suc (size t) | Inr (fs, ss) \<Rightarrow> 0]") auto

text \<open>Two result types are the same up to the order of their fields.\<close>

fun same_shape :: "shape \<Rightarrow> shape \<Rightarrow> bool" where
  "same_shape (SPrim a) (SPrim b) = (a = b)"
| "same_shape (SEnum a) (SEnum b) = (a = b)"
| "same_shape (SMaybe a) (SMaybe b) = same_shape a b"
| "same_shape (SArray a) (SArray b) = same_shape a b"
| "same_shape (SObj tn fs) (SObj tn' gs) =
     (tn = tn' \<and> distinct (map fst fs) \<and> length fs = length gs \<and>
      list_all (\<lambda>f. case map_of gs (fst f) of
                     None \<Rightarrow> False
                   | Some g \<Rightarrow> fst (snd f) = fst g \<and> same_shape (snd (snd f)) (snd g)) fs)"
| "same_shape _ _ = False"

subsection \<open>Variables and arguments\<close>

fun used_vars :: "sel \<Rightarrow> string list" where
  "used_vars (Sel a f args subs) = map snd args @ concat (map used_vars subs)"

definition undeclared :: "document \<Rightarrow> string list" where
  "undeclared d = filter (\<lambda>v. v \<notin> set (map fst (doc_vars d))) (concat (map used_vars (doc_sels d)))"

text \<open>The argument types of the query fields the documents use.\<close>

definition args_types :: "(string \<times> ts_name) list" where
  "args_types =
     [(''listCrownlabsPolitoItV1alpha2NamespacedInstance'', QueryListCrownlabsPolitoItV1alpha2NamespacedInstanceArgs),
      (''itPolitoCrownlabsV1alpha1Tenant'', QueryItPolitoCrownlabsV1alpha1TenantArgs),
      (''itPolitoCrownlabsV1alpha2TemplateList'', QueryItPolitoCrownlabsV1alpha2TemplateListArgs)]"

text \<open>A variable of type \<open>String!\<close> may stand for an argument of that scalar type; an argument that is not
  optional must be given.\<close>

definition args_ok :: "(string \<times> string \<times> bool) list \<Rightarrow> sel \<Rightarrow> bool" where
  "args_ok vars s =
     (case map_of args_types (sel_field s) of
        None \<Rightarrow> False
      | Some A \<Rightarrow>
          list_all (\<lambda>kv. case (map_of (fields_of A) (fst kv), map_of vars (snd kv)) of
                         (Some (opt, t), Some (T, nonnull)) \<Rightarrow>
                           (t = TScalar T \<or> t = TMaybe (TScalar T)) \<and> (opt \<or> nonnull)
                       | _ \<Rightarrow> False) (sel_args s) \<and>
          list_all (\<lambda>f. fst (snd f) \<or> fst f \<in> fst ` set (sel_args s)) (fields_of A))"

definition vars_type :: "(string \<times> string \<times> bool) list \<Rightarrow> (string \<times> bool \<times> ts_type) list" where
  "vars_type vars =
     map (\<lambda>v. (fst v, \<not> snd (snd v),
               if snd (snd v) then TScalar (fst (snd v)) else TMaybe (TScalar (fst (snd v))))) vars"

definition well_typed :: "document \<Rightarrow> shape \<Rightarrow> (string \<times> bool \<times> ts_type) list \<Rightarrow> bool" where
  "well_typed d result vars \<longleftrightarrow>
     (case infer (TRef Query) (doc_sels d) of None \<Rightarrow> False | Some s \<Rightarrow> same_shape s result) \<and>
     list_all (args_ok (doc_vars d)) (doc_sels d) \<and> undeclared d = [] \<and> vars_type (doc_vars d) = vars"

lemmas decl_simps = ts_Query_def ts_ItPolitoCrownlabsV1alpha2InstanceList_def ts_ItPolitoCrownlabsV1alpha2Instance_def
  ts_Status3_def ts_Spec4_def ts_TemplateCrownlabsPolitoItTemplateRef_def ts_TemplateWrapper_def
  ts_ItPolitoCrownlabsV1alpha2Template_def ts_Spec6_def ts_EnvironmentListListItem_def
  ts_ItPolitoCrownlabsV1alpha1Tenant_def ts_Spec2_def ts_ItPolitoCrownlabsV1alpha2TemplateList_def ts_Resources_def
  ts_IoK8sApimachineryPkgApisMetaV1ObjectMetaV2_def ts_WorkspacesListItem_def ts_Role_def ts_WorkspaceRef_def
  ts_WorkspaceWrapper_def ts_ItPolitoCrownlabsV1alpha1Workspace_def ts_Spec3_def ts_Status2_def ts_Namespace_def
  ts_QueryListCrownlabsPolitoItV1alpha2NamespacedInstanceArgs_def ts_QueryItPolitoCrownlabsV1alpha1TenantArgs_def
  ts_QueryItPolitoCrownlabsV1alpha2TemplateListArgs_def

lemmas typing_simps = well_typed_def undeclared_def vars_type_def args_ok_def args_types_def fields_of_def
  scalar_type_def Scalars_def decl_simps

lemma OwnedInstances_typed: "well_typed OwnedInstancesDocument OwnedInstancesQuery OwnedInstancesQueryVariables"
  by (simp add: typing_simps OwnedInstancesDocument_def OwnedInstancesQuery_def OwnedInstancesQueryVariables_def)

lemma OwnedKey_typed: "well_typed OwnedKeyDocument OwnedKeyQuery OwnedKeyQueryVariables"
  by (simp add: typing_simps OwnedKeyDocument_def OwnedKeyQuery_def OwnedKeyQueryVariables_def)

lemma Templates_typed: "well_typed TemplatesDocument TemplatesQuery TemplatesQueryVariables"
  by (simp add: typing_simps TemplatesDocument_def TemplatesQuery_def TemplatesQueryVariables_def)

lemma Tenant_typed: "well_typed TenantDocument TenantQuery TenantQueryVariables"
  by (simp add: typing_simps TenantDocument_def TenantQuery_def TenantQueryVariables_def)

subsection \<open>Responses of a result type and their flattening\<close>

fun is_obj_shape :: "shape \<Rightarrow> bool" where
  "is_obj_shape (SObj _ _) = True"
| "is_obj_shape (SMaybe s) = is_obj_shape s"
| "is_obj_shape _ = False"

text \<open>The names under which the leaves of a response appear after flattening.\<close>

fun leaf_names :: "shape \<Rightarrow> string list" where
  "leaf_names (SObj _ fs) =
     concat (map (\<lambda>f. if is_obj_shape (snd (snd f)) then leaf_names (snd (snd f)) else [fst f]) fs)"
| "leaf_names (SMaybe s) = leaf_names s"
| "leaf_names _ = []"

definition prim_ok :: "string \<Rightarrow> jsval \<Rightarrow> bool" where
  "prim_ok p v =
     (if p = ''string'' then (\<exists>s. v = JStr s)
      else if p = ''boolean'' then (\<exists>b. v = JBool b)
      else if p = ''number'' then (\<exists>n. v = JNum n)
      else \<not> is_obj v)"

text \<open>A full response: the selected objects are there; scalars and lists may be \<open>null\<close>, and every object may
  carry the \<open>__typename\<close> that the client adds to the selection.\<close>

fun full :: "shape \<Rightarrow> jsval \<Rightarrow> bool" where
  "full (SPrim p) v = prim_ok p v"
| "full (SEnum n) v = (\<exists>s. v = JStr s)"
| "full (SMaybe s) v = (v = JNull \<and> \<not> is_obj_shape s \<or> full s v)"
| "full (SArray s) v = (case v of JArr vs \<Rightarrow> list_all (full s) vs | _ \<Rightarrow> False)"
| "full (SObj tn fs) v =
     (case v of
        JObj ob \<Rightarrow>
          obj_ok ob \<and>
          list_all (\<lambda>kv. fst kv = ''__typename'' \<and> snd kv = JStr tn \<or> fst kv \<in> fst ` set fs) ob \<and>
          list_all (\<lambda>f. case obj_get ob (fst f) of None \<Rightarrow> fst (snd f) | Some x \<Rightarrow> full (snd (snd f)) x) fs
      | _ \<Rightarrow> False)"

fun strip :: "shape \<Rightarrow> shape" where
  "strip (SMaybe s) = strip s"
| "strip (SArray s) = strip s"
| "strip s = s"

text \<open>The shape found along a path of field names.\<close>

fun shape_at :: "string list \<Rightarrow> shape \<Rightarrow> shape" where
  "shape_at [] s = strip s"
| "shape_at (k # ks) s =
     (case strip s of
        SObj tn fs \<Rightarrow> (case map_of fs k of None \<Rightarrow> s | Some f \<Rightarrow> shape_at ks (snd f))
      | _ \<Rightarrow> s)"

text \<open>The objects in the results of the four generated queries: the instances, the tenant, its workspaces, the
  templates and their environments. (The repository declares the queries and the function that flattens
  responses; nothing in it calls the one on the others yet.)\<close>

definition app_shapes :: "shape list" where
  "app_shapes =
     [shape_at [''instanceList'', ''instances''] OwnedInstancesQuery,
      shape_at [''tenant''] OwnedKeyQuery,
      shape_at [''tenant''] TenantQuery,
      shape_at [''tenant'', ''spec'', ''workspaces''] TenantQuery,
      shape_at [''templateList'', ''templates''] TemplatesQuery,
      shape_at [''templateList'', ''templates'', ''spec'', ''environmentList''] TemplatesQuery]"

lemma full_is_obj: "full s v \<Longrightarrow> is_obj_shape s \<Longrightarrow> is_obj v"
  by (induction s v rule: full.induct) (auto split: jsval.splits)

lemma full_not_obj: "full s v \<Longrightarrow> \<not> is_obj_shape s \<Longrightarrow> \<not> is_obj v"
  by (induction s v rule: full.induct) (auto simp: prim_ok_def split: jsval.splits if_splits)

lemma distinct_concat_parts:
  "distinct (concat (map g fs)) \<Longrightarrow> f \<in> set fs \<Longrightarrow> f' \<in> set fs \<Longrightarrow> f \<noteq> f' \<Longrightarrow> set (g f) \<inter> set (g f') = {}"
  by (induction fs) auto

lemma distinct_concat_map:
  "distinct ob \<Longrightarrow> (\<And>x. x \<in> set ob \<Longrightarrow> distinct (h x)) \<Longrightarrow>
    (\<And>x y. x \<in> set ob \<Longrightarrow> y \<in> set ob \<Longrightarrow> x \<noteq> y \<Longrightarrow> set (h x) \<inter> set (h y) = {}) \<Longrightarrow> distinct (concat (map h ob))"
  by (induction ob) auto

lemma concat_cover:
  "(\<And>x. x \<in> set ob \<Longrightarrow> h x = [] \<or> (\<exists>f \<in> set fs. set (h x) \<subseteq> set (g f))) \<Longrightarrow>
    set (concat (map h ob)) \<subseteq> set (concat (map g fs))"
  by (induction ob) fastforce+

lemma distinct_concat_cover:
  assumes "distinct (concat (map g fs))" and "distinct (map fst ob)"
    and part: "\<And>x. x \<in> set ob \<Longrightarrow> distinct (h x) \<and> (h x = [] \<or> (\<exists>f \<in> set fs. fst f = fst x \<and> set (h x) \<subseteq> set (g f)))"
  shows "distinct (concat (map h ob))"
proof (rule distinct_concat_map)
  show "distinct ob" using assms(2) by (simp add: distinct_map)
  show "distinct (h x)" if "x \<in> set ob" for x using part [OF that] by blast
  show "set (h x) \<inter> set (h y) = {}" if xy: "x \<in> set ob" "y \<in> set ob" "x \<noteq> y" for x y
  proof (cases "h x = [] \<or> h y = []")
    case False
    with part [OF xy(1)] part [OF xy(2)] obtain f f' where
      ff: "f \<in> set fs" "fst f = fst x" "set (h x) \<subseteq> set (g f)"
      "f' \<in> set fs" "fst f' = fst y" "set (h y) \<subseteq> set (g f')" by blast
    from assms(2) xy have "fst x \<noteq> fst y" by (auto simp: distinct_map inj_on_def)
    with ff distinct_concat_parts [OF assms(1), of f f'] show ?thesis by force
  qed auto
qed

lemma map_of_rev_unique:
  "distinct (filter (\<lambda>j. j \<noteq> t) (map fst L)) \<Longrightarrow> (k, x) \<in> set L \<Longrightarrow> k \<noteq> t \<Longrightarrow> map_of (rev L) k = Some x"
proof (induction L)
  case (Cons ab L)
  show ?case
  proof (cases "(k, x) \<in> set L")
    case True
    with Cons show ?thesis by (auto simp: map_add_def split: if_splits)
  next
    case False
    with Cons.prems have ab: "ab = (k, x)" by simp
    with Cons.prems have "k \<notin> fst ` set L" by (auto simp: image_iff)
    with ab show ?thesis by (simp add: map_add_def map_of_eq_None_iff [THEN iffD2])
  qed
qed simp

definition leaf_keys :: "jsval \<Rightarrow> string list" where
  "leaf_keys v = filter (\<lambda>j. j \<noteq> ''__typename'') (map fst (leaves v))"

lemma leaf_keys_obj:
  "leaf_keys (JObj ob) =
    concat (map (\<lambda>kv. if is_obj (snd kv) then leaf_keys (snd kv)
                     else if fst kv = proto_key \<or> fst kv = ''__typename'' then [] else [fst kv]) ob)"
  by (induction ob) (auto simp: leaf_keys_def leaves_obj leaf_entry_def simp del: leaves.simps)

lemma full_leaf_keys:
  "full s v \<Longrightarrow> is_obj_shape s \<Longrightarrow> distinct (leaf_names s) \<Longrightarrow>
    set (leaf_keys v) \<subseteq> set (leaf_names s) \<and> distinct (leaf_keys v)"
proof (induction s arbitrary: v)
  case (SObj tn fs)
  let ?g = "\<lambda>f. if is_obj_shape (snd (snd f)) then leaf_names (snd (snd f)) else [fst f]"
  let ?h = "\<lambda>kv. if is_obj (snd kv) then leaf_keys (snd kv)
      else if fst kv = proto_key \<or> fst kv = ''__typename'' then [] else [fst kv]"
  from SObj.prems(1) obtain ob where v: "v = JObj ob" and ok: "obj_ok ob"
    and keys: "list_all (\<lambda>kv. fst kv = ''__typename'' \<and> snd kv = JStr tn \<or> fst kv \<in> fst ` set fs) ob"
    and vals: "list_all (\<lambda>f. case obj_get ob (fst f) of None \<Rightarrow> fst (snd f) | Some x \<Rightarrow> full (snd (snd f)) x) fs"
    by (auto split: jsval.splits)
  have d: "distinct (concat (map ?g fs))" using SObj.prems(3) by simp
  have part: "distinct (?h kv) \<and> (?h kv = [] \<or> (\<exists>f \<in> set fs. fst f = fst kv \<and> set (?h kv) \<subseteq> set (?g f)))"
    if kv: "kv \<in> set ob" for kv
  proof (cases "fst kv = ''__typename'' \<and> snd kv = JStr tn")
    case True
    then show ?thesis by simp
  next
    case False
    with keys kv obtain f where f: "f \<in> set fs" "fst f = fst kv" by (auto simp: list_all_iff)
    from kv ok have "obj_get ob (fst kv) = Some (snd kv)" by (simp add: obj_get_eq_Some)
    with vals f have full: "full (snd (snd f)) (snd kv)" by (auto simp: list_all_iff)
    show ?thesis
    proof (cases "is_obj_shape (snd (snd f))")
      case True
      have sub: "distinct (leaf_names (snd (snd f)))"
        using d f(1) True by (auto simp: distinct_concat_iff)
      have "set (leaf_keys (snd kv)) \<subseteq> set (leaf_names (snd (snd f))) \<and> distinct (leaf_keys (snd kv))"
        by (rule SObj.IH [OF f(1), of "snd f"]) (simp_all add: full True sub snds.intros)
      with full_is_obj [OF full True] f True show ?thesis by auto
    next
      case not_obj: False
      with full_not_obj [OF full] f show ?thesis by auto
    qed
  qed
  have "set (concat (map ?h ob)) \<subseteq> set (concat (map ?g fs))"
    by (rule concat_cover) (use part in blast)
  moreover have "distinct (concat (map ?h ob))"
    by (rule distinct_concat_cover [OF d]) (use ok part in \<open>simp_all only: obj_ok_def\<close>)
  ultimately show ?case by (simp add: v leaf_keys_obj)
next
  case (SMaybe s)
  then show ?case by auto
qed simp_all

lemma app_shapes_all: "list_all (\<lambda>s. is_obj_shape s \<and> distinct (leaf_names s)) app_shapes"
  by (simp add: app_shapes_def OwnedInstancesQuery_def OwnedKeyQuery_def TenantQuery_def TemplatesQuery_def)

lemma app_shapes_good: "s \<in> set app_shapes \<Longrightarrow> is_obj_shape s \<and> distinct (leaf_names s)"
  using app_shapes_all by (simp only: list_all_iff)

subsection \<open>Properties\<close>

text \<open>the four query documents are well typed against the generated schema: every selected field exists,
  every argument is of the declared type, required arguments are given, no variable is used without
  being declared; and the generated TypeScript types of their variables and results are exactly the
  types that the documents have, field by field and nullability by nullability.\<close>

lemma generated_queries_well_typed:
  "well_typed OwnedInstancesDocument OwnedInstancesQuery OwnedInstancesQueryVariables
   \<and> well_typed OwnedKeyDocument OwnedKeyQuery OwnedKeyQueryVariables
   \<and> well_typed TemplatesDocument TemplatesQuery TemplatesQueryVariables
   \<and> well_typed TenantDocument TenantQuery TenantQueryVariables"
  by (intro conjI OwnedInstances_typed OwnedKey_typed Templates_typed Tenant_typed)

text \<open>C23: flattening loses nothing of the responses to the generated queries: in a full response of one of the
  queried shapes, every leaf is found under its own name in the flattened object, because the
  aliases of the queries keep the names of nested leaves apart.\<close>

theorem flattening_keeps_query_results:
  assumes "s \<in> set app_shapes" and "full s v" and "wf_val v"
    and "(k, x) \<in> set (leaves v)" and "k \<noteq> ''__typename''"
  shows "js_prop (beautifyGqlResponse v) k = x"
proof -
  from app_shapes_good [OF assms(1)] have good: "is_obj_shape s" "distinct (leaf_names s)" by simp_all
  have "is_obj v" by (rule full_is_obj [OF assms(2) good(1)])
  then obtain ob where v: "v = JObj ob" by (cases v) auto
  from full_leaf_keys [OF assms(2) good] have "distinct (leaf_keys v)" by simp
  then have "map_of (rev (leaves v)) k = Some x"
    unfolding leaf_keys_def using assms(4,5) by (rule map_of_rev_unique)
  moreover from get_beautify [of v] \<open>is_obj v\<close> assms(3) is_obj_beautify [of v]
  have "obj_get (obj_of (beautifyGqlResponse v)) k = map_of (rev (leaves v)) k" by simp
  moreover from is_obj_beautify [of v] \<open>is_obj v\<close> obtain t where "beautifyGqlResponse v = JObj t"
    by (cases "beautifyGqlResponse v") auto
  ultimately show ?thesis by simp
qed

definition sample_tenant :: jsval where
  "sample_tenant =
     JObj [(''__typename'', JStr ''ItPolitoCrownlabsV1alpha1Tenant''),
           (''spec'', JObj [(''__typename'', JStr ''Spec2''), (''email'', JStr ''a@b''), (''publicKeys'', JNull)])]"

theorem flattening_keeps_query_results_witness:
  "js_prop (beautifyGqlResponse sample_tenant) ''email'' = JStr ''a@b''"
proof (rule flattening_keeps_query_results)
  show "app_shapes ! 1 \<in> set app_shapes" by (simp add: app_shapes_def)
  show "full (app_shapes ! 1) sample_tenant"
    by (simp add: app_shapes_def OwnedKeyQuery_def sample_tenant_def prim_ok_def obj_ok_def key_before_def
        is_array_index_def is_digit_char_def)
  show "wf_val sample_tenant"
    by (simp add: sample_tenant_def obj_ok_def key_before_def is_array_index_def is_digit_char_def)
  show "(''email'', JStr ''a@b'') \<in> set (leaves sample_tenant)"
    by (simp add: sample_tenant_def proto_key_def)
qed simp

text \<open>the source file of the instances query is not well formed: it uses the variable \<open>tenantName\<close> but
  declares \<open>tenantNamespace\<close>; the generated document declares the one it uses.\<close>

lemma instances_query_undeclared_variable:
  "undeclared instances_query = [''tenantName''] \<and> undeclared OwnedInstancesDocument = []
   \<and> doc_sels instances_query = doc_sels OwnedInstancesDocument"
  by (simp add: undeclared_def instances_query_def OwnedInstancesDocument_def)

end
