(* ===== verification/Theme.thy ===== *)
theory Theme
  imports Jsx
begin

section \<open>frontend: the theme\<close>

text \<open>
  \<open>frontend/src/contexts/ThemeContext.tsx\<close> and \<open>components/misc/ThemeSwitcher\<close>. The browser is a record:
  the local storage, the classes of the body, whether the user agent prefers a light scheme, the media
  query listeners that are registered, and the state of the mounted provider (\<open>None\<close> when it is not
  mounted). \<open>JSON.parse\<close> of a stored text that is no JSON literal is the parameter \<open>other\<close>. An effect
  with a dependency runs on mount and whenever the dependency changes.
\<close>

definition LOCALSTORAGE_IS_DARK_THEME_KEY :: string where
  "LOCALSTORAGE_IS_DARK_THEME_KEY = ''REACT_APP_IS_DARK_THEME''"

datatype media_query = PREFER_LIGHT_SCHEMA | PREFER_DARK_SCHEMA

record browser =
  localStorage :: "string obj"
  body_classes :: "string list"
  prefers_light :: bool
  listeners :: "media_query list"
  isDarkTheme :: "jsval option"

subsection \<open>The provider\<close>

text \<open>The initial state.\<close>

definition init_dark :: "(string \<Rightarrow> jsval result) \<Rightarrow> browser \<Rightarrow> jsval result" where
  "init_dark other b =
     (let localIsDarkTheme = obj_get (localStorage b) LOCALSTORAGE_IS_DARK_THEME_KEY
      in if \<not> missing localIsDarkTheme then json_parse other (the localIsDarkTheme)
         else if prefers_light b then Inr (JBool False)
         else Inr (JBool True))"

text \<open>\<open>JSON.stringify\<close> of a value that is not \<open>undefined\<close>.\<close>

definition show_json :: "jsval \<Rightarrow> string" where
  "show_json v = (case json_stringify v of None \<Rightarrow> ''undefined'' | Some s \<Rightarrow> s)"

definition setItem :: "string \<Rightarrow> jsval \<Rightarrow> browser \<Rightarrow> browser" where
  "setItem key v b = b\<lparr>localStorage := obj_put key (show_json v) (localStorage b)\<rparr>"

definition class_remove :: "string \<Rightarrow> browser \<Rightarrow> browser" where
  "class_remove c b = b\<lparr>body_classes := filter (\<lambda>d. d \<noteq> c) (body_classes b)\<rparr>"

definition class_add :: "string \<Rightarrow> browser \<Rightarrow> browser" where
  "class_add c b = b\<lparr>body_classes := (if c \<in> set (body_classes b) then body_classes b else body_classes b @ [c])\<rparr>"

text \<open>The effect on \<open>[isDarkTheme]\<close>.\<close>

definition theme_effect :: "jsval \<Rightarrow> browser \<Rightarrow> browser" where
  "theme_effect dark b =
     (if js_truthy dark
      then class_remove ''light'' (setItem LOCALSTORAGE_IS_DARK_THEME_KEY (JBool True) b)
      else class_add ''light'' (setItem LOCALSTORAGE_IS_DARK_THEME_KEY (JBool False) b))"

text \<open>\<open>setIsDarkTheme\<close>: setting the value it has changes nothing.\<close>

definition setIsDarkTheme :: "jsval \<Rightarrow> browser \<Rightarrow> browser" where
  "setIsDarkTheme v b =
     (case isDarkTheme b of
        None \<Rightarrow> b
      | Some old \<Rightarrow> if v = old then b else theme_effect v (b\<lparr>isDarkTheme := Some v\<rparr>))"

text \<open>Mounting initialises the state, runs the first effect and registers both listeners; unmounting
  removes them.\<close>

definition mount_theme :: "(string \<Rightarrow> jsval result) \<Rightarrow> browser \<Rightarrow> browser result" where
  "mount_theme other b =
     bind_res (init_dark other b) (\<lambda>dark.
       Inr ((theme_effect dark (b\<lparr>isDarkTheme := Some dark\<rparr>))
              \<lparr>listeners := listeners b @ [PREFER_LIGHT_SCHEMA, PREFER_DARK_SCHEMA]\<rparr>))"

definition unmount_theme :: "browser \<Rightarrow> browser" where
  "unmount_theme b =
     b\<lparr>isDarkTheme := None, listeners := remove1 PREFER_DARK_SCHEMA (remove1 PREFER_LIGHT_SCHEMA (listeners b))\<rparr>"

text \<open>The listener callbacks: \<open>e.matches && setIsDarkTheme(...)\<close>.\<close>

fun media_change :: "media_query \<Rightarrow> bool \<Rightarrow> browser \<Rightarrow> browser" where
  "media_change PREFER_LIGHT_SCHEMA matches b = (if matches then setIsDarkTheme (JBool False) b else b)"
| "media_change PREFER_DARK_SCHEMA matches b = (if matches then setIsDarkTheme (JBool True) b else b)"

subsection \<open>ThemeSwitcher\<close>

definition switch_theme :: "browser \<Rightarrow> browser" where
  "switch_theme b =
     (case isDarkTheme b of None \<Rightarrow> b | Some dark \<Rightarrow> setIsDarkTheme (JBool (\<not> js_truthy dark)) b)"

definition ThemeSwitcher :: "jsval \<Rightarrow> 'm \<Rightarrow> 'm nodes" where
  "ThemeSwitcher dark onChange =
     [El ''Switch'' [(''onChange'', POn onChange), (''checked'', PVal dark),
        (''checkedChildren'', PNodes [El ''BulbOutlined'' [] []]),
        (''unCheckedChildren'', PNodes [El ''BulbTwoTone'' [] []])] []]"

subsection \<open>Sessions\<close>

text \<open>A session of a browser: the page is opened and left, the switch used, the preference of the user
  agent changes (which calls the registered listeners of the queries whose result changed).\<close>

inductive theme_step :: "(string \<Rightarrow> jsval result) \<Rightarrow> browser \<Rightarrow> browser \<Rightarrow> bool" for other where
  mounts: "isDarkTheme b = None \<Longrightarrow> mount_theme other b = Inr b' \<Longrightarrow> theme_step other b b'"
| unmounts: "isDarkTheme b \<noteq> None \<Longrightarrow> theme_step other b (unmount_theme b)"
| switches: "isDarkTheme b \<noteq> None \<Longrightarrow> theme_step other b (switch_theme b)"
| prefers: "theme_step other b (b\<lparr>prefers_light := p\<rparr>)"
| notifies: "q \<in> set (listeners b) \<Longrightarrow> theme_step other b (media_change q m b)"

inductive theme_run :: "(string \<Rightarrow> jsval result) \<Rightarrow> browser \<Rightarrow> browser \<Rightarrow> bool" for other where
  theme_refl: "theme_run other b b"
| theme_more: "theme_run other b b' \<Longrightarrow> theme_step other b' b'' \<Longrightarrow> theme_run other b b''"

inductive_cases theme_stepE: "theme_step other b b'"

subsection \<open>Lemmas\<close>

text \<open>While the provider is mounted, state, storage and body agree and both listeners are registered; while
  it is not, none is.\<close>

definition theme_inv :: "browser \<Rightarrow> bool" where
  "theme_inv b \<longleftrightarrow>
     (case isDarkTheme b of
        None \<Rightarrow> listeners b = []
      | Some dark \<Rightarrow>
          listeners b = [PREFER_LIGHT_SCHEMA, PREFER_DARK_SCHEMA] \<and>
          obj_get (localStorage b) LOCALSTORAGE_IS_DARK_THEME_KEY = Some (if js_truthy dark then ''true'' else ''false'') \<and>
          (''light'' \<in> set (body_classes b) \<longleftrightarrow> \<not> js_truthy dark))"

lemma theme_effect_fields:
  "obj_get (localStorage (theme_effect dark b)) LOCALSTORAGE_IS_DARK_THEME_KEY =
     Some (if js_truthy dark then ''true'' else ''false'')"
  "''light'' \<in> set (body_classes (theme_effect dark b)) \<longleftrightarrow> \<not> js_truthy dark"
  "isDarkTheme (theme_effect dark b) = isDarkTheme b" "listeners (theme_effect dark b) = listeners b"
  "prefers_light (theme_effect dark b) = prefers_light b"
  by (auto simp: theme_effect_def setItem_def class_remove_def class_add_def show_json_def obj_get_put)

lemma theme_inv_set: "theme_inv b \<Longrightarrow> theme_inv (setIsDarkTheme v b)"
  by (auto simp: setIsDarkTheme_def theme_inv_def theme_effect_fields split: option.splits)

lemma theme_inv_mount:
  "theme_inv b \<Longrightarrow> isDarkTheme b = None \<Longrightarrow> mount_theme other b = Inr b' \<Longrightarrow> theme_inv b'"
  by (auto simp: mount_theme_def theme_inv_def theme_effect_fields bind_res_Inr_iff)

lemma theme_step_inv: "theme_step other b b' \<Longrightarrow> theme_inv b \<Longrightarrow> theme_inv b'"
proof (induction rule: theme_step.induct)
  case (mounts b b')
  then show ?case by (blast intro: theme_inv_mount)
next
  case (unmounts b)
  then show ?case by (auto simp: theme_inv_def unmount_theme_def)
next
  case (switches b)
  then show ?case by (auto simp: switch_theme_def theme_inv_set split: option.split)
next
  case (prefers b p)
  then show ?case by (simp add: theme_inv_def split: option.splits)
next
  case (notifies q b m)
  from notifies.prems show ?case by (cases q) (auto simp: theme_inv_set)
qed

lemma theme_run_inv: "theme_run other b b' \<Longrightarrow> theme_inv b \<Longrightarrow> theme_inv b'"
  by (induction rule: theme_run.induct) (auto intro: theme_step_inv)

lemma stored_theme:
  "obj_get (localStorage b) LOCALSTORAGE_IS_DARK_THEME_KEY = Some (if d then ''true'' else ''false'') \<Longrightarrow>
    init_dark other b = Inr (JBool d)"
  using json_parse_bool [of d _ other] by (auto simp: init_dark_def Let_def missing_def)

definition fresh_browser :: "bool \<Rightarrow> browser" where
  "fresh_browser p = \<lparr>localStorage = [], body_classes = [], prefers_light = p, listeners = [], isDarkTheme = None\<rparr>"

definition no_parse :: "string \<Rightarrow> jsval result" where
  "no_parse s = Inl SyntaxError"

definition sample_browser :: browser where
  "sample_browser =
     (theme_effect (JBool True) ((fresh_browser False)\<lparr>isDarkTheme := Some (JBool True)\<rparr>))
       \<lparr>listeners := [PREFER_LIGHT_SCHEMA, PREFER_DARK_SCHEMA]\<rparr>"

lemma sample_run: "theme_run no_parse (fresh_browser False) sample_browser"
proof -
  have "mount_theme no_parse (fresh_browser False) = Inr sample_browser"
    by (simp add: mount_theme_def init_dark_def fresh_browser_def missing_def sample_browser_def)
  moreover have "isDarkTheme (fresh_browser False) = None" by (simp add: fresh_browser_def)
  ultimately show ?thesis by (blast intro: theme_run.intros theme_step.intros)
qed

lemma sample_dark: "isDarkTheme sample_browser = Some (JBool True)"
  by (simp add: sample_browser_def theme_effect_fields)

subsection \<open>Properties\<close>

text \<open>C39: in every session that starts with a browser in which nothing is stored, through any mounts, unmounts,
  switches and changes of the preferred scheme: while the provider is mounted, the body has the class
  \<open>light\<close> exactly when the theme is not dark, the stored preference would be read back as the theme, and
  each media query has exactly one listener; while it is not mounted, no listener is left.\<close>

theorem theme_consistent:
  assumes "theme_run other (fresh_browser p) b"
  shows "case isDarkTheme b of
      None \<Rightarrow> listeners b = []
    | Some dark \<Rightarrow>
        (''light'' \<in> set (body_classes b) \<longleftrightarrow> \<not> js_truthy dark) \<and>
        init_dark other b = Inr (JBool (js_truthy dark)) \<and>
        listeners b = [PREFER_LIGHT_SCHEMA, PREFER_DARK_SCHEMA]"
proof -
  have "theme_inv (fresh_browser p)" by (simp add: theme_inv_def fresh_browser_def)
  with assms have "theme_inv b" by (blast intro: theme_run_inv)
  then show ?thesis
    using stored_theme [of b _ other] by (auto simp: theme_inv_def split: option.splits)
qed

theorem theme_consistent_witness:
  "''light'' \<notin> set (body_classes sample_browser) \<and> init_dark no_parse sample_browser = Inr (JBool True)"
  using theme_consistent [OF sample_run] by (simp add: sample_dark)

text \<open>the theme survives leaving the page: after any session, unmounting and mounting again gives the
  theme there was before, whatever the user agent prefers by then.\<close>

lemma theme_roundtrip:
  assumes "theme_run other (fresh_browser p) b" and "isDarkTheme b = Some dark"
  shows "\<exists>b'. mount_theme other ((unmount_theme b)\<lparr>prefers_light := q\<rparr>) = Inr b'
    \<and> isDarkTheme b' = Some (JBool (js_truthy dark))
    \<and> (''light'' \<in> set (body_classes b') \<longleftrightarrow> ''light'' \<in> set (body_classes b))"
proof -
  let ?u = "(unmount_theme b)\<lparr>prefers_light := q\<rparr>"
  have "theme_inv (fresh_browser p)" by (simp add: theme_inv_def fresh_browser_def)
  with assms have inv: "theme_inv b" by (blast intro: theme_run_inv)
  with assms(2) have "init_dark other ?u = Inr (JBool (js_truthy dark))"
    using stored_theme [of ?u "js_truthy dark" other] by (simp add: theme_inv_def unmount_theme_def)
  with inv assms(2) show ?thesis
    by (simp add: mount_theme_def theme_effect_fields theme_inv_def)
qed

lemma theme_roundtrip_witness:
  "\<exists>b'. mount_theme no_parse ((unmount_theme sample_browser)\<lparr>prefers_light := True\<rparr>) = Inr b'
     \<and> isDarkTheme b' = Some (JBool True)"
  using theme_roundtrip [OF sample_run sample_dark, of True] by auto

text \<open>on a first visit the theme follows the user agent (light when it prefers light, dark otherwise), and
  using the switch twice gives the browser state back that there was before.\<close>

lemma first_visit_and_switch:
  assumes "theme_run other (fresh_browser p) b" and "isDarkTheme b = Some (JBool d)"
  shows "(\<exists>b0. mount_theme other (fresh_browser q) = Inr b0 \<and> isDarkTheme b0 = Some (JBool (\<not> q)))
    \<and> isDarkTheme (switch_theme b) = Some (JBool (\<not> d))
    \<and> isDarkTheme (switch_theme (switch_theme b)) = Some (JBool d)
    \<and> obj_get (localStorage (switch_theme (switch_theme b))) LOCALSTORAGE_IS_DARK_THEME_KEY =
        obj_get (localStorage b) LOCALSTORAGE_IS_DARK_THEME_KEY
    \<and> set (body_classes (switch_theme (switch_theme b))) = set (body_classes b)"
proof -
  have inv: "theme_inv b"
    using theme_run_inv [OF assms(1)] by (simp add: theme_inv_def fresh_browser_def)
  have "\<exists>b0. mount_theme other (fresh_browser q) = Inr b0 \<and> isDarkTheme b0 = Some (JBool (\<not> q))"
    by (simp add: mount_theme_def init_dark_def fresh_browser_def missing_def theme_effect_fields)
  with inv assms(2) show ?thesis
    by (auto simp: switch_theme_def setIsDarkTheme_def theme_effect_fields theme_inv_def)
      (auto simp: theme_effect_def setItem_def class_add_def class_remove_def split: if_splits)
qed

lemma first_visit_and_switch_witness:
  "isDarkTheme (switch_theme sample_browser) = Some (JBool False)
   \<and> isDarkTheme (switch_theme (switch_theme sample_browser)) = Some (JBool True)"
  using first_visit_and_switch [OF sample_run sample_dark, of True] by simp

end
