(* ===== verification/Common_Ui.thy ===== *)
theory Common_Ui
  imports Jsx
begin

section \<open>frontend: shared components\<close>

text \<open>
  \<open>frontend/src/utils.ts\<close> and the components under \<open>frontend/src/components/common\<close>: \<open>Badge\<close>, \<open>Box\<close>,
  \<open>ModalAlert\<close>; also \<open>components/Examples/ExampleButton\<close>. The size of a badge or of a header may be
  absent at run time (\<open>size ? ... : ''\<close>), so it is an option.
\<close>

subsection \<open>utils.ts\<close>

datatype WorkspaceRole = user | manager

datatype box_size = small | middle | large

record Instance =
  inst_id :: int
  inst_name :: string
  inst_ip :: string
  inst_status :: bool

record Template =
  tmpl_id :: string
  tmpl_name :: string
  tmpl_gui :: bool
  tmpl_instances :: "Instance list"

subsection \<open>Badge\<close>

fun badge_class :: "box_size \<Rightarrow> string" where
  "badge_class small = ''h-6 w-6 text-sm ''"
| "badge_class middle = ''h-7 w-7 text-base ''"
| "badge_class large = ''h-8 w-8 text-lg ''"

definition Badge :: "int \<Rightarrow> box_size option \<Rightarrow> 'm nodes" where
  "Badge value sz =
     (if value \<noteq> 0
      then [El ''span''
              [cls (nl @ replicate 10 (CHR '' '') @ (case sz of None \<Rightarrow> [] | Some s \<Rightarrow> badge_class s) @
                    nl @ replicate 10 (CHR '' '') @
                    ''mx-2 flex items-center justify-center rounded-lg text-white primary-color-bg'')]
              [Txt (int_to_string value)]]
      else [])"

subsection \<open>Box\<close>

record 'm box_header =
  hd_left :: "'m nodes"
  hd_right :: "'m nodes"
  hd_center :: "'m nodes"
  hd_size :: "box_size option"

definition no_header :: "box_size \<Rightarrow> 'm box_header" where
  "no_header sz = \<lparr>hd_left = [], hd_right = [], hd_center = [], hd_size = Some sz\<rparr>"

fun box_class :: "box_size \<Rightarrow> string" where
  "box_class small = ''h-14''"
| "box_class middle = ''h-20''"
| "box_class large = ''h-28''"

definition Box :: "'m box_header option \<Rightarrow> 'm nodes \<Rightarrow> 'm nodes \<Rightarrow> 'm nodes" where
  "Box header children footer =
     [El ''Card'' [cls ''flex-auto flex flex-col shadow-lg rounded-3xl cl-card-box'', (''bordered'', PBool False)]
       [El ''div'' [cls ''w-full flex-none'']
          (case header of
             None \<Rightarrow> []
           | Some h \<Rightarrow>
               [El ''div''
                  [cls ((case hd_size h of None \<Rightarrow> [] | Some s \<Rightarrow> box_class s) @
                        '' flex justify-center items-center box-header'')]
                  [El ''div'' [cls ''flex-none h-full''] (hd_left h),
                   El ''div'' [cls ''flex-grow h-full''] (hd_center h),
                   El ''div'' [cls ''flex-none h-full''] (hd_right h)]]),
        El ''div'' [cls ''w-full flex-grow''] children,
        El ''div'' [cls ''w-full flex-none inner''] footer]]"

subsection \<open>ModalAlert\<close>

text \<open>The handler of \<open>onCancel\<close> calls \<open>setShowModal(false)\<close>: \<open>setShowModal\<close> is the message for it.\<close>

datatype alert_type = alert_info | alert_success | alert_error | alert_warning

fun alert_name :: "alert_type \<Rightarrow> string" where
  "alert_name alert_info = ''info''"
| "alert_name alert_success = ''success''"
| "alert_name alert_error = ''error''"
| "alert_name alert_warning = ''warning''"

definition ModalAlert ::
  "string \<Rightarrow> bool \<Rightarrow> string \<Rightarrow> string \<Rightarrow> alert_type \<Rightarrow> 'm nodes list \<Rightarrow> (bool \<Rightarrow> 'm) \<Rightarrow> 'm nodes" where
  "ModalAlert headTitle showModal alertMessage alertDescription alertType buttons setShowModal =
     [El ''Modal''
        [(''footer'', PBool False), (''centered'', PBool True), (''title'', PStr headTitle),
         (''visible'', PBool showModal), (''onCancel'', POn (setShowModal False))]
        [El ''Alert''
           [(''message'', PStr alertMessage), (''description'', PStr alertDescription),
            (''type'', PStr (alert_name alertType)), (''showIcon'', PBool True)] [],
         El ''div'' [cls ''flex justify-center mt-6''] (concat buttons)]]"

subsection \<open>ExampleButton\<close>

definition Example :: "string \<Rightarrow> bool \<Rightarrow> 'm \<Rightarrow> bool \<Rightarrow> jsval \<Rightarrow> 'm nodes" where
  "Example label disabled onClick specialCSS sz =
     [El ''div'' [cls ''p-10'']
        [El ''Button''
           [(''disabled'', PBool disabled), (''size'', PVal sz), (''onClick'', POn onClick),
            (''type'', PStr ''primary''), cls ''m-10 rounded-xl'']
           [El ''h5'' [cls (if specialCSS then ''rainbow-text'' else [])] (render_str label)]]]"

subsection \<open>Lemmas\<close>

lemma Badge_handlers [simp]: "all_handlers (Badge value sz) = []"
  by (simp add: Badge_def)

lemma Badge_texts [simp]: "all_texts (Badge value sz) = (if value = 0 then [] else [int_to_string value])"
  by (simp add: Badge_def)

lemma Box_handlers [simp]:
  "all_handlers (Box header children footer) =
     (case header of None \<Rightarrow> [] | Some h \<Rightarrow> all_handlers (hd_left h) @ all_handlers (hd_center h) @ all_handlers (hd_right h))
     @ all_handlers children @ all_handlers footer"
  by (simp add: Box_def split: option.split)

lemma Box_texts [simp]:
  "all_texts (Box header children footer) =
     (case header of None \<Rightarrow> [] | Some h \<Rightarrow> all_texts (hd_left h) @ all_texts (hd_center h) @ all_texts (hd_right h))
     @ all_texts children @ all_texts footer"
  by (simp add: Box_def split: option.split)

lemma Badge_elements [simp]: "tag \<noteq> ''span'' \<Longrightarrow> all_elements tag (Badge value sz) = []"
  by (simp add: Badge_def)

lemma Box_elements [simp]:
  "tag \<noteq> ''Card'' \<Longrightarrow> tag \<noteq> ''div'' \<Longrightarrow> all_elements tag (Box header children footer) =
     (case header of None \<Rightarrow> [] | Some h \<Rightarrow>
        all_elements tag (hd_left h) @ all_elements tag (hd_center h) @ all_elements tag (hd_right h))
     @ all_elements tag children @ all_elements tag footer"
  by (simp add: Box_def split: option.split)

lemma no_header_simps [simp]:
  "hd_left (no_header s) = []" "hd_right (no_header s) = []" "hd_center (no_header s) = []"
  "hd_size (no_header s) = Some s"
  by (simp_all add: no_header_def)

end
