(* ===== verification/Account_Page.thy ===== *)
theory Account_Page
  imports Common_Ui
begin

section \<open>frontend: the account page\<close>

text \<open>
  The components under \<open>frontend/src/components/accountPage\<close>: the form for SSH keys with its validation
  (\<open>SSHKeysForm\<close>), the table of keys, the personal data and the panel that holds them.

  The form library is antd's. What the code relies on is a parameter and a rule: \<open>required\<close> is the
  rule of the same name on the field \<open>name\<close>; the field \<open>key\<close> has the code's own validator; \<open>onFinish\<close>
  (here \<open>submitForm\<close>) is called with the values of the form only when all its rules pass. The calls
  of \<open>onSaveKey\<close> and \<open>onCancel\<close> that the form makes are recorded in its state.
\<close>

subsection \<open>Validation\<close>

definition acceptedAlgorithms :: "string list" where
  "acceptedAlgorithms =
     [''sk-ecdsa-sha2-nistp256@openssh.com'', ''ecdsa-sha2-nistp256'', ''ecdsa-sha2-nistp384'',
      ''ecdsa-sha2-nistp521'', ''sk-ssh-ed25519@openssh.com'', ''ssh-ed25519'', ''ssh-dss'', ''ssh-rsa'']"

definition validateSSHKey :: "string option \<Rightarrow> unit result" where
  "validateSSHKey key =
     (if missing key then Inl (Error ''Key field is mandatory'')
      else
        let result = js_split_ws (the key)
        in if length result \<noteq> 2 \<and> length result \<noteq> 3 then Inl (Error ''Invalid key format'')
           else if result ! 1 = [] then Inl (Error ''Empty SSH key'')
           else if result ! 0 \<notin> set acceptedAlgorithms then Inl (Error ''Unrecognized SSH key format'')
           else Inr ())"

subsection \<open>The form\<close>

record ssh_form =
  fm_name :: "string option"
  fm_key :: "string option"
  validForm :: bool
  saved :: "(string \<times> string) list"
  cancels :: nat

definition empty_form :: ssh_form where
  "empty_form = \<lparr>fm_name = None, fm_key = None, validForm = False, saved = [], cancels = 0\<rparr>"

definition resetFields :: "ssh_form \<Rightarrow> ssh_form" where
  "resetFields f = f\<lparr>fm_name := None, fm_key := None\<rparr>"

definition cancelForm :: "ssh_form \<Rightarrow> ssh_form" where
  "cancelForm f = (resetFields f)\<lparr>cancels := cancels f + 1\<rparr>"

text \<open>\<open>handleChange\<close>, with the values after the change: the awaited validation either passes or throws.\<close>

definition handleChange :: "(string option \<Rightarrow> bool) \<Rightarrow> ssh_form \<Rightarrow> ssh_form" where
  "handleChange required f =
     (let name = fm_name f; key = fm_key f
      in if \<not> missing key \<and> \<not> missing name
         then (if required name \<and> is_ok (validateSSHKey key) then f\<lparr>validForm := True\<rparr> else f\<lparr>validForm := False\<rparr>)
         else if \<not> missing key
         then (if is_ok (validateSSHKey key) then f else f\<lparr>validForm := False\<rparr>)
         else (if required name then f else f\<lparr>validForm := False\<rparr>))"

definition saved_key :: "string \<Rightarrow> string \<Rightarrow> string \<times> string" where
  "saved_key name0 key0 =
     (let fields = js_split_ws key0;
          comment = (if 2 < length fields then fields ! 2 else []);
          name = js_trim name0
      in (name, if comment \<noteq> [] then key0 @ '':'' @ name else key0 @ '' '' @ name))"

definition submitForm :: "string \<Rightarrow> string \<Rightarrow> ssh_form \<Rightarrow> ssh_form" where
  "submitForm name key f = resetFields (f\<lparr>saved := saved f @ [saved_key name key]\<rparr>)"

inductive form_state :: "(string option \<Rightarrow> bool) \<Rightarrow> ssh_form \<Rightarrow> bool" for required where
  opened: "form_state required empty_form"
| edited: "form_state required f \<Longrightarrow>
    form_state required (handleChange required (f\<lparr>fm_name := name, fm_key := key\<rparr>))"
| finished: "form_state required f \<Longrightarrow> required (fm_name f) \<Longrightarrow> is_ok (validateSSHKey (fm_key f)) \<Longrightarrow>
    fm_name f = Some name \<Longrightarrow> fm_key f = Some key \<Longrightarrow> form_state required (submitForm name key f)"
| cancelled: "form_state required f \<Longrightarrow> form_state required (cancelForm f)"

text \<open>What the form renders; the zero-width space between the last two items is no code unit of the model
  and is left out.\<close>

definition quoted :: "string \<Rightarrow> string" where
  "quoted s = [CHR 0x27] @ s @ [CHR 0x27]"

definition SSHKeysForm :: "bool \<Rightarrow> 'm \<Rightarrow> 'm \<Rightarrow> 'm \<Rightarrow> 'm nodes" where
  "SSHKeysForm valid submit change cancel =
     [El ''Form'' [(''form'', PStr ''form''), (''labelCol'', PVal (JObj [(''span'', JNum 4)])),
          (''wrapperCol'', PVal (JObj [(''span'', JNum 24)])), (''onFinish'', POn submit), (''onValuesChange'', POn change)]
        [El ''Form.Item'' [(''name'', PStr ''name''), (''label'', PStr ''Name''), (''validateTrigger'', PStr ''onBlur''),
             (''rules'', PVal (JArr [JObj [(''required'', JBool True), (''message'', JStr ''Field required'')]]))]
           [El ''Input'' [] []],
         El ''Form.Item'' [(''validateTrigger'', PStr ''onBlur''), (''name'', PStr ''key''), (''label'', PStr ''Public Key''),
             (''rules'', PVal (JArr [JObj [(''required'', JBool True), (''validator'', JStr ''validateSSHKey'')]]))]
           [El ''Input.TextArea'' [(''rows'', PNum 10),
              (''placeholder'', PStr (''Your PUBLIC KEY here '' @ nl @ '' Begins with '' @
                 js_join '', '' (map quoted acceptedAlgorithms)))] []],
         El ''Form.Item'' []
           [El ''Row'' [(''justify'', PStr ''end'')]
              [El ''Button'' [(''type'', PStr ''default''), (''htmlType'', PStr ''button''), (''onClick'', POn cancel)]
                 [Txt ''Cancel''],
               El ''Button'' [(''disabled'', PBool (\<not> valid)), cls ''ml-2'', (''type'', PStr ''primary''),
                  (''htmlType'', PStr ''submit'')] [Txt ''Save'']]]]]"

subsection \<open>SSHKeysTable, UserInfo, UserPanel\<close>

definition key_val :: "string \<times> string \<Rightarrow> jsval" where
  "key_val nk = JObj [(''name'', JStr (fst nk)), (''key'', JStr (snd nk))]"

definition SSHKeysTable :: "(string \<times> string) list option \<Rightarrow> 'm nodes" where
  "SSHKeysTable sshKeys =
     [El ''Table''
        [(''dataSource'', PVal (case sshKeys of None \<Rightarrow> JUndefined | Some ks \<Rightarrow> JArr (map key_val ks))),
         (''expandedRowRender'', renders (\<lambda>nk. [El ''p'' [] (render_str (snd nk))])
            (case sshKeys of None \<Rightarrow> [] | Some ks \<Rightarrow> ks))]
        [El ''Column'' [(''title'', PStr ''Name''), (''dataIndex'', PStr ''name''), (''width'', PNum 120)] [],
         El ''Column'' [(''title'', PStr ''Key''), (''dataIndex'', PStr ''key''), (''ellipsis'', PBool True)] []]]"

record user_info =
  firstName :: string
  lastName :: string
  username :: string
  email :: string

definition UserInfo :: "user_info \<Rightarrow> 'm nodes" where
  "UserInfo u =
     [El ''h3'' [] [Txt ''Personal''],
      El ''p'' [] [Txt ''First name: '', El ''strong'' [] (render_str (firstName u))],
      El ''p'' [] [Txt ''Last name: '', El ''strong'' [] (render_str (lastName u))],
      El ''p'' [] [Txt ''Username: '', El ''strong'' [] (render_str (username u))],
      El ''p'' [] [Txt ''Email: '', El ''strong'' [] (render_str (email u))]]"

datatype panel_msg = openSSHModal | closeModal | formSubmit | formChange | formCancel

definition UserPanel ::
  "user_info \<Rightarrow> string option \<Rightarrow> (string \<times> string) list option \<Rightarrow> bool \<Rightarrow> bool \<Rightarrow> panel_msg nodes" where
  "UserPanel otherInfo avatar sshKeys showSSHModal valid =
     [El ''Row'' [cls ''p-4'', (''align'', PStr ''top'')]
        [El ''Col'' [(''xs'', PNum 24), (''sm'', PNum 8), cls ''text-center'']
           [El ''Avatar'' [(''size'', PStr ''large''),
              (''icon'', case avatar of None \<Rightarrow> PNodes [El ''UserOutlined'' [] []] | Some a \<Rightarrow> PStr a)] [],
            El ''p'' []
              (render_str (firstName otherInfo) @ [Txt '' ''] @ render_str (lastName otherInfo) @ [El ''br'' [] [],
               El ''strong'' [] (render_str (username otherInfo))])],
         El ''Col'' [(''xs'', PNum 24), (''sm'', PNum 16), cls ''px-4 '']
           [El ''Tabs'' []
              [El ''TabPane'' [(''tab'', PStr ''Info''), (''key'', PStr ''1'')] (UserInfo otherInfo),
               El ''TabPane'' [(''tab'', PStr ''SSH Keys''), (''key'', PStr ''2'')]
                 (SSHKeysTable sshKeys @
                  [El ''Button'' [cls ''mt-3'', (''onClick'', POn openSSHModal)] [Txt ''Add SSH key''],
                   El ''Modal'' [(''title'', PStr ''New SSH key''), (''visible'', PBool showSSHModal), (''footer'', PVal JNull),
                        (''onCancel'', POn closeModal)]
                     (SSHKeysForm valid formSubmit formChange formCancel)])]]]]"

text \<open>The panel's state is the visibility of the modal and the form inside it. Both callbacks of the form
  close the modal; the saved key goes nowhere.\<close>

record panel =
  showSSHModal :: bool
  panel_form :: ssh_form

definition panel_open :: "panel \<Rightarrow> panel" where
  "panel_open p = p\<lparr>showSSHModal := True\<rparr>"

definition panel_close :: "panel \<Rightarrow> panel" where
  "panel_close p = p\<lparr>showSSHModal := False\<rparr>"

definition panel_cancel :: "panel \<Rightarrow> panel" where
  "panel_cancel p = panel_close (p\<lparr>panel_form := cancelForm (panel_form p)\<rparr>)"

definition panel_save :: "string \<Rightarrow> string \<Rightarrow> panel \<Rightarrow> panel" where
  "panel_save name key p = panel_close (p\<lparr>panel_form := submitForm name key (panel_form p)\<rparr>)"

subsection \<open>Lemmas\<close>

lemma js_split_ws_empty: "js_split_ws s = [[]] \<longleftrightarrow> s = []"
  by (cases s; cases "js_space (hd s)") (auto simp: js_simps)

lemma js_split_ws_trailing:
  assumes "js_space b" and "s \<noteq> []"
  shows "js_split_ws (s @ [b]) = (if last (js_split_ws s) = [] then js_split_ws s else js_split_ws s @ [[]])"
  using assms(2)
proof (induction s rule: js_split_ws.induct)
  case (2 c cs)
  show ?case
  proof (cases "js_space c")
    case True
    then show ?thesis
    proof (cases "list_all js_space cs")
      case True
      then have "dropWhile js_space cs = []" "dropWhile js_space (cs @ [b]) = []"
        using assms(1) by (auto simp: list_all_iff)
      with \<open>js_space c\<close> show ?thesis by (simp add: js_simps del: dropWhile_eq_Nil_conv)
    next
      case False
      then have "dropWhile js_space cs \<noteq> []" by (auto simp: list_all_iff)
      with 2(1) \<open>js_space c\<close> False show ?thesis by (simp add: js_simps dropWhile_all_append)
    qed
  next
    case False
    show ?thesis
    proof (cases "cs = []")
      case True
      with False assms(1) show ?thesis by (simp add: js_simps)
    next
      case ne: False
      obtain w ws where "js_split_ws cs = w # ws" using js_split_ws_neq_Nil by (cases "js_split_ws cs") auto
      with 2(2) [OF False ne] False ne show ?thesis by (auto simp: js_simps js_split_ws_empty)
    qed
  qed
qed simp

lemma validateSSHKey_ok:
  "is_ok (validateSSHKey (Some k)) \<longleftrightarrow>
    (\<exists>a b rest. js_split_ws k = a # b # rest \<and> length rest \<le> 1 \<and> b \<noteq> [] \<and> a \<in> set acceptedAlgorithms)"
proof -
  have "is_ok (validateSSHKey (Some [])) = False" "js_split_ws [] = [[]]"
    by (simp_all add: validateSSHKey_def missing_def)
  moreover have "length xs = 2 \<or> length xs = 3 \<longleftrightarrow> (\<exists>a b rest. xs = a # b # rest \<and> length rest \<le> 1)" for xs :: "string list"
    by (auto simp: numeral_2_eq_2 numeral_3_eq_3 length_Suc_conv le_Suc_eq)
  ultimately show ?thesis
    by (cases "k = []") (auto simp: validateSSHKey_def missing_def Let_def split: if_splits)
qed

lemma js_trim_ends:
  assumes "js_trim s \<noteq> []"
  shows "\<not> js_space (hd (js_trim s))" "\<not> js_space (last (js_trim s))"
proof -
  let ?l = "dropWhile js_space s"
  have hd: "\<not> P (hd (dropWhile P xs))" if "dropWhile P xs \<noteq> []" for P :: "char \<Rightarrow> bool" and xs
    using that by (rule hd_dropWhile)
  have r: "js_trim s = rev (dropWhile js_space (rev ?l))" by (simp add: js_trim_def)
  with assms have ne: "dropWhile js_space (rev ?l) \<noteq> []" by simp
  with hd [OF ne] r show "\<not> js_space (last (js_trim s))" by (simp add: last_rev)
  obtain xs where "rev ?l = xs @ dropWhile js_space (rev ?l)"
    by (metis takeWhile_dropWhile_id)
  then have "?l = js_trim s @ rev xs" using r by (metis rev_append rev_rev_ident)
  with assms hd [of js_space s] show "\<not> js_space (hd (js_trim s))" by (metis append_is_Nil_conv hd_append2)
qed

text \<open>The fields of a saved key: the first two are those of the key that was entered, and a name that is
  one word becomes (the end of) the only other field.\<close>

lemma saved_key_fields:
  assumes "is_ok (validateSSHKey (Some key))" and "saved_key name key = (n, k)"
  obtains a b rest where "js_split_ws key = a # b # rest" and "a \<in> set acceptedAlgorithms" and "b \<noteq> []"
    and "take 2 (js_split_ws k) = [a, b]"
    and "n \<noteq> [] \<Longrightarrow> no_space n \<Longrightarrow> \<exists>c. js_split_ws k = [a, b, c @ n]"
proof -
  from assms(1) obtain a b rest where f: "js_split_ws key = a # b # rest" "length rest \<le> 1" "b \<noteq> []"
    "a \<in> set acceptedAlgorithms" by (auto simp: validateSSHKey_ok)
  then have ne: "key \<noteq> []" by auto
  from assms(2) have n: "n = js_trim name" by (auto simp: saved_key_def Let_def)
  have "take 2 (js_split_ws k) = [a, b] \<and> (n \<noteq> [] \<longrightarrow> no_space n \<longrightarrow> (\<exists>c. js_split_ws k = [a, b, c @ n]))"
  proof (cases "\<exists>c. rest = [c] \<and> c \<noteq> []")
    case True
    then obtain c where c: "rest = [c]" "c \<noteq> []" by blast
    with f assms(2) n have k: "k = key @ '':'' @ n" by (simp add: saved_key_def Let_def)
    have colon: "\<not> js_space CHR '':''" by (simp add: js_space_def)
    have "js_split_ws k = [a, b] @ (c @ hd (js_split_ws ('':'' @ n))) # tl (js_split_ws ('':'' @ n))"
      using js_split_ws_glue [of "'':'' @ n" key] colon f c k by simp
    moreover have "js_split_ws ('':'' @ n) = ['':'' @ n]" if "no_space n"
      using that colon js_split_ws_word [of "'':'' @ n"] by (simp add: no_space_def)
    ultimately show ?thesis using exI [of _ "c @ '':''"] by simp
  next
    case False
    with f(2) have rest: "rest = [] \<or> rest = [[]]" by (cases rest) auto
    with f assms(2) n have k: "k = (key @ '' '') @ n" by (auto simp: saved_key_def Let_def)
    have sp: "js_split_ws (key @ '' '') = [a, b, []]"
      using js_split_ws_trailing [of "CHR '' ''" key] ne f rest by auto
    show ?thesis
    proof (cases "n = []")
      case True
      with k sp show ?thesis by simp
    next
      case False
      with n js_trim_ends(1) [of name] have "\<not> js_space (hd n)" by simp
      from js_split_ws_glue [OF False this, of "key @ '' ''"] sp k
      have "js_split_ws k = [a, b] @ hd (js_split_ws n) # tl (js_split_ws n)" by simp
      moreover have "js_split_ws n = [n]" if "no_space n"
        using that js_split_ws_word [of n] by (simp add: no_space_def)
      ultimately show ?thesis using exI [of _ "[] :: string"] by simp
    qed
  qed
  with f that show thesis by blast
qed

text \<open>Every saved pair comes from a submitted form.\<close>

lemma form_saved:
  "form_state required f \<Longrightarrow> nk \<in> set (saved f) \<Longrightarrow>
    \<exists>name key. nk = saved_key name key \<and> is_ok (validateSSHKey (Some key)) \<and> required (Some name)"
proof (induction rule: form_state.induct)
  case (edited f name key)
  then show ?case by (auto simp: handleChange_def Let_def split: if_splits)
qed (auto simp: empty_form_def submitForm_def resetFields_def cancelForm_def)

subsection \<open>Properties\<close>

text \<open>C30: every key the form saves starts with an accepted algorithm and a non-empty key body, and its name
  has no white space at either end; when the name is a single word, the saved key is again valid for
  the form, its comment ending in the name.\<close>

theorem saved_keys_are_well_formed:
  assumes "form_state required f" and "(n, k) \<in> set (saved f)"
  shows "(\<exists>a b. take 2 (js_split_ws k) = [a, b] \<and> a \<in> set acceptedAlgorithms \<and> b \<noteq> [])
    \<and> (n = [] \<or> \<not> js_space (hd n) \<and> \<not> js_space (last n))
    \<and> (if n \<noteq> [] \<and> no_space n
       then validateSSHKey (Some k) = Inr () \<and> (\<exists>a b c. js_split_ws k = [a, b, c @ n]) else True)"
proof -
  from form_saved [OF assms] obtain name key where sk: "saved_key name key = (n, k)"
    and ok: "is_ok (validateSSHKey (Some key))" by auto
  obtain a b rest where f: "a \<in> set acceptedAlgorithms" "b \<noteq> []" "take 2 (js_split_ws k) = [a, b]"
    "n \<noteq> [] \<Longrightarrow> no_space n \<Longrightarrow> \<exists>c. js_split_ws k = [a, b, c @ n]"
    using saved_key_fields [OF ok sk] by metis
  from sk have "n = js_trim name" by (auto simp: saved_key_def Let_def)
  then have n: "n = [] \<or> \<not> js_space (hd n) \<and> \<not> js_space (last n)" using js_trim_ends [of name] by auto
  have "validateSSHKey (Some k) = Inr ()" if "n \<noteq> []" "no_space n"
    using f(4) [OF that] f(1,2) validateSSHKey_ok [of k] by (auto simp: is_ok_def)
  with f n show ?thesis by auto
qed

definition filled :: "string option \<Rightarrow> bool" where
  "filled v \<longleftrightarrow> \<not> missing v"

lemma split_sample: "js_split_ws ''ssh-rsa AAAA'' = [''ssh-rsa'', ''AAAA'']"
  by (simp add: js_simps js_space_def)

lemma sample_key_ok: "is_ok (validateSSHKey (Some ''ssh-rsa AAAA''))"
  by (simp add: validateSSHKey_ok split_sample acceptedAlgorithms_def)

theorem saved_keys_are_well_formed_witness:
  "validateSSHKey (Some ''ssh-rsa AAAA me'') = Inr ()"
proof -
  let ?f1 = "handleChange filled (empty_form\<lparr>fm_name := Some '' me '', fm_key := Some ''ssh-rsa AAAA''\<rparr>)"
  let ?f2 = "submitForm '' me '' ''ssh-rsa AAAA'' ?f1"
  have vals: "fm_name ?f1 = Some '' me ''" "fm_key ?f1 = Some ''ssh-rsa AAAA''"
    by (simp_all add: handleChange_def Let_def)
  have s1: "form_state filled ?f1" by (intro form_state.intros)
  have s2: "form_state filled ?f2"
    by (rule form_state.finished [OF s1]) (simp_all add: vals sample_key_ok, simp add: filled_def missing_def)
  have "(''me'', ''ssh-rsa AAAA me'') \<in> set (saved ?f2)"
    by (simp add: submitForm_def resetFields_def saved_key_def split_sample js_trim_def js_space_def Let_def)
  from saved_keys_are_well_formed [OF s2 this] show ?thesis
    by (simp add: no_space_def js_space_def)
qed

text \<open>the Save button: after an edit that leaves both fields filled it is enabled exactly when the key is
  valid. When a field is emptied, a valid remaining field leaves the button as it was: there is a
  state in which Save is enabled although the key field is empty.\<close>

lemma save_button_state:
  assumes "\<And>v. required v \<longleftrightarrow> \<not> missing v"
  shows "(\<not> missing (fm_name f) \<and> \<not> missing (fm_key f) \<longrightarrow>
      validForm (handleChange required f) = is_ok (validateSSHKey (fm_key f)))
    \<and> (\<exists>g. form_state required g \<and> validForm g \<and> fm_key g = Some [])"
proof
  show "\<not> missing (fm_name f) \<and> \<not> missing (fm_key f) \<longrightarrow>
      validForm (handleChange required f) = is_ok (validateSSHKey (fm_key f))"
    using assms by (simp add: handleChange_def Let_def del: not_missing)
next
  let ?k = "''ssh-rsa AAAA''"
  have ok: "is_ok (validateSSHKey (Some ?k))" by (rule sample_key_ok)
  let ?f1 = "handleChange required (empty_form\<lparr>fm_name := Some ''a'', fm_key := Some ?k\<rparr>)"
  have s1: "form_state required ?f1" by (intro form_state.intros)
  have v1: "validForm ?f1"
    using ok assms by (simp add: handleChange_def missing_def)
  let ?f2 = "handleChange required (?f1\<lparr>fm_name := Some ''a'', fm_key := Some []\<rparr>)"
  have "validForm ?f2 \<and> fm_key ?f2 = Some []"
    using v1 assms by (simp add: handleChange_def [of _ "_\<lparr>fm_name := Some ''a'', fm_key := Some []\<rparr>"] missing_def Let_def)
  moreover have "form_state required ?f2" by (rule form_state.edited [OF s1])
  ultimately show "\<exists>g. form_state required g \<and> validForm g \<and> fm_key g = Some []" by blast
qed

lemma save_button_state_witness:
  "\<exists>g. form_state filled g \<and> validForm g \<and> fm_key g = Some []"
  using save_button_state [of filled empty_form] by (simp add: filled_def)

end
