(* ===== verification/Active_Page.thy ===== *)
theory Active_Page
  imports Common_Ui "HOL-Library.Multiset"
begin

section \<open>frontend: the page of active instances\<close>

text \<open>
  The components under \<open>frontend/src/components/activePage\<close>. A managed view nests one table of
  templates in each row of a table of workspaces; every table instance has its own expanded keys,
  so the state maps instances to them (\<open>None\<close> the outer table, \<open>Some key\<close> the table in the row of
  that workspace). The outer table stays mounted when the view mode changes and keeps its state.
  \<open>destroyAll\<close> of \<open>ActiveLanding\<close> calls \<open>alert\<close>; the alerts shown are part of the state.
\<close>

subsection \<open>Data\<close>

record ITemplate =
  it_key :: string
  it_id :: string
  it_name :: string
  it_workspace :: string
  it_nActiveInstances :: int

record IWorkspace =
  iw_key :: string
  iw_id :: string
  iw_name :: string
  iw_templates :: "ITemplate list"

definition temp_templates :: "ITemplate list" where
  "temp_templates =
     [\<lparr>it_key = ''LANDC-labs'', it_id = ''LANDC-labs'', it_name = ''Laboratorio di Reti Locali e Data Center'',
       it_workspace = ''01SQOOV'', it_nActiveInstances = 3\<rparr>,
      \<lparr>it_key = ''TSR-labs'', it_id = ''TSR-labs'', it_name = ''Laboratorio di Tecnologie e Servizi di Rete'',
       it_workspace = ''02KPNOV'', it_nActiveInstances = 2\<rparr>,
      \<lparr>it_key = ''LANDC-project'', it_id = ''LANDC-project'', it_name = ''Progetto Design Rete Aziendale'',
       it_workspace = ''01SQOOV'', it_nActiveInstances = 1\<rparr>]"

definition temp_workspaces :: "IWorkspace list" where
  "temp_workspaces =
     [\<lparr>iw_key = ''01SQOOV'', iw_id = ''01SQOOV'', iw_name = ''Reti Locali e Data Center'',
       iw_templates = [temp_templates ! 0, temp_templates ! 2]\<rparr>,
      \<lparr>iw_key = ''02KPNOV'', iw_id = ''02KPNOV'', iw_name = ''Tecnologie e Servizi di Rete'',
       iw_templates = [temp_templates ! 1]\<rparr>]"

subsection \<open>RowHeading\<close>

text \<open>The handler of the dots icon only stops the event; it sends no message.\<close>

definition RowHeading :: "string \<Rightarrow> int \<Rightarrow> bool \<Rightarrow> 'm \<Rightarrow> 'm nodes" where
  "RowHeading label nActive newTempl destroyAll =
     [El ''Row'' [cls ''items-center'']
        [El ''Col'' [cls ''flex items-center flex-grow'']
           ((if newTempl
             then [El ''BadgeAnt'' [(''dot'', PBool True), (''offset'', PVal (JArr [JNum (-8), JNum 2])),
                      cls ''hidden lg:inline-block''] (Badge nActive (Some small))]
             else Badge nActive (Some small)) @
            [El ''Text'' [cls ''font-bold ml-4 w-48 sm:w-max'', (''ellipsis'', PBool True)] (render_str label)]),
         El ''Col'' []
           [El ''Button'' [(''type'', PStr ''danger''), (''shape'', PStr ''round''), (''size'', PStr ''middle''),
               (''icon'', PNodes [El ''DeleteOutlined'' [] []]), cls ''hidden lg:inline-block border-0'',
               (''onClick'', POn destroyAll)] [Txt ''Destory All''],
            El ''Dropdown''
              [(''overlay'', PNodes
                  [El ''Menu'' [(''onClick'', POn destroyAll), cls ''p-0 rounded-sm'']
                     [El ''Menu.Item'' [(''key'', PNum 1), (''icon'', PNodes [El ''DeleteOutlined'' [cls ''text-lg''] []]),
                        cls ''rounded-sm'', (''danger'', PBool True)] [Txt ''Destory All'']]]),
               (''trigger'', PVal (JArr [JStr ''click'']))]
              [El ''MoreOutlined'' [cls ''lg:hidden'', (''onClick'', PStr ''stopPropagation'')] []]]]]"

subsection \<open>NestedTables\<close>

definition nested_accordion :: "bool \<Rightarrow> string \<Rightarrow> string list \<Rightarrow> string list" where
  "nested_accordion expanded key e = [if \<not> expanded then [] else key]"

type_synonym tables = "string option \<Rightarrow> string list"

definition template_record :: "ITemplate \<Rightarrow> jsval" where
  "template_record t =
     JObj [(''key'', JStr (it_key t)), (''id'', JStr (it_id t)), (''name'', JStr (it_name t)),
           (''workspace'', JStr (it_workspace t)), (''nActiveInstances'', JNum (it_nActiveInstances t))]"

definition workspace_record :: "IWorkspace \<Rightarrow> jsval" where
  "workspace_record w =
     JObj [(''key'', JStr (iw_key w)), (''id'', JStr (iw_id w)), (''name'', JStr (iw_name w)),
           (''templates'', JArr (map template_record (iw_templates w)))]"

definition table_props ::
  "jsval list \<Rightarrow> string list \<Rightarrow> (bool \<Rightarrow> string \<Rightarrow> 'm) \<Rightarrow> string list \<Rightarrow> 'm attr \<Rightarrow> (string \<times> 'm attr) list" where
  "table_props data keys onExpand expandedID expandedRowRender =
     [(''dataSource'', PVal (JArr data)), (''pagination'', PBool False), (''showHeader'', PBool False),
      (''expandedRowKeys'', PVal (JArr (map JStr expandedID))),
      (''expandIcon'', renders (\<lambda>(expanded, _).
          [El ''CaretRightOutlined'' [(''onClick'', PStr ''onExpand''), (''rotate'', PNum (if expanded then 90 else 0))] []])
          (List.product [True, False] keys)),
      (''expandedRowRender'', expandedRowRender), (''expandRowByClick'', PBool True)] @
     calls ''onExpand'' (\<lambda>(b, k). onExpand b k) (List.product [True, False] keys)"

definition table_column :: "'m attr \<Rightarrow> 'm nodes" where
  "table_column render =
     [El ''Column'' [(''title'', PStr ''Workspaces''), (''dataIndex'', PStr ''name''), (''key'', PStr ''key''),
        (''render'', render)] []]"

function NestedTables ::
  "bool \<Rightarrow> IWorkspace list \<Rightarrow> ITemplate list \<Rightarrow> 'm \<Rightarrow> string option \<Rightarrow> tables \<Rightarrow> (string option \<Rightarrow> bool \<Rightarrow> string \<Rightarrow> 'm)
    \<Rightarrow> 'm nodes" where
  "NestedTables False workspaces templates destroyAll self tables onExpand =
     [El ''Table''
        (table_props (map template_record templates) (map it_key templates) (onExpand self) (tables self)
           (renders (\<lambda>_. [El ''ul'' [] [El ''li'' [] [Txt ''VM Instance 1''], El ''li'' [] [Txt ''VM Instance 2''],
                                       El ''li'' [] [Txt ''VM Instance 3'']]]) templates))
        (table_column (renders (\<lambda>t. RowHeading (it_name t) (it_nActiveInstances t) True destroyAll) templates))]"
| "NestedTables True workspaces templates destroyAll self tables onExpand =
     [El ''Table''
        (table_props (map workspace_record workspaces) (map iw_key workspaces) (onExpand self) (tables self)
           (renders (\<lambda>w. NestedTables False workspaces (iw_templates w) destroyAll (Some (iw_key w)) tables onExpand)
              workspaces))
        (table_column (renders (\<lambda>w. RowHeading (iw_name w) (int (length (iw_templates w))) True destroyAll) workspaces))]"
  by pat_completeness auto
termination
  by (relation "measure (\<lambda>(isManager, _). if isManager then 1 else 0)") auto

subsection \<open>ActiveLanding\<close>

datatype active_msg =
    setManagerView bool
  | setExpandedID "string option" bool string
  | destroyAll

record active_state =
  managerView :: bool
  tables_of :: tables
  alerts :: "string list"

definition ViewModeButton :: "bool \<Rightarrow> (bool \<Rightarrow> 'm) \<Rightarrow> 'm nodes" where
  "ViewModeButton mode setMode =
     [El ''Radio.Group'' ((''value'', PBool mode) # calls ''onChange'' setMode [False, True])
        [El ''Radio.Button'' [(''value'', PBool False)] [Txt ''Personal Instances''],
         El ''Radio.Button'' [(''value'', PBool True)] [Txt ''Managed Instances'']]]"

definition ActiveLanding :: "bool \<Rightarrow> active_state \<Rightarrow> active_msg nodes" where
  "ActiveLanding isTenantManager st =
     Box (Some ((no_header small)\<lparr>hd_right :=
            (if isTenantManager then ViewModeButton (managerView st) setManagerView else [])\<rparr>))
       [El ''Col'' []
          (NestedTables (managerView st) temp_workspaces temp_templates destroyAll None (tables_of st) setExpandedID)] []"

definition active_init :: active_state where
  "active_init = \<lparr>managerView = False, tables_of = (\<lambda>_. [[]]), alerts = []\<rparr>"

fun active_update :: "active_msg \<Rightarrow> active_state \<Rightarrow> active_state" where
  "active_update (setManagerView b) st = st\<lparr>managerView := b\<rparr>"
| "active_update (setExpandedID self b k) st =
     st\<lparr>tables_of := (tables_of st)(self := nested_accordion b k (tables_of st self))\<rparr>"
| "active_update destroyAll st = st\<lparr>alerts := alerts st @ [''VMs deleted'']\<rparr>"

subsection \<open>Lemmas\<close>

interpretation nested_table: accordion nested_accordion
  by unfold_locales (simp_all add: nested_accordion_def)

lemma RowHeading_handlers [simp]: "all_handlers (RowHeading label n new d) = [d, d]"
  by (simp add: RowHeading_def)

lemma table_handlers [simp]:
  "concat (map (\<lambda>p. prop_handlers (snd p)) (table_props data keys onExpand e r)) =
     prop_handlers r @ map (\<lambda>(b, k). onExpand b k) (List.product [True, False] keys)"
  "all_handlers (table_column c) = prop_handlers c"
  by (simp_all add: table_props_def table_column_def)

lemma NestedTables_leaf_handlers:
  "set (all_handlers (NestedTables False ws ts d self tables onExpand)) =
     {onExpand self b k | b k. k \<in> it_key ` set ts} \<union> (if ts = [] then {} else {d})"
  by (auto simp: image_iff) (metis (full_types))+

lemma NestedTables_root_handlers:
  "set (all_handlers (NestedTables True ws ts d self tables onExpand)) =
     {onExpand self b k | b k. k \<in> iw_key ` set ws} \<union> (if ws = [] then {} else {d}) \<union>
     (\<Union>w \<in> set ws. set (all_handlers (NestedTables False ws (iw_templates w) d (Some (iw_key w)) tables onExpand)))"
  by (auto simp: image_iff simp del: NestedTables.simps(1)) (metis (full_types))+

lemma ActiveLanding_handlers:
  "set (all_handlers (ActiveLanding m st)) =
     (if m then {setManagerView False, setManagerView True} else {}) \<union>
     set (all_handlers (NestedTables (managerView st) temp_workspaces temp_templates destroyAll None (tables_of st) setExpandedID))"
  by (auto simp: ActiveLanding_def ViewModeButton_def)

text \<open>The invariant: the managed view is for managers, and every table has at most one expanded row.\<close>

definition active_inv :: "bool \<Rightarrow> active_state \<Rightarrow> bool" where
  "active_inv isTenantManager st \<longleftrightarrow>
     (managerView st \<longrightarrow> isTenantManager) \<and> (\<forall>self. length (tables_of st self) = 1)"

lemma no_view_mode:
  "setManagerView b \<notin> set (all_handlers (NestedTables m ws ts destroyAll self tables setExpandedID))"
  by (cases m) (auto simp: NestedTables_root_handlers NestedTables_leaf_handlers
      simp del: NestedTables.simps split: if_splits)

interpretation active: page active_init active_update "ActiveLanding m" "active_inv m" for m
proof unfold_locales
  show "active_inv m active_init" by (simp add: active_inv_def active_init_def)
next
  fix s msg
  assume inv: "active_inv m s" and msg: "msg \<in> set (all_handlers (ActiveLanding m s))"
  show "active_inv m (active_update msg s)"
  proof (cases msg)
    case (setManagerView b)
    with msg no_view_mode [of b] have m by (auto simp: ActiveLanding_handlers split: if_splits)
    with inv setManagerView show ?thesis by (simp add: active_inv_def)
  qed (use inv in \<open>auto simp: active_inv_def nested_accordion_def\<close>)
qed

subsection \<open>Properties\<close>

text \<open>C31: a tenant who manages no workspace never reaches the managed view, whatever is clicked; in every
  state each table shows at most one expanded row, and the last row expanded in a table is the one
  that is open.\<close>

theorem managed_view_needs_manager:
  assumes "page_state active_init active_update (ActiveLanding isTenantManager) s"
  shows "(managerView s \<longrightarrow> isTenantManager) \<and> (\<exists>k. tables_of s self = [k])
    \<and> tables_of (active_update (setExpandedID self True key) s) self = [key]
    \<and> tables_of (active_update (setExpandedID self False key) s) self = [[]]"
  using active.page_inv [OF assms] nested_table.toggle_open nested_table.toggle_close
  by (auto simp: active_inv_def length_Suc_conv)

theorem managed_view_needs_manager_witness:
  "\<exists>s. page_state active_init active_update (ActiveLanding True) s \<and> managerView s
     \<and> (\<exists>k. tables_of s None = [k])"
proof -
  let ?s = "active_update (setManagerView True) active_init"
  have "page_state active_init active_update (ActiveLanding True) ?s"
    by (rule page_state.handled [OF page_state.mounted]) (simp add: ActiveLanding_handlers)
  with managed_view_needs_manager [OF this, of None "''k''"] show ?thesis
    by (intro exI [of _ ?s]) simp
qed

text \<open>the sample data of the page are consistent: every template is listed under exactly one workspace,
  the one it names, no key occurs twice, and the personal view shows each template of the managed
  view once.\<close>

lemma temp_data_consistent:
  "mset (concat (map iw_templates temp_workspaces)) = mset temp_templates
   \<and> distinct (map it_key temp_templates) \<and> distinct (map iw_key temp_workspaces)
   \<and> list_all (\<lambda>w. list_all (\<lambda>t. it_workspace t = iw_key w) (iw_templates w)) temp_workspaces"
  by (simp add: temp_workspaces_def temp_templates_def)

end
