(* ===== verification/Workspaces_Page.thy ===== *)
theory Workspaces_Page
  imports Common_Ui
begin

section \<open>frontend: the workspaces page\<close>

text \<open>
  The components under \<open>frontend/src/components/workspaces\<close>, from the data to the \<open>Dashboard\<close>. The
  state of the page is the selected workspace (\<open>Dashboard\<close>) and the expanded row (\<open>TemplatesTable\<close>);
  \<open>ws_msg\<close> are the calls its handlers make. React keeps the state of \<open>TemplatesTable\<close> while one is
  rendered at that place and creates it anew otherwise, which \<open>ws_update\<close> does on a selection.
\<close>

subsection \<open>Data\<close>

record workspace =
  ws_id :: int
  ws_title :: string
  ws_role :: WorkspaceRole
  ws_templates :: "Template list"

definition inst :: "int \<Rightarrow> string \<Rightarrow> string \<Rightarrow> bool \<Rightarrow> Instance" where
  "inst i n ip s = \<lparr>inst_id = i, inst_name = n, inst_ip = ip, inst_status = s\<rparr>"

definition tmpl :: "string \<Rightarrow> string \<Rightarrow> bool \<Rightarrow> Instance list \<Rightarrow> Template" where
  "tmpl i n g xs = \<lparr>tmpl_id = i, tmpl_name = n, tmpl_gui = g, tmpl_instances = xs\<rparr>"

definition ws :: "int \<Rightarrow> string \<Rightarrow> WorkspaceRole \<Rightarrow> Template list \<Rightarrow> workspace" where
  "ws i t r ts = \<lparr>ws_id = i, ws_title = t, ws_role = r, ws_templates = ts\<rparr>"

definition fake_data :: "workspace list" where
  "fake_data =
     [ws 0 ''Reti Locali e Data Center'' manager
         [tmpl ''0_1'' ''Ubuntu VM'' True [inst 1 ''Ubuntu VM'' ''192.168.0.1'' True,
            inst 2 ''Ubuntu VM'' ''192.168.0.1'' False],
          tmpl ''0_2'' ''Ubuntu VM'' False [],
          tmpl ''0_3'' ''Windows VM'' True [inst 1 ''Windows VM'' ''192.168.0.1'' True],
          tmpl ''0_4'' ''Console (Linux)'' False [],
          tmpl ''0_5'' ''Ubuntu VM'' True [inst 1 ''Ubuntu VM'' ''192.168.0.1'' True,
            inst 2 ''Ubuntu VM'' ''192.168.0.1'' True,
            inst 3 ''Ubuntu VM'' ''192.168.0.1'' True],
          tmpl ''0_6'' ''Ubuntu VM'' True [inst 1 ''Ubuntu VM'' ''192.168.0.1'' True,
            inst 2 ''Ubuntu VM'' ''192.168.0.1'' True,
            inst 3 ''Ubuntu VM'' ''192.168.0.1'' True]],
      ws 1 ''Tecnologie e Servizi di Rete'' user
         [tmpl ''1_1'' ''Ubuntu VM'' True [inst 1 ''Ubuntu VM'' ''192.168.0.1'' True,
            inst 2 ''Ubuntu VM'' ''192.168.0.1'' True,
            inst 3 ''Ubuntu VM'' ''192.168.0.1'' True],
          tmpl ''1_2'' ''Ubuntu VM'' False [],
          tmpl ''1_3'' ''Windows VM'' True []],
      ws 2 ''Applicazioni Web I'' user
         [tmpl ''2_1'' ''Ubuntu VM'' True [],
          tmpl ''2_2'' ''Windows VM'' True [],
          tmpl ''2_3'' ''Console (Linux)'' False []],
      ws 3 ''Cloud Computing'' user
         [tmpl ''3_1'' ''Console (Linux)'' False []],
      ws 4 ''Programmazione di Sistema'' user
         [],
      ws 5 ''Information System Security'' user
         [],
      ws 6 ''Ingegneria del Software'' user
         [],
      ws 7 ''Data Science'' user
         [],
      ws 8 ''Software Networking'' user
         []]"

subsection \<open>Messages and state\<close>

datatype ws_msg =
    setSelectedWs int
  | handleAccordion bool string
  | editTemplate string
  | deleteTemplate string

record ws_state =
  selectedWs :: int
  expandedId :: "string list"

subsection \<open>WorkspaceGrid\<close>

definition WorkspaceGridItem :: "int \<Rightarrow> string \<Rightarrow> bool \<Rightarrow> (int \<Rightarrow> 'm) \<Rightarrow> 'm nodes" where
  "WorkspaceGridItem ident title isActive onClick =
     [El ''Row'' [cls ''sm:px-0 md:px-4'']
        [El ''Col'' [(''span'', PNum 24), cls ''flex justify-center pb-2'']
           [El ''button''
              [cls (''row shadow-lg h-24 w-24 2xl:h-28 2xl:w-28 workspaceitem '' @
                    (if isActive then ''active'' else [])),
               (''onClick'', POn (onClick ident))]
              [El ''ApartmentOutlined''
                 [(''style'', PVal (JObj [(''fontSize'', JStr ''30pt''), (''color'', JStr ''black'')]))] []]],
         El ''Col'' [(''span'', PNum 24), cls ''flex justify-center pb-0'']
           [El ''p'' [cls ''w-28 h-8 2xl:h-12 2xl:w-32 text-center text-xs 2xl:text-sm pb-0'']
              (render_str title)]]]"

definition WorkspaceGrid :: "(int \<times> string) list \<Rightarrow> int \<Rightarrow> (int \<Rightarrow> 'm) \<Rightarrow> 'm nodes" where
  "WorkspaceGrid workspaceItems selected onClick =
     [El ''div''
        [cls ''grid lg:grid-cols-2 xl:grid-cols-3 2xl:grid-cols-4 lg:grid-flow-row grid-rows-1 grid-flow-col gap-3 lg:gap-4'']
        (map (\<lambda>(ident, title).
                El ''div'' [(''key'', PNum ident), cls ''h-full flex justify-center'']
                  (WorkspaceGridItem ident title (selected = ident) onClick)) workspaceItems)]"

subsection \<open>Templates\<close>

definition TemplatesTableRowSettings :: "string \<Rightarrow> (string \<Rightarrow> 'm) \<Rightarrow> (string \<Rightarrow> 'm) \<Rightarrow> 'm nodes" where
  "TemplatesTableRowSettings ident edit del =
     [El ''Dropdown''
        [(''overlay'', PNodes
            [El ''Menu'' []
               [El ''Menu.Item'' [cls ''xs:hidden block'', (''key'', PStr ''1''),
                    (''icon'', PNodes [El ''PlayCircleOutlined'' [] []])] [Txt ''Create''],
                El ''Menu.Item'' [(''key'', PStr ''1''), (''icon'', PNodes [El ''EditOutlined'' [] []]),
                    (''onClick'', POn (edit ident))] [Txt ''Edit''],
                El ''Menu.Item'' [(''danger'', PBool True), (''key'', PStr ''2''),
                    (''icon'', PNodes [El ''DeleteOutlined'' [] []]), (''onClick'', POn (del ident))]
                  [Txt ''Delete'']]]),
         (''placement'', PStr ''bottomCenter''), (''trigger'', PVal (JArr [JStr ''click'']))]
        [El ''Button'' [(''with'', PStr ''link''), (''type'', PStr ''text''), (''size'', PStr ''large''),
           (''icon'', PNodes [El ''EllipsisOutlined'' [(''style'', PVal (JObj [(''fontSize'', JStr ''22px'')]))] []])]
           []]]"

definition TemplatesTableRow ::
  "string \<Rightarrow> string \<Rightarrow> bool \<Rightarrow> WorkspaceRole \<Rightarrow> int \<Rightarrow> (string \<Rightarrow> 'm) \<Rightarrow> (string \<Rightarrow> 'm) \<Rightarrow> 'm nodes" where
  "TemplatesTableRow ident name gui role activeInstances edit del =
     [El ''div'' [cls ''w-full flex justify-between py-0'']
        [El ''Space'' [(''size'', PStr ''middle'')]
           ((if gui
             then [El ''DesktopOutlined'' [cls ''primary-color-fg'',
                     (''style'', PVal (JObj [(''fontSize'', JStr ''24px'')]))] []]
             else [El ''CodeOutlined'' [cls ''primary-color-fg'',
                     (''style'', PVal (JObj [(''fontSize'', JStr ''24px'')]))] []])
            @ render_str name),
         El ''Space'' [(''size'', PStr ''small'')]
           (Badge activeInstances (Some small) @
            [El ''Tooltip'' [(''placement'', PStr ''top''), (''title'', PStr ''CPU: 2 Core - RAM: 2GB''),
                 (''trigger'', PStr ''click'')]
               [El ''Button'' [(''with'', PStr ''link''), (''type'', PStr ''warning''), (''size'', PStr ''large''),
                  cls ''px-0''] [Txt ''Info'']]] @
            (if role = manager then TemplatesTableRowSettings ident edit del
             else [El ''Tooltip'' [(''placement'', PStr ''top''), (''title'', PStr ''Create Instance'')]
                     [El ''Button'' [cls ''xs:hidden block'', (''with'', PStr ''link''), (''type'', PStr ''primary''),
                        (''size'', PStr ''large''),
                        (''icon'', PNodes [El ''PlayCircleOutlined''
                           [(''style'', PVal (JObj [(''fontSize'', JStr ''22px'')]))] []])] []]]) @
            [El ''Button'' [cls ''hidden xs:block'', (''type'', PStr ''primary''), (''shape'', PStr ''round''),
               (''size'', PStr ''large'')] [Txt ''Create'']])]]"

definition templates_accordion :: "bool \<Rightarrow> string \<Rightarrow> string list \<Rightarrow> string list" where
  "templates_accordion expanded record_id e = (if expanded then [record_id] else [[]])"

definition template_val :: "Template \<Rightarrow> jsval" where
  "template_val t =
     JObj [(''id'', JStr (tmpl_id t)), (''name'', JStr (tmpl_name t)), (''gui'', JBool (tmpl_gui t)),
           (''instances'', JArr (map (\<lambda>i. JObj [(''id'', JNum (inst_id i)), (''name'', JStr (inst_name i)),
              (''ip'', JStr (inst_ip i)), (''status'', JBool (inst_status i))]) (tmpl_instances t)))]"

definition TemplatesTable ::
  "Template list \<Rightarrow> WorkspaceRole \<Rightarrow> (string \<Rightarrow> 'm) \<Rightarrow> (string \<Rightarrow> 'm) \<Rightarrow> (bool \<Rightarrow> string \<Rightarrow> 'm) \<Rightarrow> string list
    \<Rightarrow> 'm nodes" where
  "TemplatesTable templates role edit del onExpand expanded_ids =
     [El ''div'' [cls ''w-full flex-grow flex-wrap content-between py-0 overflow-auto scrollbar cl-templates-table'']
        [El ''Table''
           ([(''size'', PStr ''small''), (''showHeader'', PBool False),
             (''rowKey'', PVal (JArr (map (\<lambda>r. JStr (tmpl_id r)) templates))),
             (''columns.title'', PStr ''Template''), (''columns.key'', PStr ''template''),
             (''columns.render'', renders (\<lambda>r. TemplatesTableRow (tmpl_id r) (tmpl_name r) (tmpl_gui r) role
                (int (length (tmpl_instances r))) edit del) templates),
             (''dataSource'', PVal (JArr (map template_val templates))), (''pagination'', PBool False)] @
            calls ''onExpand'' (\<lambda>(b, r). onExpand b (tmpl_id r)) (List.product [True, False] templates) @
            [(''rowExpandable'', PVal (JArr (map (\<lambda>r. JBool (tmpl_instances r \<noteq> [])) templates))),
             (''expandedRowKeys'', PVal (JArr (map JStr expanded_ids))),
             (''expandIcon'', renders (\<lambda>(expanded, r).
                if tmpl_instances r \<noteq> []
                then [El ''RightOutlined'' [(''onClick'', PStr ''onExpand''),
                        (''rotate'', PNum (if expanded then 90 else 0))] []]
                else []) (List.product [True, False] templates)),
             (''expandedRowRender'', renders (\<lambda>_. [Txt ''Running Instances'']) templates)])
           []]]"

definition TemplatesEmpty :: "WorkspaceRole \<Rightarrow> 'm nodes" where
  "TemplatesEmpty role =
     (if role = manager
      then [El ''div'' [cls ''w-full flex-grow flex flex-wrap content-center justify-center py-5 2xl:py-52'']
              [El ''div'' [cls ''w-full pb-10 flex justify-center'']
                 [El ''p'' [cls ''text-7xl text-center mb-0 primary-color-fg''] [El ''AppstoreAddOutlined'' [] []]],
               El ''div'' [cls ''w-full'']
                 [El ''p'' [cls ''text-xl xs:text-3xl text-center px-5 xs:px-24 block'']
                    [El ''b'' [] [Txt ''There are no Template yet'']]],
               El ''div'' [cls ''w-full'']
                 [El ''p'' [cls ''text-xl xs:text-3xl text-center px-5 xs:px-24 block'']
                    [Txt ''You can '', El ''b'' [] [Txt ''Create''], Txt '' and '', El ''b'' [] [Txt ''Customize''],
                     Txt '' new ones for your Users clicking on the top-right Button'']]]]
      else [El ''div'' [cls ''w-full flex-grow flex flex-wrap content-center justify-center py-5 2xl:py-52'']
              [El ''div'' [cls ''w-full pb-10 flex justify-center'']
                 [El ''Empty'' [(''image'', PStr ''Empty.PRESENTED_IMAGE_SIMPLE''), (''description'', PBool False)] []],
               El ''p'' [cls ''text-xl xs:text-3xl text-center px-5 xs:px-24''] [Txt ''No Templates available'']]])"

subsection \<open>WorkspaceContainer, WorkspaceWelcome, Dashboard\<close>

text \<open>\<open>editTemplate\<close> and \<open>deleteTemplate\<close> of the container do nothing; their calls are the messages.\<close>

definition WorkspaceContainer :: "workspace \<Rightarrow> string list \<Rightarrow> ws_msg nodes" where
  "WorkspaceContainer w expanded_ids =
     Box (Some \<lparr>hd_left =
                 (if ws_role w = manager
                  then [El ''div'' [cls ''h-full flex justify-center items-center pl-10'']
                          [El ''Button'' [(''type'', PStr ''primary''), (''shape'', PStr ''circle''), (''size'', PStr ''large''),
                             (''icon'', PNodes [El ''UserSwitchOutlined'' [] []])] []]]
                  else []),
               hd_right =
                 (if ws_role w = manager
                  then [El ''div'' [cls ''h-full flex justify-center items-center pr-10'']
                          [El ''Button'' [(''type'', PStr ''lightdark''), (''shape'', PStr ''circle''), (''size'', PStr ''large''),
                             (''icon'', PNodes [El ''PlusOutlined'' [] []])] []]]
                  else []),
               hd_center =
                 [El ''div'' [cls ''h-full flex justify-center items-center px-5'']
                    [El ''p'' [cls ''md:text-4xl text-2xl text-center mb-0''] [El ''b'' [] (render_str (ws_title w))]]],
               hd_size = Some large\<rparr>)
       (if ws_templates w \<noteq> []
        then TemplatesTable (ws_templates w) (ws_role w) editTemplate deleteTemplate handleAccordion expanded_ids
        else TemplatesEmpty (ws_role w)) []"

definition WorkspaceWelcome :: "'m nodes" where
  "WorkspaceWelcome =
     Box (Some ((no_header large)\<lparr>hd_center :=
           [El ''div'' [cls ''h-full flex justify-center items-center px-5'']
              [El ''p'' [cls ''md:text-4xl text-2xl text-center mb-0''] [El ''b'' [] [Txt ''Welcome to CrownLabs'']]]]\<rparr>))
       [El ''div'' [cls ''w-full flex-grow flex flex-wrap content-center justify-center py-5 2xl:py-52'']
          [El ''div'' [cls ''w-full pb-10 flex justify-center'']
             [El ''img'' [(''width'', PNum 150), (''src'', PStr ''logo''), (''alt'', PStr ''Logo Crownlabs'')] []],
           El ''p'' [cls ''text-xl xs:text-3xl text-center px-5 xs:px-24'']
             [Txt ''Select a Workspace '', El ''br'' [] [], Txt ''to explore Virtual Machines '', El ''br'' [] [],
              Txt ''and Services available'']]] []"

definition ws_find :: "workspace list \<Rightarrow> int \<Rightarrow> workspace option" where
  "ws_find data i = List.find (\<lambda>w. ws_id w = i) data"

definition Dashboard :: "workspace list \<Rightarrow> ws_state \<Rightarrow> ws_msg nodes" where
  "Dashboard data st =
     (let workspaceItems = map (\<lambda>w. (ws_id w, ws_title w)) data;
          workspace = ws_find data (selectedWs st)
      in [El ''Row'' [cls ''h-full py-10 flex'']
            [El ''Col'' [(''span'', PNum 0), (''lg'', PNum 1), (''xxl'', PNum 2)] [],
             El ''Col'' [(''span'', PNum 24), (''lg'', PNum 8), (''xxl'', PNum 8),
                 cls ''pr-4 px-4 py-5 lg:h-full flex'']
               [El ''div'' [cls ''flex-auto lg:overflow-x-hidden overflow-auto scrollbar'']
                  (WorkspaceGrid workspaceItems (selectedWs st) setSelectedWs)],
             El ''Col'' [(''span'', PNum 24), (''lg'', PNum 14), (''xxl'', PNum 12), cls ''px-4 flex flex-auto'']
               (case workspace of
                  Some w \<Rightarrow> WorkspaceContainer w (expandedId st)
                | None \<Rightarrow> WorkspaceWelcome),
             El ''Col'' [(''span'', PNum 0), (''lg'', PNum 1), (''xxl'', PNum 2)] []]])"

definition ws_init :: ws_state where
  "ws_init = \<lparr>selectedWs = -1, expandedId = [[]]\<rparr>"

definition shows_table :: "workspace list \<Rightarrow> int \<Rightarrow> bool" where
  "shows_table data i \<longleftrightarrow> (case ws_find data i of None \<Rightarrow> False | Some w \<Rightarrow> ws_templates w \<noteq> [])"

fun ws_update :: "workspace list \<Rightarrow> ws_msg \<Rightarrow> ws_state \<Rightarrow> ws_state" where
  "ws_update data (setSelectedWs i) st =
     st\<lparr>selectedWs := i,
        expandedId := (if shows_table data (selectedWs st) \<and> shows_table data i then expandedId st else [[]])\<rparr>"
| "ws_update data (handleAccordion b k) st = st\<lparr>expandedId := templates_accordion b k (expandedId st)\<rparr>"
| "ws_update data (editTemplate i) st = st"
| "ws_update data (deleteTemplate i) st = st"

subsection \<open>Lemmas\<close>

lemma WorkspaceGridItem_tree [simp]:
  "all_handlers (WorkspaceGridItem ident title isActive onClick) = [onClick ident]"
  "all_texts (WorkspaceGridItem ident title isActive onClick) = (if title = [] then [] else [title])"
  "all_elements ''button'' (WorkspaceGridItem ident title isActive onClick) =
     [[cls (''row shadow-lg h-24 w-24 2xl:h-28 2xl:w-28 workspaceitem '' @ (if isActive then ''active'' else [])),
       (''onClick'', POn (onClick ident))]]"
  by (simp_all add: WorkspaceGridItem_def)

lemma WorkspaceGrid_tree [simp]:
  "all_handlers (WorkspaceGrid items sel onClick) = map (\<lambda>i. onClick (fst i)) items"
  "all_elements ''button'' (WorkspaceGrid items sel onClick) =
     map (\<lambda>i. [cls (''row shadow-lg h-24 w-24 2xl:h-28 2xl:w-28 workspaceitem '' @
                   (if sel = fst i then ''active'' else [])), (''onClick'', POn (onClick (fst i)))]) items"
  by (induction items) (auto simp: WorkspaceGrid_def)

lemma TemplatesTableRow_tree [simp]:
  "all_handlers (TemplatesTableRow ident name gui role n edit del) =
     (if role = manager then [edit ident, del ident] else [])"
  "all_elements ''button'' (TemplatesTableRow ident name gui role n edit del) = []"
  by (simp_all add: TemplatesTableRow_def TemplatesTableRowSettings_def)

lemma TemplatesTable_tree [simp]:
  "all_handlers (TemplatesTable ts role edit del onExpand e) =
     (if role = manager then concat (map (\<lambda>r. [edit (tmpl_id r), del (tmpl_id r)]) ts) else []) @
     map (\<lambda>(b, r). onExpand b (tmpl_id r)) (List.product [True, False] ts)"
  "all_elements ''button'' (TemplatesTable ts role edit del onExpand e) = []"
  by (simp_all add: TemplatesTable_def)

lemma TemplatesEmpty_tree [simp]:
  "all_handlers (TemplatesEmpty role) = []" "all_elements ''button'' (TemplatesEmpty role) = []"
  by (simp_all add: TemplatesEmpty_def)

lemma WorkspaceWelcome_tree [simp]:
  "all_handlers WorkspaceWelcome = []" "all_elements ''button'' WorkspaceWelcome = []"
  by (simp_all add: WorkspaceWelcome_def)

definition container_msgs :: "workspace \<Rightarrow> ws_msg list" where
  "container_msgs w =
     (if ws_role w = manager
      then concat (map (\<lambda>r. [editTemplate (tmpl_id r), deleteTemplate (tmpl_id r)]) (ws_templates w)) else []) @
     map (\<lambda>(b, r). handleAccordion b (tmpl_id r)) (List.product [True, False] (ws_templates w))"

lemma WorkspaceContainer_tree [simp]:
  "all_handlers (WorkspaceContainer w e) = container_msgs w"
  "all_elements ''button'' (WorkspaceContainer w e) = []"
  by (simp_all add: WorkspaceContainer_def container_msgs_def)

lemma Dashboard_tree:
  "all_handlers (Dashboard data st) = map (\<lambda>w. setSelectedWs (ws_id w)) data @
     (case ws_find data (selectedWs st) of None \<Rightarrow> [] | Some w \<Rightarrow> container_msgs w)"
  "all_elements ''button'' (Dashboard data st) =
     map (\<lambda>w. [cls (''row shadow-lg h-24 w-24 2xl:h-28 2xl:w-28 workspaceitem '' @
                   (if selectedWs st = ws_id w then ''active'' else [])),
               (''onClick'', POn (setSelectedWs (ws_id w)))]) data"
  by (simp_all add: Dashboard_def Let_def comp_def split: option.split)

lemma container_msgs_mem:
  "editTemplate i \<in> set (container_msgs w) \<longleftrightarrow> ws_role w = manager \<and> i \<in> tmpl_id ` set (ws_templates w)"
  "deleteTemplate i \<in> set (container_msgs w) \<longleftrightarrow> ws_role w = manager \<and> i \<in> tmpl_id ` set (ws_templates w)"
  "handleAccordion b i \<in> set (container_msgs w) \<longleftrightarrow> i \<in> tmpl_id ` set (ws_templates w)"
  "setSelectedWs n \<notin> set (container_msgs w)"
  by (auto simp: container_msgs_def)

lemma ws_find_Some: "ws_find data i = Some w \<Longrightarrow> w \<in> set data \<and> ws_id w = i"
  by (auto simp: ws_find_def find_Some_iff)

lemma ws_find_id: "distinct (map ws_id data) \<Longrightarrow> w \<in> set data \<Longrightarrow> ws_find data (ws_id w) = Some w"
  by (induction data) (auto simp: ws_find_def)

text \<open>The invariant of the page: no workspace or one of the data is selected, and one row at most is
  expanded, of a template of the data.\<close>

definition ws_inv :: "workspace list \<Rightarrow> ws_state \<Rightarrow> bool" where
  "ws_inv data st \<longleftrightarrow>
     (selectedWs st = -1 \<or> selectedWs st \<in> ws_id ` set data) \<and>
     (\<exists>k. expandedId st = [k] \<and> (k = [] \<or> (\<exists>w \<in> set data. k \<in> tmpl_id ` set (ws_templates w))))"

interpretation dashboard: page ws_init "ws_update data" "Dashboard data" "ws_inv data" for data
proof unfold_locales
  show "ws_inv data ws_init" by (simp add: ws_inv_def ws_init_def)
next
  fix s m
  assume inv: "ws_inv data s" and m: "m \<in> set (all_handlers (Dashboard data s))"
  show "ws_inv data (ws_update data m s)"
  proof (cases m)
    case (handleAccordion b k)
    with m obtain w where w: "ws_find data (selectedWs s) = Some w" and "k \<in> tmpl_id ` set (ws_templates w)"
      by (cases "ws_find data (selectedWs s)") (auto simp: Dashboard_tree container_msgs_mem)
    with ws_find_Some [OF w] inv handleAccordion show ?thesis
      by (auto simp: ws_inv_def templates_accordion_def)
  next
    case (setSelectedWs i)
    with m have "i \<in> ws_id ` set data"
      by (cases "ws_find data (selectedWs s)") (auto simp: Dashboard_tree container_msgs_mem)
    with inv setSelectedWs show ?thesis by (auto simp: ws_inv_def)
  qed (use inv in simp_all)
qed

interpretation templates_table: accordion templates_accordion
  by unfold_locales (simp_all add: templates_accordion_def)

definition is_active :: "(string \<times> 'm attr) list \<Rightarrow> bool" where
  "is_active ps \<longleftrightarrow> (\<exists>c. map_of ps ''className'' = Some (PStr (c @ ''active'')))"

lemma is_active_item:
  "is_active (cls (''row shadow-lg h-24 w-24 2xl:h-28 2xl:w-28 workspaceitem '' @ (if b then ''active'' else [])) # ps)
    \<longleftrightarrow> b"
proof (cases b)
  case False
  have "c @ ''active'' \<noteq> ''row shadow-lg h-24 w-24 2xl:h-28 2xl:w-28 workspaceitem ''" for c
  proof
    assume "c @ ''active'' = ''row shadow-lg h-24 w-24 2xl:h-28 2xl:w-28 workspaceitem ''"
    then have "last (c @ ''active'') = CHR '' ''" by simp
    then show False by simp
  qed
  with False show ?thesis by (auto simp: is_active_def)
qed (auto simp: is_active_def)

subsection \<open>Properties\<close>

text \<open>the page offers to edit or to delete a template exactly when the selected workspace is one the
  user manages, and then exactly the templates of that workspace: a plain user never gets either
  handler.\<close>

lemma only_managers_edit_templates:
  "{editTemplate i, deleteTemplate i} \<inter> set (all_handlers (Dashboard data st)) \<noteq> {} \<longleftrightarrow>
    (\<exists>w. ws_find data (selectedWs st) = Some w \<and> ws_role w = manager \<and> i \<in> tmpl_id ` set (ws_templates w))"
  by (cases "ws_find data (selectedWs st)") (auto simp: Dashboard_tree container_msgs_mem)

text \<open>in every state of the page every workspace can be selected, and selecting it shows it: the
  detail pane is the container of that workspace and the grid marks exactly one button, the one that
  was clicked, as active.\<close>

lemma clicked_workspace_is_shown:
  assumes "page_state ws_init (ws_update data) (Dashboard data) s" and "distinct (map ws_id data)"
    and "w \<in> set data"
  shows "setSelectedWs (ws_id w) \<in> set (all_handlers (Dashboard data s))
    \<and> (let s' = ws_update data (setSelectedWs (ws_id w)) s
       in page_state ws_init (ws_update data) (Dashboard data) s'
          \<and> (\<exists>grid. all_texts (Dashboard data s') = grid @ all_texts (WorkspaceContainer w (expandedId s')))
          \<and> filter is_active (all_elements ''button'' (Dashboard data s')) =
              [[cls ''row shadow-lg h-24 w-24 2xl:h-28 2xl:w-28 workspaceitem active'',
                (''onClick'', POn (setSelectedWs (ws_id w)))]])"
proof -
  let ?m = "setSelectedWs (ws_id w)"
  have m: "?m \<in> set (all_handlers (Dashboard data s))" using assms(3) by (simp add: Dashboard_tree)
  have one: "filter (\<lambda>v. ws_id w = ws_id v) data = [w]"
    using assms(2,3) by (induction data) (auto simp: filter_empty_conv image_iff)
  have "filter is_active (all_elements ''button'' (Dashboard data (ws_update data ?m s))) =
      [[cls ''row shadow-lg h-24 w-24 2xl:h-28 2xl:w-28 workspaceitem active'', (''onClick'', POn ?m)]]"
    unfolding Dashboard_tree filter_map comp_def is_active_item by (simp add: one)
  moreover have "\<exists>grid. all_texts (Dashboard data (ws_update data ?m s)) =
      grid @ all_texts (WorkspaceContainer w (expandedId (ws_update data ?m s)))"
    using ws_find_id [OF assms(2,3)] by (simp add: Dashboard_def)
  ultimately show ?thesis
    using m dashboard.after_click [OF assms(1) m] by (simp add: Let_def)
qed

lemma clicked_workspace_is_shown_witness:
  "let s = ws_update fake_data (setSelectedWs 3) ws_init in
     page_state ws_init (ws_update fake_data) (Dashboard fake_data) s
     \<and> length (filter is_active (all_elements ''button'' (Dashboard fake_data s))) = 1"
proof -
  have d: "distinct (map ws_id fake_data)" and w: "fake_data ! 3 \<in> set fake_data" and i: "ws_id (fake_data ! 3) = 3"
    by (simp_all add: fake_data_def ws_def)
  from clicked_workspace_is_shown [OF page_state.mounted d w] i show ?thesis
    by (simp add: Let_def)
qed

text \<open>whatever the user clicks, the page never shows a workspace that is not in the data, and at
  most one row of the templates table is expanded at a time, one of a known template.\<close>

lemma dashboard_invariant:
  assumes "page_state ws_init (ws_update data) (Dashboard data) s"
  shows "(selectedWs s = -1 \<or> (\<exists>w \<in> set data. ws_id w = selectedWs s))
    \<and> (\<exists>k. expandedId s = [k] \<and> (k = [] \<or> (\<exists>w \<in> set data. \<exists>t \<in> set (ws_templates w). tmpl_id t = k)))"
  using dashboard.page_inv [OF assms] unfolding ws_inv_def by (auto simp: image_iff)

lemma dashboard_invariant_witness:
  "\<exists>w \<in> set fake_data. ws_id w = selectedWs (ws_update fake_data (setSelectedWs 0) ws_init)"
proof -
  have "page_state ws_init (ws_update fake_data) (Dashboard fake_data) (ws_update fake_data (setSelectedWs 0) ws_init)"
    by (rule page_state.handled [OF page_state.mounted]) (simp add: Dashboard_tree fake_data_def ws_def)
  from dashboard_invariant [OF this] show ?thesis by simp
qed

end
