(* ===== verification/Stories.thy ===== *)
theory Stories
  imports Account_Page Active_Page Workspaces_Page
begin

section \<open>frontend: the stories of the components\<close>

text \<open>
  The \<open>*.stories.tsx\<close> files beside the components and \<open>frontend/.storybook/preview.js\<close>. A file describes one
  component (title, controls and actions of its props, page of documentation) and exports stories, each
  with values for some props. Here a file is a \<open>story_file\<close> with the names of the props that each of its
  stories sets, and what a story renders is a definition of its own, the component applied to the values
  of the file. Handlers of a story: \<open>Ignored\<close> is a function that does nothing, \<open>Action\<close> one that Storybook
  supplies; a component with state of its own gets that state as an argument.

  Storybook supplies an action for the props that \<open>argTypes\<close> gives one, and for those it finds in the
  declaration of the component whose name matches \<open>argTypesRegex\<close>. What it finds is the parameter
  \<open>inferred\<close>.

  Strings are bytes: the apostrophe of two descriptions is the UTF-8 sequence \<open>0xE2 0x80 0x99\<close>.
\<close>

subsection \<open>Files and stories\<close>

datatype docs_page = NoDocs | DocsUndefined | Docs "unit nodes"

record story =
  story_name :: string
  story_args :: "string list"
  story_docs :: docs_page

record story_file =
  file_title :: string
  file_props :: "(string \<times> bool) list"
  file_actions :: "string list"
  file_controls :: "string list"
  file_docs :: docs_page
  file_stories :: "story list"

definition plain :: "string \<Rightarrow> string list \<Rightarrow> story" where
  "plain name args = \<lparr>story_name = name, story_args = args, story_docs = NoDocs\<rparr>"

text \<open>\<open>{ ...a, ...b }\<close> on the names of the props.\<close>

definition spread :: "string list \<Rightarrow> string list \<Rightarrow> string list" where
  "spread a b = a @ filter (\<lambda>k. k \<notin> set a) b"

datatype story_msg =
    Ignored
  | Action string
  | Toggled "string option" bool string

subsection \<open>preview.js\<close>

definition argTypesRegex :: "string \<Rightarrow> bool" where
  "argTypesRegex name \<longleftrightarrow>
     (case name of
        o_ # n # c # _ \<Rightarrow> o_ = CHR ''o'' \<and> n = CHR ''n'' \<and> (65::nat) \<le> of_char c \<and> of_char c \<le> (90::nat)
      | _ \<Rightarrow> False)"

definition preview_themes :: "string \<times> (string \<times> string \<times> string) list" where
  "preview_themes =
     (''dark'', [(''light'', ''light'', ''#fafafa''), (''dark'', ''dark'', ''#1a1a1a'')])"

definition supplied :: "(story_file \<Rightarrow> string list) \<Rightarrow> story_file \<Rightarrow> story \<Rightarrow> string list" where
  "supplied inferred f s =
     story_args s @ file_actions f @ filter argTypesRegex (inferred f)"

definition missing_props :: "(story_file \<Rightarrow> string list) \<Rightarrow> story_file \<Rightarrow> story \<Rightarrow> string list" where
  "missing_props inferred f s =
     filter (\<lambda>p. p \<notin> set (supplied inferred f s)) (map fst (filter snd (file_props f)))"

text \<open>The page of documentation of a story: its own, or that of the file.\<close>

definition shown_docs :: "story_file \<Rightarrow> story \<Rightarrow> docs_page" where
  "shown_docs f s = (case story_docs s of NoDocs \<Rightarrow> file_docs f | d \<Rightarrow> d)"

subsection \<open>common: Badge, Box, ModalAlert\<close>

definition Badge_props :: "(string \<times> bool) list" where
  "Badge_props = [(''value'', True), (''size'', True)]"

definition Badge_file :: story_file where
  "Badge_file =
     \<lparr>file_title = ''Components/common/Badge'', file_props = Badge_props, file_actions = [], file_controls = [],
      file_docs = NoDocs, file_stories = [plain ''Default'' [''value'', ''size'']]\<rparr>"

definition Badge_Default :: "story_msg nodes" where
  "Badge_Default = Badge 5 (Some middle)"

definition Box_props :: "(string \<times> bool) list" where
  "Box_props = [(''header'', False), (''footer'', False)]"

definition header_center :: "string \<Rightarrow> string \<Rightarrow> 'm nodes" where
  "header_center pad label =
     [El ''div'' [cls (''h-full flex justify-center items-center '' @ pad)]
        [El ''p'' [cls ''md:text-4xl text-2xl text-center mb-0''] [El ''b'' [] [Txt label]]]]"

definition header_left :: "'m nodes" where
  "header_left =
     [El ''div'' [cls ''h-full flex justify-center items-center pl-10'']
        [El ''Button'' [(''type'', PStr ''primary''), (''shape'', PStr ''circle''), (''size'', PStr ''large''),
           (''icon'', PNodes [El ''UserSwitchOutlined'' [] []])] []]]"

definition header_right :: "'m nodes" where
  "header_right =
     [El ''div'' [cls ''h-full flex justify-center items-center pr-10'']
        [El ''Button'' [(''type'', PStr ''lightdark''), (''shape'', PStr ''circle''), (''size'', PStr ''large''),
           (''icon'', PNodes [El ''PlusOutlined'' [] []])] []]]"

definition header_options :: "string list" where
  "header_options =
     [''Center_Only_small'', ''Center_Only_middle'', ''Center_Only_large'',
      ''Left_Center_Right_small'', ''Left_Center_Right_middle'', ''Left_Center_Right_large'']"

definition header_mapping :: "(string \<times> 'm box_header) list" where
  "header_mapping =
     [(''Center_Only_small'', (no_header small)\<lparr>hd_center := header_center ''px-5'' ''Simple Header small''\<rparr>),
      (''Center_Only_middle'', (no_header middle)\<lparr>hd_center := header_center ''px-5'' ''Simple Header middle''\<rparr>),
      (''Center_Only_large'', (no_header large)\<lparr>hd_center := header_center ''px-5'' ''Simple Header large''\<rparr>),
      (''Left_Center_Right_small'',
         \<lparr>hd_left = header_left, hd_right = header_right, hd_center = header_center ''px-5'' ''Custom Header small'',
          hd_size = Some small\<rparr>),
      (''Left_Center_Right_middle'',
         \<lparr>hd_left = header_left, hd_right = header_right, hd_center = header_center ''px-5'' ''Custom Header middle'',
          hd_size = Some middle\<rparr>),
      (''Left_Center_Right_large'',
         \<lparr>hd_left = header_left, hd_right = header_right, hd_center = header_center ''px-5'' ''Custom Header large'',
          hd_size = Some large\<rparr>)]"

definition footer_example :: "'m nodes" where
  "footer_example =
     [El ''div'' [cls ''w-full py-10 flex justify-center'']
        [El ''Button'' [(''type'', PStr ''success''), (''shape'', PStr ''round''), (''size'', PStr ''large''),
           (''disabled'', PBool False)] [Txt ''Button Footer Example'']]]"

definition footer_mapping :: "(string \<times> 'm nodes) list" where
  "footer_mapping = [(''Yes'', footer_example), (''None'', [])]"

definition min_height_mapping :: "(string \<times> bool) list" where
  "min_height_mapping = [(''Yes'', True), (''None'', False)]"

definition Box_file :: story_file where
  "Box_file =
     \<lparr>file_title = ''Components/common/Box'', file_props = Box_props, file_actions = [],
      file_controls = [''header'', ''footer'', ''headerMinHeight'', ''footerMinHeight''], file_docs = NoDocs,
      file_stories = [plain ''Default'' [], plain ''User'' (spread [] [''header'', ''footer'']),
        plain ''Manager'' (spread [] [''header'', ''footer''])]\<rparr>"

definition Box_Template :: "'m box_header option \<Rightarrow> 'm nodes \<Rightarrow> 'm nodes" where
  "Box_Template header footer =
     Box header
       [El ''div'' [cls ''w-full flex-grow flex flex-wrap content-center justify-center py-5 2xl:py-52'']
          [El ''p'' [cls ''text-xl text-center px-5 xs:px-24 block'']
             [El ''span'' [cls ''text-3xl''] [Txt ''Example Content''], Txt '' '', El ''br'' [] [],
              Txt ''This is an example '', El ''b'' [] [Txt ''<Box>''],
              Txt '' Component created for all containers of new frontend.'', El ''br'' [] [],
              Txt ''You can optionally insert a '', El ''b'' [] [Txt ''Header''],
              Txt '' (3 areas: Left, Center and Right), a '', El ''b'' [] [Txt ''Content''], Txt '' like this and a '',
              El ''b'' [] [Txt ''Footer'']]]]
       footer"

definition Box_Default :: "story_msg nodes" where
  "Box_Default = Box_Template None []"

definition Box_User :: "story_msg nodes" where
  "Box_User =
     Box_Template (Some ((no_header large)\<lparr>hd_center := header_center ''pl-10'' ''User View''\<rparr>)) footer_example"

definition Box_Manager :: "story_msg nodes" where
  "Box_Manager =
     Box_Template
       (Some \<lparr>hd_left = header_left, hd_right = header_right, hd_center = header_center ''px-5'' ''Manager View'',
              hd_size = Some large\<rparr>) footer_example"

definition ModalAlert_props :: "(string \<times> bool) list" where
  "ModalAlert_props =
     [(''headTitle'', True), (''showModal'', True), (''alertMessage'', True), (''alertDescription'', True),
      (''alertType'', True), (''buttons'', True), (''setShowModal'', True)]"

definition ModalAlert_file :: story_file where
  "ModalAlert_file =
     (let args = [''headTitle'', ''showModal'', ''alertType'', ''alertMessage'', ''alertDescription'', ''buttons'',
                  ''setShowModal'']
      in \<lparr>file_title = ''Components/common/ModalAlert'', file_props = ModalAlert_props, file_actions = [''onClick''],
          file_controls = [], file_docs = NoDocs,
          file_stories = [plain ''Loading'' args, plain ''Ready'' args, plain ''Exit'' args]\<rparr>)"

definition apostrophe :: string where
  "apostrophe = [CHR 0xE2, CHR 0x80, CHR 0x99]"

definition ModalAlert_Loading :: "story_msg nodes" where
  "ModalAlert_Loading =
     ModalAlert ''Loading modal ...'' True ''Crownlabs is creating your vm ...''
       (''Please remember to turn off your VM in the active section when you don'' @ apostrophe @ ''t need it anymore.'')
       alert_warning
       [[El ''Button'' [(''key'', PNum 0), (''type'', PStr ''primary''), (''shape'', PStr ''round''), (''size'', PStr ''middle'')]
           [El ''Space'' [(''size'', PStr ''middle'')]
              [Txt ''Loading'',
               El ''Spin'' [(''indicator'', PNodes [El ''LoadingOutlined''
                  [(''style'', PVal (JObj [(''fontSize'', JNum 20), (''color'', JStr ''white'')])), (''spin'', PBool True)] []])]
                 []]]]]
       (\<lambda>_. Ignored)"

definition ModalAlert_Ready :: "story_msg nodes" where
  "ModalAlert_Ready =
     ModalAlert ''Ready modal'' True ''your VM is ready''
       (''Please remember to turn off your VM in the active section when you don'' @ apostrophe @ ''t need it anymore.'')
       alert_success
       [[El ''Button'' [(''key'', PNum 0), (''type'', PStr ''success''), (''shape'', PStr ''round''), (''size'', PStr ''middle'')]
           [Txt ''Go to active'']]]
       (\<lambda>_. Ignored)"

definition ModalAlert_Exit :: "story_msg nodes" where
  "ModalAlert_Exit =
     ModalAlert ''Wait before going out'' True ''You have some VM still running''
       (''Please turn off your VM if you don'' @ apostrophe @ ''t need it anymore'')
       alert_error
       [[El ''Button'' [(''ghost'', PBool True), (''type'', PStr ''primary''), (''shape'', PStr ''round''),
           (''size'', PStr ''middle'')] [Txt ''Exit'']],
        [El ''Button'' [(''type'', PStr ''danger''), cls ''ml-5'', (''shape'', PStr ''round''), (''size'', PStr ''middle'')]
           [Txt ''Go to active'']]]
       (\<lambda>_. Ignored)"

subsection \<open>Examples: ExampleButton\<close>

definition ExampleButton_props :: "(string \<times> bool) list" where
  "ExampleButton_props =
     [(''text'', True), (''disabled'', True), (''onClick'', True), (''specialCSS'', True), (''size'', True)]"

definition ExampleButton_file :: story_file where
  "ExampleButton_file =
     (let defaultArgs = [''text'', ''disabled'', ''specialCSS'']
      in \<lparr>file_title = ''Components/Examples/ExampleButton'', file_props = ExampleButton_props,
          file_actions = [''onClick''], file_controls = [], file_docs = NoDocs,
          file_stories = [plain ''Default'' defaultArgs, plain ''CustomCSS'' (spread defaultArgs [''specialCSS'']),
            plain ''Disabled'' (spread defaultArgs [''disabled'']), plain ''Large'' (spread defaultArgs [''size''])]\<rparr>)"

definition ExampleButton_Default :: "story_msg nodes" where
  "ExampleButton_Default = Example ''Example Button'' False (Action ''clicked'') False JUndefined"

definition ExampleButton_CustomCSS :: "story_msg nodes" where
  "ExampleButton_CustomCSS = Example ''Example Button'' False (Action ''clicked'') True JUndefined"

definition ExampleButton_Disabled :: "story_msg nodes" where
  "ExampleButton_Disabled = Example ''Example Button'' True (Action ''clicked'') False JUndefined"

definition ExampleButton_Large :: "story_msg nodes" where
  "ExampleButton_Large = Example ''Example Button'' False (Action ''clicked'') False (JStr ''large'')"

subsection \<open>accountPage\<close>

definition linux_key :: string where
  "linux_key =
     ''AAAAB3NzaC1yc2EAAAADAQABAAACAQDc5qT5WnTtBE9wemalsVqec7YCuUF/6R6/RBhX+5j3kSiy4hSfu2Sk9QuE5CuDAIlZchgA'' @
     ''ManOXi+TO1OLvNietYfkDLZWRjcNFCyxxOQTkEsM0sU5B0zHtNfC0qjrrx5yzBQXpZSuAPsfk+awSaTO94GL6Cn3YV0qycNoHVaL'' @
     ''91n+0B0lz5zy6yDoRBIZescPHKgxt3gCrv7i27BLJwLZhqxA9BaTMY75NXcSsxu0G/7UfnlqFR/kefCaU3ILdAkB4kWVnbdWKCQ9'' @
     ''kcPTGZWPBXBZf5jfiAZJkWXDLi/FLSg1TaEae4M8mRYcpNI0OA3qGhd1321HckvLg45V6uL2jY9T5wfTJcYr/IdvRKROshw+Yjmo'' @
     ''DeYipYc1TPoJ7daLQT5fPqZps98+ftWTM5iIJ8W5fpa16VHUYLEVsKzzd2e6l+SG0u7j3gKSWz55n2QARc9VDHRR3er63i5jLrMP'' @
     ''XxZKnS3hATdxXRRqR3TTLXF6yQ2UyoMg398gaDaqo4Ns6nOVU7K0jUhxD//g3jq5IODzTEPc66b93mXQkkCkRIKnfyAsULHLGebW'' @
     ''Mvy4ZsHtYMPJPjbqbWBmzEoQGFJIazPEFMzZUMjzfU/4z6KWLr+3/BguQteDp0wajjRhPGzV4NrKRq9WMFtwEk8jYsCOUhAxDMKK'' @
     ''17lVQ5ZGrRjcVQ''"

definition macos_key :: string where
  "macos_key =
     ''AAAAB3NzaC1yc2EAAAADAQABAAACAQDG5VtH8d0grbGlKmOSWwpef8bJ/WK6chtaHrQzcE1vnxeibIg9KyZf6i0pmDUhGaYgYO1I'' @
     ''2RvixSjukBhx1Z1v4FEnYPCyFRZPrT3fMc8yOOwTwj08khctoZDVlx13VY3Yhto1TCS2qA2Tnl8vtn0fOgLRgTKAeZdCglLy39wX'' @
     ''M0yuS1abhVYzzRwaKOM8NqyzerV2lA296YyudLpzXygPZgnkAP/SX0aaVuMXYDkc9RYne0LSBXtLwnI18veLB5raq4j6bEx/FBoX'' @
     ''YTItyPeU9X6aDhcXx/DPdQRPpUMHrrYoBLeXwb/2tIBmsi/Bq31kjQ+yvt+pxnFG3KYydAFaB4vYmxo34R9ggW6wT5D64ZbhfDKE'' @
     ''3ekXhYqhByG1Arni+o+I4oGWuf6qT/rdVZ7vGq77zrw3bhn2OUmTfG+wcEJqF+OfffZS2bNXjpouFGqVqA6BR30fuolu5pKBcyrV'' @
     ''TcQt9R5Z5hS8uu3agnHVNedbIP9sF8RbczAPP4X3SKV9GdI0SZVwVTwVHTDYrByHJfogeVOv8WtPEwdSCGuTdKsQLzvrTj01P8Q9'' @
     ''1FnSLKR+Ks4uXl9K2+bVgX3xVmoLUg1ED2xZvJzYv/t481RipBTdM/vBRhkX86dlT2aFLlb3bxBC8jEhEFCKt9SMUgW/88Yejd3T'' @
     ''A3yiwzjxJS89cw''"

definition windows_key :: string where
  "windows_key =
     ''AAAAB3NzaC1yc2EAAAADAQABAAACAQDkX4K/BQzL5+odDU3rdp6tZBwA3KsGP+eWVuOLLmbqt97Q1qL3AM3+cT1boKTlb8enSRVW'' @
     ''MVDCCdECXXJx9HTXePQ/W2UtW5NhKxRxVgjBk5fYdESCl9T+076SrZ+oX0q62DggLb+yR0JQf/SA/7tHvtkdn4ztOhBd3ztjQ2lT'' @
     ''EQn1XP1M03eSB1o8Vdro3BnRgBg/aJIK7sdPU+RyY4qso/SHOf/lkf394Pf+BH7VkesqBYkrz4xnSDYJRsJLT1U8YR0CZs6e3TJj'' @
     ''azcywNKnTDeXoUL7xPRqBiTBJqbrKlglfhT9hK/b2wflEJM6eoGTWEL2spO2/h/JIafM3gJwGWSXG3wA2DPgcsA+7WL0PRYo48lq'' @
     ''SGpjMHiBjXaZVi0Nj9jym7qGrHPQja/tkwtMgcl2RydtFtG8slpAVrQbBeLPvoAHFiID8yuag2WMoOAV5E0dWVURdB77vyaalExS'' @
     ''imV2jj+kt2oMTo27zZB4Kbs4+ms1wFV7fR2GGaC4QJn+vP2ahBVM4fGXXCOJHEG/v5MnS/CYbPISJsOUMTxFbcsU475rg9XS+hCa'' @
     ''rPPyrqrix3M/vm/TRmFotz1CWknhA6LIHXgVTh0/8WdpK0D9urFyOl92G08U+wZfruZTqxyHbxu/YIUUmBUzrIMVA47O3Sq50mYe'' @
     ''XFmyNw4f28NWVQ''"

definition story_keys :: "(string \<times> string) list" where
  "story_keys = [(''Linux key'', linux_key), (''MacOS key'', macos_key), (''Windows key'', windows_key)]"

definition SSHKeysTable_props :: "(string \<times> bool) list" where
  "SSHKeysTable_props = [(''sshKeys'', False)]"

definition SSHKeysTable_file :: story_file where
  "SSHKeysTable_file =
     \<lparr>file_title = ''Components/AccountPage/SSHKeysTable'', file_props = SSHKeysTable_props, file_actions = [],
      file_controls = [], file_docs = NoDocs, file_stories = [plain ''Default'' [''sshKeys'']]\<rparr>"

definition SSHKeysTable_Default :: "story_msg nodes" where
  "SSHKeysTable_Default = SSHKeysTable (Some story_keys)"

definition SSHKeysForm_props :: "(string \<times> bool) list" where
  "SSHKeysForm_props = [(''onSaveKey'', True), (''onCancel'', True)]"

definition SSHKeysForm_file :: story_file where
  "SSHKeysForm_file =
     \<lparr>file_title = ''Components/AccountPage/SSHKeysForm'', file_props = SSHKeysForm_props, file_actions = [],
      file_controls = [], file_docs = NoDocs, file_stories = [plain ''Default'' []]\<rparr>"

definition SSHKeysForm_Default :: "bool \<Rightarrow> panel_msg nodes" where
  "SSHKeysForm_Default valid = SSHKeysForm valid formSubmit formChange formCancel"

definition UserInfo_props :: "(string \<times> bool) list" where
  "UserInfo_props = [(''firstName'', True), (''lastName'', True), (''username'', True), (''email'', True)]"

definition story_user :: user_info where
  "story_user =
     \<lparr>firstName = ''John'', lastName = ''Doe'', username = ''s123456'', email = ''john.doe@studenti.polito.it''\<rparr>"

definition UserInfo_file :: story_file where
  "UserInfo_file =
     \<lparr>file_title = ''Components/AccountPage/UserInfo'', file_props = UserInfo_props, file_actions = [],
      file_controls = [], file_docs = NoDocs,
      file_stories = [plain ''Default'' [''firstName'', ''lastName'', ''username'', ''email'']]\<rparr>"

definition UserInfo_Default :: "story_msg nodes" where
  "UserInfo_Default = UserInfo story_user"

definition UserPanel_props :: "(string \<times> bool) list" where
  "UserPanel_props =
     [(''firstName'', True), (''lastName'', True), (''username'', True), (''email'', True), (''avatar'', False),
      (''sshKeys'', False)]"

definition UserPanel_file :: story_file where
  "UserPanel_file =
     (let defaultArgs = [''firstName'', ''lastName'', ''username'', ''email'', ''sshKeys'']
      in \<lparr>file_title = ''Components/AccountPage/UserPanel'', file_props = UserPanel_props, file_actions = [],
          file_controls = [], file_docs = NoDocs,
          file_stories = [plain ''Default'' (spread [] defaultArgs),
            plain ''NoSSHKeys'' (spread [] (removeAll ''sshKeys'' defaultArgs))]\<rparr>)"

definition UserPanel_Default :: "bool \<Rightarrow> bool \<Rightarrow> panel_msg nodes" where
  "UserPanel_Default = UserPanel story_user None (Some story_keys)"

definition UserPanel_NoSSHKeys :: "bool \<Rightarrow> bool \<Rightarrow> panel_msg nodes" where
  "UserPanel_NoSSHKeys = UserPanel story_user None None"

subsection \<open>activePage\<close>

text \<open>The pages of the files are functions without \<open>return\<close>.\<close>

definition RowHeading_props :: "(string \<times> bool) list" where
  "RowHeading_props = [(''text'', True), (''nActive'', True), (''newTempl'', True), (''destroyAll'', True)]"

definition RowHeading_Default_docs :: "unit nodes" where
  "RowHeading_Default_docs =
     [El ''Title'' [] [Txt ''Active Templates Accordion''],
      El ''Description'' []
        [Txt (''Heading for each Worksapce or Template. It displays an avatar with the number of templates or instances '' @
              ''contained, a badge in case of newly created elemets and a Destroy All button. It has a responsive '' @
              ''behavior as the avatar and the button collapse below the lg breakpoint.'')],
      El ''Stories'' [(''includePrimary'', PBool True)] []]"

definition RowHeading_withBadge_docs :: "unit nodes" where
  "RowHeading_withBadge_docs =
     [El ''Title'' [] [Txt ''Template header with badge''],
      El ''Description'' [] [Txt ''A simple badge on the avatar highlights a recently created entry in the Table''],
      El ''Stories'' [] []]"

definition RowHeading_file :: story_file where
  "RowHeading_file =
     (let defaultArgs = [''text'', ''nActive'', ''newTempl'']
      in \<lparr>file_title = ''Components/activePage/RowHeading'', file_props = RowHeading_props,
          file_actions = [''destroyAll''], file_controls = [], file_docs = DocsUndefined,
          file_stories =
            [\<lparr>story_name = ''Default'', story_args = defaultArgs, story_docs = Docs RowHeading_Default_docs\<rparr>,
             \<lparr>story_name = ''withBadge'', story_args = spread defaultArgs [''newTempl''],
              story_docs = Docs RowHeading_withBadge_docs\<rparr>]\<rparr>)"

definition RowHeading_Default :: "story_msg nodes" where
  "RowHeading_Default = RowHeading ''Example'' 1 False (Action ''clicked'')"

definition RowHeading_withBadge :: "story_msg nodes" where
  "RowHeading_withBadge = RowHeading ''Example'' 1 True (Action ''clicked'')"

definition NestedTables_props :: "(string \<times> bool) list" where
  "NestedTables_props = [(''workspaces'', True), (''templates'', True), (''isManager'', True), (''destroyAll'', True)]"

definition NestedTables_UserView_docs :: "unit nodes" where
  "NestedTables_UserView_docs =
     [El ''Title'' [] [Txt ''Active Templates Table''],
      El ''Description'' []
        [Txt (''Table containing active personal templates. This is the default view for any tenant and also the only '' @
              ''view for user-privileged tenants. All active VM instances are stored inside the respective template.'')],
      El ''Primary'' [] []]"

definition NestedTables_ManagerView_docs :: "unit nodes" where
  "NestedTables_ManagerView_docs =
     [El ''Title'' [] [Txt ''Active Workspaces Table''],
      El ''Description'' []
        [Txt (''Table containing workspaces which in turn contain a nested table of templates. This layout is '' @
              ''intended to be viewed only by manager-level tenants to help them organize the active templates they '' @
              ''own and that are used by other tenants.'')],
      El ''Stories'' [] []]"

definition NestedTables_file :: story_file where
  "NestedTables_file =
     (let defaultArgs = [''workspaces'', ''templates'', ''isManager'']
      in \<lparr>file_title = ''Components/ActivePage/NestedTables/NestedTables'', file_props = NestedTables_props,
          file_actions = [''destroyAll''], file_controls = [], file_docs = DocsUndefined,
          file_stories =
            [\<lparr>story_name = ''UserView'', story_args = defaultArgs, story_docs = Docs NestedTables_UserView_docs\<rparr>,
             \<lparr>story_name = ''ManagerView'', story_args = spread defaultArgs [''isManager''],
              story_docs = Docs NestedTables_ManagerView_docs\<rparr>]\<rparr>)"

definition of_height :: "string \<Rightarrow> 'm nodes \<Rightarrow> 'm nodes" where
  "of_height h ns = [El ''div'' [(''style'', PVal (JObj [(''height'', JStr h)]))] ns]"

definition NestedTables_Template :: "bool \<Rightarrow> tables \<Rightarrow> story_msg nodes" where
  "NestedTables_Template isManager tables =
     of_height ''300px''
       (NestedTables isManager temp_workspaces temp_templates (Action ''clicked'') None tables Toggled)"

definition NestedTables_UserView :: "tables \<Rightarrow> story_msg nodes" where
  "NestedTables_UserView = NestedTables_Template False"

definition NestedTables_ManagerView :: "tables \<Rightarrow> story_msg nodes" where
  "NestedTables_ManagerView = NestedTables_Template True"

definition ViewModeButton_props :: "(string \<times> bool) list" where
  "ViewModeButton_props = [(''managerView'', True), (''setManagerView'', True)]"

definition ViewModeButton_Default_docs :: "unit nodes" where
  "ViewModeButton_Default_docs =
     [El ''Title'' [] [Txt ''View Mode Dropdown''],
      El ''Description'' [] [Txt ''Selector for the manager/user view modes.''],
      El ''Stories'' [(''includePrimary'', PBool True)] []]"

definition ViewModeButton_file :: story_file where
  "ViewModeButton_file =
     \<lparr>file_title = ''Components/ActivePage/ActiveLanding/ViewModeButton/ViewModeButton'',
      file_props = ViewModeButton_props, file_actions = [], file_controls = [], file_docs = DocsUndefined,
      file_stories = [\<lparr>story_name = ''Default'', story_args = [''managerView'', ''setManagerView''],
        story_docs = Docs ViewModeButton_Default_docs\<rparr>]\<rparr>"

definition ViewModeButton_Default :: "story_msg nodes" where
  "ViewModeButton_Default = ViewModeButton False (\<lambda>_. Ignored)"

definition ActiveLanding_props :: "(string \<times> bool) list" where
  "ActiveLanding_props = [(''isTenantManager'', True)]"

definition ActiveLanding_Default_docs :: "unit nodes" where
  "ActiveLanding_Default_docs =
     [El ''Title'' [] [Txt ''Active landing page''],
      El ''Description'' []
        [Txt (''This component showcases the dynamic toggle between **user view** and **manager view**. The switch is '' @
              ''going to be visible only for tenants with manager privileges.'')],
      El ''Stories'' [(''includePrimary'', PBool True)] []]"

definition ActiveLanding_Manager_docs :: "unit nodes" where
  "ActiveLanding_Manager_docs = [El ''Title'' [] [Txt ''Active landing page - manager''], El ''Stories'' [] []]"

definition ActiveLanding_file :: story_file where
  "ActiveLanding_file =
     (let defaultArgs = [''isTenantManager'']
      in \<lparr>file_title = ''Components/ActivePage/ActiveLanding/ActiveLanding'', file_props = ActiveLanding_props,
          file_actions = [], file_controls = [], file_docs = DocsUndefined,
          file_stories =
            [\<lparr>story_name = ''Default'', story_args = defaultArgs, story_docs = Docs ActiveLanding_Default_docs\<rparr>,
             \<lparr>story_name = ''Manager'', story_args = spread defaultArgs [''isTenantManager''],
              story_docs = Docs ActiveLanding_Manager_docs\<rparr>]\<rparr>)"

definition ActiveLanding_Default :: "active_state \<Rightarrow> active_msg nodes" where
  "ActiveLanding_Default st = of_height ''500px'' (ActiveLanding False st)"

definition ActiveLanding_Manager :: "active_state \<Rightarrow> active_msg nodes" where
  "ActiveLanding_Manager st = of_height ''500px'' (ActiveLanding True st)"

subsection \<open>workspaces\<close>

definition Dashboard_file :: story_file where
  "Dashboard_file =
     \<lparr>file_title = ''Components/workspaces/Dashboard'', file_props = [], file_actions = [], file_controls = [],
      file_docs = NoDocs, file_stories = [plain ''Default'' []]\<rparr>"

definition Dashboard_Default :: "ws_state \<Rightarrow> ws_msg nodes" where
  "Dashboard_Default = Dashboard fake_data"

definition WorkspaceWelcome_file :: story_file where
  "WorkspaceWelcome_file =
     \<lparr>file_title = ''Components/workspaces/Welcome'', file_props = [], file_actions = [], file_controls = [],
      file_docs = NoDocs, file_stories = [plain ''Default'' []]\<rparr>"

definition WorkspaceWelcome_Default :: "story_msg nodes" where
  "WorkspaceWelcome_Default = WorkspaceWelcome"

definition WorkspaceGridItem_props :: "(string \<times> bool) list" where
  "WorkspaceGridItem_props = [(''id'', True), (''title'', True), (''isActive'', True), (''onClick'', True)]"

definition WorkspaceGridItem_file :: story_file where
  "WorkspaceGridItem_file =
     \<lparr>file_title = ''Components/workspaces/Grid/WorkspaceGridItem'', file_props = WorkspaceGridItem_props,
      file_actions = [], file_controls = [], file_docs = NoDocs,
      file_stories = [plain ''Default'' [''title'', ''isActive'', ''id'']]\<rparr>"

definition WorkspaceGridItem_Default :: "story_msg nodes" where
  "WorkspaceGridItem_Default = WorkspaceGridItem 0 ''Reti locali e data center'' True (\<lambda>_. Action ''onClick'')"

definition WorkspaceGrid_props :: "(string \<times> bool) list" where
  "WorkspaceGrid_props = [(''workspaceItems'', True), (''selectedWs'', True), (''onClick'', True)]"

definition WorkspaceGrid_file :: story_file where
  "WorkspaceGrid_file =
     \<lparr>file_title = ''Components/workspaces/Grid/WorkspaceGrid'', file_props = WorkspaceGrid_props,
      file_actions = [], file_controls = [], file_docs = NoDocs,
      file_stories = [plain ''Default'' [''workspaceItems'', ''selectedWs'']]\<rparr>"

definition story_items :: "(int \<times> string) list" where
  "story_items =
     [(0, ''Reti Locali e Data Center''), (1, ''Tecnologie e Servizi di Rete''), (2, ''Applicazioni Web I''),
      (3, ''Cloud Computing''), (4, ''Programmazione di Sistema''), (5, ''Information System Security''),
      (6, ''Ingegneria del Software''), (7, ''Data Science''), (8, ''Software Networking'')]"

definition WorkspaceGrid_Default :: "story_msg nodes" where
  "WorkspaceGrid_Default = WorkspaceGrid story_items 1 (\<lambda>_. Action ''onClick'')"

definition TemplatesEmpty_props :: "(string \<times> bool) list" where
  "TemplatesEmpty_props = [(''role'', True)]"

definition TemplatesEmpty_file :: story_file where
  "TemplatesEmpty_file =
     \<lparr>file_title = ''Components/workspaces/Templates/TemplatesEmpty'', file_props = TemplatesEmpty_props,
      file_actions = [], file_controls = [], file_docs = NoDocs, file_stories = [plain ''Default'' [''role'']]\<rparr>"

definition TemplatesEmpty_Default :: "story_msg nodes" where
  "TemplatesEmpty_Default = TemplatesEmpty manager"

definition TemplatesTableRowSettings_props :: "(string \<times> bool) list" where
  "TemplatesTableRowSettings_props = [(''id'', True), (''editTemplate'', True), (''deleteTemplate'', True)]"

definition TemplatesTableRowSettings_file :: story_file where
  "TemplatesTableRowSettings_file =
     \<lparr>file_title = ''Components/workspaces/Templates/TemplatesTableRowSettings'',
      file_props = TemplatesTableRowSettings_props, file_actions = [], file_controls = [], file_docs = NoDocs,
      file_stories = [plain ''Default'' [''id'', ''editTemplate'', ''deleteTemplate'']]\<rparr>"

definition TemplatesTableRowSettings_Default :: "story_msg nodes" where
  "TemplatesTableRowSettings_Default = TemplatesTableRowSettings ''0_1'' (\<lambda>_. Ignored) (\<lambda>_. Ignored)"

definition TemplatesTableRow_props :: "(string \<times> bool) list" where
  "TemplatesTableRow_props =
     [(''id'', True), (''name'', True), (''gui'', True), (''role'', True), (''activeInstances'', True),
      (''editTemplate'', True), (''deleteTemplate'', True)]"

definition TemplatesTableRow_file :: story_file where
  "TemplatesTableRow_file =
     \<lparr>file_title = ''Components/workspaces/Templates/TemplatesTableRow'', file_props = TemplatesTableRow_props,
      file_actions = [], file_controls = [], file_docs = NoDocs,
      file_stories = [plain ''Default''
        [''id'', ''name'', ''gui'', ''role'', ''activeInstances'', ''editTemplate'', ''deleteTemplate'']]\<rparr>"

definition TemplatesTableRow_Default :: "story_msg nodes" where
  "TemplatesTableRow_Default = TemplatesTableRow ''0_1'' ''Ubuntu VM'' True manager 2 (\<lambda>_. Ignored) (\<lambda>_. Ignored)"

definition TemplatesTable_props :: "(string \<times> bool) list" where
  "TemplatesTable_props = [(''templates'', True), (''role'', True), (''editTemplate'', True), (''deleteTemplate'', True)]"

definition TemplatesTable_file :: story_file where
  "TemplatesTable_file =
     (let defaultArgs = [''templates'', ''role'', ''editTemplate'', ''deleteTemplate'']
      in \<lparr>file_title = ''Components/workspaces/Templates/TemplatesTable'', file_props = TemplatesTable_props,
          file_actions = [], file_controls = [], file_docs = NoDocs,
          file_stories = [plain ''Expandable'' defaultArgs, plain ''NotExpandable'' (spread defaultArgs [''templates''])]\<rparr>)"

definition expandable_templates :: "Template list" where
  "expandable_templates =
     [tmpl ''0_1'' ''Ubuntu VM'' True
        [inst 1 ''Ubuntu VM'' ''192.168.0.1'' True, inst 2 ''Ubuntu VM'' ''192.168.0.1'' False],
      tmpl ''0_2'' ''Ubuntu VM'' False
        [inst 1 ''Ubuntu VM'' ''192.168.0.1'' True, inst 2 ''Ubuntu VM'' ''192.168.0.1'' False],
      tmpl ''0_3'' ''Windows VM'' True [inst 1 ''Windows VM'' ''192.168.0.1'' True],
      tmpl ''0_4'' ''Console (Linux)'' False
        [inst 1 ''Ubuntu VM'' ''192.168.0.1'' True, inst 2 ''Ubuntu VM'' ''192.168.0.1'' False],
      tmpl ''0_5'' ''Ubuntu VM'' True
        [inst 1 ''Ubuntu VM'' ''192.168.0.1'' True, inst 2 ''Ubuntu VM'' ''192.168.0.1'' True,
         inst 3 ''Ubuntu VM'' ''192.168.0.1'' True],
      tmpl ''0_6'' ''Ubuntu VM'' True
        [inst 1 ''Ubuntu VM'' ''192.168.0.1'' True, inst 2 ''Ubuntu VM'' ''192.168.0.1'' True,
         inst 3 ''Ubuntu VM'' ''192.168.0.1'' True]]"

definition not_expandable_templates :: "Template list" where
  "not_expandable_templates =
     [tmpl ''0_1'' ''Ubuntu VM'' True [], tmpl ''0_2'' ''Ubuntu VM'' False [], tmpl ''0_3'' ''Windows VM'' True [],
      tmpl ''0_4'' ''Console (Linux)'' False [], tmpl ''0_5'' ''Ubuntu VM'' True [], tmpl ''0_6'' ''Ubuntu VM'' True []]"

definition TemplatesTable_Template :: "Template list \<Rightarrow> string list \<Rightarrow> story_msg nodes" where
  "TemplatesTable_Template templates expanded_ids =
     TemplatesTable templates manager (\<lambda>_. Ignored) (\<lambda>_. Ignored) (Toggled None) expanded_ids"

definition TemplatesTable_Expandable :: "string list \<Rightarrow> story_msg nodes" where
  "TemplatesTable_Expandable = TemplatesTable_Template expandable_templates"

definition TemplatesTable_NotExpandable :: "string list \<Rightarrow> story_msg nodes" where
  "TemplatesTable_NotExpandable = TemplatesTable_Template not_expandable_templates"

definition WorkspaceContainer_props :: "(string \<times> bool) list" where
  "WorkspaceContainer_props = [(''workspace'', True)]"

definition WorkspaceContainer_file :: story_file where
  "WorkspaceContainer_file =
     (let defaultArgs = [''workspace'']
      in \<lparr>file_title = ''Components/workspaces/WorkspaceContainer'', file_props = WorkspaceContainer_props,
          file_actions = [], file_controls = [], file_docs = NoDocs,
          file_stories = [plain ''Full'' defaultArgs, plain ''Empty'' (spread defaultArgs [''workspace''])]\<rparr>)"

definition full_workspace :: workspace where
  "full_workspace =
     ws 0 ''Reti Locali e Data Center'' manager
       [tmpl ''0_1'' ''Ubuntu VM'' True
          [inst 1 ''Ubuntu VM'' ''192.168.0.1'' True, inst 2 ''Ubuntu VM'' ''192.168.0.1'' False],
        tmpl ''0_2'' ''Ubuntu VM'' False [],
        tmpl ''0_3'' ''Windows VM'' True [inst 1 ''Windows VM'' ''192.168.0.1'' True],
        tmpl ''0_4'' ''Console (Linux)'' False [],
        tmpl ''0_5'' ''Ubuntu VM'' True
          [inst 1 ''Ubuntu VM'' ''192.168.0.1'' True, inst 2 ''Ubuntu VM'' ''192.168.0.1'' True,
           inst 3 ''Ubuntu VM'' ''192.168.0.1'' True],
        tmpl ''0_6'' ''Ubuntu VM'' True
          [inst 1 ''Ubuntu VM'' ''192.168.0.1'' True, inst 2 ''Ubuntu VM'' ''192.168.0.1'' True,
           inst 3 ''Ubuntu VM'' ''192.168.0.1'' True]]"

definition empty_workspace :: workspace where
  "empty_workspace = ws 8 ''Software Networking'' user []"

definition WorkspaceContainer_Full :: "string list \<Rightarrow> ws_msg nodes" where
  "WorkspaceContainer_Full = WorkspaceContainer full_workspace"

definition WorkspaceContainer_Empty :: "string list \<Rightarrow> ws_msg nodes" where
  "WorkspaceContainer_Empty = WorkspaceContainer empty_workspace"

subsection \<open>All files\<close>

definition story_files :: "story_file list" where
  "story_files =
     [Badge_file, Box_file, ModalAlert_file, ExampleButton_file, SSHKeysTable_file, SSHKeysForm_file, UserInfo_file,
      UserPanel_file, RowHeading_file, NestedTables_file, ViewModeButton_file, ActiveLanding_file, Dashboard_file,
      WorkspaceWelcome_file, WorkspaceGridItem_file, WorkspaceGrid_file, TemplatesEmpty_file,
      TemplatesTableRowSettings_file, TemplatesTableRow_file, TemplatesTable_file, WorkspaceContainer_file]"

definition missing_of :: "(story_file \<Rightarrow> string list) \<Rightarrow> (string \<times> string \<times> string) list" where
  "missing_of inferred =
     concat (map (\<lambda>f. concat (map (\<lambda>s. map (\<lambda>p. (file_title f, story_name s, p)) (missing_props inferred f s))
       (file_stories f))) story_files)"

subsection \<open>Lemmas\<close>

lemmas story_file_defs =
  Badge_file_def Box_file_def ModalAlert_file_def ExampleButton_file_def SSHKeysTable_file_def SSHKeysForm_file_def
  UserInfo_file_def UserPanel_file_def RowHeading_file_def NestedTables_file_def ViewModeButton_file_def
  ActiveLanding_file_def Dashboard_file_def WorkspaceWelcome_file_def WorkspaceGridItem_file_def
  WorkspaceGrid_file_def TemplatesEmpty_file_def TemplatesTableRowSettings_file_def TemplatesTableRow_file_def
  TemplatesTable_file_def WorkspaceContainer_file_def

lemmas story_props_defs =
  Badge_props_def Box_props_def ModalAlert_props_def ExampleButton_props_def SSHKeysTable_props_def
  SSHKeysForm_props_def UserInfo_props_def UserPanel_props_def RowHeading_props_def NestedTables_props_def
  ViewModeButton_props_def ActiveLanding_props_def WorkspaceGridItem_props_def WorkspaceGrid_props_def
  TemplatesEmpty_props_def TemplatesTableRowSettings_props_def TemplatesTableRow_props_def TemplatesTable_props_def
  WorkspaceContainer_props_def

lemma missing_props_inferred:
  assumes "set (map fst (file_props f)) \<subseteq> set (inferred f)"
  shows "missing_props inferred f s = missing_props (\<lambda>f. map fst (file_props f)) f s"
  unfolding missing_props_def supplied_def using assms by (auto intro!: filter_cong)

lemma missing_of_inferred:
  assumes "list_all (\<lambda>f. set (map fst (file_props f)) \<subseteq> set (inferred f)) story_files"
  shows "missing_of inferred = missing_of (\<lambda>f. map fst (file_props f))"
proof -
  have "missing_props inferred f s = missing_props (\<lambda>f. map fst (file_props f)) f s" if "f \<in> set story_files" for f s
    by (rule missing_props_inferred) (use assms that in \<open>simp only: list_all_iff\<close>)
  then show ?thesis
    unfolding missing_of_def by (intro arg_cong [where f = concat] map_cong refl) simp_all
qed

lemma missing_inferred:
  "missing_of (\<lambda>f. map fst (file_props f)) =
     [(''Components/Examples/ExampleButton'', ''Default'', ''size''),
      (''Components/Examples/ExampleButton'', ''CustomCSS'', ''size''),
      (''Components/Examples/ExampleButton'', ''Disabled'', ''size'')]"
  by (simp add: missing_of_def story_files_def missing_props_def supplied_def story_file_defs story_props_defs
      plain_def spread_def argTypesRegex_def Let_def)

lemma missing_without_inference:
  "missing_of (\<lambda>_. []) =
     [(''Components/Examples/ExampleButton'', ''Default'', ''size''),
      (''Components/Examples/ExampleButton'', ''CustomCSS'', ''size''),
      (''Components/Examples/ExampleButton'', ''Disabled'', ''size''),
      (''Components/AccountPage/SSHKeysForm'', ''Default'', ''onSaveKey''),
      (''Components/AccountPage/SSHKeysForm'', ''Default'', ''onCancel''),
      (''Components/workspaces/Grid/WorkspaceGridItem'', ''Default'', ''onClick''),
      (''Components/workspaces/Grid/WorkspaceGrid'', ''Default'', ''onClick'')]"
  by (simp add: missing_of_def story_files_def missing_props_def supplied_def story_file_defs story_props_defs
      plain_def spread_def Let_def)

text \<open>Controls and actions for props that the component does not have.\<close>

definition unknown_arg_types :: "(string \<times> string) list" where
  "unknown_arg_types =
     concat (map (\<lambda>f. map (Pair (file_title f))
       (filter (\<lambda>k. k \<notin> set (map fst (file_props f))) (file_controls f @ file_actions f))) story_files)"

lemma unknown_arg_types:
  "unknown_arg_types =
     [(''Components/common/Box'', ''headerMinHeight''), (''Components/common/Box'', ''footerMinHeight''),
      (''Components/common/ModalAlert'', ''onClick'')]"
  by (simp add: unknown_arg_types_def story_files_def story_file_defs story_props_defs Let_def)

text \<open>Four files have a page of documentation that returns nothing; none of their stories shows it.\<close>

lemma docs_are_defined:
  "map file_title (filter (\<lambda>f. file_docs f = DocsUndefined) story_files) =
     [''Components/activePage/RowHeading'', ''Components/ActivePage/NestedTables/NestedTables'',
      ''Components/ActivePage/ActiveLanding/ViewModeButton/ViewModeButton'',
      ''Components/ActivePage/ActiveLanding/ActiveLanding'']"
  "list_all (\<lambda>f. list_all (\<lambda>s. shown_docs f s \<noteq> DocsUndefined) (file_stories f)) story_files"
  by (simp_all add: story_files_def story_file_defs shown_docs_def plain_def Let_def)

text \<open>Every option of the control for the header of a box has a value, with the size its name ends with.\<close>

lemma box_options:
  "map fst header_mapping = header_options"
  "map (\<lambda>p. hd_size (snd p)) header_mapping = map Some [small, middle, large, small, middle, large]"
  by (simp_all add: header_mapping_def header_options_def)

text \<open>The rows that the stories of the table show as expandable.\<close>

lemma lookup_after_calls: "k \<noteq> name \<Longrightarrow> map_of (calls name f xs @ ps) k = map_of ps k"
  by (induction xs) (simp_all add: calls_def)

lemma row_has_no_table:
  "all_elements ''Table'' (TemplatesTableRow ident name gui role n edit del) = []"
  by (simp add: TemplatesTableRow_def TemplatesTableRowSettings_def)

lemma expandable_rows:
  "map (\<lambda>ps. map_of ps ''rowExpandable'') (all_elements ''Table'' (TemplatesTable_Template ts e)) =
     [Some (PVal (JArr (map (\<lambda>r. JBool (tmpl_instances r \<noteq> [])) ts)))]"
  unfolding TemplatesTable_Template_def TemplatesTable_def
  by (simp add: lookup_after_calls row_has_no_table del: map_of_append)

lemma story_rows:
  "list_all (\<lambda>r. tmpl_instances r \<noteq> []) expandable_templates" "list_all (\<lambda>r. tmpl_instances r = []) not_expandable_templates"
  "map tmpl_id expandable_templates = map tmpl_id not_expandable_templates"
  by (simp_all add: expandable_templates_def not_expandable_templates_def tmpl_def)

text \<open>The stories of the active page: the managed view is reached in the one for managers only.\<close>

lemma of_height_handlers [simp]: "all_handlers (of_height h ns) = all_handlers ns"
  by (simp add: of_height_def)

lemma same_handlers_same_states:
  assumes "page_state init update view s" and "\<And>t. all_handlers (view' t) = all_handlers (view t)"
  shows "page_state init update view' s"
  using assms(1) by (induction rule: page_state.induct) (auto intro: page_state.intros simp: assms(2))

lemma story_view_modes:
  "page_state active_init active_update ActiveLanding_Default s \<Longrightarrow> \<not> managerView s"
  "\<exists>s. page_state active_init active_update ActiveLanding_Manager s \<and> managerView s"
proof -
  assume "page_state active_init active_update ActiveLanding_Default s"
  then have "page_state active_init active_update (ActiveLanding False) s"
    by (rule same_handlers_same_states) (simp add: ActiveLanding_Default_def)
  from active.page_inv [OF this] show "\<not> managerView s" by (simp add: active_inv_def)
next
  have "page_state active_init active_update ActiveLanding_Manager (active_update (setManagerView True) active_init)"
    by (rule page_state.handled [OF page_state.mounted]) (simp add: ActiveLanding_Manager_def ActiveLanding_handlers)
  then show "\<exists>s. page_state active_init active_update ActiveLanding_Manager s \<and> managerView s"
    by (intro exI [of _ "active_update (setManagerView True) active_init"]) (simp add: active_init_def)
qed

lemma story_items: "story_items = map (\<lambda>w. (ws_id w, ws_title w)) fake_data"
  by (simp add: story_items_def fake_data_def ws_def)

lemma story_workspaces:
  "ws_find fake_data 0 = Some full_workspace" "ws_find fake_data 8 = Some empty_workspace"
  by (simp_all add: ws_find_def fake_data_def ws_def full_workspace_def empty_workspace_def)

lemma grid_texts:
  "all_texts (WorkspaceGrid items sel f) = filter (\<lambda>t. t \<noteq> []) (map snd items)"
  by (induction items) (auto simp: WorkspaceGrid_def)

lemma grid_buttons:
  "map is_active (all_elements ''button'' (WorkspaceGrid items sel f)) = map (\<lambda>it. sel = fst it) items"
  unfolding WorkspaceGrid_tree map_map comp_def is_active_item by (rule refl)

lemma Dashboard_texts:
  "all_texts (Dashboard data st) =
     filter (\<lambda>t. t \<noteq> []) (map ws_title data) @
     (case ws_find data (selectedWs st) of Some w \<Rightarrow> all_texts (WorkspaceContainer w (expandedId st))
      | None \<Rightarrow> all_texts (WorkspaceWelcome :: ws_msg nodes))"
  by (simp add: Dashboard_def Let_def grid_texts comp_def split: option.split)

lemma selected_state:
  assumes "w \<in> set data"
  shows "page_state ws_init (ws_update data) (Dashboard data) (ws_update data (setSelectedWs (ws_id w)) ws_init)"
  by (rule page_state.handled [OF page_state.mounted]) (simp add: Dashboard_tree assms)

subsection \<open>Properties\<close>

text \<open>provided Storybook finds the declared props of the components, every story sets every mandatory
  prop of its component or gets an action for it, up to the size of the example button, which may be
  undefined; without that the form for keys and the grid would have no handlers. Three controls or
  actions are for props that their components do not have.\<close>

lemma stories_supply_props:
  assumes "list_all (\<lambda>f. set (map fst (file_props f)) \<subseteq> set (inferred f)) story_files"
  shows "missing_of inferred =
      map (\<lambda>s. (''Components/Examples/ExampleButton'', s, ''size'')) [''Default'', ''CustomCSS'', ''Disabled'']
    \<and> missing_of (\<lambda>_. []) = missing_of inferred @
       [(''Components/AccountPage/SSHKeysForm'', ''Default'', ''onSaveKey''),
        (''Components/AccountPage/SSHKeysForm'', ''Default'', ''onCancel''),
        (''Components/workspaces/Grid/WorkspaceGridItem'', ''Default'', ''onClick''),
        (''Components/workspaces/Grid/WorkspaceGrid'', ''Default'', ''onClick'')]
    \<and> unknown_arg_types =
       [(''Components/common/Box'', ''headerMinHeight''), (''Components/common/Box'', ''footerMinHeight''),
        (''Components/common/ModalAlert'', ''onClick'')]"
  unfolding missing_of_inferred [OF assms] missing_inferred missing_without_inference unknown_arg_types by simp

lemma stories_supply_props_witness:
  "length (missing_of (\<lambda>f. map fst (file_props f))) = 3"
proof -
  have "list_all (\<lambda>f. set (map fst (file_props f)) \<subseteq> set (map fst (file_props f))) story_files"
    by (simp add: list_all_iff)
  from stories_supply_props [OF this] show ?thesis by simp
qed

text \<open>the stories of the workspaces show the texts of the page: opening it shows those of the grid and of the
  welcome of the stories (where the story of the grid marks a workspace as active and the page none yet), and the clicks on the first and on the last workspace show the containers \<open>Full\<close> and
  \<open>Empty\<close>, each in a reachable state; in the state after the click on the second the grid marks the
  same button as the story of the grid.\<close>

lemma workspace_stories_are_page_views:
  "let s = (\<lambda>i. ws_update fake_data (setSelectedWs i) ws_init) in
     list_all (\<lambda>i. page_state ws_init (ws_update fake_data) Dashboard_Default (s i)) [0, 1, 8]
     \<and> all_texts (Dashboard_Default ws_init) = all_texts WorkspaceGrid_Default @ all_texts WorkspaceWelcome_Default
     \<and> all_texts (Dashboard_Default (s 0)) =
         all_texts WorkspaceGrid_Default @ all_texts (WorkspaceContainer_Full (expandedId (s 0)))
     \<and> all_texts (Dashboard_Default (s 8)) =
         all_texts WorkspaceGrid_Default @ all_texts (WorkspaceContainer_Empty (expandedId (s 8)))
     \<and> map is_active (all_elements ''button'' (Dashboard_Default (s 1))) =
         map is_active (all_elements ''button'' WorkspaceGrid_Default)"
proof -
  have in_data: "fake_data ! 0 \<in> set fake_data" "fake_data ! 1 \<in> set fake_data" "fake_data ! 8 \<in> set fake_data"
    and ids: "ws_id (fake_data ! 0) = 0" "ws_id (fake_data ! 1) = 1" "ws_id (fake_data ! 8) = 8"
    and unselected: "ws_find fake_data (-1) = None"
    by (simp_all add: fake_data_def ws_def ws_find_def)
  have titles: "all_texts WorkspaceGrid_Default = filter (\<lambda>t. t \<noteq> []) (map ws_title fake_data)"
    by (simp add: WorkspaceGrid_Default_def grid_texts story_items comp_def)
  have clicked: "selectedWs (ws_update fake_data (setSelectedWs i) ws_init) = i" for i by simp
  have greeting: "all_texts WorkspaceWelcome_Default = all_texts (WorkspaceWelcome :: ws_msg nodes)"
    by (simp add: WorkspaceWelcome_Default_def WorkspaceWelcome_def)
  have marks: "map is_active (all_elements ''button'' (Dashboard_Default st)) = map (\<lambda>w. selectedWs st = ws_id w) fake_data" for st
    unfolding Dashboard_Default_def Dashboard_tree map_map comp_def is_active_item by (rule refl)
  have "list_all (\<lambda>i. page_state ws_init (ws_update fake_data) Dashboard_Default (ws_update fake_data (setSelectedWs i) ws_init)) [0, 1, 8]"
    using selected_state [OF in_data(1)] selected_state [OF in_data(2)] selected_state [OF in_data(3)]
    unfolding ids Dashboard_Default_def by simp
  moreover have "all_texts (Dashboard_Default ws_init) = all_texts WorkspaceGrid_Default @ all_texts WorkspaceWelcome_Default"
    unfolding Dashboard_Default_def Dashboard_texts titles greeting by (simp add: ws_init_def unselected)
  moreover have "map (\<lambda>w. 1 = ws_id w) fake_data = map is_active (all_elements ''button'' WorkspaceGrid_Default)"
    unfolding WorkspaceGrid_Default_def grid_buttons story_items by (simp add: comp_def)
  ultimately show ?thesis
    unfolding Let_def marks clicked WorkspaceContainer_Full_def WorkspaceContainer_Empty_def
    unfolding Dashboard_Default_def Dashboard_texts clicked story_workspaces option.case titles by (intro conjI refl) assumption+
qed

end
