(* ===== verification/Gql_Inputs.thy ===== *)
theory Gql_Inputs
  imports Gql_Schema
begin

section \<open>frontend: the generated input types\<close>

text \<open>
  The input types of \<open>frontend/src/generated-types.tsx\<close>, in the form of \<open>Gql_Schema\<close>: \<open>in_name\<close> has one
  constructor per declared input type, and a field of an input type is a scalar, an enum or an input
  type. The property of this theory tells when an object that has been read completely, less its
  \<open>__typename\<close> and the fields that the server adds for navigation, is accepted where the input type of its
  type is expected.
\<close>

subsection \<open>Names and types\<close>

datatype (plugins only: size) in_name =
    EnvironmentListListItemInput
  | EnvironmentRefInput
  | ImagesListItemInput
  | InstanceRefInput
  | IoK8sApimachineryPkgApisMetaV1DeleteOptionsV2Input
  | IoK8sApimachineryPkgApisMetaV1ManagedFieldsEntryInput
  | IoK8sApimachineryPkgApisMetaV1ObjectMetaV2Input
  | IoK8sApimachineryPkgApisMetaV1OwnerReferenceV2Input
  | IoK8sApimachineryPkgApisMetaV1PreconditionsInput
  | ItPolitoCrownlabsV1alpha1ImageListInput
  | ItPolitoCrownlabsV1alpha1TenantInput
  | ItPolitoCrownlabsV1alpha1WorkspaceInput
  | ItPolitoCrownlabsV1alpha2InstanceInput
  | ItPolitoCrownlabsV1alpha2InstanceSnapshotInput
  | ItPolitoCrownlabsV1alpha2TemplateInput
  | NamespaceInput
  | PersonalNamespaceInput
  | ResourcesInput
  | SandboxNamespaceInput
  | Spec2Input
  | Spec3Input
  | Spec4Input
  | Spec5Input
  | Spec6Input
  | SpecInput
  | Status2Input
  | Status3Input
  | Status4Input
  | StatusInput
  | TemplateCrownlabsPolitoItTemplateRefInput
  | TenantCrownlabsPolitoItTenantRefInput
  | WorkspaceCrownlabsPolitoItWorkspaceRefInput
  | WorkspaceRefInput
  | WorkspacesListItemInput

datatype in_type =
    IScalar string
  | IEnum ts_name
  | IRef in_name
  | IMaybe in_type
  | IArray in_type

type_synonym in_fields = "(string \<times> bool \<times> in_type) list"

subsection \<open>The declarations\<close>

definition inp_EnvironmentListListItemInput :: in_fields where
  "inp_EnvironmentListListItemInput =
     [(''environmentType'', False, IEnum EnvironmentType),
      (''guiEnabled'', True, IMaybe (IScalar ''Boolean'')),
      (''image'', False, IScalar ''String''),
      (''name'', False, IScalar ''String''),
      (''persistent'', True, IMaybe (IScalar ''Boolean'')),
      (''resources'', False, IRef ResourcesInput)]"

definition inp_EnvironmentRefInput :: in_fields where
  "inp_EnvironmentRefInput =
     [(''name'', False, IScalar ''String''),
      (''namespace'', True, IMaybe (IScalar ''String''))]"

definition inp_ImagesListItemInput :: in_fields where
  "inp_ImagesListItemInput =
     [(''name'', False, IScalar ''String''),
      (''versions'', False, IArray (IMaybe (IScalar ''String'')))]"

definition inp_InstanceRefInput :: in_fields where
  "inp_InstanceRefInput =
     [(''name'', False, IScalar ''String''),
      (''namespace'', True, IMaybe (IScalar ''String''))]"

definition inp_IoK8sApimachineryPkgApisMetaV1DeleteOptionsV2Input :: in_fields where
  "inp_IoK8sApimachineryPkgApisMetaV1DeleteOptionsV2Input =
     [(''apiVersion'', True, IMaybe (IScalar ''String'')),
      (''dryRun'', True, IMaybe (IArray (IMaybe (IScalar ''String'')))),
      (''gracePeriodSeconds'', True, IMaybe (IScalar ''Float'')),
      (''kind'', True, IMaybe (IScalar ''String'')),
      (''orphanDependents'', True, IMaybe (IScalar ''Boolean'')),
      (''preconditions'', True, IMaybe (IRef IoK8sApimachineryPkgApisMetaV1PreconditionsInput)),
      (''propagationPolicy'', True, IMaybe (IScalar ''String''))]"

definition inp_IoK8sApimachineryPkgApisMetaV1ManagedFieldsEntryInput :: in_fields where
  "inp_IoK8sApimachineryPkgApisMetaV1ManagedFieldsEntryInput =
     [(''apiVersion'', True, IMaybe (IScalar ''String'')),
      (''fieldsType'', True, IMaybe (IScalar ''String'')),
      (''fieldsV1'', True, IMaybe (IScalar ''String'')),
      (''manager'', True, IMaybe (IScalar ''String'')),
      (''operation'', True, IMaybe (IScalar ''String'')),
      (''time'', True, IMaybe (IScalar ''String''))]"

definition inp_IoK8sApimachineryPkgApisMetaV1ObjectMetaV2Input :: in_fields where
  "inp_IoK8sApimachineryPkgApisMetaV1ObjectMetaV2Input =
     [(''annotations'', True, IMaybe (IScalar ''JSON'')),
      (''clusterName'', True, IMaybe (IScalar ''String'')),
      (''creationTimestamp'', True, IMaybe (IScalar ''String'')),
      (''deletionGracePeriodSeconds'', True, IMaybe (IScalar ''Float'')),
      (''deletionTimestamp'', True, IMaybe (IScalar ''String'')),
      (''finalizers'', True, IMaybe (IArray (IMaybe (IScalar ''String'')))),
      (''generateName'', True, IMaybe (IScalar ''String'')),
      (''generation'', True, IMaybe (IScalar ''Float'')),
      (''labels'', True, IMaybe (IScalar ''JSON'')),
      (''managedFields'', True, IMaybe (IArray (IMaybe (IRef IoK8sApimachineryPkgApisMetaV1ManagedFieldsEntryInput)))),
      (''name'', True, IMaybe (IScalar ''String'')),
      (''namespace'', True, IMaybe (IScalar ''String'')),
      (''ownerReferences'', True, IMaybe (IArray (IMaybe (IRef IoK8sApimachineryPkgApisMetaV1OwnerReferenceV2Input)))),
      (''resourceVersion'', True, IMaybe (IScalar ''String'')),
      (''selfLink'', True, IMaybe (IScalar ''String'')),
      (''uid'', True, IMaybe (IScalar ''String''))]"

definition inp_IoK8sApimachineryPkgApisMetaV1OwnerReferenceV2Input :: in_fields where
  "inp_IoK8sApimachineryPkgApisMetaV1OwnerReferenceV2Input =
     [(''apiVersion'', False, IScalar ''String''),
      (''blockOwnerDeletion'', True, IMaybe (IScalar ''Boolean'')),
      (''controller'', True, IMaybe (IScalar ''Boolean'')),
      (''kind'', False, IScalar ''String''),
      (''name'', False, IScalar ''String''),
      (''uid'', False, IScalar ''String'')]"

definition inp_IoK8sApimachineryPkgApisMetaV1PreconditionsInput :: in_fields where
  "inp_IoK8sApimachineryPkgApisMetaV1PreconditionsInput =
     [(''resourceVersion'', True, IMaybe (IScalar ''String'')),
      (''uid'', True, IMaybe (IScalar ''String''))]"

definition inp_ItPolitoCrownlabsV1alpha1ImageListInput :: in_fields where
  "inp_ItPolitoCrownlabsV1alpha1ImageListInput =
     [(''apiVersion'', True, IMaybe (IScalar ''String'')),
      (''kind'', True, IMaybe (IScalar ''String'')),
      (''metadata'', True, IMaybe (IRef IoK8sApimachineryPkgApisMetaV1ObjectMetaV2Input)),
      (''spec'', True, IMaybe (IRef SpecInput)),
      (''status'', True, IMaybe (IScalar ''String''))]"

definition inp_ItPolitoCrownlabsV1alpha1TenantInput :: in_fields where
  "inp_ItPolitoCrownlabsV1alpha1TenantInput =
     [(''apiVersion'', True, IMaybe (IScalar ''String'')),
      (''kind'', True, IMaybe (IScalar ''String'')),
      (''metadata'', True, IMaybe (IRef IoK8sApimachineryPkgApisMetaV1ObjectMetaV2Input)),
      (''spec'', True, IMaybe (IRef Spec2Input)),
      (''status'', True, IMaybe (IRef StatusInput))]"

definition inp_ItPolitoCrownlabsV1alpha1WorkspaceInput :: in_fields where
  "inp_ItPolitoCrownlabsV1alpha1WorkspaceInput =
     [(''apiVersion'', True, IMaybe (IScalar ''String'')),
      (''kind'', True, IMaybe (IScalar ''String'')),
      (''metadata'', True, IMaybe (IRef IoK8sApimachineryPkgApisMetaV1ObjectMetaV2Input)),
      (''spec'', True, IMaybe (IRef Spec3Input)),
      (''status'', True, IMaybe (IRef Status2Input))]"

definition inp_ItPolitoCrownlabsV1alpha2InstanceInput :: in_fields where
  "inp_ItPolitoCrownlabsV1alpha2InstanceInput =
     [(''apiVersion'', True, IMaybe (IScalar ''String'')),
      (''kind'', True, IMaybe (IScalar ''String'')),
      (''metadata'', True, IMaybe (IRef IoK8sApimachineryPkgApisMetaV1ObjectMetaV2Input)),
      (''spec'', True, IMaybe (IRef Spec4Input)),
      (''status'', True, IMaybe (IRef Status3Input))]"

definition inp_ItPolitoCrownlabsV1alpha2InstanceSnapshotInput :: in_fields where
  "inp_ItPolitoCrownlabsV1alpha2InstanceSnapshotInput =
     [(''apiVersion'', True, IMaybe (IScalar ''String'')),
      (''kind'', True, IMaybe (IScalar ''String'')),
      (''metadata'', True, IMaybe (IRef IoK8sApimachineryPkgApisMetaV1ObjectMetaV2Input)),
      (''spec'', True, IMaybe (IRef Spec5Input)),
      (''status'', True, IMaybe (IRef Status4Input))]"

definition inp_ItPolitoCrownlabsV1alpha2TemplateInput :: in_fields where
  "inp_ItPolitoCrownlabsV1alpha2TemplateInput =
     [(''apiVersion'', True, IMaybe (IScalar ''String'')),
      (''kind'', True, IMaybe (IScalar ''String'')),
      (''metadata'', True, IMaybe (IRef IoK8sApimachineryPkgApisMetaV1ObjectMetaV2Input)),
      (''spec'', True, IMaybe (IRef Spec6Input)),
      (''status'', True, IMaybe (IScalar ''String''))]"

definition inp_NamespaceInput :: in_fields where
  "inp_NamespaceInput =
     [(''created'', False, IScalar ''Boolean''),
      (''name'', True, IMaybe (IScalar ''String''))]"

definition inp_PersonalNamespaceInput :: in_fields where
  "inp_PersonalNamespaceInput =
     [(''created'', False, IScalar ''Boolean''),
      (''name'', True, IMaybe (IScalar ''String''))]"

definition inp_ResourcesInput :: in_fields where
  "inp_ResourcesInput =
     [(''cpu'', False, IScalar ''Int''),
      (''disk'', True, IMaybe (IScalar ''String'')),
      (''memory'', False, IScalar ''String''),
      (''reservedCPUPercentage'', False, IScalar ''Int'')]"

definition inp_SandboxNamespaceInput :: in_fields where
  "inp_SandboxNamespaceInput =
     [(''created'', False, IScalar ''Boolean''),
      (''name'', True, IMaybe (IScalar ''String''))]"

definition inp_Spec2Input :: in_fields where
  "inp_Spec2Input =
     [(''createSandbox'', True, IMaybe (IScalar ''Boolean'')),
      (''email'', False, IScalar ''String''),
      (''firstName'', False, IScalar ''String''),
      (''lastName'', False, IScalar ''String''),
      (''publicKeys'', True, IMaybe (IArray (IMaybe (IScalar ''String'')))),
      (''workspaces'', True, IMaybe (IArray (IMaybe (IRef WorkspacesListItemInput))))]"

definition inp_Spec3Input :: in_fields where
  "inp_Spec3Input =
     [(''prettyName'', False, IScalar ''String'')]"

definition inp_Spec4Input :: in_fields where
  "inp_Spec4Input =
     [(''running'', True, IMaybe (IScalar ''Boolean'')),
      (''templateCrownlabsPolitoItTemplateRef'', False, IRef TemplateCrownlabsPolitoItTemplateRefInput),
      (''tenantCrownlabsPolitoItTenantRef'', False, IRef TenantCrownlabsPolitoItTenantRefInput)]"

definition inp_Spec5Input :: in_fields where
  "inp_Spec5Input =
     [(''environmentRef'', True, IMaybe (IRef EnvironmentRefInput)),
      (''imageName'', False, IScalar ''String''),
      (''instanceRef'', False, IRef InstanceRefInput)]"

definition inp_Spec6Input :: in_fields where
  "inp_Spec6Input =
     [(''deleteAfter'', True, IMaybe (IScalar ''String'')),
      (''description'', False, IScalar ''String''),
      (''environmentList'', False, IArray (IMaybe (IRef EnvironmentListListItemInput))),
      (''prettyName'', False, IScalar ''String''),
      (''workspaceCrownlabsPolitoItWorkspaceRef'', True, IMaybe (IRef WorkspaceCrownlabsPolitoItWorkspaceRefInput))]"

definition inp_SpecInput :: in_fields where
  "inp_SpecInput =
     [(''images'', False, IArray (IMaybe (IRef ImagesListItemInput))),
      (''registryName'', False, IScalar ''String'')]"

definition inp_Status2Input :: in_fields where
  "inp_Status2Input =
     [(''namespace'', True, IMaybe (IRef NamespaceInput)),
      (''ready'', True, IMaybe (IScalar ''Boolean'')),
      (''subscription'', True, IMaybe (IScalar ''JSON''))]"

definition inp_Status3Input :: in_fields where
  "inp_Status3Input =
     [(''ip'', True, IMaybe (IScalar ''String'')),
      (''phase'', True, IMaybe (IScalar ''String'')),
      (''url'', True, IMaybe (IScalar ''String''))]"

definition inp_Status4Input :: in_fields where
  "inp_Status4Input =
     [(''phase'', False, IScalar ''String'')]"

definition inp_StatusInput :: in_fields where
  "inp_StatusInput =
     [(''failingWorkspaces'', False, IArray (IMaybe (IScalar ''String''))),
      (''personalNamespace'', False, IRef PersonalNamespaceInput),
      (''ready'', False, IScalar ''Boolean''),
      (''sandboxNamespace'', False, IRef SandboxNamespaceInput),
      (''subscriptions'', False, IScalar ''JSON'')]"

definition inp_TemplateCrownlabsPolitoItTemplateRefInput :: in_fields where
  "inp_TemplateCrownlabsPolitoItTemplateRefInput =
     [(''name'', False, IScalar ''String''),
      (''namespace'', True, IMaybe (IScalar ''String''))]"

definition inp_TenantCrownlabsPolitoItTenantRefInput :: in_fields where
  "inp_TenantCrownlabsPolitoItTenantRefInput =
     [(''name'', False, IScalar ''String''),
      (''namespace'', True, IMaybe (IScalar ''String''))]"

definition inp_WorkspaceCrownlabsPolitoItWorkspaceRefInput :: in_fields where
  "inp_WorkspaceCrownlabsPolitoItWorkspaceRefInput =
     [(''name'', False, IScalar ''String''),
      (''namespace'', True, IMaybe (IScalar ''String''))]"

definition inp_WorkspaceRefInput :: in_fields where
  "inp_WorkspaceRefInput =
     [(''name'', False, IScalar ''String''),
      (''namespace'', True, IMaybe (IScalar ''String''))]"

definition inp_WorkspacesListItemInput :: in_fields where
  "inp_WorkspacesListItemInput =
     [(''groupNumber'', True, IMaybe (IScalar ''Int'')),
      (''role'', False, IEnum Role),
      (''workspaceRef'', False, IRef WorkspaceRefInput)]"

primrec input_of :: "in_name \<Rightarrow> in_fields" where
  "input_of EnvironmentListListItemInput = inp_EnvironmentListListItemInput"
| "input_of EnvironmentRefInput = inp_EnvironmentRefInput"
| "input_of ImagesListItemInput = inp_ImagesListItemInput"
| "input_of InstanceRefInput = inp_InstanceRefInput"
| "input_of IoK8sApimachineryPkgApisMetaV1DeleteOptionsV2Input = inp_IoK8sApimachineryPkgApisMetaV1DeleteOptionsV2Input"
| "input_of IoK8sApimachineryPkgApisMetaV1ManagedFieldsEntryInput = inp_IoK8sApimachineryPkgApisMetaV1ManagedFieldsEntryInput"
| "input_of IoK8sApimachineryPkgApisMetaV1ObjectMetaV2Input = inp_IoK8sApimachineryPkgApisMetaV1ObjectMetaV2Input"
| "input_of IoK8sApimachineryPkgApisMetaV1OwnerReferenceV2Input = inp_IoK8sApimachineryPkgApisMetaV1OwnerReferenceV2Input"
| "input_of IoK8sApimachineryPkgApisMetaV1PreconditionsInput = inp_IoK8sApimachineryPkgApisMetaV1PreconditionsInput"
| "input_of ItPolitoCrownlabsV1alpha1ImageListInput = inp_ItPolitoCrownlabsV1alpha1ImageListInput"
| "input_of ItPolitoCrownlabsV1alpha1TenantInput = inp_ItPolitoCrownlabsV1alpha1TenantInput"
| "input_of ItPolitoCrownlabsV1alpha1WorkspaceInput = inp_ItPolitoCrownlabsV1alpha1WorkspaceInput"
| "input_of ItPolitoCrownlabsV1alpha2InstanceInput = inp_ItPolitoCrownlabsV1alpha2InstanceInput"
| "input_of ItPolitoCrownlabsV1alpha2InstanceSnapshotInput = inp_ItPolitoCrownlabsV1alpha2InstanceSnapshotInput"
| "input_of ItPolitoCrownlabsV1alpha2TemplateInput = inp_ItPolitoCrownlabsV1alpha2TemplateInput"
| "input_of NamespaceInput = inp_NamespaceInput"
| "input_of PersonalNamespaceInput = inp_PersonalNamespaceInput"
| "input_of ResourcesInput = inp_ResourcesInput"
| "input_of SandboxNamespaceInput = inp_SandboxNamespaceInput"
| "input_of Spec2Input = inp_Spec2Input"
| "input_of Spec3Input = inp_Spec3Input"
| "input_of Spec4Input = inp_Spec4Input"
| "input_of Spec5Input = inp_Spec5Input"
| "input_of Spec6Input = inp_Spec6Input"
| "input_of SpecInput = inp_SpecInput"
| "input_of Status2Input = inp_Status2Input"
| "input_of Status3Input = inp_Status3Input"
| "input_of Status4Input = inp_Status4Input"
| "input_of StatusInput = inp_StatusInput"
| "input_of TemplateCrownlabsPolitoItTemplateRefInput = inp_TemplateCrownlabsPolitoItTemplateRefInput"
| "input_of TenantCrownlabsPolitoItTenantRefInput = inp_TenantCrownlabsPolitoItTenantRefInput"
| "input_of WorkspaceCrownlabsPolitoItWorkspaceRefInput = inp_WorkspaceCrownlabsPolitoItWorkspaceRefInput"
| "input_of WorkspaceRefInput = inp_WorkspaceRefInput"
| "input_of WorkspacesListItemInput = inp_WorkspacesListItemInput"

text \<open>The output type of the same name without the suffix, where there is one.\<close>

primrec output_of :: "in_name \<Rightarrow> ts_name option" where
  "output_of EnvironmentListListItemInput = Some EnvironmentListListItem"
| "output_of EnvironmentRefInput = Some EnvironmentRef"
| "output_of ImagesListItemInput = Some ImagesListItem"
| "output_of InstanceRefInput = Some InstanceRef"
| "output_of IoK8sApimachineryPkgApisMetaV1DeleteOptionsV2Input = None"
| "output_of IoK8sApimachineryPkgApisMetaV1ManagedFieldsEntryInput = Some IoK8sApimachineryPkgApisMetaV1ManagedFieldsEntry"
| "output_of IoK8sApimachineryPkgApisMetaV1ObjectMetaV2Input = Some IoK8sApimachineryPkgApisMetaV1ObjectMetaV2"
| "output_of IoK8sApimachineryPkgApisMetaV1OwnerReferenceV2Input = Some IoK8sApimachineryPkgApisMetaV1OwnerReferenceV2"
| "output_of IoK8sApimachineryPkgApisMetaV1PreconditionsInput = None"
| "output_of ItPolitoCrownlabsV1alpha1ImageListInput = Some ItPolitoCrownlabsV1alpha1ImageList"
| "output_of ItPolitoCrownlabsV1alpha1TenantInput = Some ItPolitoCrownlabsV1alpha1Tenant"
| "output_of ItPolitoCrownlabsV1alpha1WorkspaceInput = Some ItPolitoCrownlabsV1alpha1Workspace"
| "output_of ItPolitoCrownlabsV1alpha2InstanceInput = Some ItPolitoCrownlabsV1alpha2Instance"
| "output_of ItPolitoCrownlabsV1alpha2InstanceSnapshotInput = Some ItPolitoCrownlabsV1alpha2InstanceSnapshot"
| "output_of ItPolitoCrownlabsV1alpha2TemplateInput = Some ItPolitoCrownlabsV1alpha2Template"
| "output_of NamespaceInput = Some Namespace"
| "output_of PersonalNamespaceInput = Some PersonalNamespace"
| "output_of ResourcesInput = Some Resources"
| "output_of SandboxNamespaceInput = Some SandboxNamespace"
| "output_of Spec2Input = Some Spec2"
| "output_of Spec3Input = Some Spec3"
| "output_of Spec4Input = Some Spec4"
| "output_of Spec5Input = Some Spec5"
| "output_of Spec6Input = Some Spec6"
| "output_of SpecInput = Some Spec"
| "output_of Status2Input = Some Status2"
| "output_of Status3Input = Some Status3"
| "output_of Status4Input = Some Status4"
| "output_of StatusInput = Some Status"
| "output_of TemplateCrownlabsPolitoItTemplateRefInput = Some TemplateCrownlabsPolitoItTemplateRef"
| "output_of TenantCrownlabsPolitoItTenantRefInput = Some TenantCrownlabsPolitoItTenantRef"
| "output_of WorkspaceCrownlabsPolitoItWorkspaceRefInput = Some WorkspaceCrownlabsPolitoItWorkspaceRef"
| "output_of WorkspaceRefInput = Some WorkspaceRef"
| "output_of WorkspacesListItemInput = Some WorkspacesListItem"

subsection \<open>Input types mirror output types\<close>

text \<open>The fields the server adds to a reference to navigate to the referenced object.\<close>

definition wrapper_fields :: "string list" where
  "wrapper_fields = [''templateWrapper'', ''tenantWrapper'', ''workspaceWrapper'']"

definition added_fields :: "string list" where
  "added_fields = ''__typename'' # wrapper_fields"

definition plain_fields :: "(string \<times> bool \<times> ts_type) list \<Rightarrow> (string \<times> bool \<times> ts_type) list" where
  "plain_fields fs = filter (\<lambda>f. fst f \<notin> set wrapper_fields) fs"

text \<open>An output type and an input type that differ in optionality only.\<close>

fun corresponds :: "ts_type \<Rightarrow> in_type \<Rightarrow> bool" where
  "corresponds (TMaybe t) i = corresponds t i"
| "corresponds t (IMaybe i) = corresponds t i"
| "corresponds (TScalar s) (IScalar s') = (s = s')"
| "corresponds (TRef n) (IEnum m) = (n = m \<and> typename_of m = None)"
| "corresponds (TRef n) (IRef i) = (output_of i = Some n)"
| "corresponds (TArray t) (IArray i) = corresponds t i"
| "corresponds _ _ = False"

definition mirrors :: "ts_name \<Rightarrow> in_name \<Rightarrow> bool" where
  "mirrors n i \<longleftrightarrow> typename_of n \<noteq> None \<and>
     list_all2 (\<lambda>f g. fst f = fst g \<and> corresponds (snd (snd f)) (snd (snd g))) (plain_fields (fields_of n)) (input_of i)"

lemmas input_defs =
  inp_EnvironmentListListItemInput_def inp_EnvironmentRefInput_def inp_ImagesListItemInput_def
  inp_InstanceRefInput_def inp_IoK8sApimachineryPkgApisMetaV1DeleteOptionsV2Input_def
  inp_IoK8sApimachineryPkgApisMetaV1ManagedFieldsEntryInput_def
  inp_IoK8sApimachineryPkgApisMetaV1ObjectMetaV2Input_def
  inp_IoK8sApimachineryPkgApisMetaV1OwnerReferenceV2Input_def
  inp_IoK8sApimachineryPkgApisMetaV1PreconditionsInput_def
  inp_ItPolitoCrownlabsV1alpha1ImageListInput_def inp_ItPolitoCrownlabsV1alpha1TenantInput_def
  inp_ItPolitoCrownlabsV1alpha1WorkspaceInput_def inp_ItPolitoCrownlabsV1alpha2InstanceInput_def
  inp_ItPolitoCrownlabsV1alpha2InstanceSnapshotInput_def inp_ItPolitoCrownlabsV1alpha2TemplateInput_def
  inp_NamespaceInput_def inp_PersonalNamespaceInput_def inp_ResourcesInput_def
  inp_SandboxNamespaceInput_def inp_Spec2Input_def inp_Spec3Input_def inp_Spec4Input_def
  inp_Spec5Input_def inp_Spec6Input_def inp_SpecInput_def inp_Status2Input_def inp_Status3Input_def
  inp_Status4Input_def inp_StatusInput_def inp_TemplateCrownlabsPolitoItTemplateRefInput_def
  inp_TenantCrownlabsPolitoItTenantRefInput_def inp_WorkspaceCrownlabsPolitoItWorkspaceRefInput_def
  inp_WorkspaceRefInput_def inp_WorkspacesListItemInput_def

lemmas mirrored_defs =
  ts_EnvironmentListListItem_def ts_EnvironmentRef_def ts_ImagesListItem_def ts_InstanceRef_def
  ts_IoK8sApimachineryPkgApisMetaV1ManagedFieldsEntry_def
  ts_IoK8sApimachineryPkgApisMetaV1ObjectMetaV2_def ts_IoK8sApimachineryPkgApisMetaV1OwnerReferenceV2_def
  ts_ItPolitoCrownlabsV1alpha1ImageList_def ts_ItPolitoCrownlabsV1alpha1Tenant_def
  ts_ItPolitoCrownlabsV1alpha1Workspace_def ts_ItPolitoCrownlabsV1alpha2Instance_def
  ts_ItPolitoCrownlabsV1alpha2InstanceSnapshot_def ts_ItPolitoCrownlabsV1alpha2Template_def
  ts_Namespace_def ts_PersonalNamespace_def ts_Resources_def ts_SandboxNamespace_def ts_Spec2_def
  ts_Spec3_def ts_Spec4_def ts_Spec5_def ts_Spec6_def ts_Spec_def ts_Status2_def ts_Status3_def
  ts_Status4_def ts_Status_def ts_TemplateCrownlabsPolitoItTemplateRef_def
  ts_TenantCrownlabsPolitoItTenantRef_def ts_WorkspaceCrownlabsPolitoItWorkspaceRef_def
  ts_WorkspaceRef_def ts_WorkspacesListItem_def

lemma input_mirrors: "output_of i = Some n \<Longrightarrow> mirrors n i"
  by (cases i)
    (auto simp: mirrors_def typename_of_def fields_of_def plain_fields_def wrapper_fields_def input_defs mirrored_defs
      ts_EnvironmentType_def ts_Role_def)

subsection \<open>Values\<close>

text \<open>A value of a scalar type, by the TypeScript type that \<open>Scalars\<close> gives it.\<close>

definition scalar_value :: "string \<Rightarrow> jsval \<Rightarrow> bool" where
  "scalar_value s v \<longleftrightarrow>
     (case map_of Scalars s of
        None \<Rightarrow> False
      | Some ty \<Rightarrow>
          if ty = ''any'' then v \<noteq> JUndefined \<and> v \<noteq> JNull
          else if ty = ''string'' then (case v of JStr _ \<Rightarrow> True | _ \<Rightarrow> False)
          else if ty = ''boolean'' then (case v of JBool _ \<Rightarrow> True | _ \<Rightarrow> False)
          else (case v of JNum _ \<Rightarrow> True | _ \<Rightarrow> False))"

text \<open>\<open>read_value t v\<close>: \<open>v\<close> is a value of the output type \<open>t\<close> as the client gets it, with every field of an object
  selected but perhaps the navigation fields: null wherever the type allows it, and with the \<open>__typename\<close>
  that the client adds to every selection. What a navigation field leads to is left open.\<close>

inductive read_value :: "ts_type \<Rightarrow> jsval \<Rightarrow> bool" where
  r_scalar: "scalar_value s v \<Longrightarrow> read_value (TScalar s) v"
| r_null: "read_value (TMaybe t) JNull"
| r_maybe: "read_value t v \<Longrightarrow> read_value (TMaybe t) v"
| r_array: "(\<And>x. x \<in> set xs \<Longrightarrow> read_value t x) \<Longrightarrow> read_value (TArray t) (JArr xs)"
| r_enum: "decl_of n = TsEnum ms \<Longrightarrow> c \<in> set (map snd ms) \<Longrightarrow> read_value (TRef n) (JStr c)"
| r_object: "typename_of n \<noteq> None \<Longrightarrow> distinct (map fst ps) \<Longrightarrow>
    set (map fst (plain_fields (fields_of n))) \<subseteq> set (map fst ps) \<Longrightarrow>
    (\<And>x v. (x, v) \<in> set ps \<Longrightarrow> x \<in> set added_fields \<or>
       (\<exists>opt t. (x, opt, t) \<in> set (plain_fields (fields_of n)) \<and> read_value t v)) \<Longrightarrow>
    read_value (TRef n) (JObj ps)"

text \<open>The value without what is not part of the input types.\<close>

fun strip :: "jsval \<Rightarrow> jsval" where
  "strip (JObj ps) = JObj (map (\<lambda>p. (fst p, strip (snd p))) (filter (\<lambda>p. fst p \<notin> set added_fields) ps))"
| "strip (JArr xs) = JArr (map strip xs)"
| "strip v = v"


text \<open>\<open>accepted t v\<close>: the server accepts \<open>v\<close> where an input of type \<open>t\<close> is expected: it has no undeclared
  field, and every required field.\<close>

inductive accepted :: "in_type \<Rightarrow> jsval \<Rightarrow> bool" where
  a_scalar: "scalar_value s v \<Longrightarrow> accepted (IScalar s) v"
| a_null: "accepted (IMaybe t) JNull"
| a_maybe: "accepted t v \<Longrightarrow> accepted (IMaybe t) v"
| a_array: "(\<And>x. x \<in> set xs \<Longrightarrow> accepted t x) \<Longrightarrow> accepted (IArray t) (JArr xs)"
| a_enum: "decl_of n = TsEnum ms \<Longrightarrow> c \<in> set (map snd ms) \<Longrightarrow> accepted (IEnum n) (JStr c)"
| a_object: "distinct (map fst ps) \<Longrightarrow>
    (\<And>x v. (x, v) \<in> set ps \<Longrightarrow> \<exists>opt t. (x, opt, t) \<in> set (input_of i) \<and> accepted t v) \<Longrightarrow>
    (\<And>x t. (x, False, t) \<in> set (input_of i) \<Longrightarrow> x \<in> set (map fst ps)) \<Longrightarrow>
    accepted (IRef i) (JObj ps)"

text \<open>\<open>filled t v\<close>: no null in \<open>v\<close> at a place where the input type \<open>t\<close> requires a value.\<close>

fun filled :: "in_type \<Rightarrow> jsval \<Rightarrow> bool" where
  "filled (IMaybe t) v = (v = JNull \<or> filled t v)"
| "filled (IArray t) (JArr xs) = list_all (filled t) xs"
| "filled (IRef i) (JObj ps) =
     list_all (\<lambda>p. case map_of (input_of i) (fst p) of None \<Rightarrow> True | Some ot \<Rightarrow> filled (snd ot) (snd p)) ps"
| "filled t v = (v \<noteq> JNull)"

lemma distinct_inputs: "distinct (map fst (input_of i))"
  by (cases i) (simp_all add: input_defs)

inductive_simps accepted_scalar: "accepted (IScalar s) v"
inductive_simps accepted_maybe: "accepted (IMaybe t) v"
inductive_simps accepted_array: "accepted (IArray t) (JArr xs)"
inductive_simps accepted_enum: "accepted (IEnum n) (JStr c)"
inductive_simps accepted_object: "accepted (IRef i) (JObj ps)"
inductive_simps accepted_null: "accepted (IArray t) JNull" "accepted (IEnum n) JNull" "accepted (IRef i) JNull"

lemma accepted_object_iff:
  "accepted (IRef i) (JObj ps) \<longleftrightarrow>
    distinct (map fst ps) \<and>
    list_all (\<lambda>p. case map_of (input_of i) (fst p) of None \<Rightarrow> False | Some ot \<Rightarrow> accepted (snd ot) (snd p)) ps \<and>
    list_all (\<lambda>f. fst (snd f) \<or> fst f \<in> set (map fst ps)) (input_of i)"
proof -
  have found: "(\<exists>opt t. (x, opt, t) \<in> set (input_of i) \<and> accepted t v) \<longleftrightarrow>
      (case map_of (input_of i) x of None \<Rightarrow> False | Some ot \<Rightarrow> accepted (snd ot) v)" for x v
    unfolding map_of_eq_Some_iff [OF distinct_inputs, symmetric] by (auto split: option.split)
  have pairs: "(\<forall>x v. (x, v) \<in> set ps \<longrightarrow> P x v) \<longleftrightarrow> list_all (\<lambda>p. P (fst p) (snd p)) ps" for P
    unfolding list_all_iff by fastforce
  have required: "(\<forall>x. (\<exists>t. (x, False, t) \<in> set fs) \<longrightarrow> x \<in> A) \<longleftrightarrow> list_all (\<lambda>f. fst (snd f) \<or> fst f \<in> A) fs"
    for fs :: in_fields and A
    unfolding list_all_iff by fastforce
  show ?thesis unfolding accepted_object found pairs required by simp
qed

lemma corresponds_maybe: "corresponds t (IMaybe i) = corresponds t i"
  by (induction t) auto

text \<open>Under any number of optional layers of the input type.\<close>

fun bare :: "in_type \<Rightarrow> in_type" where
  "bare (IMaybe t) = bare t"
| "bare t = t"

lemma accepted_bare: "v \<noteq> JNull \<Longrightarrow> accepted t v \<longleftrightarrow> accepted (bare t) v"
  by (induction t) (auto simp: accepted_maybe)

lemma filled_bare: "v \<noteq> JNull \<Longrightarrow> filled t v \<longleftrightarrow> filled (bare t) v"
  by (induction t) auto

lemma null_accepted: "accepted t JNull \<longleftrightarrow> filled t JNull"
  by (cases t) (auto simp: accepted_null accepted_scalar accepted_maybe scalar_value_def split: option.splits)

lemma strip_null [simp]: "strip v = JNull \<longleftrightarrow> v = JNull"
  by (cases v) simp_all

lemma scalar_strip: "scalar_value s v \<Longrightarrow> scalar_value s (strip v) \<and> v \<noteq> JNull"
  by (cases v) (auto simp: scalar_value_def split: option.splits if_splits)

lemma corresponds_bare: "corresponds t i \<longleftrightarrow> corresponds t (bare i)"
  by (induction i) (simp_all add: corresponds_maybe)

lemma bare_not_maybe: "bare i \<noteq> IMaybe t"
  by (induction i) auto

lemma corresponds_scalar: "corresponds (TScalar s) i \<Longrightarrow> bare i = IScalar s"
  using corresponds_bare [of "TScalar s" i] bare_not_maybe [of i] by (cases "bare i") auto

lemma corresponds_array: "corresponds (TArray t) i \<Longrightarrow> \<exists>e. bare i = IArray e \<and> corresponds t e"
  using corresponds_bare [of "TArray t" i] bare_not_maybe [of i] by (cases "bare i") auto

lemma corresponds_ref:
  "corresponds (TRef n) i \<Longrightarrow> bare i = IEnum n \<and> typename_of n = None \<or> (\<exists>j. bare i = IRef j \<and> output_of j = Some n)"
  using corresponds_bare [of "TRef n" i] bare_not_maybe [of i] by (cases "bare i") auto

lemma mirrors_nth:
  assumes "mirrors n i"
  shows "map fst (input_of i) = map fst (plain_fields (fields_of n))"
    and "k < length (input_of i) \<Longrightarrow> corresponds (snd (snd (plain_fields (fields_of n) ! k))) (snd (snd (input_of i ! k)))"
proof -
  have m: "list_all2 (\<lambda>f g. fst f = fst g \<and> corresponds (snd (snd f)) (snd (snd g))) (plain_fields (fields_of n)) (input_of i)"
    using assms by (simp add: mirrors_def)
  then show "map fst (input_of i) = map fst (plain_fields (fields_of n))"
    by (induction rule: list_all2_induct) simp_all
  show "corresponds (snd (snd (plain_fields (fields_of n) ! k))) (snd (snd (input_of i ! k)))" if "k < length (input_of i)"
    using list_all2_nthD2 [OF m that] by simp
qed

lemma output_typename: "output_of i = Some n \<Longrightarrow> typename_of n \<noteq> None"
  using input_mirrors [of i n] by (simp add: mirrors_def)

lemma input_not_added: "list_all (\<lambda>x. x \<notin> set (map fst (input_of i))) added_fields"
  by (cases i) (simp_all add: input_defs added_fields_def wrapper_fields_def)

lemma plain_not_added: "(x, opt, t) \<in> set (plain_fields (fields_of n)) \<Longrightarrow> mirrors n i \<Longrightarrow> x \<notin> set added_fields"
  using mirrors_nth(1) [of n i] input_not_added [of i] unfolding list_all_iff by (metis fst_conv image_eqI list.set_map)


text \<open>The input field that belongs to an output field.\<close>

lemma mirrored_field:
  assumes "mirrors n i" and "(x, opt, t) \<in> set (plain_fields (fields_of n))"
  shows "\<exists>o' t'. map_of (input_of i) x = Some (o', t') \<and> corresponds t t'"
proof -
  obtain k where k: "k < length (plain_fields (fields_of n))" "plain_fields (fields_of n) ! k = (x, opt, t)"
    using assms(2) by (auto simp: in_set_conv_nth)
  have len: "length (input_of i) = length (plain_fields (fields_of n))"
    using mirrors_nth(1) [OF assms(1)] by (rule map_eq_imp_length_eq)
  with k have "fst (input_of i ! k) = x"
    using mirrors_nth(1) [OF assms(1)] by (metis fst_conv nth_map)
  then obtain o' t' where g: "input_of i ! k = (x, o', t')" by (cases "input_of i ! k") auto
  then have "map_of (input_of i) x = Some (o', t')"
    using k(1) len nth_mem [of k "input_of i"] by (simp add: map_of_eq_Some_iff [OF distinct_inputs])
  moreover have "corresponds t t'" using mirrors_nth(2) [OF assms(1), of k] k g len by simp
  ultimately show ?thesis by blast
qed

lemma object_accepted:
  assumes "mirrors n j" and "distinct (map fst ps)" and "set (map fst (plain_fields (fields_of n))) \<subseteq> set (map fst ps)"
    and "\<And>x v. (x, v) \<in> set ps \<Longrightarrow> x \<in> set added_fields \<or>
      (\<exists>opt t. (x, opt, t) \<in> set (plain_fields (fields_of n)) \<and> (\<forall>i. corresponds t i \<longrightarrow> accepted i (strip v) = filled i v))"
  shows "accepted (IRef j) (strip (JObj ps)) \<longleftrightarrow> filled (IRef j) (JObj ps)"
proof -
  let ?keep = "filter (\<lambda>p. fst p \<notin> set added_fields) ps"
  have added: "map_of (input_of j) x = None" if "x \<in> set added_fields" for x
    using that input_not_added [of j] by (simp add: list_all_iff map_of_eq_None_iff)
  have field: "(case map_of (input_of j) x of None \<Rightarrow> False | Some ot \<Rightarrow> accepted (snd ot) (strip v)) =
      (case map_of (input_of j) x of None \<Rightarrow> True | Some ot \<Rightarrow> filled (snd ot) v)"
    if "(x, v) \<in> set ps" "x \<notin> set added_fields" for x v
    using assms(4) [OF that(1)] that(2) mirrored_field [OF assms(1), of x] by fastforce
  have "list_all (\<lambda>f. fst (snd f) \<or> fst f \<in> set (map fst ?keep)) (input_of j)"
  proof -
    have "x \<in> set (map fst ?keep)" if "x \<in> set (map fst (input_of j))" for x
    proof -
      from that mirrors_nth(1) [OF assms(1)] obtain opt t where f: "(x, opt, t) \<in> set (plain_fields (fields_of n))" by auto
      then have "x \<in> set (map fst ps)" using assms(3) by force
      with plain_not_added [OF f assms(1)] show ?thesis by auto
    qed
    then show ?thesis by (auto simp: list_all_iff)
  qed
  moreover have "distinct (map fst ?keep)" using assms(2) by (simp add: distinct_map_filter)
  ultimately have "accepted (IRef j) (strip (JObj ps)) \<longleftrightarrow>
      (\<forall>p \<in> set ?keep. case map_of (input_of j) (fst p) of None \<Rightarrow> False | Some ot \<Rightarrow> accepted (snd ot) (strip (snd p)))"
    by (simp add: accepted_object_iff list_all_iff comp_def cong: option.case_cong)
  also have "\<dots> \<longleftrightarrow> (\<forall>p \<in> set ?keep. case map_of (input_of j) (fst p) of None \<Rightarrow> True | Some ot \<Rightarrow> filled (snd ot) (snd p))"
    using field by (intro ball_cong) auto
  also have "\<dots> \<longleftrightarrow> filled (IRef j) (JObj ps)"
    using added by (fastforce simp: list_all_iff split: option.splits)
  finally show ?thesis .
qed

lemma read_accepted:
  "read_value t v \<Longrightarrow> corresponds t i \<Longrightarrow> accepted i (strip v) \<longleftrightarrow> filled i v"
proof (induction arbitrary: i rule: read_value.induct)
  case (r_scalar s v)
  note v = scalar_strip [OF r_scalar.hyps]
  have "accepted (bare i) (strip v)" "filled (bare i) v"
    using v corresponds_scalar [OF r_scalar.prems] by (simp_all add: accepted.a_scalar)
  then show ?case using v accepted_bare [of "strip v" i] filled_bare [of v i] by simp
next
  case (r_array xs t)
  then obtain e where e: "bare i = IArray e" "corresponds t e"
    using corresponds_array by blast
  with r_array.IH have "accepted (bare i) (strip (JArr xs)) \<longleftrightarrow> filled (bare i) (JArr xs)"
    by (auto simp: accepted_array list_all_iff)
  then show ?case using accepted_bare [of "strip (JArr xs)" i] filled_bare [of "JArr xs" i] by simp
next
  case (r_enum n ms c)
  then have "typename_of n = None"
    by (simp add: typename_of_def)
  then have "bare i = IEnum n"
    using corresponds_ref [OF r_enum.prems] output_typename by blast
  with r_enum.hyps accepted_bare [of "JStr c" i] filled_bare [of "JStr c" i] show ?case
    by (simp add: accepted.a_enum)
next
  case (r_object n ps)
  obtain j where j: "bare i = IRef j" and "output_of j = Some n"
    using corresponds_ref [OF r_object.prems] r_object.hyps(1) by blast
  then have "mirrors n j"
    by (simp add: input_mirrors)
  from object_accepted [OF this r_object.hyps(2,3)] r_object.IH
  have "accepted (IRef j) (strip (JObj ps)) \<longleftrightarrow> filled (IRef j) (JObj ps)" by blast
  with j show ?case using accepted_bare [of "strip (JObj ps)" i] filled_bare [of "JObj ps" i] by simp
qed (simp_all add: null_accepted)

text \<open>C26: what has been read can be written back, exactly when nothing that the input type requires is
  missing. Take a value as the client reads it, with all fields of its type selected: fields may be null
  where the generated type allows it, and objects carry \<open>__typename\<close> and perhaps navigation fields. Without
  these added fields it is accepted, at every depth, where the input type of the same name is expected, if
  and only if it has no null at a place where the input type requires a value.\<close>
theorem read_then_write:
  assumes "output_of i = Some n" and "read_value (TRef n) v"
  shows "accepted (IRef i) (strip v) \<longleftrightarrow> filled (IRef i) v"
  using read_accepted [OF assms(2)] assms(1) by simp

definition sample_image :: "jsval \<Rightarrow> jsval" where
  "sample_image nm = JObj [(''name'', nm), (''versions'', JArr [JStr ''20.04'']), (''__typename'', JStr ''ImagesListItem'')]"

theorem read_then_write_witness:
  "accepted (IRef ImagesListItemInput) (strip (sample_image (JStr ''ubuntu''))) \<and>
   \<not> accepted (IRef ImagesListItemInput) (strip (sample_image JNull))"
proof -
  have s: "read_value (TMaybe (TScalar ''String'')) (JStr x)" for x
    by (intro read_value.r_maybe read_value.r_scalar) (simp add: scalar_value_def Scalars_def)
  have f: "plain_fields (fields_of ImagesListItem) =
      [(''name'', True, TMaybe (TScalar ''String'')), (''versions'', True, TMaybe (TArray (TMaybe (TScalar ''String''))))]"
    by (simp add: plain_fields_def fields_of_def ts_ImagesListItem_def wrapper_fields_def)
  have vs: "read_value (TMaybe (TArray (TMaybe (TScalar ''String'')))) (JArr [JStr ''20.04''])"
    by (intro read_value.r_maybe [of "TArray _"] read_value.r_array) (simp add: s)
  have r: "read_value (TRef ImagesListItem) (sample_image nm)" if "read_value (TMaybe (TScalar ''String'')) nm" for nm
    unfolding sample_image_def
    by (rule read_value.r_object) (use that vs in \<open>auto simp: f typename_of_def ts_ImagesListItem_def added_fields_def\<close>)
  have o: "output_of ImagesListItemInput = Some ImagesListItem" by simp
  show ?thesis
    using read_then_write [OF o r [OF s]] read_then_write [OF o r [OF read_value.r_null]]
    by (simp add: sample_image_def inp_ImagesListItemInput_def)
qed

end
