(* ===== verification/Gql_Operations.thy ===== *)
theory Gql_Operations
  imports Gql_Inputs
begin

section \<open>frontend: the generated operations\<close>

text \<open>
  The queries and mutations of \<open>frontend/src/generated-types.tsx\<close> with their arguments and the HTTP
  request that their comments declare equivalent: the schema is generated from the OpenAPI document,
  and each operation is one request to the Kubernetes API. An operation is the name of its field, the
  method, the path (literal segments and parameters) and the fields of its type of arguments.
\<close>

subsection \<open>Arguments\<close>

definition arg_QueryItPolitoCrownlabsV1alpha1ImageListArgs :: in_fields where
  "arg_QueryItPolitoCrownlabsV1alpha1ImageListArgs =
     [(''name'', False, IScalar ''String''),
      (''pretty'', True, IMaybe (IScalar ''String'')),
      (''resourceVersion'', True, IMaybe (IScalar ''String''))]"

definition arg_QueryItPolitoCrownlabsV1alpha1ImageListListArgs :: in_fields where
  "arg_QueryItPolitoCrownlabsV1alpha1ImageListListArgs =
     [(''pretty'', True, IMaybe (IScalar ''String'')),
      (''allowWatchBookmarks'', True, IMaybe (IScalar ''Boolean'')),
      (''continue'', True, IMaybe (IScalar ''String'')),
      (''fieldSelector'', True, IMaybe (IScalar ''String'')),
      (''labelSelector'', True, IMaybe (IScalar ''String'')),
      (''limit'', True, IMaybe (IScalar ''Int'')),
      (''resourceVersion'', True, IMaybe (IScalar ''String'')),
      (''resourceVersionMatch'', True, IMaybe (IScalar ''String'')),
      (''timeoutSeconds'', True, IMaybe (IScalar ''Int'')),
      (''watch'', True, IMaybe (IScalar ''Boolean''))]"

definition arg_QueryItPolitoCrownlabsV1alpha1TenantListArgs :: in_fields where
  "arg_QueryItPolitoCrownlabsV1alpha1TenantListArgs =
     [(''pretty'', True, IMaybe (IScalar ''String'')),
      (''allowWatchBookmarks'', True, IMaybe (IScalar ''Boolean'')),
      (''continue'', True, IMaybe (IScalar ''String'')),
      (''fieldSelector'', True, IMaybe (IScalar ''String'')),
      (''labelSelector'', True, IMaybe (IScalar ''String'')),
      (''limit'', True, IMaybe (IScalar ''Int'')),
      (''resourceVersion'', True, IMaybe (IScalar ''String'')),
      (''resourceVersionMatch'', True, IMaybe (IScalar ''String'')),
      (''timeoutSeconds'', True, IMaybe (IScalar ''Int'')),
      (''watch'', True, IMaybe (IScalar ''Boolean''))]"

definition arg_QueryItPolitoCrownlabsV1alpha1WorkspaceArgs :: in_fields where
  "arg_QueryItPolitoCrownlabsV1alpha1WorkspaceArgs =
     [(''name'', False, IScalar ''String''),
      (''pretty'', True, IMaybe (IScalar ''String'')),
      (''resourceVersion'', True, IMaybe (IScalar ''String''))]"

definition arg_QueryItPolitoCrownlabsV1alpha1WorkspaceListArgs :: in_fields where
  "arg_QueryItPolitoCrownlabsV1alpha1WorkspaceListArgs =
     [(''pretty'', True, IMaybe (IScalar ''String'')),
      (''allowWatchBookmarks'', True, IMaybe (IScalar ''Boolean'')),
      (''continue'', True, IMaybe (IScalar ''String'')),
      (''fieldSelector'', True, IMaybe (IScalar ''String'')),
      (''labelSelector'', True, IMaybe (IScalar ''String'')),
      (''limit'', True, IMaybe (IScalar ''Int'')),
      (''resourceVersion'', True, IMaybe (IScalar ''String'')),
      (''resourceVersionMatch'', True, IMaybe (IScalar ''String'')),
      (''timeoutSeconds'', True, IMaybe (IScalar ''Int'')),
      (''watch'', True, IMaybe (IScalar ''Boolean''))]"

definition arg_QueryItPolitoCrownlabsV1alpha2InstanceArgs :: in_fields where
  "arg_QueryItPolitoCrownlabsV1alpha2InstanceArgs =
     [(''name'', False, IScalar ''String''),
      (''namespace'', False, IScalar ''String''),
      (''pretty'', True, IMaybe (IScalar ''String'')),
      (''resourceVersion'', True, IMaybe (IScalar ''String''))]"

definition arg_QueryItPolitoCrownlabsV1alpha2InstanceListArgs :: in_fields where
  "arg_QueryItPolitoCrownlabsV1alpha2InstanceListArgs =
     [(''allowWatchBookmarks'', True, IMaybe (IScalar ''Boolean'')),
      (''continue'', True, IMaybe (IScalar ''String'')),
      (''fieldSelector'', True, IMaybe (IScalar ''String'')),
      (''labelSelector'', True, IMaybe (IScalar ''String'')),
      (''limit'', True, IMaybe (IScalar ''Int'')),
      (''pretty'', True, IMaybe (IScalar ''String'')),
      (''resourceVersion'', True, IMaybe (IScalar ''String'')),
      (''resourceVersionMatch'', True, IMaybe (IScalar ''String'')),
      (''timeoutSeconds'', True, IMaybe (IScalar ''Int'')),
      (''watch'', True, IMaybe (IScalar ''Boolean''))]"

definition arg_QueryItPolitoCrownlabsV1alpha2InstanceSnapshotArgs :: in_fields where
  "arg_QueryItPolitoCrownlabsV1alpha2InstanceSnapshotArgs =
     [(''name'', False, IScalar ''String''),
      (''namespace'', False, IScalar ''String''),
      (''pretty'', True, IMaybe (IScalar ''String'')),
      (''resourceVersion'', True, IMaybe (IScalar ''String''))]"

definition arg_QueryItPolitoCrownlabsV1alpha2InstanceSnapshotListArgs :: in_fields where
  "arg_QueryItPolitoCrownlabsV1alpha2InstanceSnapshotListArgs =
     [(''allowWatchBookmarks'', True, IMaybe (IScalar ''Boolean'')),
      (''continue'', True, IMaybe (IScalar ''String'')),
      (''fieldSelector'', True, IMaybe (IScalar ''String'')),
      (''labelSelector'', True, IMaybe (IScalar ''String'')),
      (''limit'', True, IMaybe (IScalar ''Int'')),
      (''pretty'', True, IMaybe (IScalar ''String'')),
      (''resourceVersion'', True, IMaybe (IScalar ''String'')),
      (''resourceVersionMatch'', True, IMaybe (IScalar ''String'')),
      (''timeoutSeconds'', True, IMaybe (IScalar ''Int'')),
      (''watch'', True, IMaybe (IScalar ''Boolean''))]"

definition arg_QueryItPolitoCrownlabsV1alpha2TemplateArgs :: in_fields where
  "arg_QueryItPolitoCrownlabsV1alpha2TemplateArgs =
     [(''name'', False, IScalar ''String''),
      (''namespace'', False, IScalar ''String''),
      (''pretty'', True, IMaybe (IScalar ''String'')),
      (''resourceVersion'', True, IMaybe (IScalar ''String''))]"

definition arg_QueryListCrownlabsPolitoItV1alpha2NamespacedInstanceSnapshotArgs :: in_fields where
  "arg_QueryListCrownlabsPolitoItV1alpha2NamespacedInstanceSnapshotArgs =
     [(''namespace'', False, IScalar ''String''),
      (''pretty'', True, IMaybe (IScalar ''String'')),
      (''allowWatchBookmarks'', True, IMaybe (IScalar ''Boolean'')),
      (''continue'', True, IMaybe (IScalar ''String'')),
      (''fieldSelector'', True, IMaybe (IScalar ''String'')),
      (''labelSelector'', True, IMaybe (IScalar ''String'')),
      (''limit'', True, IMaybe (IScalar ''Int'')),
      (''resourceVersion'', True, IMaybe (IScalar ''String'')),
      (''resourceVersionMatch'', True, IMaybe (IScalar ''String'')),
      (''timeoutSeconds'', True, IMaybe (IScalar ''Int'')),
      (''watch'', True, IMaybe (IScalar ''Boolean''))]"

definition arg_QueryListCrownlabsPolitoItV1alpha2TemplateForAllNamespacesArgs :: in_fields where
  "arg_QueryListCrownlabsPolitoItV1alpha2TemplateForAllNamespacesArgs =
     [(''allowWatchBookmarks'', True, IMaybe (IScalar ''Boolean'')),
      (''continue'', True, IMaybe (IScalar ''String'')),
      (''fieldSelector'', True, IMaybe (IScalar ''String'')),
      (''labelSelector'', True, IMaybe (IScalar ''String'')),
      (''limit'', True, IMaybe (IScalar ''Int'')),
      (''pretty'', True, IMaybe (IScalar ''String'')),
      (''resourceVersion'', True, IMaybe (IScalar ''String'')),
      (''resourceVersionMatch'', True, IMaybe (IScalar ''String'')),
      (''timeoutSeconds'', True, IMaybe (IScalar ''Int'')),
      (''watch'', True, IMaybe (IScalar ''Boolean''))]"

definition arg_QueryReadCrownlabsPolitoItV1alpha1ImageListStatusArgs :: in_fields where
  "arg_QueryReadCrownlabsPolitoItV1alpha1ImageListStatusArgs =
     [(''name'', False, IScalar ''String''),
      (''pretty'', True, IMaybe (IScalar ''String'')),
      (''resourceVersion'', True, IMaybe (IScalar ''String''))]"

definition arg_QueryReadCrownlabsPolitoItV1alpha1TenantStatusArgs :: in_fields where
  "arg_QueryReadCrownlabsPolitoItV1alpha1TenantStatusArgs =
     [(''name'', False, IScalar ''String''),
      (''pretty'', True, IMaybe (IScalar ''String'')),
      (''resourceVersion'', True, IMaybe (IScalar ''String''))]"

definition arg_QueryReadCrownlabsPolitoItV1alpha1WorkspaceStatusArgs :: in_fields where
  "arg_QueryReadCrownlabsPolitoItV1alpha1WorkspaceStatusArgs =
     [(''name'', False, IScalar ''String''),
      (''pretty'', True, IMaybe (IScalar ''String'')),
      (''resourceVersion'', True, IMaybe (IScalar ''String''))]"

definition arg_QueryReadCrownlabsPolitoItV1alpha2NamespacedInstanceSnapshotStatusArgs :: in_fields where
  "arg_QueryReadCrownlabsPolitoItV1alpha2NamespacedInstanceSnapshotStatusArgs =
     [(''name'', False, IScalar ''String''),
      (''namespace'', False, IScalar ''String''),
      (''pretty'', True, IMaybe (IScalar ''String'')),
      (''resourceVersion'', True, IMaybe (IScalar ''String''))]"

definition arg_QueryReadCrownlabsPolitoItV1alpha2NamespacedInstanceStatusArgs :: in_fields where
  "arg_QueryReadCrownlabsPolitoItV1alpha2NamespacedInstanceStatusArgs =
     [(''name'', False, IScalar ''String''),
      (''namespace'', False, IScalar ''String''),
      (''pretty'', True, IMaybe (IScalar ''String'')),
      (''resourceVersion'', True, IMaybe (IScalar ''String''))]"

definition arg_QueryReadCrownlabsPolitoItV1alpha2NamespacedTemplateStatusArgs :: in_fields where
  "arg_QueryReadCrownlabsPolitoItV1alpha2NamespacedTemplateStatusArgs =
     [(''name'', False, IScalar ''String''),
      (''namespace'', False, IScalar ''String''),
      (''pretty'', True, IMaybe (IScalar ''String'')),
      (''resourceVersion'', True, IMaybe (IScalar ''String''))]"

definition arg_MutationCreateCrownlabsPolitoItV1alpha1ImageListArgs :: in_fields where
  "arg_MutationCreateCrownlabsPolitoItV1alpha1ImageListArgs =
     [(''pretty'', True, IMaybe (IScalar ''String'')),
      (''dryRun'', True, IMaybe (IScalar ''String'')),
      (''fieldManager'', True, IMaybe (IScalar ''String'')),
      (''itPolitoCrownlabsV1alpha1ImageListInput'', False, IRef ItPolitoCrownlabsV1alpha1ImageListInput)]"

definition arg_MutationCreateCrownlabsPolitoItV1alpha1TenantArgs :: in_fields where
  "arg_MutationCreateCrownlabsPolitoItV1alpha1TenantArgs =
     [(''pretty'', True, IMaybe (IScalar ''String'')),
      (''dryRun'', True, IMaybe (IScalar ''String'')),
      (''fieldManager'', True, IMaybe (IScalar ''String'')),
      (''itPolitoCrownlabsV1alpha1TenantInput'', False, IRef ItPolitoCrownlabsV1alpha1TenantInput)]"

definition arg_MutationCreateCrownlabsPolitoItV1alpha1WorkspaceArgs :: in_fields where
  "arg_MutationCreateCrownlabsPolitoItV1alpha1WorkspaceArgs =
     [(''pretty'', True, IMaybe (IScalar ''String'')),
      (''dryRun'', True, IMaybe (IScalar ''String'')),
      (''fieldManager'', True, IMaybe (IScalar ''String'')),
      (''itPolitoCrownlabsV1alpha1WorkspaceInput'', False, IRef ItPolitoCrownlabsV1alpha1WorkspaceInput)]"

definition arg_MutationCreateCrownlabsPolitoItV1alpha2NamespacedInstanceArgs :: in_fields where
  "arg_MutationCreateCrownlabsPolitoItV1alpha2NamespacedInstanceArgs =
     [(''namespace'', False, IScalar ''String''),
      (''pretty'', True, IMaybe (IScalar ''String'')),
      (''dryRun'', True, IMaybe (IScalar ''String'')),
      (''fieldManager'', True, IMaybe (IScalar ''String'')),
      (''itPolitoCrownlabsV1alpha2InstanceInput'', False, IRef ItPolitoCrownlabsV1alpha2InstanceInput)]"

definition arg_MutationCreateCrownlabsPolitoItV1alpha2NamespacedInstanceSnapshotArgs :: in_fields where
  "arg_MutationCreateCrownlabsPolitoItV1alpha2NamespacedInstanceSnapshotArgs =
     [(''namespace'', False, IScalar ''String''),
      (''pretty'', True, IMaybe (IScalar ''String'')),
      (''dryRun'', True, IMaybe (IScalar ''String'')),
      (''fieldManager'', True, IMaybe (IScalar ''String'')),
      (''itPolitoCrownlabsV1alpha2InstanceSnapshotInput'', False, IRef ItPolitoCrownlabsV1alpha2InstanceSnapshotInput)]"

definition arg_MutationCreateCrownlabsPolitoItV1alpha2NamespacedTemplateArgs :: in_fields where
  "arg_MutationCreateCrownlabsPolitoItV1alpha2NamespacedTemplateArgs =
     [(''namespace'', False, IScalar ''String''),
      (''pretty'', True, IMaybe (IScalar ''String'')),
      (''dryRun'', True, IMaybe (IScalar ''String'')),
      (''fieldManager'', True, IMaybe (IScalar ''String'')),
      (''itPolitoCrownlabsV1alpha2TemplateInput'', False, IRef ItPolitoCrownlabsV1alpha2TemplateInput)]"

definition arg_MutationDeleteCrownlabsPolitoItV1alpha1CollectionImageListArgs :: in_fields where
  "arg_MutationDeleteCrownlabsPolitoItV1alpha1CollectionImageListArgs =
     [(''pretty'', True, IMaybe (IScalar ''String'')),
      (''allowWatchBookmarks'', True, IMaybe (IScalar ''Boolean'')),
      (''continue'', True, IMaybe (IScalar ''String'')),
      (''fieldSelector'', True, IMaybe (IScalar ''String'')),
      (''labelSelector'', True, IMaybe (IScalar ''String'')),
      (''limit'', True, IMaybe (IScalar ''Int'')),
      (''resourceVersion'', True, IMaybe (IScalar ''String'')),
      (''resourceVersionMatch'', True, IMaybe (IScalar ''String'')),
      (''timeoutSeconds'', True, IMaybe (IScalar ''Int'')),
      (''watch'', True, IMaybe (IScalar ''Boolean''))]"

definition arg_MutationDeleteCrownlabsPolitoItV1alpha1CollectionTenantArgs :: in_fields where
  "arg_MutationDeleteCrownlabsPolitoItV1alpha1CollectionTenantArgs =
     [(''pretty'', True, IMaybe (IScalar ''String'')),
      (''allowWatchBookmarks'', True, IMaybe (IScalar ''Boolean'')),
      (''continue'', True, IMaybe (IScalar ''String'')),
      (''fieldSelector'', True, IMaybe (IScalar ''String'')),
      (''labelSelector'', True, IMaybe (IScalar ''String'')),
      (''limit'', True, IMaybe (IScalar ''Int'')),
      (''resourceVersion'', True, IMaybe (IScalar ''String'')),
      (''resourceVersionMatch'', True, IMaybe (IScalar ''String'')),
      (''timeoutSeconds'', True, IMaybe (IScalar ''Int'')),
      (''watch'', True, IMaybe (IScalar ''Boolean''))]"

definition arg_MutationDeleteCrownlabsPolitoItV1alpha1CollectionWorkspaceArgs :: in_fields where
  "arg_MutationDeleteCrownlabsPolitoItV1alpha1CollectionWorkspaceArgs =
     [(''pretty'', True, IMaybe (IScalar ''String'')),
      (''allowWatchBookmarks'', True, IMaybe (IScalar ''Boolean'')),
      (''continue'', True, IMaybe (IScalar ''String'')),
      (''fieldSelector'', True, IMaybe (IScalar ''String'')),
      (''labelSelector'', True, IMaybe (IScalar ''String'')),
      (''limit'', True, IMaybe (IScalar ''Int'')),
      (''resourceVersion'', True, IMaybe (IScalar ''String'')),
      (''resourceVersionMatch'', True, IMaybe (IScalar ''String'')),
      (''timeoutSeconds'', True, IMaybe (IScalar ''Int'')),
      (''watch'', True, IMaybe (IScalar ''Boolean''))]"

definition arg_MutationDeleteCrownlabsPolitoItV1alpha1ImageListArgs :: in_fields where
  "arg_MutationDeleteCrownlabsPolitoItV1alpha1ImageListArgs =
     [(''name'', False, IScalar ''String''),
      (''pretty'', True, IMaybe (IScalar ''String'')),
      (''dryRun'', True, IMaybe (IScalar ''String'')),
      (''gracePeriodSeconds'', True, IMaybe (IScalar ''Int'')),
      (''orphanDependents'', True, IMaybe (IScalar ''Boolean'')),
      (''propagationPolicy'', True, IMaybe (IScalar ''String'')),
      (''ioK8sApimachineryPkgApisMetaV1DeleteOptionsV2Input'', True, IMaybe (IRef IoK8sApimachineryPkgApisMetaV1DeleteOptionsV2Input))]"

definition arg_MutationDeleteCrownlabsPolitoItV1alpha1TenantArgs :: in_fields where
  "arg_MutationDeleteCrownlabsPolitoItV1alpha1TenantArgs =
     [(''name'', False, IScalar ''String''),
      (''pretty'', True, IMaybe (IScalar ''String'')),
      (''dryRun'', True, IMaybe (IScalar ''String'')),
      (''gracePeriodSeconds'', True, IMaybe (IScalar ''Int'')),
      (''orphanDependents'', True, IMaybe (IScalar ''Boolean'')),
      (''propagationPolicy'', True, IMaybe (IScalar ''String'')),
      (''ioK8sApimachineryPkgApisMetaV1DeleteOptionsV2Input'', True, IMaybe (IRef IoK8sApimachineryPkgApisMetaV1DeleteOptionsV2Input))]"

definition arg_MutationDeleteCrownlabsPolitoItV1alpha1WorkspaceArgs :: in_fields where
  "arg_MutationDeleteCrownlabsPolitoItV1alpha1WorkspaceArgs =
     [(''name'', False, IScalar ''String''),
      (''pretty'', True, IMaybe (IScalar ''String'')),
      (''dryRun'', True, IMaybe (IScalar ''String'')),
      (''gracePeriodSeconds'', True, IMaybe (IScalar ''Int'')),
      (''orphanDependents'', True, IMaybe (IScalar ''Boolean'')),
      (''propagationPolicy'', True, IMaybe (IScalar ''String'')),
      (''ioK8sApimachineryPkgApisMetaV1DeleteOptionsV2Input'', True, IMaybe (IRef IoK8sApimachineryPkgApisMetaV1DeleteOptionsV2Input))]"

definition arg_MutationDeleteCrownlabsPolitoItV1alpha2CollectionNamespacedInstanceArgs :: in_fields where
  "arg_MutationDeleteCrownlabsPolitoItV1alpha2CollectionNamespacedInstanceArgs =
     [(''namespace'', False, IScalar ''String''),
      (''pretty'', True, IMaybe (IScalar ''String'')),
      (''allowWatchBookmarks'', True, IMaybe (IScalar ''Boolean'')),
      (''continue'', True, IMaybe (IScalar ''String'')),
      (''fieldSelector'', True, IMaybe (IScalar ''String'')),
      (''labelSelector'', True, IMaybe (IScalar ''String'')),
      (''limit'', True, IMaybe (IScalar ''Int'')),
      (''resourceVersion'', True, IMaybe (IScalar ''String'')),
      (''resourceVersionMatch'', True, IMaybe (IScalar ''String'')),
      (''timeoutSeconds'', True, IMaybe (IScalar ''Int'')),
      (''watch'', True, IMaybe (IScalar ''Boolean''))]"

definition arg_MutationDeleteCrownlabsPolitoItV1alpha2CollectionNamespacedInstanceSnapshotArgs :: in_fields where
  "arg_MutationDeleteCrownlabsPolitoItV1alpha2CollectionNamespacedInstanceSnapshotArgs =
     [(''namespace'', False, IScalar ''String''),
      (''pretty'', True, IMaybe (IScalar ''String'')),
      (''allowWatchBookmarks'', True, IMaybe (IScalar ''Boolean'')),
      (''continue'', True, IMaybe (IScalar ''String'')),
      (''fieldSelector'', True, IMaybe (IScalar ''String'')),
      (''labelSelector'', True, IMaybe (IScalar ''String'')),
      (''limit'', True, IMaybe (IScalar ''Int'')),
      (''resourceVersion'', True, IMaybe (IScalar ''String'')),
      (''resourceVersionMatch'', True, IMaybe (IScalar ''String'')),
      (''timeoutSeconds'', True, IMaybe (IScalar ''Int'')),
      (''watch'', True, IMaybe (IScalar ''Boolean''))]"

definition arg_MutationDeleteCrownlabsPolitoItV1alpha2CollectionNamespacedTemplateArgs :: in_fields where
  "arg_MutationDeleteCrownlabsPolitoItV1alpha2CollectionNamespacedTemplateArgs =
     [(''namespace'', False, IScalar ''String''),
      (''pretty'', True, IMaybe (IScalar ''String'')),
      (''allowWatchBookmarks'', True, IMaybe (IScalar ''Boolean'')),
      (''continue'', True, IMaybe (IScalar ''String'')),
      (''fieldSelector'', True, IMaybe (IScalar ''String'')),
      (''labelSelector'', True, IMaybe (IScalar ''String'')),
      (''limit'', True, IMaybe (IScalar ''Int'')),
      (''resourceVersion'', True, IMaybe (IScalar ''String'')),
      (''resourceVersionMatch'', True, IMaybe (IScalar ''String'')),
      (''timeoutSeconds'', True, IMaybe (IScalar ''Int'')),
      (''watch'', True, IMaybe (IScalar ''Boolean''))]"

definition arg_MutationDeleteCrownlabsPolitoItV1alpha2NamespacedInstanceArgs :: in_fields where
  "arg_MutationDeleteCrownlabsPolitoItV1alpha2NamespacedInstanceArgs =
     [(''name'', False, IScalar ''String''),
      (''namespace'', False, IScalar ''String''),
      (''pretty'', True, IMaybe (IScalar ''String'')),
      (''dryRun'', True, IMaybe (IScalar ''String'')),
      (''gracePeriodSeconds'', True, IMaybe (IScalar ''Int'')),
      (''orphanDependents'', True, IMaybe (IScalar ''Boolean'')),
      (''propagationPolicy'', True, IMaybe (IScalar ''String'')),
      (''ioK8sApimachineryPkgApisMetaV1DeleteOptionsV2Input'', True, IMaybe (IRef IoK8sApimachineryPkgApisMetaV1DeleteOptionsV2Input))]"

definition arg_MutationDeleteCrownlabsPolitoItV1alpha2NamespacedInstanceSnapshotArgs :: in_fields where
  "arg_MutationDeleteCrownlabsPolitoItV1alpha2NamespacedInstanceSnapshotArgs =
     [(''name'', False, IScalar ''String''),
      (''namespace'', False, IScalar ''String''),
      (''pretty'', True, IMaybe (IScalar ''String'')),
      (''dryRun'', True, IMaybe (IScalar ''String'')),
      (''gracePeriodSeconds'', True, IMaybe (IScalar ''Int'')),
      (''orphanDependents'', True, IMaybe (IScalar ''Boolean'')),
      (''propagationPolicy'', True, IMaybe (IScalar ''String'')),
      (''ioK8sApimachineryPkgApisMetaV1DeleteOptionsV2Input'', True, IMaybe (IRef IoK8sApimachineryPkgApisMetaV1DeleteOptionsV2Input))]"

definition arg_MutationDeleteCrownlabsPolitoItV1alpha2NamespacedTemplateArgs :: in_fields where
  "arg_MutationDeleteCrownlabsPolitoItV1alpha2NamespacedTemplateArgs =
     [(''name'', False, IScalar ''String''),
      (''namespace'', False, IScalar ''String''),
      (''pretty'', True, IMaybe (IScalar ''String'')),
      (''dryRun'', True, IMaybe (IScalar ''String'')),
      (''gracePeriodSeconds'', True, IMaybe (IScalar ''Int'')),
      (''orphanDependents'', True, IMaybe (IScalar ''Boolean'')),
      (''propagationPolicy'', True, IMaybe (IScalar ''String'')),
      (''ioK8sApimachineryPkgApisMetaV1DeleteOptionsV2Input'', True, IMaybe (IRef IoK8sApimachineryPkgApisMetaV1DeleteOptionsV2Input))]"

definition arg_MutationPatchCrownlabsPolitoItV1alpha1ImageListArgs :: in_fields where
  "arg_MutationPatchCrownlabsPolitoItV1alpha1ImageListArgs =
     [(''name'', False, IScalar ''String''),
      (''pretty'', True, IMaybe (IScalar ''String'')),
      (''dryRun'', True, IMaybe (IScalar ''String'')),
      (''fieldManager'', True, IMaybe (IScalar ''String'')),
      (''applicationJsonPatchJsonInput'', False, IScalar ''String'')]"

definition arg_MutationPatchCrownlabsPolitoItV1alpha1ImageListStatusArgs :: in_fields where
  "arg_MutationPatchCrownlabsPolitoItV1alpha1ImageListStatusArgs =
     [(''name'', False, IScalar ''String''),
      (''pretty'', True, IMaybe (IScalar ''String'')),
      (''dryRun'', True, IMaybe (IScalar ''String'')),
      (''fieldManager'', True, IMaybe (IScalar ''String'')),
      (''applicationJsonPatchJsonInput'', False, IScalar ''String'')]"

definition arg_MutationPatchCrownlabsPolitoItV1alpha1TenantArgs :: in_fields where
  "arg_MutationPatchCrownlabsPolitoItV1alpha1TenantArgs =
     [(''name'', False, IScalar ''String''),
      (''pretty'', True, IMaybe (IScalar ''String'')),
      (''dryRun'', True, IMaybe (IScalar ''String'')),
      (''fieldManager'', True, IMaybe (IScalar ''String'')),
      (''applicationJsonPatchJsonInput'', False, IScalar ''String'')]"

definition arg_MutationPatchCrownlabsPolitoItV1alpha1TenantStatusArgs :: in_fields where
  "arg_MutationPatchCrownlabsPolitoItV1alpha1TenantStatusArgs =
     [(''name'', False, IScalar ''String''),
      (''pretty'', True, IMaybe (IScalar ''String'')),
      (''dryRun'', True, IMaybe (IScalar ''String'')),
      (''fieldManager'', True, IMaybe (IScalar ''String'')),
      (''applicationJsonPatchJsonInput'', False, IScalar ''String'')]"

definition arg_MutationPatchCrownlabsPolitoItV1alpha1WorkspaceArgs :: in_fields where
  "arg_MutationPatchCrownlabsPolitoItV1alpha1WorkspaceArgs =
     [(''name'', False, IScalar ''String''),
      (''pretty'', True, IMaybe (IScalar ''String'')),
      (''dryRun'', True, IMaybe (IScalar ''String'')),
      (''fieldManager'', True, IMaybe (IScalar ''String'')),
      (''applicationJsonPatchJsonInput'', False, IScalar ''String'')]"

definition arg_MutationPatchCrownlabsPolitoItV1alpha1WorkspaceStatusArgs :: in_fields where
  "arg_MutationPatchCrownlabsPolitoItV1alpha1WorkspaceStatusArgs =
     [(''name'', False, IScalar ''String''),
      (''pretty'', True, IMaybe (IScalar ''String'')),
      (''dryRun'', True, IMaybe (IScalar ''String'')),
      (''fieldManager'', True, IMaybe (IScalar ''String'')),
      (''applicationJsonPatchJsonInput'', False, IScalar ''String'')]"

definition arg_MutationPatchCrownlabsPolitoItV1alpha2NamespacedInstanceArgs :: in_fields where
  "arg_MutationPatchCrownlabsPolitoItV1alpha2NamespacedInstanceArgs =
     [(''name'', False, IScalar ''String''),
      (''namespace'', False, IScalar ''String''),
      (''pretty'', True, IMaybe (IScalar ''String'')),
      (''dryRun'', True, IMaybe (IScalar ''String'')),
      (''fieldManager'', True, IMaybe (IScalar ''String'')),
      (''applicationJsonPatchJsonInput'', False, IScalar ''String'')]"

definition arg_MutationPatchCrownlabsPolitoItV1alpha2NamespacedInstanceSnapshotArgs :: in_fields where
  "arg_MutationPatchCrownlabsPolitoItV1alpha2NamespacedInstanceSnapshotArgs =
     [(''name'', False, IScalar ''String''),
      (''namespace'', False, IScalar ''String''),
      (''pretty'', True, IMaybe (IScalar ''String'')),
      (''dryRun'', True, IMaybe (IScalar ''String'')),
      (''fieldManager'', True, IMaybe (IScalar ''String'')),
      (''applicationJsonPatchJsonInput'', False, IScalar ''String'')]"

definition arg_MutationPatchCrownlabsPolitoItV1alpha2NamespacedInstanceSnapshotStatusArgs :: in_fields where
  "arg_MutationPatchCrownlabsPolitoItV1alpha2NamespacedInstanceSnapshotStatusArgs =
     [(''name'', False, IScalar ''String''),
      (''namespace'', False, IScalar ''String''),
      (''pretty'', True, IMaybe (IScalar ''String'')),
      (''dryRun'', True, IMaybe (IScalar ''String'')),
      (''fieldManager'', True, IMaybe (IScalar ''String'')),
      (''applicationJsonPatchJsonInput'', False, IScalar ''String'')]"

definition arg_MutationPatchCrownlabsPolitoItV1alpha2NamespacedInstanceStatusArgs :: in_fields where
  "arg_MutationPatchCrownlabsPolitoItV1alpha2NamespacedInstanceStatusArgs =
     [(''name'', False, IScalar ''String''),
      (''namespace'', False, IScalar ''String''),
      (''pretty'', True, IMaybe (IScalar ''String'')),
      (''dryRun'', True, IMaybe (IScalar ''String'')),
      (''fieldManager'', True, IMaybe (IScalar ''String'')),
      (''applicationJsonPatchJsonInput'', False, IScalar ''String'')]"

definition arg_MutationPatchCrownlabsPolitoItV1alpha2NamespacedTemplateArgs :: in_fields where
  "arg_MutationPatchCrownlabsPolitoItV1alpha2NamespacedTemplateArgs =
     [(''name'', False, IScalar ''String''),
      (''namespace'', False, IScalar ''String''),
      (''pretty'', True, IMaybe (IScalar ''String'')),
      (''dryRun'', True, IMaybe (IScalar ''String'')),
      (''fieldManager'', True, IMaybe (IScalar ''String'')),
      (''applicationJsonPatchJsonInput'', False, IScalar ''String'')]"

definition arg_MutationPatchCrownlabsPolitoItV1alpha2NamespacedTemplateStatusArgs :: in_fields where
  "arg_MutationPatchCrownlabsPolitoItV1alpha2NamespacedTemplateStatusArgs =
     [(''name'', False, IScalar ''String''),
      (''namespace'', False, IScalar ''String''),
      (''pretty'', True, IMaybe (IScalar ''String'')),
      (''dryRun'', True, IMaybe (IScalar ''String'')),
      (''fieldManager'', True, IMaybe (IScalar ''String'')),
      (''applicationJsonPatchJsonInput'', False, IScalar ''String'')]"

definition arg_MutationReplaceCrownlabsPolitoItV1alpha1ImageListArgs :: in_fields where
  "arg_MutationReplaceCrownlabsPolitoItV1alpha1ImageListArgs =
     [(''name'', False, IScalar ''String''),
      (''pretty'', True, IMaybe (IScalar ''String'')),
      (''dryRun'', True, IMaybe (IScalar ''String'')),
      (''fieldManager'', True, IMaybe (IScalar ''String'')),
      (''itPolitoCrownlabsV1alpha1ImageListInput'', False, IRef ItPolitoCrownlabsV1alpha1ImageListInput)]"

definition arg_MutationReplaceCrownlabsPolitoItV1alpha1ImageListStatusArgs :: in_fields where
  "arg_MutationReplaceCrownlabsPolitoItV1alpha1ImageListStatusArgs =
     [(''name'', False, IScalar ''String''),
      (''pretty'', True, IMaybe (IScalar ''String'')),
      (''dryRun'', True, IMaybe (IScalar ''String'')),
      (''fieldManager'', True, IMaybe (IScalar ''String'')),
      (''itPolitoCrownlabsV1alpha1ImageListInput'', False, IRef ItPolitoCrownlabsV1alpha1ImageListInput)]"

definition arg_MutationReplaceCrownlabsPolitoItV1alpha1TenantArgs :: in_fields where
  "arg_MutationReplaceCrownlabsPolitoItV1alpha1TenantArgs =
     [(''name'', False, IScalar ''String''),
      (''pretty'', True, IMaybe (IScalar ''String'')),
      (''dryRun'', True, IMaybe (IScalar ''String'')),
      (''fieldManager'', True, IMaybe (IScalar ''String'')),
      (''itPolitoCrownlabsV1alpha1TenantInput'', False, IRef ItPolitoCrownlabsV1alpha1TenantInput)]"

definition arg_MutationReplaceCrownlabsPolitoItV1alpha1TenantStatusArgs :: in_fields where
  "arg_MutationReplaceCrownlabsPolitoItV1alpha1TenantStatusArgs =
     [(''name'', False, IScalar ''String''),
      (''pretty'', True, IMaybe (IScalar ''String'')),
      (''dryRun'', True, IMaybe (IScalar ''String'')),
      (''fieldManager'', True, IMaybe (IScalar ''String'')),
      (''itPolitoCrownlabsV1alpha1TenantInput'', False, IRef ItPolitoCrownlabsV1alpha1TenantInput)]"

definition arg_MutationReplaceCrownlabsPolitoItV1alpha1WorkspaceArgs :: in_fields where
  "arg_MutationReplaceCrownlabsPolitoItV1alpha1WorkspaceArgs =
     [(''name'', False, IScalar ''String''),
      (''pretty'', True, IMaybe (IScalar ''String'')),
      (''dryRun'', True, IMaybe (IScalar ''String'')),
      (''fieldManager'', True, IMaybe (IScalar ''String'')),
      (''itPolitoCrownlabsV1alpha1WorkspaceInput'', False, IRef ItPolitoCrownlabsV1alpha1WorkspaceInput)]"

definition arg_MutationReplaceCrownlabsPolitoItV1alpha1WorkspaceStatusArgs :: in_fields where
  "arg_MutationReplaceCrownlabsPolitoItV1alpha1WorkspaceStatusArgs =
     [(''name'', False, IScalar ''String''),
      (''pretty'', True, IMaybe (IScalar ''String'')),
      (''dryRun'', True, IMaybe (IScalar ''String'')),
      (''fieldManager'', True, IMaybe (IScalar ''String'')),
      (''itPolitoCrownlabsV1alpha1WorkspaceInput'', False, IRef ItPolitoCrownlabsV1alpha1WorkspaceInput)]"

definition arg_MutationReplaceCrownlabsPolitoItV1alpha2NamespacedInstanceArgs :: in_fields where
  "arg_MutationReplaceCrownlabsPolitoItV1alpha2NamespacedInstanceArgs =
     [(''name'', False, IScalar ''String''),
      (''namespace'', False, IScalar ''String''),
      (''pretty'', True, IMaybe (IScalar ''String'')),
      (''dryRun'', True, IMaybe (IScalar ''String'')),
      (''fieldManager'', True, IMaybe (IScalar ''String'')),
      (''itPolitoCrownlabsV1alpha2InstanceInput'', False, IRef ItPolitoCrownlabsV1alpha2InstanceInput)]"

definition arg_MutationReplaceCrownlabsPolitoItV1alpha2NamespacedInstanceSnapshotArgs :: in_fields where
  "arg_MutationReplaceCrownlabsPolitoItV1alpha2NamespacedInstanceSnapshotArgs =
     [(''name'', False, IScalar ''String''),
      (''namespace'', False, IScalar ''String''),
      (''pretty'', True, IMaybe (IScalar ''String'')),
      (''dryRun'', True, IMaybe (IScalar ''String'')),
      (''fieldManager'', True, IMaybe (IScalar ''String'')),
      (''itPolitoCrownlabsV1alpha2InstanceSnapshotInput'', False, IRef ItPolitoCrownlabsV1alpha2InstanceSnapshotInput)]"

definition arg_MutationReplaceCrownlabsPolitoItV1alpha2NamespacedInstanceSnapshotStatusArgs :: in_fields where
  "arg_MutationReplaceCrownlabsPolitoItV1alpha2NamespacedInstanceSnapshotStatusArgs =
     [(''name'', False, IScalar ''String''),
      (''namespace'', False, IScalar ''String''),
      (''pretty'', True, IMaybe (IScalar ''String'')),
      (''dryRun'', True, IMaybe (IScalar ''String'')),
      (''fieldManager'', True, IMaybe (IScalar ''String'')),
      (''itPolitoCrownlabsV1alpha2InstanceSnapshotInput'', False, IRef ItPolitoCrownlabsV1alpha2InstanceSnapshotInput)]"

definition arg_MutationReplaceCrownlabsPolitoItV1alpha2NamespacedInstanceStatusArgs :: in_fields where
  "arg_MutationReplaceCrownlabsPolitoItV1alpha2NamespacedInstanceStatusArgs =
     [(''name'', False, IScalar ''String''),
      (''namespace'', False, IScalar ''String''),
      (''pretty'', True, IMaybe (IScalar ''String'')),
      (''dryRun'', True, IMaybe (IScalar ''String'')),
      (''fieldManager'', True, IMaybe (IScalar ''String'')),
      (''itPolitoCrownlabsV1alpha2InstanceInput'', False, IRef ItPolitoCrownlabsV1alpha2InstanceInput)]"

definition arg_MutationReplaceCrownlabsPolitoItV1alpha2NamespacedTemplateArgs :: in_fields where
  "arg_MutationReplaceCrownlabsPolitoItV1alpha2NamespacedTemplateArgs =
     [(''name'', False, IScalar ''String''),
      (''namespace'', False, IScalar ''String''),
      (''pretty'', True, IMaybe (IScalar ''String'')),
      (''dryRun'', True, IMaybe (IScalar ''String'')),
      (''fieldManager'', True, IMaybe (IScalar ''String'')),
      (''itPolitoCrownlabsV1alpha2TemplateInput'', False, IRef ItPolitoCrownlabsV1alpha2TemplateInput)]"

definition arg_MutationReplaceCrownlabsPolitoItV1alpha2NamespacedTemplateStatusArgs :: in_fields where
  "arg_MutationReplaceCrownlabsPolitoItV1alpha2NamespacedTemplateStatusArgs =
     [(''name'', False, IScalar ''String''),
      (''namespace'', False, IScalar ''String''),
      (''pretty'', True, IMaybe (IScalar ''String'')),
      (''dryRun'', True, IMaybe (IScalar ''String'')),
      (''fieldManager'', True, IMaybe (IScalar ''String'')),
      (''itPolitoCrownlabsV1alpha2TemplateInput'', False, IRef ItPolitoCrownlabsV1alpha2TemplateInput)]"


subsection \<open>Operations\<close>

datatype http_method = GET | POST | PUT | PATCH | DELETE

datatype segment = Lit string | Param string

type_synonym operation = "string \<times> http_method \<times> segment list \<times> in_fields"

definition api :: "string \<Rightarrow> segment list \<Rightarrow> segment list" where
  "api version segs = Lit ''apis'' # Lit ''crownlabs.polito.it'' # Lit version # segs"

text \<open>The arguments of the operations that \<open>Gql_Schema\<close> declares: scalars only.\<close>

fun in_type_of :: "ts_type \<Rightarrow> in_type" where
  "in_type_of (TScalar s) = IScalar s"
| "in_type_of (TRef n) = IEnum n"
| "in_type_of (TMaybe t) = IMaybe (in_type_of t)"
| "in_type_of (TArray t) = IArray (in_type_of t)"

definition args_of_ts :: "ts_name \<Rightarrow> in_fields" where
  "args_of_ts n = map (\<lambda>(x, opt, t). (x, opt, in_type_of t)) (fields_of n)"

definition query_ops :: "operation list" where
  "query_ops =
     [(''itPolitoCrownlabsV1alpha1ImageList'', GET, api ''v1alpha1'' [Lit ''imagelists'', Param ''name''], arg_QueryItPolitoCrownlabsV1alpha1ImageListArgs),
      (''itPolitoCrownlabsV1alpha1ImageListList'', GET, api ''v1alpha1'' [Lit ''imagelists''], arg_QueryItPolitoCrownlabsV1alpha1ImageListListArgs),
      (''itPolitoCrownlabsV1alpha1Tenant'', GET, api ''v1alpha1'' [Lit ''tenants'', Param ''name''], args_of_ts QueryItPolitoCrownlabsV1alpha1TenantArgs),
      (''itPolitoCrownlabsV1alpha1TenantList'', GET, api ''v1alpha1'' [Lit ''tenants''], arg_QueryItPolitoCrownlabsV1alpha1TenantListArgs),
      (''itPolitoCrownlabsV1alpha1Workspace'', GET, api ''v1alpha1'' [Lit ''workspaces'', Param ''name''], arg_QueryItPolitoCrownlabsV1alpha1WorkspaceArgs),
      (''itPolitoCrownlabsV1alpha1WorkspaceList'', GET, api ''v1alpha1'' [Lit ''workspaces''], arg_QueryItPolitoCrownlabsV1alpha1WorkspaceListArgs),
      (''itPolitoCrownlabsV1alpha2Instance'', GET, api ''v1alpha2'' [Lit ''namespaces'', Param ''namespace'', Lit ''instances'', Param ''name''], arg_QueryItPolitoCrownlabsV1alpha2InstanceArgs),
      (''itPolitoCrownlabsV1alpha2InstanceList'', GET, api ''v1alpha2'' [Lit ''instances''], arg_QueryItPolitoCrownlabsV1alpha2InstanceListArgs),
      (''itPolitoCrownlabsV1alpha2InstanceSnapshot'', GET, api ''v1alpha2'' [Lit ''namespaces'', Param ''namespace'', Lit ''instancesnapshots'', Param ''name''], arg_QueryItPolitoCrownlabsV1alpha2InstanceSnapshotArgs),
      (''itPolitoCrownlabsV1alpha2InstanceSnapshotList'', GET, api ''v1alpha2'' [Lit ''instancesnapshots''], arg_QueryItPolitoCrownlabsV1alpha2InstanceSnapshotListArgs),
      (''itPolitoCrownlabsV1alpha2Template'', GET, api ''v1alpha2'' [Lit ''namespaces'', Param ''namespace'', Lit ''templates'', Param ''name''], arg_QueryItPolitoCrownlabsV1alpha2TemplateArgs),
      (''itPolitoCrownlabsV1alpha2TemplateList'', GET, api ''v1alpha2'' [Lit ''namespaces'', Param ''namespace'', Lit ''templates''], args_of_ts QueryItPolitoCrownlabsV1alpha2TemplateListArgs),
      (''listCrownlabsPolitoItV1alpha2NamespacedInstance'', GET, api ''v1alpha2'' [Lit ''namespaces'', Param ''namespace'', Lit ''instances''], args_of_ts QueryListCrownlabsPolitoItV1alpha2NamespacedInstanceArgs),
      (''listCrownlabsPolitoItV1alpha2NamespacedInstanceSnapshot'', GET, api ''v1alpha2'' [Lit ''namespaces'', Param ''namespace'', Lit ''instancesnapshots''], arg_QueryListCrownlabsPolitoItV1alpha2NamespacedInstanceSnapshotArgs),
      (''listCrownlabsPolitoItV1alpha2TemplateForAllNamespaces'', GET, api ''v1alpha2'' [Lit ''templates''], arg_QueryListCrownlabsPolitoItV1alpha2TemplateForAllNamespacesArgs),
      (''readCrownlabsPolitoItV1alpha1ImageListStatus'', GET, api ''v1alpha1'' [Lit ''imagelists'', Param ''name'', Lit ''status''], arg_QueryReadCrownlabsPolitoItV1alpha1ImageListStatusArgs),
      (''readCrownlabsPolitoItV1alpha1TenantStatus'', GET, api ''v1alpha1'' [Lit ''tenants'', Param ''name'', Lit ''status''], arg_QueryReadCrownlabsPolitoItV1alpha1TenantStatusArgs),
      (''readCrownlabsPolitoItV1alpha1WorkspaceStatus'', GET, api ''v1alpha1'' [Lit ''workspaces'', Param ''name'', Lit ''status''], arg_QueryReadCrownlabsPolitoItV1alpha1WorkspaceStatusArgs),
      (''readCrownlabsPolitoItV1alpha2NamespacedInstanceSnapshotStatus'', GET, api ''v1alpha2'' [Lit ''namespaces'', Param ''namespace'', Lit ''instancesnapshots'', Param ''name'', Lit ''status''], arg_QueryReadCrownlabsPolitoItV1alpha2NamespacedInstanceSnapshotStatusArgs),
      (''readCrownlabsPolitoItV1alpha2NamespacedInstanceStatus'', GET, api ''v1alpha2'' [Lit ''namespaces'', Param ''namespace'', Lit ''instances'', Param ''name'', Lit ''status''], arg_QueryReadCrownlabsPolitoItV1alpha2NamespacedInstanceStatusArgs),
      (''readCrownlabsPolitoItV1alpha2NamespacedTemplateStatus'', GET, api ''v1alpha2'' [Lit ''namespaces'', Param ''namespace'', Lit ''templates'', Param ''name'', Lit ''status''], arg_QueryReadCrownlabsPolitoItV1alpha2NamespacedTemplateStatusArgs)]"

definition create_ops :: "operation list" where
  "create_ops =
     [(''createCrownlabsPolitoItV1alpha1ImageList'', POST, api ''v1alpha1'' [Lit ''imagelists''], arg_MutationCreateCrownlabsPolitoItV1alpha1ImageListArgs),
      (''createCrownlabsPolitoItV1alpha1Tenant'', POST, api ''v1alpha1'' [Lit ''tenants''], arg_MutationCreateCrownlabsPolitoItV1alpha1TenantArgs),
      (''createCrownlabsPolitoItV1alpha1Workspace'', POST, api ''v1alpha1'' [Lit ''workspaces''], arg_MutationCreateCrownlabsPolitoItV1alpha1WorkspaceArgs),
      (''createCrownlabsPolitoItV1alpha2NamespacedInstance'', POST, api ''v1alpha2'' [Lit ''namespaces'', Param ''namespace'', Lit ''instances''], arg_MutationCreateCrownlabsPolitoItV1alpha2NamespacedInstanceArgs),
      (''createCrownlabsPolitoItV1alpha2NamespacedInstanceSnapshot'', POST, api ''v1alpha2'' [Lit ''namespaces'', Param ''namespace'', Lit ''instancesnapshots''], arg_MutationCreateCrownlabsPolitoItV1alpha2NamespacedInstanceSnapshotArgs),
      (''createCrownlabsPolitoItV1alpha2NamespacedTemplate'', POST, api ''v1alpha2'' [Lit ''namespaces'', Param ''namespace'', Lit ''templates''], arg_MutationCreateCrownlabsPolitoItV1alpha2NamespacedTemplateArgs)]"

definition delete_ops :: "operation list" where
  "delete_ops =
     [(''deleteCrownlabsPolitoItV1alpha1CollectionImageList'', DELETE, api ''v1alpha1'' [Lit ''imagelists''], arg_MutationDeleteCrownlabsPolitoItV1alpha1CollectionImageListArgs),
      (''deleteCrownlabsPolitoItV1alpha1CollectionTenant'', DELETE, api ''v1alpha1'' [Lit ''tenants''], arg_MutationDeleteCrownlabsPolitoItV1alpha1CollectionTenantArgs),
      (''deleteCrownlabsPolitoItV1alpha1CollectionWorkspace'', DELETE, api ''v1alpha1'' [Lit ''workspaces''], arg_MutationDeleteCrownlabsPolitoItV1alpha1CollectionWorkspaceArgs),
      (''deleteCrownlabsPolitoItV1alpha1ImageList'', DELETE, api ''v1alpha1'' [Lit ''imagelists'', Param ''name''], arg_MutationDeleteCrownlabsPolitoItV1alpha1ImageListArgs),
      (''deleteCrownlabsPolitoItV1alpha1Tenant'', DELETE, api ''v1alpha1'' [Lit ''tenants'', Param ''name''], arg_MutationDeleteCrownlabsPolitoItV1alpha1TenantArgs),
      (''deleteCrownlabsPolitoItV1alpha1Workspace'', DELETE, api ''v1alpha1'' [Lit ''workspaces'', Param ''name''], arg_MutationDeleteCrownlabsPolitoItV1alpha1WorkspaceArgs),
      (''deleteCrownlabsPolitoItV1alpha2CollectionNamespacedInstance'', DELETE, api ''v1alpha2'' [Lit ''namespaces'', Param ''namespace'', Lit ''instances''], arg_MutationDeleteCrownlabsPolitoItV1alpha2CollectionNamespacedInstanceArgs),
      (''deleteCrownlabsPolitoItV1alpha2CollectionNamespacedInstanceSnapshot'', DELETE, api ''v1alpha2'' [Lit ''namespaces'', Param ''namespace'', Lit ''instancesnapshots''], arg_MutationDeleteCrownlabsPolitoItV1alpha2CollectionNamespacedInstanceSnapshotArgs),
      (''deleteCrownlabsPolitoItV1alpha2CollectionNamespacedTemplate'', DELETE, api ''v1alpha2'' [Lit ''namespaces'', Param ''namespace'', Lit ''templates''], arg_MutationDeleteCrownlabsPolitoItV1alpha2CollectionNamespacedTemplateArgs),
      (''deleteCrownlabsPolitoItV1alpha2NamespacedInstance'', DELETE, api ''v1alpha2'' [Lit ''namespaces'', Param ''namespace'', Lit ''instances'', Param ''name''], arg_MutationDeleteCrownlabsPolitoItV1alpha2NamespacedInstanceArgs),
      (''deleteCrownlabsPolitoItV1alpha2NamespacedInstanceSnapshot'', DELETE, api ''v1alpha2'' [Lit ''namespaces'', Param ''namespace'', Lit ''instancesnapshots'', Param ''name''], arg_MutationDeleteCrownlabsPolitoItV1alpha2NamespacedInstanceSnapshotArgs),
      (''deleteCrownlabsPolitoItV1alpha2NamespacedTemplate'', DELETE, api ''v1alpha2'' [Lit ''namespaces'', Param ''namespace'', Lit ''templates'', Param ''name''], arg_MutationDeleteCrownlabsPolitoItV1alpha2NamespacedTemplateArgs)]"

definition patch_ops :: "operation list" where
  "patch_ops =
     [(''patchCrownlabsPolitoItV1alpha1ImageList'', PATCH, api ''v1alpha1'' [Lit ''imagelists'', Param ''name''], arg_MutationPatchCrownlabsPolitoItV1alpha1ImageListArgs),
      (''patchCrownlabsPolitoItV1alpha1ImageListStatus'', PATCH, api ''v1alpha1'' [Lit ''imagelists'', Param ''name'', Lit ''status''], arg_MutationPatchCrownlabsPolitoItV1alpha1ImageListStatusArgs),
      (''patchCrownlabsPolitoItV1alpha1Tenant'', PATCH, api ''v1alpha1'' [Lit ''tenants'', Param ''name''], arg_MutationPatchCrownlabsPolitoItV1alpha1TenantArgs),
      (''patchCrownlabsPolitoItV1alpha1TenantStatus'', PATCH, api ''v1alpha1'' [Lit ''tenants'', Param ''name'', Lit ''status''], arg_MutationPatchCrownlabsPolitoItV1alpha1TenantStatusArgs),
      (''patchCrownlabsPolitoItV1alpha1Workspace'', PATCH, api ''v1alpha1'' [Lit ''workspaces'', Param ''name''], arg_MutationPatchCrownlabsPolitoItV1alpha1WorkspaceArgs),
      (''patchCrownlabsPolitoItV1alpha1WorkspaceStatus'', PATCH, api ''v1alpha1'' [Lit ''workspaces'', Param ''name'', Lit ''status''], arg_MutationPatchCrownlabsPolitoItV1alpha1WorkspaceStatusArgs),
      (''patchCrownlabsPolitoItV1alpha2NamespacedInstance'', PATCH, api ''v1alpha2'' [Lit ''namespaces'', Param ''namespace'', Lit ''instances'', Param ''name''], arg_MutationPatchCrownlabsPolitoItV1alpha2NamespacedInstanceArgs),
      (''patchCrownlabsPolitoItV1alpha2NamespacedInstanceSnapshot'', PATCH, api ''v1alpha2'' [Lit ''namespaces'', Param ''namespace'', Lit ''instancesnapshots'', Param ''name''], arg_MutationPatchCrownlabsPolitoItV1alpha2NamespacedInstanceSnapshotArgs),
      (''patchCrownlabsPolitoItV1alpha2NamespacedInstanceSnapshotStatus'', PATCH, api ''v1alpha2'' [Lit ''namespaces'', Param ''namespace'', Lit ''instancesnapshots'', Param ''name'', Lit ''status''], arg_MutationPatchCrownlabsPolitoItV1alpha2NamespacedInstanceSnapshotStatusArgs),
      (''patchCrownlabsPolitoItV1alpha2NamespacedInstanceStatus'', PATCH, api ''v1alpha2'' [Lit ''namespaces'', Param ''namespace'', Lit ''instances'', Param ''name'', Lit ''status''], arg_MutationPatchCrownlabsPolitoItV1alpha2NamespacedInstanceStatusArgs),
      (''patchCrownlabsPolitoItV1alpha2NamespacedTemplate'', PATCH, api ''v1alpha2'' [Lit ''namespaces'', Param ''namespace'', Lit ''templates'', Param ''name''], arg_MutationPatchCrownlabsPolitoItV1alpha2NamespacedTemplateArgs),
      (''patchCrownlabsPolitoItV1alpha2NamespacedTemplateStatus'', PATCH, api ''v1alpha2'' [Lit ''namespaces'', Param ''namespace'', Lit ''templates'', Param ''name'', Lit ''status''], arg_MutationPatchCrownlabsPolitoItV1alpha2NamespacedTemplateStatusArgs)]"

definition replace_ops :: "operation list" where
  "replace_ops =
     [(''replaceCrownlabsPolitoItV1alpha1ImageList'', PUT, api ''v1alpha1'' [Lit ''imagelists'', Param ''name''], arg_MutationReplaceCrownlabsPolitoItV1alpha1ImageListArgs),
      (''replaceCrownlabsPolitoItV1alpha1ImageListStatus'', PUT, api ''v1alpha1'' [Lit ''imagelists'', Param ''name'', Lit ''status''], arg_MutationReplaceCrownlabsPolitoItV1alpha1ImageListStatusArgs),
      (''replaceCrownlabsPolitoItV1alpha1Tenant'', PUT, api ''v1alpha1'' [Lit ''tenants'', Param ''name''], arg_MutationReplaceCrownlabsPolitoItV1alpha1TenantArgs),
      (''replaceCrownlabsPolitoItV1alpha1TenantStatus'', PUT, api ''v1alpha1'' [Lit ''tenants'', Param ''name'', Lit ''status''], arg_MutationReplaceCrownlabsPolitoItV1alpha1TenantStatusArgs),
      (''replaceCrownlabsPolitoItV1alpha1Workspace'', PUT, api ''v1alpha1'' [Lit ''workspaces'', Param ''name''], arg_MutationReplaceCrownlabsPolitoItV1alpha1WorkspaceArgs),
      (''replaceCrownlabsPolitoItV1alpha1WorkspaceStatus'', PUT, api ''v1alpha1'' [Lit ''workspaces'', Param ''name'', Lit ''status''], arg_MutationReplaceCrownlabsPolitoItV1alpha1WorkspaceStatusArgs),
      (''replaceCrownlabsPolitoItV1alpha2NamespacedInstance'', PUT, api ''v1alpha2'' [Lit ''namespaces'', Param ''namespace'', Lit ''instances'', Param ''name''], arg_MutationReplaceCrownlabsPolitoItV1alpha2NamespacedInstanceArgs),
      (''replaceCrownlabsPolitoItV1alpha2NamespacedInstanceSnapshot'', PUT, api ''v1alpha2'' [Lit ''namespaces'', Param ''namespace'', Lit ''instancesnapshots'', Param ''name''], arg_MutationReplaceCrownlabsPolitoItV1alpha2NamespacedInstanceSnapshotArgs),
      (''replaceCrownlabsPolitoItV1alpha2NamespacedInstanceSnapshotStatus'', PUT, api ''v1alpha2'' [Lit ''namespaces'', Param ''namespace'', Lit ''instancesnapshots'', Param ''name'', Lit ''status''], arg_MutationReplaceCrownlabsPolitoItV1alpha2NamespacedInstanceSnapshotStatusArgs),
      (''replaceCrownlabsPolitoItV1alpha2NamespacedInstanceStatus'', PUT, api ''v1alpha2'' [Lit ''namespaces'', Param ''namespace'', Lit ''instances'', Param ''name'', Lit ''status''], arg_MutationReplaceCrownlabsPolitoItV1alpha2NamespacedInstanceStatusArgs),
      (''replaceCrownlabsPolitoItV1alpha2NamespacedTemplate'', PUT, api ''v1alpha2'' [Lit ''namespaces'', Param ''namespace'', Lit ''templates'', Param ''name''], arg_MutationReplaceCrownlabsPolitoItV1alpha2NamespacedTemplateArgs),
      (''replaceCrownlabsPolitoItV1alpha2NamespacedTemplateStatus'', PUT, api ''v1alpha2'' [Lit ''namespaces'', Param ''namespace'', Lit ''templates'', Param ''name'', Lit ''status''], arg_MutationReplaceCrownlabsPolitoItV1alpha2NamespacedTemplateStatusArgs)]"

subsection \<open>Arguments carry the path\<close>

definition path_params :: "segment list \<Rightarrow> string list" where
  "path_params segs = concat (map (\<lambda>s. case s of Lit _ \<Rightarrow> [] | Param x \<Rightarrow> [x]) segs)"

definition required :: "in_fields \<Rightarrow> (string \<times> in_type) list" where
  "required fs = map (\<lambda>(x, opt, t). (x, t)) (filter (\<lambda>(x, opt, t). \<not> opt) fs)"

text \<open>What the body of a request is, by its method and the type of its answer.\<close>

fun body_ok :: "http_method \<Rightarrow> ts_type \<Rightarrow> (string \<times> in_type) list \<Rightarrow> bool" where
  "body_ok POST t [(x, b)] = corresponds t b"
| "body_ok PUT t [(x, b)] = corresponds t b"
| "body_ok PATCH t [(x, b)] = (x = ''applicationJsonPatchJsonInput'' \<and> b = IScalar ''String'')"
| "body_ok DELETE t [] = (t = TMaybe (TRef IoK8sApimachineryPkgApisMetaV1StatusV2))"
| "body_ok GET t [] = True"
| "body_ok _ _ _ = False"

definition op_ok :: "string \<times> bool \<times> ts_type \<Rightarrow> operation \<Rightarrow> bool" where
  "op_ok f p = (case (f, p) of ((x, opt, t), (y, m, path, args)) \<Rightarrow>
     let params = map (\<lambda>q. (q, IScalar ''String'')) (rev (path_params path)); r = required args
     in x = y \<and> take (length params) r = params \<and> body_ok m t (drop (length params) r))"

lemmas argument_defs =
  arg_QueryItPolitoCrownlabsV1alpha1ImageListArgs_def
  arg_QueryItPolitoCrownlabsV1alpha1ImageListListArgs_def
  arg_QueryItPolitoCrownlabsV1alpha1TenantListArgs_def
  arg_QueryItPolitoCrownlabsV1alpha1WorkspaceArgs_def
  arg_QueryItPolitoCrownlabsV1alpha1WorkspaceListArgs_def
  arg_QueryItPolitoCrownlabsV1alpha2InstanceArgs_def
  arg_QueryItPolitoCrownlabsV1alpha2InstanceListArgs_def
  arg_QueryItPolitoCrownlabsV1alpha2InstanceSnapshotArgs_def
  arg_QueryItPolitoCrownlabsV1alpha2InstanceSnapshotListArgs_def
  arg_QueryItPolitoCrownlabsV1alpha2TemplateArgs_def
  arg_QueryListCrownlabsPolitoItV1alpha2NamespacedInstanceSnapshotArgs_def
  arg_QueryListCrownlabsPolitoItV1alpha2TemplateForAllNamespacesArgs_def
  arg_QueryReadCrownlabsPolitoItV1alpha1ImageListStatusArgs_def
  arg_QueryReadCrownlabsPolitoItV1alpha1TenantStatusArgs_def
  arg_QueryReadCrownlabsPolitoItV1alpha1WorkspaceStatusArgs_def
  arg_QueryReadCrownlabsPolitoItV1alpha2NamespacedInstanceSnapshotStatusArgs_def
  arg_QueryReadCrownlabsPolitoItV1alpha2NamespacedInstanceStatusArgs_def
  arg_QueryReadCrownlabsPolitoItV1alpha2NamespacedTemplateStatusArgs_def
  arg_MutationCreateCrownlabsPolitoItV1alpha1ImageListArgs_def
  arg_MutationCreateCrownlabsPolitoItV1alpha1TenantArgs_def
  arg_MutationCreateCrownlabsPolitoItV1alpha1WorkspaceArgs_def
  arg_MutationCreateCrownlabsPolitoItV1alpha2NamespacedInstanceArgs_def
  arg_MutationCreateCrownlabsPolitoItV1alpha2NamespacedInstanceSnapshotArgs_def
  arg_MutationCreateCrownlabsPolitoItV1alpha2NamespacedTemplateArgs_def
  arg_MutationDeleteCrownlabsPolitoItV1alpha1CollectionImageListArgs_def
  arg_MutationDeleteCrownlabsPolitoItV1alpha1CollectionTenantArgs_def
  arg_MutationDeleteCrownlabsPolitoItV1alpha1CollectionWorkspaceArgs_def
  arg_MutationDeleteCrownlabsPolitoItV1alpha1ImageListArgs_def
  arg_MutationDeleteCrownlabsPolitoItV1alpha1TenantArgs_def
  arg_MutationDeleteCrownlabsPolitoItV1alpha1WorkspaceArgs_def
  arg_MutationDeleteCrownlabsPolitoItV1alpha2CollectionNamespacedInstanceArgs_def
  arg_MutationDeleteCrownlabsPolitoItV1alpha2CollectionNamespacedInstanceSnapshotArgs_def
  arg_MutationDeleteCrownlabsPolitoItV1alpha2CollectionNamespacedTemplateArgs_def
  arg_MutationDeleteCrownlabsPolitoItV1alpha2NamespacedInstanceArgs_def
  arg_MutationDeleteCrownlabsPolitoItV1alpha2NamespacedInstanceSnapshotArgs_def
  arg_MutationDeleteCrownlabsPolitoItV1alpha2NamespacedTemplateArgs_def
  arg_MutationPatchCrownlabsPolitoItV1alpha1ImageListArgs_def
  arg_MutationPatchCrownlabsPolitoItV1alpha1ImageListStatusArgs_def
  arg_MutationPatchCrownlabsPolitoItV1alpha1TenantArgs_def
  arg_MutationPatchCrownlabsPolitoItV1alpha1TenantStatusArgs_def
  arg_MutationPatchCrownlabsPolitoItV1alpha1WorkspaceArgs_def
  arg_MutationPatchCrownlabsPolitoItV1alpha1WorkspaceStatusArgs_def
  arg_MutationPatchCrownlabsPolitoItV1alpha2NamespacedInstanceArgs_def
  arg_MutationPatchCrownlabsPolitoItV1alpha2NamespacedInstanceSnapshotArgs_def
  arg_MutationPatchCrownlabsPolitoItV1alpha2NamespacedInstanceSnapshotStatusArgs_def
  arg_MutationPatchCrownlabsPolitoItV1alpha2NamespacedInstanceStatusArgs_def
  arg_MutationPatchCrownlabsPolitoItV1alpha2NamespacedTemplateArgs_def
  arg_MutationPatchCrownlabsPolitoItV1alpha2NamespacedTemplateStatusArgs_def
  arg_MutationReplaceCrownlabsPolitoItV1alpha1ImageListArgs_def
  arg_MutationReplaceCrownlabsPolitoItV1alpha1ImageListStatusArgs_def
  arg_MutationReplaceCrownlabsPolitoItV1alpha1TenantArgs_def
  arg_MutationReplaceCrownlabsPolitoItV1alpha1TenantStatusArgs_def
  arg_MutationReplaceCrownlabsPolitoItV1alpha1WorkspaceArgs_def
  arg_MutationReplaceCrownlabsPolitoItV1alpha1WorkspaceStatusArgs_def
  arg_MutationReplaceCrownlabsPolitoItV1alpha2NamespacedInstanceArgs_def
  arg_MutationReplaceCrownlabsPolitoItV1alpha2NamespacedInstanceSnapshotArgs_def
  arg_MutationReplaceCrownlabsPolitoItV1alpha2NamespacedInstanceSnapshotStatusArgs_def
  arg_MutationReplaceCrownlabsPolitoItV1alpha2NamespacedInstanceStatusArgs_def
  arg_MutationReplaceCrownlabsPolitoItV1alpha2NamespacedTemplateArgs_def
  arg_MutationReplaceCrownlabsPolitoItV1alpha2NamespacedTemplateStatusArgs_def
  ts_QueryItPolitoCrownlabsV1alpha1TenantArgs_def ts_QueryItPolitoCrownlabsV1alpha2TemplateListArgs_def
  ts_QueryListCrownlabsPolitoItV1alpha2NamespacedInstanceArgs_def

lemmas op_simps = op_ok_def body_ok.simps path_params_def required_def api_def args_of_ts_def fields_of_def argument_defs

lemma query_ops_ok: "list_all2 op_ok (fields_of Query) query_ops"
  by (simp add: op_simps query_ops_def ts_Query_def)

lemma mutation_ops_ok: "list_all2 op_ok (fields_of Mutation) (create_ops @ delete_ops @ patch_ops @ replace_ops)"
  by (simp add: op_simps create_ops_def delete_ops_def patch_ops_def replace_ops_def ts_Mutation_def)

text \<open>The generated operations agree with the requests they stand for: each of the 21 queries and 42
  mutations takes as required arguments exactly the parameters of its path, then the body of the
  request: the input type of the resource it returns for a creation or replacement, a JSON patch for a
  patch, nothing for a read or a deletion; a deletion answers with a status.\<close>

lemma operations_match_paths:
  "list_all2 op_ok (fields_of Query) query_ops
   \<and> list_all2 op_ok (fields_of Mutation) (create_ops @ delete_ops @ patch_ops @ replace_ops)"
  using query_ops_ok mutation_ops_ok by simp

end
