(* ===== verification/Dashboard_Resources.thy ===== *)
theory Dashboard_Resources
  imports Jsx
begin

section \<open>dashboard: resources, API calls and tables\<close>

text \<open>
  What the four views of the Kubernetes dashboard share: the CrownLabs resources they read and
  create, the calls they make to the dashboard's API service, and the columns of an antd table.
  The resources have the fields of their Go types (\<open>operators/api\<close>) that the views use; a field with
  \<open>omitempty\<close> may be absent and is an \<open>option\<close>. \<open>window.api\<close> is a service of the dashboard the views
  extend; a call is a value of \<open>api_call\<close> and its answer an event of the home page.
\<close>

subsection \<open>Resources\<close>

record ObjectMeta =
  m_name :: string
  m_namespace :: "string option"

record StoredMeta = ObjectMeta +
  selfLink :: string
  creationTimestamp :: string

record GenericRef =
  ref_name :: string
  ref_namespace :: "string option"

record EnvironmentResources =
  res_cpu :: nat
  res_memory :: string
  reservedCPUPercentage :: nat

record Environment =
  env_label :: string
  image :: string
  environmentType :: string
  guiEnabled :: "bool option"
  persistent :: "bool option"
  resources :: EnvironmentResources

record TemplateSpec =
  description :: string
  prettyName :: string
  spec_workspaceRef :: GenericRef
  environmentList :: "Environment list"

record InstanceSpec =
  templateRef :: GenericRef
  tenantRef :: GenericRef
  running :: "bool option"

record InstanceStatus =
  phase :: "string option"
  status_url :: "string option"
  status_ip :: "string option"

record ('m, 's) resource =
  apiVersion :: string
  kind :: string
  metadata :: 'm
  spec :: 's

record InstanceObj = "(StoredMeta, InstanceSpec) resource" +
  status :: "InstanceStatus option"

type_synonym TemplateObj = "(StoredMeta, TemplateSpec) resource"
type_synonym new_template = "(ObjectMeta, TemplateSpec) resource"
type_synonym new_instance = "(ObjectMeta, InstanceSpec) resource"

record TenantWorkspaceEntry =
  entry_ref :: GenericRef
  entry_role :: string

record TenantObj =
  workspaces :: "TenantWorkspaceEntry list option"
  personalNamespace :: "string option option"

text \<open>\<open>personalNamespace\<close> is \<open>None\<close> while the tenant has no status, \<open>Some None\<close> while its namespace has no
  name yet. Reading \<open>status.personalNamespace.name\<close> throws in the first case.\<close>

definition tenant_namespace :: "TenantObj \<Rightarrow> string option result" where
  "tenant_namespace t = (case personalNamespace t of None \<Rightarrow> Inl TypeError | Some n \<Rightarrow> Inr n)"

text \<open>\<open>environmentList[0]\<close> read with a further property access.\<close>

definition environment :: "TemplateSpec \<Rightarrow> Environment result" where
  "environment t = (case environmentList t of [] \<Rightarrow> Inl TypeError | e # _ \<Rightarrow> Inr e)"

text \<open>The string conversion of a string that may be absent, and of half units (the slider values of
  the form).\<close>

definition js_string :: "string option \<Rightarrow> string" where
  "js_string s = (case s of None \<Rightarrow> ''undefined'' | Some t \<Rightarrow> t)"

definition halves_to_string :: "nat \<Rightarrow> string" where
  "halves_to_string h = nat_digits (h div 2) @ (if even h then [] else ''.5'')"

text \<open>The validation of an environment's resources that the custom resource definition declares.\<close>

definition crd_resources :: "EnvironmentResources \<Rightarrow> bool" where
  "crd_resources r \<longleftrightarrow> 1 \<le> res_cpu r \<and> res_cpu r \<le> 8 \<and>
     1 \<le> reservedCPUPercentage r \<and> reservedCPUPercentage r \<le> 100"

definition crd_environment :: "Environment \<Rightarrow> bool" where
  "crd_environment e \<longleftrightarrow> environmentType e \<in> {''VirtualMachine'', ''Container''} \<and> crd_resources (resources e)"

subsection \<open>Calls of the API service\<close>

datatype created =
    NewInstance new_instance
  | NewTemplate new_template

datatype api_call =
    CreateCustomResource string string "string option" string created
  | UpdateGenericResource string InstanceObj
  | DeleteGenericResource string
  | GetGenericResource string
  | SetNamespace "string option"
  | AbortWatch string

subsection \<open>Tables\<close>

text \<open>
  A column of an antd table: static props, the comparison of its sorter (a JavaScript number, \<open>None\<close>
  for \<open>NaN\<close>) and what its \<open>render\<close> shows for a row. \<open>getColumnSearchProps\<close> is a service of the
  dashboard: a function that spreads the props of a search box into a column, given the column's
  name and the function that renders a cell.
\<close>

record ('r, 'm) column =
  dataIndex :: "string option"
  col_props :: "(string \<times> 'm attr) list"
  sorter :: "('r \<Rightarrow> 'r \<Rightarrow> int option) option"
  render_cell :: "'r \<Rightarrow> 'm nodes"

type_synonym ('r, 'm) search_props =
  "string \<Rightarrow> (string \<Rightarrow> string \<Rightarrow> 'm nodes) \<Rightarrow> ('r, 'm) column \<Rightarrow> ('r, 'm) column"

text \<open>The messages a column can send for the given rows. A search service is quiet when it adds no
  message of the view to a column and a cell renderer that send none.\<close>

definition col_handlers :: "'r list \<Rightarrow> ('r, 'm) column \<Rightarrow> 'm list" where
  "col_handlers rows c = concat (map (\<lambda>p. prop_handlers (snd p)) (col_props c)) @
     concat (map (\<lambda>r. all_handlers (render_cell c r)) rows)"

definition quiet_search :: "('r, 'm) search_props \<Rightarrow> bool" where
  "quiet_search search \<longleftrightarrow> (\<forall>name f c rows. (\<forall>s i. all_handlers (f s i) = []) \<longrightarrow> col_handlers rows c = [] \<longrightarrow>
     col_handlers rows (search name f c) = [])"

text \<open>The numeric difference of two flags, either of which may be absent.\<close>

definition flag_diff :: "bool option \<Rightarrow> bool option \<Rightarrow> int option" where
  "flag_diff a b = (case (a, b) of (Some x, Some y) \<Rightarrow> Some (of_bool x - of_bool y) | _ \<Rightarrow> None)"

definition column_view :: "'r list \<Rightarrow> ('r, 'm) column \<Rightarrow> 'm vnode" where
  "column_view rows c = El ''Column'' (col_props c @ [(''render'', renders (render_cell c) rows)]) []"

text \<open>The table both views render: columns, rows, the page size rule, the loading flag and the text
  for an empty table.\<close>

definition table_view :: "('r, 'm) column list \<Rightarrow> 'r list \<Rightarrow> bool \<Rightarrow> string \<Rightarrow> 'm vnode" where
  "table_view columns rows loading empty_text =
     El ''Table''
       [(''columns'', PNodes (map (column_view rows) columns)),
        (''dataSource'', PNum (int (length rows))),
        (''pagination'', PVal (JObj
           [(''position'', JArr [JStr ''bottomCenter'']),
            (''hideOnSinglePage'', JBool (length rows < 11)),
            (''showSizeChanger'', JBool True)])),
        (''showSorterTooltip'', PBool False),
        (''components'', PStr ''ResizableTitle''),
        (''scroll'', PVal (JObj [(''x'', JStr ''max-content'')])),
        (''loading'', PBool loading),
        (''locale'', PNodes [El ''Empty'' [(''description'', PStr empty_text),
           (''image'', PStr ''Empty.PRESENTED_IMAGE_SIMPLE'')] []])] []"

lemma table_view_handlers:
  "handlers (table_view columns rows loading empty_text) =
     concat (map (col_handlers rows) columns)"
  by (simp add: table_view_def column_view_def comp_def all_handlers_def col_handlers_def [abs_def])

lemma quiet_searchD:
  "quiet_search search \<Longrightarrow> (\<And>s i. all_handlers (f s i) = []) \<Longrightarrow> col_handlers rows c = [] \<Longrightarrow>
    col_handlers rows (search name f c) = []"
  by (simp add: quiet_search_def)

text \<open>The icon buttons of the tables, and the style of an icon.\<close>

definition icon :: "string \<Rightarrow> int \<Rightarrow> string option \<Rightarrow> 'm vnode" where
  "icon tag fontSize color =
     El tag [(''style'', PVal (JObj ((''fontSize'', JNum fontSize) #
       (case color of None \<Rightarrow> [] | Some c \<Rightarrow> [(''color'', JStr c)]))))] []"

definition icon_button :: "'m vnode \<Rightarrow> (string \<times> 'm attr) list \<Rightarrow> 'm vnode" where
  "icon_button i ps =
     El ''Button'' ((''icon'', PNodes [i]) # (''size'', PStr ''small'') # (''shape'', PStr ''circle'') #
       (''style'', PVal (JObj [(''border'', JStr ''none''), (''background'', JStr ''none'')])) # ps) []"

text \<open>What the \<open>render\<close> of a column returns: the children of the cell, whose title is empty.\<close>

definition cell :: "'m nodes \<Rightarrow> 'm nodes" where
  "cell children = [El ''Cell'' [(''title'', PStr [])] children]"

definition tooltip :: "string \<Rightarrow> 'm nodes \<Rightarrow> 'm vnode" where
  "tooltip t cs = El ''Tooltip'' [(''title'', PStr t)] cs"

lemma icon_simps [simp]:
  "handlers (icon tag n c) = []" "texts (icon tag n c) = []"
  by (auto simp: icon_def split: option.splits)

lemma icon_button_simps [simp]:
  "handlers (icon_button i ps) = handlers i @ concat (map (\<lambda>p. prop_handlers (snd p)) ps)"
  by (simp add: icon_button_def)

lemma cell_simps [simp]: "all_handlers (cell children) = all_handlers children"
  by (simp add: cell_def)

lemma tooltip_simps [simp]: "handlers (tooltip t cs) = all_handlers cs"
  by (simp add: tooltip_def)

subsection \<open>Closures of effects\<close>

text \<open>
  Both tables compute their columns in an effect, so the handlers of the columns are closures over the
  props of the render in which the effect last ran. \<open>rendered dep p q\<close>: a component whose effect
  depends on \<open>dep\<close> of its props has been rendered with \<open>p\<close> last, and its effect ran last with \<open>q\<close>. React
  runs the effect again when \<open>dep\<close> has changed; as it compares references, it may do so for equal
  values too.
\<close>

inductive rendered :: "('p \<Rightarrow> 'd) \<Rightarrow> 'p \<Rightarrow> 'p \<Rightarrow> bool" for dep :: "'p \<Rightarrow> 'd" where
  mount: "rendered dep p p"
| effect: "rendered dep p q \<Longrightarrow> rendered dep p' p'"
| no_effect: "rendered dep p q \<Longrightarrow> dep p' = dep p \<Longrightarrow> rendered dep p' q"

lemma rendered_dep: "rendered dep p q \<Longrightarrow> dep q = dep p"
  by (induction rule: rendered.induct) simp_all

subsection \<open>Runs of a machine\<close>

text \<open>A run of a machine with labelled steps, and the rule for invariants of the runs whose events are
  all allowed.\<close>

inductive event_run :: "('s \<Rightarrow> 'e \<Rightarrow> 's \<Rightarrow> bool) \<Rightarrow> 's \<Rightarrow> 'e list \<Rightarrow> 's \<Rightarrow> bool" for stp :: "'s \<Rightarrow> 'e \<Rightarrow> 's \<Rightarrow> bool" where
  idle: "event_run stp s [] s"
| more: "event_run stp s evs s' \<Longrightarrow> stp s' ev s'' \<Longrightarrow> event_run stp s (evs @ [ev]) s''"

lemma event_run_Cons: "event_run stp s' evs s'' \<Longrightarrow> stp s ev s' \<Longrightarrow> event_run stp s (ev # evs) s''"
proof (induction rule: event_run.induct)
  case (idle s')
  then show ?case using event_run.more [OF event_run.idle, of stp s ev s'] by simp
next
  case (more s' evs t ev' t')
  then show ?case using event_run.more [of stp s "ev # evs" t ev' t'] by simp
qed

locale event_inv =
  fixes stp :: "'s \<Rightarrow> 'e \<Rightarrow> 's \<Rightarrow> bool" and allowed :: "'e \<Rightarrow> bool" and inv :: "'s \<Rightarrow> bool"
  assumes inv_step: "stp s ev s' \<Longrightarrow> allowed ev \<Longrightarrow> inv s \<Longrightarrow> inv s'"
begin

lemma run_inv: "event_run stp s evs s' \<Longrightarrow> inv s \<Longrightarrow> list_all allowed evs \<Longrightarrow> inv s'"
  by (induction rule: event_run.induct) (auto intro: inv_step)

end

subsection \<open>Loops that may throw\<close>

fun map_res :: "('a \<Rightarrow> 'b result) \<Rightarrow> 'a list \<Rightarrow> 'b list result" where
  "map_res f [] = Inr []"
| "map_res f (x # xs) = bind_res (f x) (\<lambda>y. bind_res (map_res f xs) (\<lambda>ys. Inr (y # ys)))"

lemma map_res_ok: "(\<And>x. x \<in> set xs \<Longrightarrow> f x = Inr (g x)) \<Longrightarrow> map_res f xs = Inr (map g xs)"
  by (induction xs) simp_all

lemma map_res_Inr_iff: "map_res f xs = Inr ys \<longleftrightarrow> list_all2 (\<lambda>x y. f x = Inr y) xs ys"
  by (induction xs arbitrary: ys) (auto simp: bind_res_Inr_iff list_all2_Cons1)

subsection \<open>Decimal numbers\<close>

text \<open>Decimal digits determine the number, and a decimal number holds no dash.\<close>

definition digits_value :: "string \<Rightarrow> nat" where
  "digits_value s = foldl (\<lambda>n c. 10 * n + (of_char c - 48)) 0 s"

lemma digits_value_snoc: "digits_value (s @ [c]) = 10 * digits_value s + (of_char c - 48)"
  by (simp add: digits_value_def)

lemma digits_value_nat_digits [simp]: "digits_value (nat_digits n) = n"
proof (induction n rule: nat_digits.induct)
  case (1 n)
  then show ?case
    by (subst nat_digits.simps) (simp add: digits_value_snoc, simp add: digits_value_def)
qed

lemma nat_digits_inject [simp]: "nat_digits m = nat_digits n \<longleftrightarrow> m = n"
  using digits_value_nat_digits by metis

lemma nat_digits_chars: "c \<in> set (nat_digits n) \<Longrightarrow> 48 \<le> (of_char c :: nat) \<and> of_char c \<le> (57 :: nat)"
proof (induction n rule: nat_digits.induct)
  case (1 n)
  then show ?case
    by (subst (asm) (2) nat_digits.simps) (auto split: if_splits)
qed

lemma nat_digits_no_dash [simp]: "CHR ''-'' \<notin> set (nat_digits n)"
  using nat_digits_chars [of "CHR ''-''" n] by auto

lemma nat_digits_neq_Nil [simp]: "nat_digits n \<noteq> []"
  by (subst nat_digits.simps) simp

end
