(* ===== verification/Dashboard_Templates.thy ===== *)
theory Dashboard_Templates
  imports Dashboard_Resources
begin

section \<open>dashboard: the table of templates\<close>

text \<open>
  \<open>dashboard/views/crownLabs/Templates.js\<close>: the rows of the table, its columns with their handlers
  (delete a template, start an instance of it), and \<open>startLab\<close>, which creates the instance. Services
  of the dashboard are parameters: \<open>search\<close> is \<open>getColumnSearchProps\<close>, \<open>localeCompare\<close> the
  comparison of strings, \<open>user\<close> the \<open>preferred_username\<close> of the parsed token (\<open>None\<close> when there is no
  token), \<open>r\<close> the value of \<open>Math.floor(Math.random() * 1000)\<close>, a number below 1000.
\<close>

definition colorBlue :: string where
  "colorBlue = ''#1890ff''"

record templates_props =
  templates :: "TemplateObj list"
  tenants :: "TenantObj list"
  onProfessor :: bool
  tbl_loading :: bool

text \<open>The handlers: \<open>onConfirm\<close> of a delete button and \<open>onClick\<close> of a start button, with the template
  their closure has found.\<close>

datatype templates_msg =
    onConfirm_delete "TemplateObj option"
  | onClick_start "TemplateObj option"

record template_row =
  row_key :: string
  row_vm_type :: "bool option"
  row_persistence :: "bool option"
  row_name :: string
  row_course :: string

definition renderTemplates :: "string \<Rightarrow> string \<Rightarrow> 'm nodes" where
  "renderTemplates cell_text index =
     (if index = ''Name''
      then [El ''Typography.Text'' [(''strong'', PBool True)] (render_str cell_text)]
      else [El ''div'' [] (render_str cell_text)])"

definition template_row_of :: "TemplateObj \<Rightarrow> template_row result" where
  "template_row_of t =
     bind_res (environment (spec t)) (\<lambda>e. Inr
       \<lparr>row_key = m_name (metadata t),
        row_vm_type = guiEnabled e,
        row_persistence = persistent e,
        row_name = prettyName (spec t),
        row_course = ref_name (spec_workspaceRef (spec t))\<rparr>)"

definition templatesViews :: "TemplateObj list \<Rightarrow> template_row list result" where
  "templatesViews ts = map_res template_row_of ts"

text \<open>\<open>props.templates.find(lab => lab.metadata.name === record.key)\<close>\<close>

definition find_template :: "string \<Rightarrow> TemplateObj list \<Rightarrow> TemplateObj option" where
  "find_template n ts = find (\<lambda>t. m_name (metadata t) = n) ts"

subsection \<open>Columns\<close>

definition text_column :: "string \<Rightarrow> (string \<times> 'm attr) list \<Rightarrow> ('r \<Rightarrow> string) \<Rightarrow> ('r \<Rightarrow> 'r \<Rightarrow> int option) option \<Rightarrow> ('r, 'm) column" where
  "text_column name ps get cmp =
     \<lparr>dataIndex = Some name,
      col_props = [(''dataIndex'', PStr name), (''key'', PStr name),
        (''title'', PNodes [El ''div'' [(''style'', PVal (JObj [(''marginLeft'', JStr ''2em'')]))] [Txt name]])] @ ps,
      sorter = cmp, render_cell = (\<lambda>row. render_str (get row))\<rparr>"

definition flag_column :: "string \<Rightarrow> string \<Rightarrow> ('r \<Rightarrow> bool option) \<Rightarrow> 'm vnode \<Rightarrow> 'm vnode \<Rightarrow> ('r, 'm) column" where
  "flag_column name col_title get yes no =
     \<lparr>dataIndex = Some name,
      col_props = [(''dataIndex'', PStr name), (''key'', PStr name), (''title'', PStr col_title),
        (''width'', PStr ''5em''), (''align'', PStr ''center''),
        (''sortDirections'', PVal (JArr [JStr ''descend'', JStr ''ascend'']))],
      sorter = Some (\<lambda>a b. flag_diff (get a) (get b)),
      render_cell = (\<lambda>row. cell [if get row = Some True then yes else no])\<rparr>"

definition vm_type_column :: "('r \<Rightarrow> bool option) \<Rightarrow> ('r, 'm) column" where
  "vm_type_column get = flag_column ''VM Type'' ''Type'' get
     (tooltip ''GUI enabled'' [icon ''DesktopOutlined'' 20 None])
     (tooltip ''CLI only'' [icon ''CodeOutlined'' 20 None])"

definition persistence_column :: "(template_row, 'm) column" where
  "persistence_column = flag_column ''Persistence'' ''Persist'' row_persistence
     (tooltip ''Persistent'' [icon ''CheckOutlined'' 15 (Some colorBlue)])
     (tooltip ''Ephemeral'' [icon ''CloseOutlined'' 15 None])"

definition action_column :: "string \<Rightarrow> string option \<Rightarrow> string \<Rightarrow> ('r \<Rightarrow> 'm nodes) \<Rightarrow> ('r, 'm) column" where
  "action_column name index width render =
     \<lparr>dataIndex = index,
      col_props = (case index of None \<Rightarrow> [] | Some i \<Rightarrow> [(''dataIndex'', PStr i)]) @
        [(''title'', PStr name), (''key'', PStr name), (''width'', PStr width), (''align'', PStr ''center'')],
      sorter = None, render_cell = render\<rparr>"

definition delete_column :: "templates_props \<Rightarrow> (template_row, templates_msg) column" where
  "delete_column props =
     (if onProfessor props
      then action_column ''Delete'' (Some ''Delete'') ''6em'' (\<lambda>row.
             let lab = find_template (row_key row) (templates props)
             in cell [El ''Popconfirm'' [(''title'', PStr ''Delete Lab?''), (''onConfirm'', POn (onConfirm_delete lab))]
                  [icon_button (icon ''DeleteOutlined'' 20 (Some ''#ff4d4f'')) []]])
      else \<lparr>dataIndex = None, col_props = [], sorter = None, render_cell = (\<lambda>_. cell [El ''div'' [] []])\<rparr>)"

definition start_column :: "templates_props \<Rightarrow> (template_row, templates_msg) column" where
  "start_column props =
     action_column ''Start'' None ''5em'' (\<lambda>row.
       cell [tooltip ''Create VM''
         [icon_button (icon ''PlayCircleOutlined'' 20 (Some colorBlue))
           [(''onClick'', POn (onClick_start (find_template (row_key row) (templates props))))]]])"

definition template_columns ::
    "(template_row, templates_msg) search_props \<Rightarrow> (string \<Rightarrow> string \<Rightarrow> int) \<Rightarrow> templates_props \<Rightarrow>
     (template_row, templates_msg) column list" where
  "template_columns search localeCompare props =
     [vm_type_column row_vm_type,
      persistence_column,
      search ''Name'' renderTemplates
        (text_column ''Name''
          [(''sortDirections'', PVal (JArr [JStr ''descend'', JStr ''ascend''])), (''defaultSortOrder'', PStr ''ascend'')] row_name
          (Some (\<lambda>a b. Some (localeCompare (row_name a) (row_name b))))),
      search ''Course'' renderTemplates
        (text_column ''Course''
          [(''sortDirections'', PVal (JArr [JStr ''descend'', JStr ''ascend'']))] row_course
          (Some (\<lambda>a b. Some (localeCompare (row_course a) (row_course b))))),
      delete_column props,
      start_column props]"

text \<open>The component: rows from the current props \<open>p\<close>, columns from the props \<open>q\<close> the effect ran with.\<close>

definition Templates ::
    "(template_row, templates_msg) search_props \<Rightarrow> (string \<Rightarrow> string \<Rightarrow> int) \<Rightarrow> templates_props \<Rightarrow> templates_props \<Rightarrow>
     templates_msg vnode result" where
  "Templates search localeCompare p q =
     bind_res (templatesViews (templates p)) (\<lambda>rows.
       Inr (table_view (template_columns search localeCompare q) rows (tbl_loading p) ''No Available Labs''))"

subsection \<open>Handlers\<close>

definition instance_name :: "string \<Rightarrow> string \<Rightarrow> nat \<Rightarrow> string" where
  "instance_name templatesName studentID r =
     templatesName @ ''-'' @ studentID @ ''-'' @ nat_digits r @ ''1''"

definition new_lab :: "TemplateObj \<Rightarrow> string \<Rightarrow> string option \<Rightarrow> nat \<Rightarrow> new_instance" where
  "new_lab t studentID instanceNamespace r =
     \<lparr>apiVersion = ''crownlabs.polito.it/v1alpha2'', kind = ''Instance'',
      metadata = \<lparr>m_name = instance_name (m_name (metadata t)) studentID r, m_namespace = instanceNamespace\<rparr>,
      spec = \<lparr>templateRef = \<lparr>ref_name = m_name (metadata t), ref_namespace = m_namespace (metadata t)\<rparr>,
              tenantRef = \<lparr>ref_name = studentID, ref_namespace = None\<rparr>, running = None\<rparr>\<rparr>"

definition startLab ::
    "string option \<Rightarrow> nat \<Rightarrow> templates_props \<Rightarrow> TemplateObj option \<Rightarrow> api_call list result" where
  "startLab user r props template =
     (case template of None \<Rightarrow> Inl TypeError | Some t \<Rightarrow>
       (case user of None \<Rightarrow> Inl TypeError | Some studentID \<Rightarrow>
         (case tenants props of [] \<Rightarrow> Inl TypeError | tenant # _ \<Rightarrow>
           bind_res (tenant_namespace tenant) (\<lambda>instanceNamespace.
             Inr [CreateCustomResource ''crownlabs.polito.it'' ''v1alpha2'' instanceNamespace ''instances''
               (NewInstance (new_lab t studentID instanceNamespace r))]))))"

text \<open>What a handler of the columns of props \<open>q\<close> does.\<close>

definition templates_handle :: "string option \<Rightarrow> nat \<Rightarrow> templates_props \<Rightarrow> templates_msg \<Rightarrow> api_call list result" where
  "templates_handle user r q m =
     (case m of
       onConfirm_delete lab \<Rightarrow>
         (case lab of None \<Rightarrow> Inl TypeError | Some t \<Rightarrow> Inr [DeleteGenericResource (selfLink (metadata t))])
     | onClick_start t \<Rightarrow> startLab user r q t)"

subsection \<open>What the table offers\<close>

lemma renderTemplates_quiet [simp]: "all_handlers (renderTemplates s i) = []"
  by (simp add: renderTemplates_def)

lemma flag_columns [simp]: "col_handlers rows (vm_type_column get) = []"
  by (simp add: col_handlers_def vm_type_column_def flag_column_def)

lemma persistence_column_quiet [simp]: "col_handlers rows persistence_column = []"
  by (simp add: col_handlers_def persistence_column_def flag_column_def)

lemma text_column_quiet:
  "concat (map (\<lambda>p. prop_handlers (snd p)) ps) = [] \<Longrightarrow> col_handlers rows (text_column name ps g cmp) = []"
  by (simp add: col_handlers_def text_column_def)

lemma search_column_quiet:
  assumes "quiet_search search" and "\<And>s i. all_handlers (f s i) = []"
    and "concat (map (\<lambda>p. prop_handlers (snd p)) ps) = []"
  shows "col_handlers rows (search name f (text_column name' ps g cmp)) = []"
  by (rule quiet_searchD [OF assms(1,2) text_column_quiet [OF assms(3)]])

lemma action_column_handlers [simp]:
  "col_handlers rows (action_column name index width render) = concat (map (\<lambda>r. all_handlers (render r)) rows)"
  by (cases index) (simp_all add: col_handlers_def action_column_def)

lemma button_columns [simp]:
  "col_handlers rows (start_column props) =
     map (\<lambda>r. onClick_start (find_template (row_key r) (templates props))) rows"
  "col_handlers rows (delete_column props) =
     (if onProfessor props then map (\<lambda>r. onConfirm_delete (find_template (row_key r) (templates props))) rows else [])"
  by (simp_all add: start_column_def delete_column_def Let_def, simp add: col_handlers_def)

lemma find_template_key:
  "find_template n ts = Some t \<Longrightarrow> t \<in> set ts \<and> m_name (metadata t) = n"
  by (auto simp: find_template_def find_Some_iff)

lemma find_template_distinct:
  "distinct (map (\<lambda>t. m_name (metadata t)) ts) \<Longrightarrow> t \<in> set ts \<Longrightarrow> find_template (m_name (metadata t)) ts = Some t"
  by (induction ts) (auto simp: find_template_def)

lemma find_template_None [simp]:
  "find_template n ts = None \<longleftrightarrow> n \<notin> (\<lambda>t. m_name (metadata t)) ` set ts"
  by (auto simp: find_template_def find_None_iff)

lemma template_row_key: "template_row_of t = Inr row \<Longrightarrow> row_key row = m_name (metadata t)"
  by (auto simp: template_row_of_def bind_res_Inr_iff)

lemma templatesViews_keys:
  "templatesViews ts = Inr rows \<Longrightarrow> map row_key rows = map (\<lambda>t. m_name (metadata t)) ts"
  unfolding templatesViews_def map_res_Inr_iff
  by (induction rule: list_all2_induct) (simp_all add: template_row_key)

lemma key_image: "map g ys = map h xs \<Longrightarrow> (\<lambda>x. f (h x)) ` set xs = (\<lambda>y. f (g y)) ` set ys"
proof -
  assume "map g ys = map h xs"
  then have "f ` set (map h xs) = f ` set (map g ys)" by (simp only:)
  then show ?thesis by (simp add: image_image)
qed

lemma Templates_handlers:
  assumes "Templates search localeCompare p q = Inr v" and "quiet_search search"
  shows "set (handlers v) =
    (\<lambda>t. onClick_start (find_template (m_name (metadata t)) (templates q))) ` set (templates p) \<union>
    (if onProfessor q
     then (\<lambda>t. onConfirm_delete (find_template (m_name (metadata t)) (templates q))) ` set (templates p) else {})"
proof -
  obtain rows where rows: "templatesViews (templates p) = Inr rows"
    and v: "v = table_view (template_columns search localeCompare q) rows (tbl_loading p) ''No Available Labs''"
    using assms(1) by (auto simp: Templates_def bind_res_Inr_iff)
  have keys: "(\<lambda>t. f (m_name (metadata t))) ` set (templates p) = (\<lambda>r. f (row_key r)) ` set rows" for f :: "string \<Rightarrow> 'a"
    by (rule key_image [OF templatesViews_keys [OF rows]])
  show ?thesis
    unfolding v table_view_handlers template_columns_def keys [of "\<lambda>n. onClick_start (find_template n (templates q))"]
      keys [of "\<lambda>n. onConfirm_delete (find_template n (templates q))"]
    by (simp add: search_column_quiet [OF assms(2)] Un_commute)
qed

text \<open>In every state of the table (however often it has been rendered and its columns recomputed), when
  template names are distinct, its buttons are exactly one start button per listed template, and one
  delete button per listed template when the columns were computed for a professor. None of them can
  miss its template: deleting removes the template of the row by its own link, starting creates an
  instance of it. A plain user is offered no deletion.\<close>

lemma template_table_actions:
  assumes "rendered templates p q" and "Templates search localeCompare p q = Inr v" and "quiet_search search"
    and "distinct (map (\<lambda>t. m_name (metadata t)) (templates p))"
  shows "set (handlers v) =
      (\<lambda>t. onClick_start (Some t)) ` set (templates p) \<union>
      (if onProfessor q then (\<lambda>t. onConfirm_delete (Some t)) ` set (templates p) else {})
    \<and> templates_handle user r q (onConfirm_delete (Some t)) = Inr [DeleteGenericResource (selfLink (metadata t))]
    \<and> templates_handle user r q (onClick_start (Some t)) = startLab user r q (Some t)"
  using Templates_handlers [OF assms(2,3)] rendered_dep [OF assms(1)]
  by (simp add: find_template_distinct [OF assms(4)] templates_handle_def)

text \<open>A sample template and tenant, for the witnesses.\<close>

definition sample_template :: TemplateObj where
  "sample_template =
     \<lparr>apiVersion = ''crownlabs.polito.it/v1alpha2'', kind = ''Template'',
      metadata = \<lparr>m_name = ''ase-lab1'', m_namespace = Some ''workspace-ase'', selfLink = ''/ase-lab1'', creationTimestamp = ''t''\<rparr>,
      spec = \<lparr>description = ''Ubuntu'', prettyName = ''Ubuntu'', spec_workspaceRef = \<lparr>ref_name = ''ase'', ref_namespace = None\<rparr>,
        environmentList = [\<lparr>env_label = ''ase-lab1'', image = ''reg/ubuntu:20'', environmentType = ''VirtualMachine'',
          guiEnabled = Some True, persistent = Some True,
          resources = \<lparr>res_cpu = 2, res_memory = ''2G'', reservedCPUPercentage = 33\<rparr>\<rparr>]\<rparr>\<rparr>"

definition sample_tenant :: TenantObj where
  "sample_tenant = \<lparr>workspaces = Some [\<lparr>entry_ref = \<lparr>ref_name = ''ase'', ref_namespace = None\<rparr>, entry_role = ''user''\<rparr>],
     personalNamespace = Some (Some ''tenant-s1'')\<rparr>"

definition sample_props :: "bool \<Rightarrow> templates_props" where
  "sample_props prof = \<lparr>templates = [sample_template], tenants = [sample_tenant], onProfessor = prof, tbl_loading = False\<rparr>"

lemma sample_simps [simp]:
  "templates (sample_props b) = [sample_template]" "tenants (sample_props b) = [sample_tenant]"
  "onProfessor (sample_props b) = b" "personalNamespace sample_tenant = Some (Some ''tenant-s1'')"
  by (simp_all add: sample_props_def sample_tenant_def)

lemma quiet_search_example [simp]: "quiet_search (\<lambda>name f c. c)"
  by (simp add: quiet_search_def)

lemma sample_Templates: "\<exists>v. Templates search localeCompare (sample_props b) q = Inr v"
  by (simp add: Templates_def templatesViews_def template_row_of_def environment_def sample_template_def)

lemma template_table_actions_witness:
  "\<exists>v. Templates (\<lambda>name f c. c) (\<lambda>a b. 0) (sample_props False) (sample_props False) = Inr v \<and>
     set (handlers v) = {onClick_start (Some sample_template)}"
proof -
  obtain v where v: "Templates (\<lambda>name f c. c) (\<lambda>a b. 0) (sample_props False) (sample_props False) = Inr v"
    using sample_Templates by blast
  show ?thesis
    using template_table_actions [OF rendered.mount v quiet_search_example] v by simp
qed

subsection \<open>Names of instances\<close>

lemma js_split_char_last: "d \<notin> set w \<Longrightarrow> js_split_char d (s @ d # w) = js_split_char d s @ [w]"
  by (induction s) (auto simp: js_split_char_word split: list.splits)

lemma instance_name_segment:
  "last (js_split_char CHR ''-'' (instance_name n u r)) = nat_digits r @ ''1''"
  using js_split_char_last [of "CHR ''-''" "nat_digits r @ ''1''" "n @ ''-'' @ u"]
  by (simp add: instance_name_def)

lemma instance_name_inject [simp]: "instance_name n u r = instance_name n u r' \<longleftrightarrow> r = r'"
  by (simp add: instance_name_def)

text \<open>C19: Starting a lab creates one instance: in the personal namespace of the tenant, of the template
  in its own namespace, owned by the user. Its name ends in the random number followed by the digit 1,
  as the sum in the source is a concatenation: the value is ten times the draw plus one, so it lies
  between 1 and 9991 instead of the intended 1 to 1000. There are exactly a thousand names per template
  and user, one for each draw.\<close>
theorem started_instance:
  assumes "r < 1000" and "tenants q = tenant # ts" and "personalNamespace tenant = Some (Some ns)"
  shows "startLab (Some u) r q (Some t) =
      Inr [CreateCustomResource ''crownlabs.polito.it'' ''v1alpha2'' (Some ns) ''instances''
             (NewInstance (new_lab t u (Some ns) r))]
    \<and> templateRef (spec (new_lab t u (Some ns) r)) =
      \<lparr>ref_name = m_name (metadata t), ref_namespace = m_namespace (metadata t)\<rparr>
    \<and> (let v = digits_value (last (js_split_char CHR ''-'' (m_name (metadata (new_lab t u (Some ns) r)))))
       in v = 10 * r + 1 \<and> 1 \<le> v \<and> v \<le> 9991 \<and> (1000 < v \<longleftrightarrow> 100 \<le> r))
    \<and> card ((\<lambda>r. m_name (metadata (new_lab t u (Some ns) r))) ` {..<1000}) = 1000"
proof -
  have "inj_on (\<lambda>r. m_name (metadata (new_lab t u (Some ns) r))) {..<1000}"
    by (simp add: inj_on_def new_lab_def)
  then have "card ((\<lambda>r. m_name (metadata (new_lab t u (Some ns) r))) ` {..<1000}) = 1000"
    by (simp add: card_image)
  moreover have "startLab (Some u) r q (Some t) =
      Inr [CreateCustomResource ''crownlabs.polito.it'' ''v1alpha2'' (Some ns) ''instances''
             (NewInstance (new_lab t u (Some ns) r))]"
    using assms(2,3) by (simp add: startLab_def tenant_namespace_def)
  moreover have "digits_value (last (js_split_char CHR ''-'' (m_name (metadata (new_lab t u (Some ns) r))))) = 10 * r + 1"
    by (simp add: new_lab_def instance_name_segment digits_value_snoc)
  ultimately show ?thesis
    using assms(1) by (simp add: Let_def new_lab_def) linarith
qed

theorem started_instance_witness:
  "startLab (Some ''s1'') 999 (sample_props False) (Some sample_template) =
     Inr [CreateCustomResource ''crownlabs.polito.it'' ''v1alpha2'' (Some ''tenant-s1'') ''instances''
       (NewInstance (new_lab sample_template ''s1'' (Some ''tenant-s1'') 999))] \<and>
   digits_value (last (js_split_char CHR ''-''
     (m_name (metadata (new_lab sample_template ''s1'' (Some ''tenant-s1'') 999))))) = 9991"
  using started_instance [of 999 "sample_props False" sample_tenant "[]" "''tenant-s1''"]
  by (simp add: Let_def)

end
