(* ===== verification/Dashboard_Instances.thy ===== *)
theory Dashboard_Instances
  imports Dashboard_Templates
begin

section \<open>dashboard: the table of instances\<close>

text \<open>
  \<open>dashboard/views/crownLabs/Instances.js\<close>: the rows, the columns with their handlers (connect, start
  and shut down a persistent machine, browse the files of a container, destroy) and what the handlers
  do. \<open>inst_props\<close> holds the data that the props refer to and the component's own state \<open>terminating\<close>, on
  which the effect that computes the columns depends too. The handlers for starting and shutting down copy
  the instance with a spread and assign to \<open>spec.running\<close> of the copy: \<open>spec\<close> is shared, so the instance in
  the list changes as well (\<open>set_running\<close>). They set no state, so React renders nothing: \<open>table_handle\<close>
  keeps what the table shows (the data at its last rendering) apart from the data. Objects of the list
  are identified by their values, which hold the link of the resource; two equal entries are one object
  listed twice. \<open>calculateAge\<close> and
  \<open>compareAge\<close> are services of the dashboard and parameters, like those of the templates.
\<close>

definition colorGreen :: string where
  "colorGreen = ''#52c41a''"

definition colorRed :: string where
  "colorRed = ''#ff4d4f''"

definition colorYellow :: string where
  "colorYellow = ''#e8be15''"

record inst_props =
  insts :: "InstanceObj list"
  tmpls :: "TemplateObj list"
  inst_onProfessor :: bool
  inst_loading :: bool
  terminating :: "string list"

definition inst_deps :: "inst_props \<Rightarrow> InstanceObj list \<times> TemplateObj list \<times> string list" where
  "inst_deps p = (insts p, tmpls p, terminating p)"

record instance_row =
  ikey :: string
  istatus :: "string option"
  iname :: string
  iuser :: "string option"
  iip :: "string option"
  iage :: string
  ivm_type :: "bool option"
  ipersistent :: "bool option"

datatype instances_msg =
    onConfirm_shutdown InstanceObj
  | onClick_startVM InstanceObj
  | onConfirm_destroy string "InstanceObj option"

definition find_lab :: "string \<Rightarrow> InstanceObj list \<Rightarrow> InstanceObj option" where
  "find_lab n xs = find (\<lambda>lab. m_name (metadata lab) = n) xs"

definition lab_template :: "TemplateObj list \<Rightarrow> InstanceObj \<Rightarrow> TemplateObj option" where
  "lab_template ts lab = find_template (ref_name (templateRef (spec lab))) ts"

definition lab_phase :: "InstanceObj \<Rightarrow> string option" where
  "lab_phase lab = (case status lab of None \<Rightarrow> None | Some st \<Rightarrow> phase st)"

subsection \<open>Rows\<close>

definition instance_row_of :: "(string \<Rightarrow> string) \<Rightarrow> bool \<Rightarrow> InstanceObj \<Rightarrow> TemplateObj \<Rightarrow> instance_row result" where
  "instance_row_of calculateAge prof i t =
     bind_res (environment (spec t)) (\<lambda>e. Inr
       \<lparr>ikey = m_name (metadata i),
        istatus = lab_phase i,
        iname = description (spec t) @ '' - '' @ last (js_split_char CHR ''-'' (m_name (metadata i))),
        iuser = (if prof then Some (ref_name (tenantRef (spec i))) else None),
        iip = (case status i of None \<Rightarrow> Some [] | Some st \<Rightarrow> status_ip st),
        iage = calculateAge (creationTimestamp (metadata i)),
        ivm_type = guiEnabled e,
        ipersistent = persistent e\<rparr>)"

fun instancesViews :: "(string \<Rightarrow> string) \<Rightarrow> bool \<Rightarrow> TemplateObj list \<Rightarrow> InstanceObj list \<Rightarrow> instance_row list result" where
  "instancesViews calculateAge prof ts [] = Inr []"
| "instancesViews calculateAge prof ts (i # is) =
     (case lab_template ts i of
        None \<Rightarrow> instancesViews calculateAge prof ts is
      | Some t \<Rightarrow> bind_res (instance_row_of calculateAge prof i t) (\<lambda>row.
          bind_res (instancesViews calculateAge prof ts is) (\<lambda>rows. Inr (row # rows))))"

definition renderInstances :: "string \<Rightarrow> string \<Rightarrow> 'm nodes" where
  "renderInstances cell_text index =
     (if index = ''Name''
      then [El ''Typography.Text'' [(''strong'', PBool True)] (render_str cell_text)]
      else [El ''div'' [] (render_str cell_text)])"

subsection \<open>Columns\<close>

definition renderReadyIcon :: "bool \<Rightarrow> string option \<Rightarrow> 'm vnode" where
  "renderReadyIcon terminate ph =
     (let loading = tooltip ''Changing VM status'' [icon ''LoadingOutlined'' 20 None]
      in if terminate then loading
         else if ph = Some ''VmiReady'' then tooltip ''VM Ready'' [icon ''CheckCircleOutlined'' 20 (Some colorGreen)]
         else if ph = Some ''VmiOff'' then tooltip ''VM off'' [icon ''PauseCircleOutlined'' 20 (Some colorYellow)]
         else loading)"

text \<open>The difference of two phases: phases are no numbers (of the numeric texts only the empty string
  and digit strings are read).\<close>

definition js_number :: "string option \<Rightarrow> int option" where
  "js_number s =
     (case s of None \<Rightarrow> None
      | Some t \<Rightarrow> if list_all (\<lambda>c. c \<in> set ''0123456789'') t then Some (int (digits_value t)) else None)"

definition js_minus :: "int option \<Rightarrow> int option \<Rightarrow> int option" where
  "js_minus a b = (case (a, b) of (Some x, Some y) \<Rightarrow> Some (x - y) | _ \<Rightarrow> None)"

definition status_column :: "inst_props \<Rightarrow> (instance_row, 'm) column" where
  "status_column props =
     \<lparr>dataIndex = Some ''Status'',
      col_props = [(''dataIndex'', PStr ''Status''), (''key'', PStr ''Status''), (''title'', PStr ''Status''),
        (''width'', PStr ''6em''), (''fixed'', PBool True), (''align'', PStr ''center''),
        (''sortDirections'', PVal (JArr [JStr ''descend'', JStr ''ascend'']))],
      sorter = Some (\<lambda>a b. js_minus (js_number (istatus a)) (js_number (istatus b))),
      render_cell = (\<lambda>row. cell [renderReadyIcon (ikey row \<in> set (terminating props)) (istatus row)])\<rparr>"

text \<open>\<open>environmentList[0]\<close> of the template of a listed row exists: \<open>instancesViews\<close> has read it
  (\<open>row_environment\<close>). \<open>lab_env\<close> is that environment.\<close>

definition lab_env :: "TemplateObj list \<Rightarrow> InstanceObj option \<Rightarrow> Environment option" where
  "lab_env ts lab =
     (case lab of None \<Rightarrow> None | Some l \<Rightarrow>
       (case lab_template ts l of None \<Rightarrow> None | Some t \<Rightarrow>
         (case environment (spec t) of Inl _ \<Rightarrow> None | Inr e \<Rightarrow> Some e)))"

definition url_attr :: "string option \<Rightarrow> (string \<times> 'm attr) list" where
  "url_attr u = (case u of None \<Rightarrow> [] | Some s \<Rightarrow> [(''href'', PStr s)])"

definition connect_cell :: "inst_props \<Rightarrow> instance_row \<Rightarrow> 'm nodes" where
  "connect_cell props row =
     (case find_lab (ikey row) (insts props) of
        None \<Rightarrow> []
      | Some lab \<Rightarrow>
          cell (case (lab_env (tmpls props) (Some lab), status lab) of
                  (Some e, Some st) \<Rightarrow>
                    if guiEnabled e = Some True \<and> phase st = Some ''VmiReady''
                    then [El ''a'' ((''target'', PStr ''_blank'') # url_attr (status_url st))
                           [icon_button (icon ''ExportOutlined'' 20 None) []]]
                    else []
                | _ \<Rightarrow> []))"

definition shutdown_button :: "InstanceObj \<Rightarrow> instances_msg vnode" where
  "shutdown_button lab =
     El ''Popconfirm'' [(''title'', PStr ''Shutdown VM?''), (''onConfirm'', POn (onConfirm_shutdown lab))]
       [icon_button (icon ''PauseCircleOutlined'' 20 (Some colorYellow)) []]"

definition startVM_button :: "InstanceObj \<Rightarrow> instances_msg vnode" where
  "startVM_button lab =
     tooltip ''Start VM?''
       [icon_button (icon ''PlayCircleOutlined'' 20 (Some colorBlue)) [(''onClick'', POn (onClick_startVM lab))]]"

definition file_browser :: "string \<Rightarrow> 'm vnode" where
  "file_browser url =
     tooltip ''Open file browser''
       [El ''a'' [(''target'', PStr ''_blank''), (''href'', PStr (url @ ''/mydrive/files''))]
         [icon_button (icon ''FolderOpenOutlined'' 20 None) []]]"

definition control_cell :: "inst_props \<Rightarrow> instance_row \<Rightarrow> instances_msg nodes" where
  "control_cell props row =
     cell (case find_lab (ikey row) (insts props) of
        None \<Rightarrow> []
      | Some lab \<Rightarrow>
          (case lab_env (tmpls props) (Some lab) of
             None \<Rightarrow> []
           | Some e \<Rightarrow>
               if persistent e = Some True
               then if lab_phase lab = Some ''VmiReady'' \<or> lab_phase lab = Some ''VmiOff''
                    then [if running (spec lab) = Some True then shutdown_button lab else startVM_button lab]
                    else []
               else if environmentType e = ''Container''
               then (case status lab of
                       Some st \<Rightarrow> if missing (status_url st) then [] else [file_browser (the (status_url st))]
                     | None \<Rightarrow> [])
               else []))"

definition destroy_cell :: "inst_props \<Rightarrow> instance_row \<Rightarrow> instances_msg nodes" where
  "destroy_cell props row =
     cell [El ''Popconfirm'' [(''title'', PStr ''Destroy VM?''),
             (''onConfirm'', POn (onConfirm_destroy (ikey row) (find_lab (ikey row) (insts props))))]
       [icon_button (icon ''DeleteOutlined'' 20 (Some colorRed)) []]]"

definition opt_text :: "string option \<Rightarrow> string" where
  "opt_text s = (case s of None \<Rightarrow> [] | Some t \<Rightarrow> t)"

definition user_column ::
    "(instance_row, 'm) search_props \<Rightarrow> (string \<Rightarrow> string \<Rightarrow> int) \<Rightarrow> inst_props \<Rightarrow> (instance_row, 'm) column" where
  "user_column search localeCompare props =
     (if inst_onProfessor props
      then search ''User'' renderInstances
             (text_column ''User'' [(''sortDirections'', PVal (JArr [JStr ''descend'', JStr ''ascend'']))]
               (\<lambda>row. opt_text (iuser row))
               (Some (\<lambda>a b. Some (localeCompare (opt_text (iuser a)) (opt_text (iuser b))))))
      else \<lparr>dataIndex = None, col_props = [], sorter = None, render_cell = (\<lambda>_. [])\<rparr>)"

definition age_column :: "(string \<Rightarrow> string \<Rightarrow> int) \<Rightarrow> (instance_row, 'm) column" where
  "age_column compareAge =
     \<lparr>dataIndex = Some ''Age'',
      col_props = [(''dataIndex'', PStr ''Age''), (''key'', PStr ''Age''), (''title'', PStr ''Age''),
        (''width'', PStr ''5em''), (''last'', PBool True)],
      sorter = Some (\<lambda>a b. Some (compareAge (iage a) (iage b))),
      render_cell = (\<lambda>row. cell (render_str (iage row)))\<rparr>"

definition instance_columns ::
    "(instance_row, instances_msg) search_props \<Rightarrow> (string \<Rightarrow> string \<Rightarrow> int) \<Rightarrow> (string \<Rightarrow> string \<Rightarrow> int) \<Rightarrow> inst_props \<Rightarrow>
     (instance_row, instances_msg) column list" where
  "instance_columns search localeCompare compareAge props =
     [status_column props,
      vm_type_column ivm_type,
      search ''Name'' renderInstances
        (text_column ''Name''
          [(''sortDirections'', PVal (JArr [JStr ''descend'', JStr ''ascend''])), (''defaultSortOrder'', PStr ''ascend'')]
          iname (Some (\<lambda>a b. Some (localeCompare (iname a) (iname b))))),
      user_column search localeCompare props,
      search ''URL'' renderInstances (text_column ''IP'' [] (\<lambda>row. opt_text (iip row)) None),
      action_column ''Connect'' None ''7em'' (connect_cell props),
      action_column ''Control'' None ''5em'' (control_cell props),
      action_column ''Destroy'' None ''5em'' (destroy_cell props),
      age_column compareAge]"

definition Instances ::
    "(instance_row, instances_msg) search_props \<Rightarrow> (string \<Rightarrow> string \<Rightarrow> int) \<Rightarrow> (string \<Rightarrow> string \<Rightarrow> int) \<Rightarrow> (string \<Rightarrow> string) \<Rightarrow>
     inst_props \<Rightarrow> inst_props \<Rightarrow> instances_msg vnode result" where
  "Instances search localeCompare compareAge calculateAge p q =
     bind_res (instancesViews calculateAge (inst_onProfessor p) (tmpls p) (insts p)) (\<lambda>rows.
       Inr (table_view (instance_columns search localeCompare compareAge q) rows (inst_loading p) ''No Running Labs''))"

subsection \<open>Handlers\<close>

definition with_running :: "bool \<Rightarrow> InstanceObj \<Rightarrow> InstanceObj" where
  "with_running b lab = lab\<lparr>spec := (spec lab)\<lparr>running := Some b\<rparr>\<rparr>"

definition set_running :: "InstanceObj \<Rightarrow> bool \<Rightarrow> InstanceObj list \<Rightarrow> InstanceObj list" where
  "set_running lab b xs = map (\<lambda>i. if i = lab then with_running b i else i) xs"

definition instances_handle :: "instances_msg \<Rightarrow> inst_props \<Rightarrow> inst_props \<times> api_call list result" where
  "instances_handle m p =
     (case m of
       onConfirm_shutdown lab \<Rightarrow>
         (p\<lparr>insts := set_running lab False (insts p)\<rparr>,
          Inr [UpdateGenericResource (selfLink (metadata lab)) (with_running False lab)])
     | onClick_startVM lab \<Rightarrow>
         (p\<lparr>insts := set_running lab True (insts p)\<rparr>,
          Inr [UpdateGenericResource (selfLink (metadata lab)) (with_running True lab)])
     | onConfirm_destroy key lab \<Rightarrow>
         (p\<lparr>terminating := terminating p @ [key]\<rparr>,
          (case lab of None \<Rightarrow> Inl TypeError | Some l \<Rightarrow> Inr [DeleteGenericResource (selfLink (metadata l))])))"

text \<open>Only the handler of the Destroy column sets state. A table is what it shows and the data behind it; every
  rendering, for whatever reason, shows the data of the moment.\<close>

definition sets_state :: "instances_msg \<Rightarrow> bool" where
  "sets_state m = (case m of onConfirm_destroy _ _ \<Rightarrow> True | _ \<Rightarrow> False)"

definition table_handle ::
    "instances_msg \<Rightarrow> inst_props \<times> inst_props \<Rightarrow> (inst_props \<times> inst_props) \<times> api_call list result" where
  "table_handle m t =
     (let (data, r) = instances_handle m (snd t)
      in ((if sets_state m then data else fst t, data), r))"

subsection \<open>Which instances are listed\<close>

definition listed :: "TemplateObj list \<Rightarrow> InstanceObj list \<Rightarrow> InstanceObj list" where
  "listed ts xs = filter (\<lambda>i. lab_template ts i \<noteq> None) xs"

lemma instancesViews_iff:
  "instancesViews calculateAge prof ts xs = Inr rows \<longleftrightarrow>
     list_all2 (\<lambda>i row. instance_row_of calculateAge prof i (the (lab_template ts i)) = Inr row) (listed ts xs) rows"
  by (induction xs arbitrary: rows)
    (auto simp: listed_def bind_res_Inr_iff list_all2_Cons1 split: option.splits)

lemma instance_row_key: "instance_row_of calculateAge prof i t = Inr row \<Longrightarrow> ikey row = m_name (metadata i)"
  by (auto simp: instance_row_of_def bind_res_Inr_iff)

lemma instancesViews_keys:
  "instancesViews calculateAge prof ts xs = Inr rows \<Longrightarrow> map ikey rows = map (\<lambda>i. m_name (metadata i)) (listed ts xs)"
  unfolding instancesViews_iff
  by (induction rule: list_all2_induct) (simp_all add: instance_row_key)

lemma row_environment:
  assumes "instancesViews calculateAge prof ts xs = Inr rows" and "i \<in> set (listed ts xs)"
  shows "\<exists>e. lab_env ts (Some i) = Some e"
proof -
  obtain row where "instance_row_of calculateAge prof i (the (lab_template ts i)) = Inr row"
    using assms by (auto simp: instancesViews_iff list_all2_conv_all_nth in_set_conv_nth)
  moreover obtain t where "lab_template ts i = Some t"
    using assms(2) by (auto simp: listed_def)
  ultimately show ?thesis
    by (auto simp: instance_row_of_def bind_res_Inr_iff lab_env_def)
qed

lemma instancesViews_total:
  assumes "\<And>t. t \<in> set ts \<Longrightarrow> environmentList (spec t) \<noteq> []"
  shows "\<exists>rows. instancesViews calculateAge prof ts xs = Inr rows"
proof (induction xs)
  case (Cons i xs)
  have "\<exists>row. instance_row_of calculateAge prof i t = Inr row" if "lab_template ts i = Some t" for t
    using find_template_key [of _ ts t] assms [of t] that
    by (auto simp: lab_template_def instance_row_of_def environment_def split: list.splits)
  with Cons show ?case
    by (fastforce split: option.splits)
qed simp

lemma find_lab_distinct:
  "distinct (map (\<lambda>i. m_name (metadata i)) xs) \<Longrightarrow> i \<in> set xs \<Longrightarrow> find_lab (m_name (metadata i)) xs = Some i"
  by (induction xs) (auto simp: find_lab_def)

text \<open>The table lists exactly the instances whose template is known, in their order, one row each:
  with templates that have an environment it renders, every row is the row of its instance and
  template, and instances of other templates are left out.\<close>

lemma listed_instances:
  assumes "\<And>t. t \<in> set ts \<Longrightarrow> environmentList (spec t) \<noteq> []"
  shows "\<exists>rows. instancesViews calculateAge prof ts xs = Inr rows
    \<and> map ikey rows = map (\<lambda>i. m_name (metadata i)) (listed ts xs)
    \<and> list_all2 (\<lambda>i row. instance_row_of calculateAge prof i (the (lab_template ts i)) = Inr row) (listed ts xs) rows"
  using instancesViews_total [OF assms] instancesViews_keys instancesViews_iff by blast

subsection \<open>What the table offers\<close>

definition controllable :: "TemplateObj list \<Rightarrow> InstanceObj \<Rightarrow> bool" where
  "controllable ts i \<longleftrightarrow> (case lab_env ts (Some i) of None \<Rightarrow> False | Some e \<Rightarrow> persistent e = Some True) \<and>
     (lab_phase i = Some ''VmiReady'' \<or> lab_phase i = Some ''VmiOff'')"

definition lab_controls :: "TemplateObj list \<Rightarrow> InstanceObj \<Rightarrow> instances_msg set" where
  "lab_controls ts i =
     (if controllable ts i
      then {if running (spec i) = Some True then onConfirm_shutdown i else onClick_startVM i} else {})"

lemma renderInstances_quiet [simp]: "all_handlers (renderInstances s i) = []"
  by (simp add: renderInstances_def)

lemma renderReadyIcon_quiet [simp]: "handlers (renderReadyIcon b ph) = []"
  by (simp add: renderReadyIcon_def Let_def)

lemma quiet_columns [simp]:
  "col_handlers rows (status_column props) = []"
  "col_handlers rows (age_column compareAge) = []"
  by (simp_all add: col_handlers_def status_column_def age_column_def)

lemma connect_cell_quiet [simp]: "all_handlers (connect_cell props row) = []"
  by (simp add: connect_cell_def url_attr_def split: option.splits)

lemma control_cell_handlers:
  "find_lab (ikey row) (insts props) = Some i \<Longrightarrow>
    set (all_handlers (control_cell props row)) = lab_controls (tmpls props) i"
  by (auto simp: control_cell_def lab_controls_def controllable_def shutdown_button_def startVM_button_def
      file_browser_def simp del: not_missing split: option.splits)

lemma destroy_cell_handlers [simp]:
  "all_handlers (destroy_cell props row) = [onConfirm_destroy (ikey row) (find_lab (ikey row) (insts props))]"
  by (simp add: destroy_cell_def)

lemma user_column_quiet: "quiet_search search \<Longrightarrow> col_handlers rows (user_column search localeCompare props) = []"
  by (cases "inst_onProfessor props") (simp_all add: user_column_def search_column_quiet, simp add: col_handlers_def)

lemma Instances_handlers:
  assumes "instancesViews calculateAge (inst_onProfessor p) (tmpls p) (insts p) = Inr rows" and "quiet_search search"
  shows "set (handlers (table_view (instance_columns search localeCompare compareAge q) rows b e)) =
    (\<Union>r\<in>set rows. set (all_handlers (control_cell q r)) \<union> set (all_handlers (destroy_cell q r)))"
  unfolding table_view_handlers instance_columns_def
  by (simp add: user_column_quiet [OF assms(2)] search_column_quiet [OF assms(2)]) blast

lemma Instances_total:
  assumes "\<And>t. t \<in> set (tmpls p) \<Longrightarrow> environmentList (spec t) \<noteq> []"
  shows "\<exists>v. Instances search localeCompare compareAge calculateAge p q = Inr v"
proof -
  obtain rows where "instancesViews calculateAge (inst_onProfessor p) (tmpls p) (insts p) = Inr rows"
    using instancesViews_total [OF assms] by blast
  then show ?thesis by (simp add: Instances_def)
qed

text \<open>A sample instance, and the table's services in the witnesses.\<close>

definition sample_instance :: "bool \<Rightarrow> string \<Rightarrow> InstanceObj" where
  "sample_instance b ph =
     \<lparr>apiVersion = ''crownlabs.polito.it/v1alpha2'', kind = ''Instance'',
      metadata = \<lparr>m_name = instance_name ''ase-lab1'' ''s1'' 42, m_namespace = Some ''tenant-s1'',
        selfLink = ''/i1'', creationTimestamp = ''t''\<rparr>,
      spec = \<lparr>templateRef = \<lparr>ref_name = ''ase-lab1'', ref_namespace = Some ''workspace-ase''\<rparr>,
        tenantRef = \<lparr>ref_name = ''s1'', ref_namespace = None\<rparr>, running = Some b\<rparr>,
      status = Some \<lparr>phase = Some ph, status_url = None, status_ip = None\<rparr>\<rparr>"

definition sample_inst_props :: "bool \<Rightarrow> string \<Rightarrow> inst_props" where
  "sample_inst_props b ph =
     \<lparr>insts = [sample_instance b ph], tmpls = [sample_template], inst_onProfessor = False, inst_loading = False, terminating = []\<rparr>"

lemma sample_inst_simps [simp]:
  "insts (sample_inst_props b ph) = [sample_instance b ph]" "tmpls (sample_inst_props b ph) = [sample_template]"
  "terminating (sample_inst_props b ph) = []"
  "lab_phase (sample_instance b ph) = Some ph" "running (spec (sample_instance b ph)) = Some b"
  "lab_template [sample_template] (sample_instance b ph) = Some sample_template"
  by (simp_all add: sample_inst_props_def sample_instance_def lab_phase_def lab_template_def find_template_def sample_template_def)

lemma sample_environment [simp]:
  "environmentList (spec sample_template) \<noteq> []"
  "lab_env [sample_template] (Some (sample_instance b ph)) = Some (hd (environmentList (spec sample_template)))"
  "persistent (hd (environmentList (spec sample_template))) = Some True"
  by (simp_all add: lab_env_def environment_def) (simp_all add: sample_template_def)

lemma listed_instances_witness:
  "\<exists>rows. instancesViews (\<lambda>t. t) False [sample_template] [sample_instance True ''VmiReady''] = Inr rows
    \<and> map ikey rows = [m_name (metadata (sample_instance True ''VmiReady''))]"
  using listed_instances [of "[sample_template]" "\<lambda>t. t" False "[sample_instance True ''VmiReady'']"]
  by (auto simp: listed_def)

text \<open>The instance that the buttons of a row act on: the first one with the name of the row.\<close>

definition acted_on :: "InstanceObj list \<Rightarrow> InstanceObj \<Rightarrow> InstanceObj" where
  "acted_on xs i = the (find_lab (m_name (metadata i)) xs)"

lemma find_lab_acted: "i \<in> set xs \<Longrightarrow> find_lab (m_name (metadata i)) xs = Some (acted_on xs i)"
  unfolding acted_on_def find_lab_def by (induction xs) auto

lemma acted_on_distinct: "distinct (map (\<lambda>i. m_name (metadata i)) xs) \<Longrightarrow> i \<in> set xs \<Longrightarrow> acted_on xs i = i"
  by (simp add: acted_on_def find_lab_distinct)

lemma table_messages:
  assumes "rendered inst_deps p q" and "quiet_search search"
    and "Instances search localeCompare compareAge calculateAge p q = Inr v"
  shows "set (handlers v) =
    (\<Union>i\<in>set (listed (tmpls p) (insts p)).
       insert (onConfirm_destroy (m_name (metadata i)) (Some (acted_on (insts p) i)))
         (lab_controls (tmpls p) (acted_on (insts p) i)))"
proof -
  obtain rows where rows: "instancesViews calculateAge (inst_onProfessor p) (tmpls p) (insts p) = Inr rows"
    and v: "v = table_view (instance_columns search localeCompare compareAge q) rows (inst_loading p) ''No Running Labs''"
    using assms(3) by (auto simp: Instances_def bind_res_Inr_iff)
  have q: "insts q = insts p" "tmpls q = tmpls p"
    using rendered_dep [OF assms(1)] by (simp_all add: inst_deps_def)
  define F where "F n = (case find_lab n (insts p) of None \<Rightarrow> {} | Some i \<Rightarrow>
    insert (onConfirm_destroy n (Some i)) (lab_controls (tmpls p) i))" for n
  have lab: "find_lab (m_name (metadata i)) (insts p) = Some (acted_on (insts p) i)" if "i \<in> set (listed (tmpls p) (insts p))" for i
    using that by (simp add: find_lab_acted listed_def)
  have keys: "(\<lambda>i. F (m_name (metadata i))) ` set (listed (tmpls p) (insts p)) = (\<lambda>r. F (ikey r)) ` set rows"
    by (rule key_image [OF instancesViews_keys [OF rows]])
  have found: "\<exists>i. find_lab (ikey r) (insts p) = Some i" if "r \<in> set rows" for r
    using key_image [OF instancesViews_keys [OF rows], of "\<lambda>n. n"] that lab by (metis (no_types, lifting) image_iff)
  have "set (all_handlers (control_cell q r)) \<union> set (all_handlers (destroy_cell q r)) = F (ikey r)"
    if "r \<in> set rows" for r
    using found [OF that] control_cell_handlers [of r q] by (auto simp: F_def q)
  then have "set (handlers v) = (\<Union>r\<in>set rows. F (ikey r))"
    unfolding v Instances_handlers [OF rows assms(2)] by simp
  also have "\<dots> = (\<Union>i\<in>set (listed (tmpls p) (insts p)). F (m_name (metadata i)))"
    using keys by (metis (no_types, lifting))
  finally show ?thesis
    by (simp add: F_def lab)
qed

text \<open>C20: whenever the table is rendered, the messages it can send are exactly these, for each listed
  instance: one to destroy, and one control when the machine is persistent and ready or off: to shut it
  down when it is set to run, to start it otherwise. They act on the first instance with the name of the
  row, which is the instance of the row when the provided names are distinct. The table of a professor
  has the instances of all namespaces, where they need not be: then the buttons of a later row of the
  name act on the instance of the first.\<close>
theorem instance_table_actions:
  assumes "rendered inst_deps p q" and "quiet_search search"
    and "Instances search localeCompare compareAge calculateAge p q = Inr v"
  shows "set (handlers v) =
    (\<Union>i\<in>set (listed (tmpls p) (insts p)).
       insert (onConfirm_destroy (m_name (metadata i)) (Some (acted_on (insts p) i)))
         (lab_controls (tmpls p) (acted_on (insts p) i)))
    \<and> (distinct (map (\<lambda>i. m_name (metadata i)) (insts p)) \<longrightarrow> (\<forall>i \<in> set (insts p). acted_on (insts p) i = i))"
  using table_messages [OF assms] acted_on_distinct by blast


theorem instance_table_actions_witness:
  "\<exists>v. Instances (\<lambda>name f c. c) (\<lambda>a b. 0) (\<lambda>a b. 0) (\<lambda>t. t)
      (sample_inst_props True ''VmiReady'') (sample_inst_props True ''VmiReady'') = Inr v \<and>
    onConfirm_shutdown (sample_instance True ''VmiReady'') \<in> set (handlers v)"
proof -
  obtain v where v: "Instances (\<lambda>name f c. c) (\<lambda>a b. 0) (\<lambda>a b. 0) (\<lambda>t. t)
      (sample_inst_props True ''VmiReady'') (sample_inst_props True ''VmiReady'') = Inr v"
    using Instances_total [of "sample_inst_props True ''VmiReady''"] by (simp, blast)
  show ?thesis
    using instance_table_actions [OF rendered.mount quiet_search_example v] v
    by (simp add: listed_def lab_controls_def controllable_def acted_on_def find_lab_def)
qed

subsection \<open>What the handlers do\<close>

lemma with_running_simps [simp]:
  "running (spec (with_running b i)) = Some b" "metadata (with_running b i) = metadata i"
  "status (with_running b i) = status i" "templateRef (spec (with_running b i)) = templateRef (spec i)"
  "with_running b (with_running c i) = with_running b i"
  by (simp_all add: with_running_def)

lemma with_running_id: "running (spec i) = Some b \<Longrightarrow> with_running b i = i"
  by (simp add: with_running_def)

lemma with_running_controllable [simp]: "controllable ts (with_running b i) = controllable ts i"
  by (simp add: controllable_def lab_env_def lab_template_def lab_phase_def)

lemma with_running_fresh:
  assumes "i \<in> set xs" and "distinct (map (\<lambda>i. m_name (metadata i)) xs)" and "running (spec i) = Some c" and "b \<noteq> c"
  shows "with_running b i \<notin> set xs"
  using find_lab_distinct [OF assms(2,1)] find_lab_distinct [OF assms(2), of "with_running b i"] assms(3,4)
  by (metis option.inject with_running_simps(1,2))

lemma set_running_undo:
  assumes "with_running b i \<notin> set xs" and "running (spec i) = Some c"
  shows "set_running (with_running b i) c (set_running i b xs) = xs"
  using assms by (auto simp: set_running_def with_running_id intro!: map_idI)

lemma set_running_names: "map (\<lambda>i. m_name (metadata i)) (set_running j b xs) = map (\<lambda>i. m_name (metadata i)) xs"
  by (auto simp: set_running_def)

lemma controllable_listed: "controllable ts i \<Longrightarrow> i \<in> set xs \<Longrightarrow> i \<in> set (listed ts xs)"
  by (auto simp: controllable_def listed_def lab_env_def split: option.splits)

text \<open>A rendered table offers the control of a controllable instance whose name is its own.\<close>

lemma control_is_offered:
  assumes "rendered inst_deps p q" and "quiet_search search"
    and "Instances search localeCompare compareAge calculateAge p q = Inr v"
    and "i \<in> set (insts p)" and "distinct (map (\<lambda>i. m_name (metadata i)) (insts p))" and "controllable (tmpls p) i"
  shows "(if running (spec i) = Some True then onConfirm_shutdown i else onClick_startVM i) \<in> set (handlers v)"
  using controllable_listed [OF assms(6,4)] assms(6)
  unfolding table_messages [OF assms(1-3)] by (fastforce simp: acted_on_distinct [OF assms(5,4)] lab_controls_def)




lemma terminating_grows: "set (terminating p) \<subseteq> set (terminating (fst (instances_handle m p)))"
  by (cases m) (auto simp: instances_handle_def)

text \<open>Confirming to destroy a listed instance deletes it by its link, and from then on, whatever else
  the user does in the table, its row shows the icon of a machine that is changing, in every later
  rendering, in whatever phase it is reported. Icons of other rows show their phase. The mark is never
  taken back.\<close>

lemma destroyed_row_is_marked:
  assumes "i \<in> set (insts p)"
  shows "let (p', r) = instances_handle (onConfirm_destroy (m_name (metadata i)) (Some i)) p;
             later = fold (\<lambda>m. fst \<circ> instances_handle m) ms p'
    in r = Inr [DeleteGenericResource (selfLink (metadata i))]
       \<and> set (terminating p') = insert (m_name (metadata i)) (set (terminating p))
       \<and> (\<forall>row. ikey row = m_name (metadata i) \<longrightarrow>
            render_cell (status_column later) row = cell [renderReadyIcon True None])
       \<and> (\<forall>row. ikey row \<notin> set (terminating later) \<longrightarrow>
            render_cell (status_column later) row = cell [renderReadyIcon False (istatus row)])"
proof -
  have "k \<in> set (terminating (fold (\<lambda>m. fst \<circ> instances_handle m) ms p'))" if "k \<in> set (terminating p')" for k p'
    using that terminating_grows by (intro fold_inv [where P = "\<lambda>p. k \<in> set (terminating p)"]) auto
  then show ?thesis
    by (simp add: instances_handle_def status_column_def renderReadyIcon_def Let_def)
qed

lemma destroyed_row_is_marked_witness:
  "snd (instances_handle (onConfirm_destroy (m_name (metadata (sample_instance True ''VmiReady'')))
     (Some (sample_instance True ''VmiReady''))) (sample_inst_props True ''VmiReady'')) =
   Inr [DeleteGenericResource (selfLink (metadata (sample_instance True ''VmiReady'')))]"
  using destroyed_row_is_marked [of "sample_instance True ''VmiReady''" "sample_inst_props True ''VmiReady''" "[]"]
  by (auto simp: Let_def case_prod_unfold)

text \<open>From start to listing: an instance created by \<open>startLab\<close> from a template of the table, once
  stored and reported by the API server, is listed under the name the user sees for that draw: the
  description of the template, a dash, the draw and the digit 1.\<close>

lemma started_lab_is_listed:
  assumes "t \<in> set ts" and "distinct (map (\<lambda>t. m_name (metadata t)) ts)" and "environmentList (spec t) \<noteq> []"
    and "m_name (metadata i) = m_name (metadata (new_lab t u ns r))" 
    and "templateRef (spec i) = templateRef (spec (new_lab t u ns r))"
    and "tenantRef (spec i) = tenantRef (spec (new_lab t u ns r))"
  shows "\<exists>row. instancesViews calculateAge prof ts [i] = Inr [row]
    \<and> ikey row = instance_name (m_name (metadata t)) u r
    \<and> iname row = description (spec t) @ '' - '' @ nat_digits r @ ''1''
    \<and> iuser row = (if prof then Some u else None)"
proof -
  have "lab_template ts i = Some t"
    using find_template_distinct [OF assms(2,1)] assms(5) by (simp add: lab_template_def new_lab_def)
  then show ?thesis
    using assms(3,4,5,6)
    by (simp add: instance_row_of_def environment_def new_lab_def instance_name_segment split: list.split)
qed

lemma started_lab_is_listed_witness:
  "\<exists>row. instancesViews (\<lambda>t. t) False [sample_template] [sample_instance True ''VmiReady''] = Inr [row] \<and>
     ikey row = instance_name ''ase-lab1'' ''s1'' 42"
proof -
  have "m_name (metadata sample_template) = ''ase-lab1''"
    by (simp add: sample_template_def)
  then show ?thesis
    using started_lab_is_listed [of sample_template "[sample_template]" "sample_instance True ''VmiReady''"
        "''s1''" "Some ''tenant-s1''" 42 "\<lambda>t. t" False]
    by (auto simp: sample_instance_def sample_template_def new_lab_def)
qed

end
