(* ===== verification/Dashboard_Form.thy ===== *)
theory Dashboard_Form
  imports Dashboard_Resources
begin

section \<open>dashboard: the form that creates templates\<close>

text \<open>
  \<open>dashboard/views/crownLabs/TemplateForm.js\<close>: the state of the form (React state and refs), its two
  effects, its rendering and \<open>addTemplate\<close>. The memory slider moves in half units, so \<open>memory\<close> counts
  halves of a gigabyte. A select can only send the values of its options and a slider the values of its
  scale; what is typed into the input is any of the texts \<open>typed\<close>.
\<close>

record form_state =
  courses :: "string list"
  selectedCourse :: "string option"
  images :: "(string \<times> string list) list"
  selectedImage :: "string option"
  versions :: "string list"
  selectedVersion :: jsval
  cpu :: nat
  cpuPerc :: nat
  memory :: nat
  description_ref :: string
  VMType :: "bool option"
  EnvType :: string
  registry :: string

definition form_init :: form_state where
  "form_init = \<lparr>courses = [], selectedCourse = None, images = [], selectedImage = None, versions = [],
     selectedVersion = JNull, cpu = 2, cpuPerc = 33, memory = 4, description_ref = [], VMType = None,
     EnvType = [], registry = []\<rparr>"

subsection \<open>Creating a template\<close>

definition course_namespace :: "string option \<Rightarrow> string" where
  "course_namespace c = ''workspace-'' @ (case c of None \<Rightarrow> ''null'' | Some s \<Rightarrow> s)"

definition labs_of :: "string option \<Rightarrow> TemplateObj list \<Rightarrow> TemplateObj list" where
  "labs_of c ts = filter (\<lambda>t. m_namespace (metadata t) = Some (course_namespace c) \<and>
     js_includes (m_name (metadata t)) ((case c of None \<Rightarrow> ''null'' | Some s \<Rightarrow> s) @ ''-lab'')) ts"

definition labNumber :: "string option \<Rightarrow> TemplateObj list \<Rightarrow> nat" where
  "labNumber c ts = length (labs_of c ts) + 1"

definition lab_name :: "string \<Rightarrow> nat \<Rightarrow> string" where
  "lab_name course n = course @ ''-lab'' @ nat_digits n"

definition version_text :: "jsval \<Rightarrow> string" where
  "version_text v = (case v of JStr s \<Rightarrow> s | JArr [] \<Rightarrow> [] | JNull \<Rightarrow> ''null'' | _ \<Rightarrow> ''undefined'')"

definition fields_missing :: "form_state \<Rightarrow> bool" where
  "fields_missing s \<longleftrightarrow>
     missing (selectedCourse s) \<or> missing (selectedImage s) \<or> \<not> js_truthy (selectedVersion s) \<or>
     description_ref s = [] \<or> VMType s = None"

definition template_item :: "string \<Rightarrow> string \<Rightarrow> nat \<Rightarrow> form_state \<Rightarrow> new_template" where
  "template_item course img n s =
     \<lparr>apiVersion = ''crownlabs.polito.it/v1alpha2'', kind = ''Template'',
      metadata = \<lparr>m_name = lab_name course n, m_namespace = Some (course_namespace (Some course))\<rparr>,
      spec = \<lparr>description = description_ref s, prettyName = description_ref s,
        spec_workspaceRef = \<lparr>ref_name = course, ref_namespace = None\<rparr>,
        environmentList =
          [\<lparr>env_label = lab_name course n,
            image = registry s @ ''/'' @ img @ '':'' @ version_text (selectedVersion s),
            environmentType = EnvType s, guiEnabled = VMType s, persistent = Some False,
            resources = \<lparr>res_cpu = cpu s, res_memory = halves_to_string (memory s) @ ''G'',
              reservedCPUPercentage = cpuPerc s\<rparr>\<rparr>]\<rparr>\<rparr>"

datatype add_outcome =
    Message_error string
  | Created api_call

definition addTemplate :: "TemplateObj list \<Rightarrow> form_state \<Rightarrow> add_outcome" where
  "addTemplate ts s =
     (let n = labNumber (selectedCourse s) ts
      in if fields_missing s then Message_error ''Please fill all the fields''
         else Created (CreateCustomResource ''crownlabs.polito.it'' ''v1alpha2''
                (Some (course_namespace (selectedCourse s))) ''templates''
                (NewTemplate (template_item (the (selectedCourse s)) (the (selectedImage s)) n s))))"

subsection \<open>Effects\<close>

text \<open>The effect on \<open>selectedImage\<close>.\<close>

definition image_effect :: "form_state \<Rightarrow> form_state result" where
  "image_effect s =
     (let s = s\<lparr>versions := [], selectedVersion := JArr []\<rparr>
      in if missing (selectedImage s) then Inr s
         else (case find (\<lambda>item. Some (fst item) = selectedImage s) (images s) of
                 None \<Rightarrow> Inl TypeError
               | Some item \<Rightarrow>
                   let s = s\<lparr>versions := fold (\<lambda>v prev. prev @ [v]) (snd item) (versions s)\<rparr>
                   in Inr (if length (snd item) = 1 then s\<lparr>selectedVersion := JStr (snd item ! 0)\<rparr> else s)))"

text \<open>The effect on \<open>props.templates\<close> asks for the list of images and collects the courses.\<close>

definition imagelist_path :: string where
  "imagelist_path = ''/apis/crownlabs.polito.it/v1alpha1/imagelists/crownlabs-virtual-machine-images''"

definition distinct_refs :: "TemplateObj list \<Rightarrow> string list" where
  "distinct_refs ts = fold (\<lambda>t ws.
     let w = ref_name (spec_workspaceRef (spec t)) in if w \<in> set ws then ws else ws @ [w]) ts []"

definition templates_effect :: "TemplateObj list \<Rightarrow> form_state \<Rightarrow> form_state \<times> api_call list" where
  "templates_effect ts s =
     (if ts \<noteq> []
      then let ws = distinct_refs ts;
               s = s\<lparr>courses := fold (\<lambda>w prev. prev @ [w]) ws []\<rparr>
           in if length ws = 1 then s\<lparr>selectedCourse := Some (ws ! 0)\<rparr> else s
      else s, [GetGenericResource imagelist_path])"

record ImageList =
  registryName :: string
  il_images :: "(string \<times> string list) list"

text \<open>The answer to the request: a failed one is ignored.\<close>

definition images_response :: "ImageList option \<Rightarrow> form_state \<Rightarrow> form_state" where
  "images_response res s =
     (case res of None \<Rightarrow> s
      | Some il \<Rightarrow> s\<lparr>registry := registryName il, images := fold (\<lambda>i prev. prev @ [i]) (il_images il) (images s)\<rparr>)"

definition form_mount :: "TemplateObj list \<Rightarrow> form_state result" where
  "form_mount ts = bind_res (image_effect form_init) (\<lambda>s. Inr (fst (templates_effect ts s)))"

subsection \<open>Rendering and handlers\<close>

datatype form_msg =
    setSelectedCourse string
  | setSelectedImage string
  | setSelectedVersion string
  | set_EnvType string
  | set_description string
  | set_VMType bool
  | setCpu nat
  | setCpuPerc nat
  | setMemory nat
  | form_cancel
  | form_ok

definition options_attr :: "string list \<Rightarrow> string \<times> 'm attr" where
  "options_attr vs = (''options'', PVal (JArr (map (\<lambda>v. JObj [(''value'', JStr v)]) vs)))"

definition opt_value :: "string option \<Rightarrow> jsval" where
  "opt_value s = (case s of None \<Rightarrow> JNull | Some t \<Rightarrow> JStr t)"

definition form_item :: "string \<Rightarrow> 'm nodes \<Rightarrow> 'm vnode" where
  "form_item label cs = El ''Form.Item'' [(''label'', PStr label)] cs"

definition width_style :: "string \<Rightarrow> string \<times> 'm attr" where
  "width_style w = (''style'', PVal (JObj [(''width'', JStr w)]))"

definition course_item :: "form_state \<Rightarrow> form_msg vnode" where
  "course_item s = form_item ''Course''
     [El ''Select'' ([options_attr (courses s), (''value'', PVal (opt_value (selectedCourse s))),
        (''placeholder'', PStr ''Code''), (''showSearch'', PBool True)] @
        calls ''onSelect'' setSelectedCourse (courses s)) []]"

definition image_item :: "form_state \<Rightarrow> form_msg vnode" where
  "image_item s = form_item ''Image''
     [El ''Input.Group'' [(''compact'', PBool True)]
       [El ''Select'' ([options_attr (map fst (images s)), (''value'', PVal (opt_value (selectedImage s))),
          width_style ''70%'', (''showSearch'', PBool True), (''placeholder'', PStr ''Name'')] @
          calls ''onSelect'' setSelectedImage (map fst (images s))) [],
        El ''Select'' ([options_attr (versions s), (''value'', PVal (selectedVersion s)),
          width_style ''30%'', (''showSearch'', PBool True), (''placeholder'', PStr ''Version'')] @
          calls ''onSelect'' setSelectedVersion (versions s)) []]]"

definition env_item :: "form_msg vnode" where
  "env_item = form_item ''Env Type''
     [El ''Select'' ((''placeholder'', PStr ''Environment Type'') #
        calls ''onSelect'' set_EnvType [''Container'', ''VirtualMachine''])
       [El ''Select.Option'' [(''value'', PStr ''Container'')] [Txt ''Container''],
        El ''Select.Option'' [(''value'', PStr ''VirtualMachine'')] [Txt ''Virtual Machine'']]]"

definition vm_item :: "string list \<Rightarrow> form_msg vnode" where
  "vm_item typed = form_item ''VM''
     [El ''Input.Group'' [(''compact'', PBool True)]
       [El ''Input'' ([(''placeholder'', PStr ''Description''), width_style ''70%''] @
          calls ''onChange'' set_description typed) [],
        El ''Select'' ([(''placeholder'', PStr ''Type''), width_style ''30%''] @
          calls ''onSelect'' set_VMType [False, True])
          [El ''Select.Option'' [(''value'', PBool False)] [El ''CodeOutlined'' [] [], Txt '' CLI''],
           El ''Select.Option'' [(''value'', PBool True)] [El ''DesktopOutlined'' [] [], Txt '' GUI'']]]]"

text \<open>A slider from \<open>lo\<close> to \<open>hi\<close> in units of its step.\<close>

definition slider :: "string \<Rightarrow> nat \<Rightarrow> nat \<Rightarrow> nat \<Rightarrow> (nat \<Rightarrow> string) \<Rightarrow> (nat \<Rightarrow> 'm) \<Rightarrow> (string \<times> 'm attr) list \<Rightarrow> 'm vnode" where
  "slider label lo hi v show msg ps = form_item label
     [El ''Slider'' ([(''min'', PStr (show lo)), (''max'', PStr (show hi)), (''defaultValue'', PStr (show v))] @ ps @
        calls ''onChange'' msg [lo..<Suc hi]) []]"

definition TemplateForm :: "string list \<Rightarrow> bool \<Rightarrow> form_state \<Rightarrow> form_msg nodes" where
  "TemplateForm typed visible s =
     [El ''Modal'' [(''title'', PStr ''Create new template''), (''visible'', PBool visible),
        (''onCancel'', POn form_cancel), (''onOk'', POn form_ok)]
       [El ''Form'' [(''labelCol'', PVal (JObj [(''span'', JNum 6)])), (''wrapperCol'', PVal (JObj [(''span'', JNum 18)]))]
         [course_item s, image_item s, env_item, vm_item typed,
          slider ''CPU (Cores)'' 1 4 (cpu s) nat_digits setCpu [(''dots'', PBool True)],
          slider ''Reserved CPU (%)'' 0 100 (cpuPerc s) nat_digits setCpuPerc [],
          slider ''Memory (GB)'' 1 16 (memory s) halves_to_string setMemory [(''step'', PStr ''0.5'')]]]]"

text \<open>The state after a handler and the effect it triggers. React skips an update to the same value.
  \<open>form_ok\<close> runs \<open>addTemplate\<close>, \<open>form_cancel\<close> closes the form of the home page: neither changes this
  state.\<close>

definition form_update :: "form_msg \<Rightarrow> form_state \<Rightarrow> form_state result" where
  "form_update m s =
     (case m of
       setSelectedCourse v \<Rightarrow> Inr (s\<lparr>selectedCourse := Some v\<rparr>)
     | setSelectedImage v \<Rightarrow>
         if selectedImage s = Some v then Inr s else image_effect (s\<lparr>selectedImage := Some v\<rparr>)
     | setSelectedVersion v \<Rightarrow> Inr (s\<lparr>selectedVersion := JStr v\<rparr>)
     | set_EnvType v \<Rightarrow> Inr (s\<lparr>EnvType := v\<rparr>)
     | set_description v \<Rightarrow> Inr (s\<lparr>description_ref := v\<rparr>)
     | set_VMType v \<Rightarrow> Inr (s\<lparr>VMType := Some v\<rparr>)
     | setCpu n \<Rightarrow> Inr (s\<lparr>cpu := n\<rparr>)
     | setCpuPerc n \<Rightarrow> Inr (s\<lparr>cpuPerc := n\<rparr>)
     | setMemory n \<Rightarrow> Inr (s\<lparr>memory := n\<rparr>)
     | form_cancel \<Rightarrow> Inr s
     | form_ok \<Rightarrow> Inr s)"

text \<open>The states of the form: after mounting, after handlers it has rendered, after a change of the
  templates of the page, after an answer to the request for images.\<close>

inductive form_run :: "form_state \<Rightarrow> bool" where
  mounted: "form_mount ts = Inr s \<Longrightarrow> form_run s"
| handled: "form_run s \<Longrightarrow> m \<in> set (all_handlers (TemplateForm typed visible s)) \<Longrightarrow> form_update m s = Inr s' \<Longrightarrow> form_run s'"
| templates_changed: "form_run s \<Longrightarrow> form_run (fst (templates_effect ts s))"
| images_arrived: "form_run s \<Longrightarrow> form_run (images_response res s)"

subsection \<open>Invariant of the form\<close>

lemma fold_snoc [simp]: "fold (\<lambda>x prev. prev @ [x]) xs ys = ys @ xs"
  by (induction xs arbitrary: ys) simp_all

lemma form_item_simps [simp]:
  "handlers (form_item l cs) = all_handlers cs"
  "prop_handlers (snd (options_attr vs)) = []" "prop_handlers (snd (width_style w)) = []"
  by (simp_all add: form_item_def options_attr_def width_style_def)

lemma slider_handlers [simp]:
  "concat (map (\<lambda>p. prop_handlers (snd p)) ps) = [] \<Longrightarrow> handlers (slider l lo hi v show msg ps) = map msg [lo..<Suc hi]"
  by (simp add: slider_def del: upt_Suc)

lemma TemplateForm_handlers:
  "set (all_handlers (TemplateForm typed visible s)) =
    {form_cancel, form_ok} \<union> setSelectedCourse ` set (courses s) \<union> setSelectedImage ` fst ` set (images s) \<union>
    setSelectedVersion ` set (versions s) \<union> set_EnvType ` {''Container'', ''VirtualMachine''} \<union>
    set_description ` set typed \<union> range set_VMType \<union>
    setCpu ` {1..4} \<union> setCpuPerc ` {0..100} \<union> setMemory ` {1..16}"
proof -
  have upt: "set [Suc 0..<5] = {1..4}" "set [0..<101] = {0..100}" "set [Suc 0..<17] = {1..16}"
    by auto
  show ?thesis
    by (simp add: TemplateForm_def course_item_def image_item_def env_item_def vm_item_def upt UNIV_bool
        image_image del: upt_Suc set_upt) blast
qed

definition image_known :: "form_state \<Rightarrow> bool" where
  "image_known s \<longleftrightarrow> (\<forall>v. selectedImage s = Some v \<longrightarrow> v \<in> fst ` set (images s))"

definition version_listed :: "form_state \<Rightarrow> bool" where
  "version_listed s \<longleftrightarrow> selectedVersion s = JArr [] \<or> (\<exists>v. selectedVersion s = JStr v \<and> v \<in> set (versions s))"

definition sliders_ok :: "form_state \<Rightarrow> bool" where
  "sliders_ok s \<longleftrightarrow> 1 \<le> cpu s \<and> cpu s \<le> 4 \<and> cpuPerc s \<le> 100 \<and> 1 \<le> memory s \<and> memory s \<le> 16"

definition form_inv :: "form_state \<Rightarrow> bool" where
  "form_inv s \<longleftrightarrow> image_known s \<and> version_listed s \<and> sliders_ok s \<and>
     EnvType s \<in> {[], ''Container'', ''VirtualMachine''}"

lemmas form_inv_defs = form_inv_def image_known_def version_listed_def sliders_ok_def

lemma image_effect_inv:
  assumes "image_known s" "sliders_ok s" "EnvType s \<in> {[], ''Container'', ''VirtualMachine''}"
  shows "\<exists>s'. image_effect s = Inr s' \<and> form_inv s'"
proof (cases "missing (selectedImage s)")
  case True
  then show ?thesis
    using assms by (simp add: image_effect_def form_inv_defs)
next
  case False
  then obtain v where v: "selectedImage s = Some v" and img: "v \<in> fst ` set (images s)"
    using assms(1) by (auto simp: image_known_def)
  have "find (\<lambda>item. Some (fst item) = selectedImage s) (images s) \<noteq> None"
    using img by (auto simp: find_None_iff v)
  then obtain item where "find (\<lambda>item. Some (fst item) = selectedImage s) (images s) = Some item"
    by blast
  with False show ?thesis
    using assms by (cases "snd item") (simp_all add: image_effect_def Let_def form_inv_defs)
qed

lemma templates_effect_keeps [simp]:
  "form_inv (fst (templates_effect ts s)) = form_inv s"
  by (simp add: templates_effect_def Let_def form_inv_defs)

lemma images_response_inv: "form_inv s \<Longrightarrow> form_inv (images_response res s)"
  by (cases res) (auto simp: images_response_def form_inv_defs)

lemma form_update_inv:
  assumes "form_inv s" and "m \<in> set (all_handlers (TemplateForm typed visible s))"
  shows "\<exists>s'. form_update m s = Inr s' \<and> form_inv s'"
proof (cases m)
  case (setSelectedImage v)
  then show ?thesis
    using assms image_effect_inv [of "s\<lparr>selectedImage := Some v\<rparr>"]
    by (auto simp: form_update_def TemplateForm_handlers form_inv_defs)
qed (use assms in \<open>auto simp: form_update_def TemplateForm_handlers form_inv_defs\<close>)

lemma form_mount_inv: "\<exists>s. form_mount ts = Inr s \<and> form_inv s"
  using image_effect_inv [of form_init]
  by (auto simp: form_mount_def image_known_def sliders_ok_def form_init_def)

lemma form_run_inv: "form_run s \<Longrightarrow> form_inv s"
proof (induction rule: form_run.induct)
  case (mounted ts s)
  then show ?case using form_mount_inv [of ts] by auto
next
  case (handled s m typed visible s')
  then show ?case using form_update_inv by fastforce
qed (simp_all add: images_response_inv)

subsection \<open>What the form creates\<close>

lemma addTemplate_Created:
  assumes "addTemplate ts s = Created c"
  obtains course img where "selectedCourse s = Some course" "selectedImage s = Some img" "\<not> fields_missing s"
    and "c = CreateCustomResource ''crownlabs.polito.it'' ''v1alpha2'' (Some (course_namespace (Some course))) ''templates''
      (NewTemplate (template_item course img (labNumber (Some course) ts) s))"
proof -
  have ok: "\<not> fields_missing s"
    using assms by (simp add: addTemplate_def Let_def split: if_splits)
  then obtain course img where sel: "selectedCourse s = Some course" "selectedImage s = Some img"
    by (auto simp: fields_missing_def)
  show thesis
    using that [OF sel ok] assms ok by (simp add: addTemplate_def sel)
qed

text \<open>In every state the form can reach, none of its handlers throws.\<close>

lemma form_never_throws:
  assumes "form_run s" and "m \<in> set (all_handlers (TemplateForm typed visible s))"
  shows "is_ok (form_update m s)"
  using form_update_inv [OF form_run_inv [OF assms(1)] assms(2)] unfolding is_ok_def by blast

text \<open>C22: In every state the form can reach, a template it creates has one environment whose resources are within the sliders: 1 to 4 cores, at most 100 percent reserved, 0.5
  to 8 gigabytes in halves. The cores always satisfy the resource definition; the definition rejects
  the template exactly when the slider for the reserved percentage stands at 0, which the form offers,
  or when no environment type has been chosen, which the form does not check.\<close>
theorem created_template_bounds:
  assumes "form_run s"
    and "addTemplate ts s = Created (CreateCustomResource g v ns plural (NewTemplate t))"
  shows "\<exists>e. environmentList (spec t) = [e]
      \<and> 1 \<le> res_cpu (resources e) \<and> res_cpu (resources e) \<le> 4
      \<and> reservedCPUPercentage (resources e) \<le> 100
      \<and> (\<exists>h. 1 \<le> h \<and> h \<le> 16 \<and> res_memory (resources e) = halves_to_string h @ ''G'')
      \<and> (crd_environment e \<longleftrightarrow> reservedCPUPercentage (resources e) \<noteq> 0 \<and> EnvType s \<noteq> [])"
proof -
  have inv: "form_inv s" using assms(1) by (rule form_run_inv)
  obtain course img where "t = template_item course img (labNumber (Some course) ts) s"
    using assms(2) by (auto elim: addTemplate_Created)
  then show ?thesis
    using inv by (auto simp: template_item_def form_inv_def sliders_ok_def crd_environment_def crd_resources_def)
qed

text \<open>The check for missing fields in a state the form can reach, when versions are not empty texts:
  creation is refused exactly when the course, the image, the description or the type is missing. The
  check of the version never fires, as the effect that resets the version sets it to an empty list,
  which counts as present: without a chosen version the form creates a template whose image ends in a
  colon.\<close>

lemma creation_check:
  assumes "form_run s" and "[] \<notin> set (versions s)"
  shows "(addTemplate ts s = Message_error ''Please fill all the fields'' \<longleftrightarrow>
      missing (selectedCourse s) \<or> missing (selectedImage s) \<or> description_ref s = [] \<or> VMType s = None)
    \<and> (selectedVersion s = JArr [] \<longrightarrow>
        (\<forall>course img n. \<exists>e. environmentList (spec (template_item course img n s)) = [e] \<and>
           image e = registry s @ ''/'' @ img @ '':''))"
proof -
  have "js_truthy (selectedVersion s)"
    using form_run_inv [OF assms(1)] assms(2) by (auto simp: form_inv_def version_listed_def)
  then show ?thesis
    by (simp add: addTemplate_def fields_missing_def Let_def template_item_def version_text_def)
qed

text \<open>A run of the form up to a creation, for the witnesses: one template of the course \<open>ase\<close>, one image
  with two versions, of which none is chosen.\<close>

definition sample_lab :: "string \<Rightarrow> TemplateObj" where
  "sample_lab n =
     \<lparr>apiVersion = ''crownlabs.polito.it/v1alpha2'', kind = ''Template'',
      metadata = \<lparr>m_name = n, m_namespace = Some ''workspace-ase'', selfLink = n, creationTimestamp = ''t''\<rparr>,
      spec = \<lparr>description = ''d'', prettyName = ''d'', spec_workspaceRef = \<lparr>ref_name = ''ase'', ref_namespace = None\<rparr>,
        environmentList = []\<rparr>\<rparr>"

definition sample_images :: ImageList where
  "sample_images = \<lparr>registryName = ''reg'', il_images = [(''ubuntu'', [''1'', ''2''])]\<rparr>"

definition filled_form :: form_state where
  "filled_form = form_init
     \<lparr>courses := [''ase''], selectedCourse := Some ''ase'', images := [(''ubuntu'', [''1'', ''2''])],
      selectedImage := Some ''ubuntu'', versions := [''1'', ''2''], selectedVersion := JArr [], description_ref := ''x'',
      VMType := Some True, registry := ''reg''\<rparr>"

lemma filled_form_run: "form_run filled_form"
proof -
  let ?s0 = "form_init\<lparr>courses := [''ase''], selectedCourse := Some ''ase'', versions := [], selectedVersion := JArr []\<rparr>"
  let ?s1 = "?s0\<lparr>registry := ''reg'', images := [(''ubuntu'', [''1'', ''2''])]\<rparr>"
  let ?s2 = "?s1\<lparr>selectedImage := Some ''ubuntu'', versions := [''1'', ''2'']\<rparr>"
  let ?s3 = "?s2\<lparr>description_ref := ''x''\<rparr>"
  have "form_mount [sample_lab []] = Inr ?s0"
    by (simp add: form_mount_def image_effect_def form_init_def templates_effect_def distinct_refs_def sample_lab_def
        Let_def missing_def)
  then have "form_run ?s0" by (rule form_run.mounted)
  then have "form_run (images_response (Some sample_images) ?s0)" by (rule form_run.images_arrived)
  then have "form_run ?s1" by (simp add: images_response_def sample_images_def form_init_def)
  then have "form_run ?s2"
    by (rule form_run.handled [where m = "setSelectedImage ''ubuntu''" and typed = "[]" and visible = True])
      (simp_all add: TemplateForm_handlers form_update_def image_effect_def form_init_def missing_def Let_def)
  then have "form_run ?s3"
    by (rule form_run.handled [where m = "set_description ''x''" and typed = "[''x'']" and visible = True])
      (simp_all add: TemplateForm_handlers form_update_def)
  then have "form_run (?s3\<lparr>VMType := Some True\<rparr>)"
    by (rule form_run.handled [where m = "set_VMType True" and typed = "[]" and visible = True])
      (simp_all add: TemplateForm_handlers form_update_def)
  then show ?thesis by (simp add: filled_form_def form_init_def)
qed

lemma filled_form_creates:
  "addTemplate ts filled_form = Created (CreateCustomResource ''crownlabs.polito.it'' ''v1alpha2''
     (Some (course_namespace (Some ''ase''))) ''templates''
     (NewTemplate (template_item ''ase'' ''ubuntu'' (labNumber (Some ''ase'') ts) filled_form)))"
  by (simp add: addTemplate_def fields_missing_def filled_form_def missing_def)

theorem created_template_bounds_witness:
  "\<exists>e. environmentList (spec (template_item ''ase'' ''ubuntu'' (labNumber (Some ''ase'') []) filled_form)) = [e]
     \<and> \<not> crd_environment e"
  using created_template_bounds [OF filled_form_run filled_form_creates, of "[]"]
  by (auto simp: filled_form_def form_init_def)

lemma creation_check_witness:
  "addTemplate [] filled_form \<noteq> Message_error ''Please fill all the fields'' \<and> selectedVersion filled_form = JArr []"
proof -
  have "[] \<notin> set (versions filled_form)" by (simp add: filled_form_def)
  from creation_check [OF filled_form_run this, of "[]"] show ?thesis
    by (simp add: filled_form_def form_init_def missing_def)
qed

subsection \<open>Numbering of labs\<close>

text \<open>The labs of a course are numbered without a gap: their names are those of 1 to n, each once.\<close>

definition numbered :: "string \<Rightarrow> TemplateObj list \<Rightarrow> bool" where
  "numbered course ts \<longleftrightarrow> distinct (map (\<lambda>t. m_name (metadata t)) (labs_of (Some course) ts)) \<and>
     (\<lambda>t. m_name (metadata t)) ` set (labs_of (Some course) ts) = lab_name course ` {1..length (labs_of (Some course) ts)}"

lemma lab_name_inject [simp]: "lab_name c m = lab_name c n \<longleftrightarrow> m = n"
  by (simp add: lab_name_def)

text \<open>A stored template in the namespace of a course with a lab name of it is one of its labs.\<close>

definition is_lab :: "string \<Rightarrow> nat \<Rightarrow> TemplateObj \<Rightarrow> bool" where
  "is_lab course n t \<longleftrightarrow> m_name (metadata t) = lab_name course n \<and>
     m_namespace (metadata t) = Some (course_namespace (Some course))"

lemma labs_of_snoc: "is_lab course n t \<Longrightarrow> labs_of (Some course) (ts @ [t]) = labs_of (Some course) ts @ [t]"
  by (auto simp: labs_of_def is_lab_def js_includes_sublist lab_name_def intro: prefix_imp_sublist)

lemma labs_of_delete:
  "distinct (map (\<lambda>t. m_name (metadata t)) (labs_of (Some course) ts)) \<Longrightarrow> t \<in> set (labs_of (Some course) ts) \<Longrightarrow>
    length (labs_of (Some course) (filter (\<lambda>u. u \<noteq> t) ts)) = length (labs_of (Some course) ts) - 1"
proof -
  assume d: "distinct (map (\<lambda>t. m_name (metadata t)) (labs_of (Some course) ts))" and t: "t \<in> set (labs_of (Some course) ts)"
  have "labs_of (Some course) (filter (\<lambda>u. u \<noteq> t) ts) = remove1 t (labs_of (Some course) ts)"
    using d distinct_remove1_removeAll [of "labs_of (Some course) ts" t]
    by (simp add: distinct_map) (simp add: labs_of_def removeAll_filter_not_eq conj_commute conj_left_commute eq_commute)
  then show ?thesis
    using t by (simp add: length_remove1)
qed

lemma numbered_delete_keeps_last:
  assumes "numbered course ts" and "is_lab course k t" and "t \<in> set ts" and "k < length (labs_of (Some course) ts)"
  shows "\<exists>u \<in> set (filter (\<lambda>u. u \<noteq> t) ts). is_lab course (length (labs_of (Some course) ts)) u"
proof -
  let ?n = "length (labs_of (Some course) ts)"
  have "lab_name course ?n \<in> (\<lambda>t. m_name (metadata t)) ` set (labs_of (Some course) ts)"
    using assms(1,4) by (auto simp: numbered_def)
  then obtain u where "u \<in> set (labs_of (Some course) ts)" and "m_name (metadata u) = lab_name course ?n"
    by auto
  then show ?thesis
    using assms(2,4) by (auto simp: labs_of_def is_lab_def)
qed

text \<open>Names of created templates. While the labs of a course are numbered without a gap, the name of
  the next template is not taken in its namespace, and once it is stored the numbering has no gap
  again. After the deletion of any lab but the last, the form gives the next template the number of
  labs left plus one, which is the name of the last lab: a name that is taken.\<close>

lemma next_lab_name:
  assumes "numbered course ts"
  shows "let n = labNumber (Some course) ts
    in (\<forall>t \<in> set ts. m_namespace (metadata t) = Some (course_namespace (Some course)) \<longrightarrow>
          m_name (metadata t) \<noteq> m_name (metadata (template_item course img n s)))
      \<and> (\<forall>t. is_lab course n t \<longrightarrow> numbered course (ts @ [t]))
      \<and> (\<forall>t k. t \<in> set ts \<and> is_lab course k t \<and> k < n - 1 \<longrightarrow>
          (let ts' = filter (\<lambda>u. u \<noteq> t) ts
           in \<exists>u \<in> set ts'. m_namespace (metadata u) = Some (course_namespace (Some course)) \<and>
                m_name (metadata u) = m_name (metadata (template_item course img (labNumber (Some course) ts') s))))"
proof -
  let ?labs = "labs_of (Some course) ts" and ?n = "labNumber (Some course) ts"
  have names: "(\<lambda>t. m_name (metadata t)) ` set ?labs = lab_name course ` {1..length ?labs}"
    and d: "distinct (map (\<lambda>t. m_name (metadata t)) ?labs)"
    using assms by (simp_all add: numbered_def)
  have fresh: "m_name (metadata t) \<noteq> lab_name course ?n"
    if "t \<in> set ts" "m_namespace (metadata t) = Some (course_namespace (Some course))" for t
  proof
    assume n: "m_name (metadata t) = lab_name course ?n"
    then have "t \<in> set ?labs"
      using that by (auto simp: labs_of_def js_includes_sublist lab_name_def intro: prefix_imp_sublist)
    then have "lab_name course ?n \<in> lab_name course ` {1..length ?labs}"
      using names n by (metis imageI)
    then show False by (auto simp: labNumber_def)
  qed
  have again: "numbered course (ts @ [t])" if "is_lab course ?n t" for t
  proof -
    have "lab_name course ?n \<notin> lab_name course ` {1..length ?labs}"
      by (auto simp: labNumber_def)
    then show ?thesis
      using that names d
      by (auto simp: numbered_def labs_of_snoc [OF that] is_lab_def labNumber_def atLeastAtMostSuc_conv simp flip: names)
  qed
  have taken: "\<exists>u \<in> set (filter (\<lambda>u. u \<noteq> t) ts). m_namespace (metadata u) = Some (course_namespace (Some course)) \<and>
      m_name (metadata u) = lab_name course (labNumber (Some course) (filter (\<lambda>u. u \<noteq> t) ts))"
    if t: "t \<in> set ts" "is_lab course k t" "k < ?n - 1" for t k
  proof -
    have "t \<in> set ?labs"
      using t(1,2) by (auto simp: labs_of_def is_lab_def js_includes_sublist lab_name_def intro: prefix_imp_sublist)
    then show ?thesis
      using numbered_delete_keeps_last [OF assms t(2,1)] labs_of_delete [OF d] t(3)
      by (auto simp: labNumber_def is_lab_def)
  qed
  show ?thesis
    using fresh again taken by (simp add: Let_def template_item_def) blast
qed

text \<open>Courses with labs numbered 1 and 2, for the witness.\<close>

lemma sample_numbered: "numbered ''ase'' [sample_lab ''ase-lab1'', sample_lab ''ase-lab2'']"
proof -
  have d: "nat_digits 1 = ''1''" "nat_digits 2 = ''2''"
    by (simp_all add: nat_digits.simps char_of_def bit_0)
  have l: "labs_of (Some ''ase'') [sample_lab ''ase-lab1'', sample_lab ''ase-lab2''] = [sample_lab ''ase-lab1'', sample_lab ''ase-lab2'']"
    by (simp add: labs_of_def sample_lab_def course_namespace_def)
  have "{1..length [sample_lab ''ase-lab1'', sample_lab ''ase-lab2'']} = {1, 2}" by auto
  then show ?thesis
    unfolding numbered_def l by (simp add: sample_lab_def lab_name_def d d(1) [simplified])
qed

lemma next_lab_name_witness:
  "let left = filter (\<lambda>u. u \<noteq> sample_lab ''ase-lab1'') [sample_lab ''ase-lab1'', sample_lab ''ase-lab2'']
   in \<exists>u \<in> set left. m_name (metadata u) =
        m_name (metadata (template_item ''ase'' ''ubuntu'' (labNumber (Some ''ase'') left) filled_form))"
proof -
  have "is_lab ''ase'' 1 (sample_lab ''ase-lab1'')"
    by (simp add: is_lab_def sample_lab_def course_namespace_def lab_name_def nat_digits.simps char_of_def bit_0)
  moreover have "labNumber (Some ''ase'') [sample_lab ''ase-lab1'', sample_lab ''ase-lab2''] = 3"
    by (simp add: labNumber_def labs_of_def sample_lab_def course_namespace_def)
  ultimately have "sample_lab ''ase-lab1'' \<in> set [sample_lab ''ase-lab1'', sample_lab ''ase-lab2''] \<and>
      is_lab ''ase'' 1 (sample_lab ''ase-lab1'') \<and>
      1 < labNumber (Some ''ase'') [sample_lab ''ase-lab1'', sample_lab ''ase-lab2''] - 1"
    by simp
  from next_lab_name [OF sample_numbered, of "''ubuntu''" filled_form, unfolded Let_def,
      THEN conjunct2, THEN conjunct2, rule_format, OF this]
  show ?thesis unfolding Let_def by blast
qed

subsection \<open>Courses\<close>

lemma distinct_refs_fold:
  "fold (\<lambda>t ws. let w = f t in if w \<in> set ws then ws else ws @ [w]) ts ws =
     ws @ rev (remdups (rev (filter (\<lambda>w. w \<notin> set ws) (map f ts))))"
proof (induction ts arbitrary: ws rule: rev_induct)
  case (snoc t ts)
  then show ?case by (auto simp: Let_def)
qed simp

lemma single_remdups: "x \<in> set xs \<Longrightarrow> length (remdups xs) = 1 \<longleftrightarrow> (\<forall>y \<in> set xs. y = x)"
  by (auto simp: length_remdups_card_conv card_1_singleton_iff)

text \<open>The courses the form offers after its effect on the templates are the workspaces of the
  templates, each once, in the order of their first template; a single one is selected. Without
  templates courses and selection stay as they were.\<close>

lemma offered_courses:
  "courses (fst (templates_effect ts s)) =
     (if ts = [] then courses s
      else rev (remdups (rev (map (\<lambda>t. ref_name (spec_workspaceRef (spec t))) ts))))
   \<and> selectedCourse (fst (templates_effect ts s)) =
     (if ts \<noteq> [] \<and> (\<lambda>t. ref_name (spec_workspaceRef (spec t))) ` set ts = {ref_name (spec_workspaceRef (spec (hd ts)))}
      then Some (ref_name (spec_workspaceRef (spec (hd ts)))) else selectedCourse s)"
proof -
  let ?f = "\<lambda>t :: TemplateObj. ref_name (spec_workspaceRef (spec t))"
  have refs: "distinct_refs ts = rev (remdups (rev (map ?f ts)))"
    using distinct_refs_fold [of ?f ts "[]"] by (simp add: distinct_refs_def)
  have single: "length (distinct_refs ts) = 1 \<longleftrightarrow> ts \<noteq> [] \<and> ?f ` set ts = {?f (hd ts)}"
    unfolding refs using single_remdups [of "?f (hd ts)" "rev (map ?f ts)"] by (cases ts) auto
  have first: "distinct_refs ts ! 0 = ?f (hd ts)" if "length (distinct_refs ts) = 1"
  proof -
    have "set (distinct_refs ts) = ?f ` set ts" by (simp add: refs)
    with that show ?thesis by (cases ts; cases "distinct_refs ts") auto
  qed
  have "courses (fst (templates_effect ts s)) = (if ts = [] then courses s else distinct_refs ts)"
    by (simp add: templates_effect_def Let_def)
  moreover have "selectedCourse (fst (templates_effect ts s)) =
      (if ts \<noteq> [] \<and> length (distinct_refs ts) = 1 then Some (distinct_refs ts ! 0) else selectedCourse s)"
    by (simp add: templates_effect_def Let_def)
  ultimately show ?thesis
    using single first by (simp only: refs if_cancel) (metis (no_types, lifting))
qed

text \<open>The images are asked for again on every change of the templates and appended: a second answer lists
  every image twice.\<close>

lemma images_repeated:
  "images (images_response (Some il) (images_response (Some il) s)) = images s @ il_images il @ il_images il"
  by (simp add: images_response_def)

end
