(* ===== verification/Dashboard_Home.thy ===== *)
theory Dashboard_Home
  imports Dashboard_Instances Dashboard_Form "HOL-Library.Multiset"
begin

section \<open>dashboard: the home page\<close>

text \<open>
  \<open>dashboard/views/crownLabs/CrownLabsHome.js\<close>: the page that loads the tenant, then the templates of
  the tenant's workspaces and the instances, and shows the two tables and the form. The page is a
  machine driven by events: answers to the requests it has sent (in any order, each successful or
  failed), values the API service passes to the setters the page has given it (\<open>Watch_\<dots>\<close>), and the
  user's clicks. Each event runs its callback and the effects on the state it changes. \<open>prof\<close> tells
  whether the path is \<open>/professor\<close>; \<open>user\<close> is the user of the parsed token, if there is one.
\<close>

datatype request =
    ReqTenant string
  | ReqTemplates string
  | ReqInstances string

record home_state =
  loading :: bool
  openCreate :: bool
  h_templates :: "TemplateObj list"
  h_instances :: "InstanceObj list"
  h_tenants :: "TenantObj list"
  instancesProfessor :: "InstanceObj list"
  pending :: "request list"
  api_log :: "api_call list"
  errors :: "string list"

definition home_init :: home_state where
  "home_init = \<lparr>loading = True, openCreate = False, h_templates = [], h_instances = [], h_tenants = [],
     instancesProfessor = [], pending = [], api_log = [], errors = []\<rparr>"

definition onProfessor_path :: "string \<Rightarrow> bool" where
  "onProfessor_path pathname \<longleftrightarrow> pathname = ''/professor''"

subsection \<open>Requests\<close>

fun request_path :: "request \<Rightarrow> string" where
  "request_path (ReqTenant u) = ''/apis/crownlabs.polito.it/v1alpha1/tenants/'' @ u"
| "request_path (ReqTemplates w) =
     ''/apis/crownlabs.polito.it/v1alpha2/namespaces/workspace-'' @ w @ ''/templates''"
| "request_path (ReqInstances p) = p"

definition all_instances_path :: string where
  "all_instances_path = ''/apis/crownlabs.polito.it/v1alpha2/instances''"

definition own_instances_path :: "string option \<Rightarrow> string" where
  "own_instances_path ns = ''/apis/crownlabs.polito.it/v1alpha2/namespaces/'' @ js_string ns @ ''/instances''"

text \<open>\<open>window.api.getGenericResource\<close>\<close>

definition getGenericResource :: "request \<Rightarrow> home_state \<Rightarrow> home_state" where
  "getGenericResource r s =
     s\<lparr>pending := pending s @ [r], api_log := api_log s @ [GetGenericResource (request_path r)]\<rparr>"

definition setNamespace :: "string option \<Rightarrow> home_state \<Rightarrow> home_state" where
  "setNamespace ns s = s\<lparr>api_log := api_log s @ [SetNamespace ns]\<rparr>"

subsection \<open>Effects\<close>

text \<open>The effect on \<open>instances\<close>: the instances of the professor's templates, by two nested loops.\<close>

definition instances_of_templates :: "TemplateObj list \<Rightarrow> InstanceObj list \<Rightarrow> InstanceObj list" where
  "instances_of_templates ts is =
     fold (\<lambda>i ws. fold (\<lambda>t ws.
       if ref_name (templateRef (spec i)) = m_name (metadata t) then ws @ [i] else ws) ts ws) is []"

definition instances_effect :: "bool \<Rightarrow> home_state \<Rightarrow> home_state" where
  "instances_effect prof s =
     (if prof \<and> length (h_instances s) > 0
      then s\<lparr>instancesProfessor := instances_of_templates (h_templates s) (h_instances s)\<rparr> else s)"

text \<open>The effect on \<open>tenants\<close>.\<close>

definition request_templates :: "TenantWorkspaceEntry \<Rightarrow> home_state \<Rightarrow> home_state" where
  "request_templates w s = getGenericResource (ReqTemplates (ref_name (entry_ref w))) (s\<lparr>loading := True\<rparr>)"

definition tenants_effect :: "bool \<Rightarrow> home_state \<Rightarrow> home_state result" where
  "tenants_effect prof s =
     (case h_tenants s of
        [tenant] \<Rightarrow>
          if prof
          then let s = setNamespace (Some ''all namespaces'') s
               in (case workspaces tenant of
                     None \<Rightarrow> Inl TypeError
                   | Some ws \<Rightarrow>
                       let managed = filter (\<lambda>w. entry_role w = ''manager'') ws
                       in Inr (if length managed > 0 then fold request_templates managed s else s\<lparr>loading := False\<rparr>))
          else bind_res (tenant_namespace tenant) (\<lambda>ns.
               let s = setNamespace ns s
               in (case workspaces tenant of
                     None \<Rightarrow> Inl TypeError
                   | Some ws \<Rightarrow>
                       Inr (getGenericResource (ReqInstances (own_instances_path ns)) (fold request_templates ws s))))
      | _ \<Rightarrow> Inr s)"

text \<open>The effect of mounting, and its clean-up.\<close>

definition mount_effect :: "string option \<Rightarrow> home_state \<Rightarrow> home_state" where
  "mount_effect user s =
     (case user of
        Some u \<Rightarrow> getGenericResource (ReqTenant u) s
      | None \<Rightarrow> s\<lparr>loading := False, errors := errors s @ [''Impossible to parse token'']\<rparr>)"

definition home_mount :: "bool \<Rightarrow> string option \<Rightarrow> home_state result" where
  "home_mount prof user =
     bind_res (tenants_effect prof (instances_effect prof home_init)) (\<lambda>s. Inr (mount_effect user s))"

definition home_unmount :: "home_state \<Rightarrow> home_state" where
  "home_unmount s = s\<lparr>api_log := api_log s @ [AbortWatch ''instances'', AbortWatch ''templates'', AbortWatch ''tenants'']\<rparr>"

subsection \<open>Events\<close>

datatype home_event =
    Tenant_ok TenantObj
  | Tenant_failed
  | Templates_ok string "TemplateObj list"
  | Templates_failed string
  | Instances_ok string "InstanceObj list"
  | Instances_failed string
  | Watch_tenants "TenantObj list"
  | Watch_templates "TemplateObj list"
  | Watch_instances "InstanceObj list"
  | setOpenCreate bool
  | Lab_changed instances_msg

fun answers :: "string \<Rightarrow> home_event \<Rightarrow> request option" where
  "answers u (Tenant_ok t) = Some (ReqTenant u)"
| "answers u Tenant_failed = Some (ReqTenant u)"
| "answers u (Templates_ok w ts) = Some (ReqTemplates w)"
| "answers u (Templates_failed w) = Some (ReqTemplates w)"
| "answers u (Instances_ok p is) = Some (ReqInstances p)"
| "answers u (Instances_failed p) = Some (ReqInstances p)"
| "answers u _ = None"

definition setTenants :: "bool \<Rightarrow> TenantObj list \<Rightarrow> home_state \<Rightarrow> home_state result" where
  "setTenants prof ts s = tenants_effect prof (s\<lparr>h_tenants := ts\<rparr>)"

definition setInstances :: "bool \<Rightarrow> InstanceObj list \<Rightarrow> home_state \<Rightarrow> home_state" where
  "setInstances prof is s = instances_effect prof (s\<lparr>h_instances := is\<rparr>)"

text \<open>A lab changed through the table of instances: the objects are shared between the lists. No state is set,
  so the tables show the change when they are rendered next.\<close>

definition lab_changed :: "instances_msg \<Rightarrow> home_state \<Rightarrow> home_state" where
  "lab_changed m s =
     (case m of
        onConfirm_shutdown lab \<Rightarrow>
          s\<lparr>h_instances := set_running lab False (h_instances s),
            instancesProfessor := set_running lab False (instancesProfessor s)\<rparr>
      | onClick_startVM lab \<Rightarrow>
          s\<lparr>h_instances := set_running lab True (h_instances s),
            instancesProfessor := set_running lab True (instancesProfessor s)\<rparr>
      | onConfirm_destroy key lab \<Rightarrow> s)"

fun home_next :: "bool \<Rightarrow> string \<Rightarrow> home_event \<Rightarrow> home_state \<Rightarrow> home_state result" where
  "home_next prof u (Tenant_ok t) s = setTenants prof [t] s"
| "home_next prof u Tenant_failed s =
     Inr (s\<lparr>loading := False, errors := errors s @ [''Failed to get tenant '' @ u]\<rparr>)"
| "home_next prof u (Templates_ok w ts) s =
     (let s = s\<lparr>h_templates := h_templates s @ ts, loading := False\<rparr>
      in Inr (if prof then getGenericResource (ReqInstances all_instances_path) s else s))"
| "home_next prof u (Templates_failed w) s = Inr (s\<lparr>loading := False\<rparr>)"
| "home_next prof u (Instances_ok p is) s = Inr (setInstances prof is s)"
| "home_next prof u (Instances_failed p) s = Inr (s\<lparr>loading := False\<rparr>)"
| "home_next prof u (Watch_tenants ts) s = setTenants prof ts s"
| "home_next prof u (Watch_templates ts) s = Inr (s\<lparr>h_templates := ts\<rparr>)"
| "home_next prof u (Watch_instances is) s = Inr (setInstances prof is s)"
| "home_next prof u (setOpenCreate b) s = Inr (s\<lparr>openCreate := b\<rparr>)"
| "home_next prof u (Lab_changed m) s = Inr (lab_changed m s)"

text \<open>An answer needs its request. Which of the user's clicks are possible is not a matter of this machine but
  of what the page renders (\<open>Dashboard_View\<close>).\<close>

definition home_enabled :: "string \<Rightarrow> home_event \<Rightarrow> home_state \<Rightarrow> bool" where
  "home_enabled u ev s \<longleftrightarrow> (case answers u ev of Some r \<Rightarrow> r \<in> set (pending s) | None \<Rightarrow> True)"

definition settle :: "request option \<Rightarrow> home_state \<Rightarrow> home_state" where
  "settle r s = (case r of None \<Rightarrow> s | Some q \<Rightarrow> s\<lparr>pending := remove1 q (pending s)\<rparr>)"

inductive home_step :: "bool \<Rightarrow> string \<Rightarrow> home_state \<Rightarrow> home_event \<Rightarrow> home_state \<Rightarrow> bool" for prof :: bool and u :: string where
  step: "home_enabled u ev s \<Longrightarrow> home_next prof u ev (settle (answers u ev) s) = Inr s' \<Longrightarrow> home_step prof u s ev s'"

inductive_simps home_step_iff: "home_step prof u s ev s'"

text \<open>Running a list of events.\<close>

fun home_exec :: "bool \<Rightarrow> string \<Rightarrow> home_event list \<Rightarrow> home_state \<Rightarrow> home_state result" where
  "home_exec prof u [] s = Inr s"
| "home_exec prof u (ev # evs) s =
     (if home_enabled u ev s
      then bind_res (home_next prof u ev (settle (answers u ev) s)) (home_exec prof u evs) else Inl (Error []))"

lemma home_exec_run: "home_exec prof u evs s = Inr s' \<Longrightarrow> event_run (home_step prof u) s evs s'"
proof (induction evs arbitrary: s)
  case Nil
  then show ?case by (simp add: event_run.idle)
next
  case (Cons ev evs)
  then show ?case
    by (auto simp: bind_res_Inr_iff split: if_splits intro: event_run_Cons home_step.step)
qed

subsection \<open>What effects change\<close>

lemma getGenericResource_simps [simp]:
  "pending (getGenericResource r s) = pending s @ [r]" "loading (getGenericResource r s) = loading s"
  "h_templates (getGenericResource r s) = h_templates s" "h_instances (getGenericResource r s) = h_instances s"
  "h_tenants (getGenericResource r s) = h_tenants s" "openCreate (getGenericResource r s) = openCreate s"
  "instancesProfessor (getGenericResource r s) = instancesProfessor s"
  by (simp_all add: getGenericResource_def)

lemma setNamespace_simps [simp]:
  "pending (setNamespace ns s) = pending s" "loading (setNamespace ns s) = loading s"
  "h_templates (setNamespace ns s) = h_templates s" "h_instances (setNamespace ns s) = h_instances s"
  "h_tenants (setNamespace ns s) = h_tenants s" "openCreate (setNamespace ns s) = openCreate s"
  "instancesProfessor (setNamespace ns s) = instancesProfessor s"
  by (simp_all add: setNamespace_def)

lemma request_templates_fold [simp]:
  "pending (fold request_templates ws s) = pending s @ map (\<lambda>w. ReqTemplates (ref_name (entry_ref w))) ws"
  "loading (fold request_templates ws s) = (ws \<noteq> [] \<or> loading s)"
  "h_templates (fold request_templates ws s) = h_templates s"
  "h_instances (fold request_templates ws s) = h_instances s"
  "h_tenants (fold request_templates ws s) = h_tenants s"
  "openCreate (fold request_templates ws s) = openCreate s"
  "instancesProfessor (fold request_templates ws s) = instancesProfessor s"
  by (induction ws arbitrary: s) (simp_all add: request_templates_def)

lemma instances_effect_simps [simp]:
  "pending (instances_effect prof s) = pending s" "loading (instances_effect prof s) = loading s"
  "h_templates (instances_effect prof s) = h_templates s" "h_instances (instances_effect prof s) = h_instances s"
  "h_tenants (instances_effect prof s) = h_tenants s" "openCreate (instances_effect prof s) = openCreate s"
  by (simp_all add: instances_effect_def)

lemma settle_simps [simp]:
  "loading (settle r s) = loading s" "h_templates (settle r s) = h_templates s"
  "h_instances (settle r s) = h_instances s" "h_tenants (settle r s) = h_tenants s"
  "openCreate (settle r s) = openCreate s" "instancesProfessor (settle r s) = instancesProfessor s"
  "settle None s = s" "pending (settle (Some q) s) = remove1 q (pending s)"
  by (simp_all add: settle_def split: option.splits)

lemma lab_changed_simps [simp]:
  "loading (lab_changed m s) = loading s" "h_templates (lab_changed m s) = h_templates s"
  "h_tenants (lab_changed m s) = h_tenants s" "openCreate (lab_changed m s) = openCreate s"
  "pending (lab_changed m s) = pending s"
  by (simp_all add: lab_changed_def split: instances_msg.splits)

text \<open>The workspaces whose templates the page loads for a tenant.\<close>

definition loaded_workspaces :: "bool \<Rightarrow> TenantObj \<Rightarrow> string list" where
  "loaded_workspaces prof t =
     map (\<lambda>w. ref_name (entry_ref w))
       (filter (\<lambda>w. prof \<longrightarrow> entry_role w = ''manager'') (case workspaces t of None \<Rightarrow> [] | Some ws \<Rightarrow> ws))"

definition own_request :: "bool \<Rightarrow> TenantObj \<Rightarrow> request list" where
  "own_request prof t =
     (if prof then [] else case tenant_namespace t of Inl e \<Rightarrow> [] | Inr ns \<Rightarrow> [ReqInstances (own_instances_path ns)])"

lemma tenants_effect_one:
  assumes "tenants_effect prof s = Inr s'" and "h_tenants s = [t]"
  shows "pending s' = pending s @ map ReqTemplates (loaded_workspaces prof t) @ own_request prof t"
    and "loading s' = (loaded_workspaces prof t \<noteq> [] \<or> \<not> prof \<and> loading s)"
    and "h_templates s' = h_templates s" "h_instances s' = h_instances s" "h_tenants s' = h_tenants s"
    and "openCreate s' = openCreate s" "instancesProfessor s' = instancesProfessor s"
    and "workspaces t \<noteq> None"
  using assms
  by (auto simp: tenants_effect_def loaded_workspaces_def own_request_def bind_res_Inr_iff Let_def filter_empty_conv
      ex_in_conv split: option.splits if_splits)

lemma tenants_effect_other: "length (h_tenants s) \<noteq> 1 \<Longrightarrow> tenants_effect prof s = Inr s"
  by (auto simp: tenants_effect_def split: list.splits)

lemma setTenants_cases:
  assumes "setTenants prof ts s = Inr s'"
  obtains (one) t where "ts = [t]" "tenants_effect prof (s\<lparr>h_tenants := [t]\<rparr>) = Inr s'"
  | (other) "length ts \<noteq> 1" "s' = s\<lparr>h_tenants := ts\<rparr>"
proof (cases "length ts = 1")
  case True
  then obtain t where "ts = [t]" by (auto simp: length_Suc_conv)
  with assms one show ?thesis by (simp add: setTenants_def)
next
  case False
  with assms other show ?thesis by (simp add: setTenants_def tenants_effect_other)
qed

lemma home_mount_simps:
  "home_mount prof user = Inr (mount_effect user home_init)"
  by (simp add: home_mount_def instances_effect_def tenants_effect_def home_init_def)

lemma home_mount_request [simp]:
  "pending (mount_effect (Some u) home_init) = [ReqTenant u]" "h_templates (mount_effect user home_init) = []"
  "h_instances (mount_effect user home_init) = []" "h_tenants (mount_effect user home_init) = []"
  "loading (mount_effect user home_init) = (user \<noteq> None)" "openCreate (mount_effect user home_init) = False"
  by (auto simp: mount_effect_def home_init_def split: option.splits)

subsection \<open>Every run of answers ends\<close>

fun tenant_weight :: "request \<Rightarrow> nat" where
  "tenant_weight (ReqTenant u) = 1"
| "tenant_weight _ = 0"

fun load_weight :: "request \<Rightarrow> nat" where
  "load_weight (ReqTenant u) = 0"
| "load_weight (ReqTemplates w) = 2"
| "load_weight (ReqInstances p) = 1"

definition requests_left :: "home_state \<Rightarrow> nat \<times> nat" where
  "requests_left s = (sum_list (map tenant_weight (pending s)), sum_list (map load_weight (pending s)))"

lemma tenant_weight_new [simp]:
  "sum_list (map (tenant_weight \<circ> ReqTemplates) ws) = 0" "sum_list (map tenant_weight (own_request prof t)) = 0"
  by (induction ws) (auto simp: own_request_def split: sum.splits)

text \<open>An answer decreases the number of requests for the tenant or, keeping it, the weighted number of
  the others.\<close>

lemma answer_decreases:
  assumes "home_step prof u s ev s'" and "answers u ev = Some r"
  shows "(requests_left s', requests_left s) \<in> less_than <*lex*> less_than"
proof -
  have r: "r \<in> set (pending s)" and n: "home_next prof u ev (settle (Some r) s) = Inr s'"
    using assms by (simp_all add: home_step_iff home_enabled_def)
  note sums = sum_list_map_remove1 [OF r, of tenant_weight] sum_list_map_remove1 [OF r, of load_weight]
  show ?thesis
  proof (cases ev)
    case (Tenant_ok t)
    then have "tenants_effect prof ((settle (Some r) s)\<lparr>h_tenants := [t]\<rparr>) = Inr s'"
      using n by (simp add: setTenants_def)
    from tenants_effect_one(1) [OF this] Tenant_ok assms(2) sums show ?thesis
      by (auto simp: requests_left_def)
  qed (use assms(2) n sums in \<open>auto simp: requests_left_def setInstances_def Let_def\<close>)
qed

text \<open>The only tenant the page asks for is that of its user.\<close>

definition own_tenant :: "string \<Rightarrow> home_state \<Rightarrow> bool" where
  "own_tenant u s \<longleftrightarrow> (\<forall>v. ReqTenant v \<in> set (pending s) \<longrightarrow> v = u)"

lemma setTenants_pending:
  "setTenants prof ts s = Inr s' \<Longrightarrow> ReqTenant v \<in> set (pending s') \<longleftrightarrow> ReqTenant v \<in> set (pending s)"
  by (erule setTenants_cases)
    (auto dest!: tenants_effect_one(1) simp: own_request_def split: if_splits sum.splits)

lemma settle_pending: "r \<in> set (pending (settle q s)) \<Longrightarrow> r \<in> set (pending s)"
  by (cases q) (auto dest: set_remove1_subset [THEN subsetD])

lemma own_tenant_remove:
  "\<forall>v. ReqTenant v \<in> set rs \<longrightarrow> v = u \<Longrightarrow> ReqTenant v \<in> set (remove1 q rs) \<Longrightarrow> v = u"
  using set_remove1_subset [of q rs] by blast

lemma own_tenant_step: "home_step prof u s ev s' \<Longrightarrow> own_tenant u s \<Longrightarrow> own_tenant u s'"
  by (cases ev)
    (auto simp: home_step_iff own_tenant_def setTenants_pending setInstances_def Let_def
      intro: own_tenant_remove split: if_splits)

interpretation own_tenant: event_inv "home_step prof u" "\<lambda>_. True" "own_tenant u"
  by unfold_locales (rule own_tenant_step)

fun failed :: "request \<Rightarrow> home_event" where
  "failed (ReqTenant u) = Tenant_failed"
| "failed (ReqTemplates w) = Templates_failed w"
| "failed (ReqInstances p) = Instances_failed p"

lemma can_fail:
  assumes "own_tenant u s" and "r \<in> set (pending s)"
  shows "answers u (failed r) = Some r \<and> (\<exists>s'. home_step prof u s (failed r) s')"
  using assms by (cases r) (auto simp: home_step_iff home_enabled_def own_tenant_def)

lemma can_settle:
  "own_tenant u s \<Longrightarrow>
    \<exists>evs s'. event_run (home_step prof u) s evs s' \<and> list_all (\<lambda>ev. answers u ev \<noteq> None) evs \<and> pending s' = []"
proof (induction s rule: wf_induct_rule [OF wf_inv_image [of "less_than <*lex*> less_than" requests_left]])
  case 1
  show ?case by auto
next
  case (2 s)
  show ?case
  proof (cases "pending s")
    case Nil
    then show ?thesis by (intro exI [of _ "[]"] exI [of _ s]) (simp add: event_run.idle)
  next
    case (Cons r rs)
    then obtain s1 where s1: "home_step prof u s (failed r) s1" and a: "answers u (failed r) = Some r"
      using can_fail [OF 2(2), of r prof] by auto
    then obtain evs s' where "event_run (home_step prof u) s1 evs s'" "list_all (\<lambda>ev. answers u ev \<noteq> None) evs"
        "pending s' = []"
      using 2(1) [of s1] answer_decreases [OF s1 a] own_tenant_step [OF s1 2(2)] by (auto simp: in_inv_image)
    then show ?thesis
      using event_run_Cons [of "home_step prof u" s1 evs s' s "failed r"] s1 a
      by (intro exI [of _ "failed r # evs"] exI [of _ s']) simp
  qed
qed

text \<open>C17: Whatever the API server answers and in whatever order, the page cannot go on asking: no run has
  infinitely many answers in a row (answers form a well-founded relation on the states of the page),
  and from every state the page can reach there are answers after which no request is open.\<close>
theorem requests_terminate:
  assumes "home_mount prof (Some u) = Inr s0" and "event_run (home_step prof u) s0 evs s"
  shows "wfp (\<lambda>s' s. \<exists>ev. answers u ev \<noteq> None \<and> home_step prof u s ev s')
   \<and> (\<exists>evs' s'. event_run (home_step prof u) s evs' s' \<and> list_all (\<lambda>ev. answers u ev \<noteq> None) evs' \<and> pending s' = [])"
proof
  show "wfp (\<lambda>s' s. \<exists>ev. answers u ev \<noteq> None \<and> home_step prof u s ev s')"
    unfolding wfp_def
    by (rule wf_subset [OF wf_inv_image [of "less_than <*lex*> less_than" requests_left]])
      (auto simp: in_inv_image intro: answer_decreases)
  have "own_tenant u s0"
    using assms(1) by (simp add: home_mount_simps own_tenant_def flip: home_mount_request(1)) auto
  then show "\<exists>evs' s'. event_run (home_step prof u) s evs' s' \<and> list_all (\<lambda>ev. answers u ev \<noteq> None) evs' \<and> pending s' = []"
    using own_tenant.run_inv [OF assms(2)] can_settle by (simp add: list_all_iff)
qed

theorem requests_terminate_witness:
  "\<exists>evs s'. event_run (home_step True ''s1'') (mount_effect (Some ''s1'') home_init) evs s' \<and> pending s' = []"
  using requests_terminate [OF home_mount_simps event_run.idle, of "''s1''" True] by blast

subsection \<open>The loading indicator\<close>

fun is_load :: "request \<Rightarrow> bool" where
  "is_load (ReqInstances p) = False"
| "is_load _ = True"

text \<open>A user (no professor) whose tenant has no workspace.\<close>

definition without_workspaces :: "bool \<Rightarrow> home_state \<Rightarrow> bool" where
  "without_workspaces prof s \<longleftrightarrow> \<not> prof \<and> (\<exists>t. h_tenants s = [t] \<and> workspaces t = Some [])"

definition loading_inv :: "bool \<Rightarrow> home_state \<Rightarrow> bool" where
  "loading_inv prof s \<longleftrightarrow> (loading s \<longrightarrow> (\<exists>r \<in> set (pending s). is_load r) \<or> without_workspaces prof s)"

definition no_tenant_watch :: "home_event \<Rightarrow> bool" where
  "no_tenant_watch ev \<longleftrightarrow> (\<forall>ts. ev \<noteq> Watch_tenants ts)"

lemma load_left:
  "(\<exists>r \<in> set (remove1 (ReqInstances p) rs). is_load r) \<longleftrightarrow> (\<exists>r \<in> set rs. is_load r)"
proof -
  have "r \<in> set (remove1 (ReqInstances p) rs) \<longleftrightarrow> r \<in> set rs" if "is_load r" for r
    using that by (intro in_set_remove1) auto
  then show ?thesis by blast
qed

lemma loading_step:
  assumes "home_step prof u s ev s'" and "no_tenant_watch ev" and "loading_inv prof s"
  shows "loading_inv prof s'"
proof (cases ev)
  case (Tenant_ok t)
  then have eff: "tenants_effect prof ((settle (Some (ReqTenant u)) s)\<lparr>h_tenants := [t]\<rparr>) = Inr s'"
    using assms(1) by (simp add: home_step_iff setTenants_def)
  note e = tenants_effect_one [OF eff]
  show ?thesis
  proof (cases "loaded_workspaces prof t")
    case Nil
    then show ?thesis
      using e by (auto simp: loading_inv_def without_workspaces_def loaded_workspaces_def)
  next
    case (Cons w ws)
    then show ?thesis
      using e by (auto simp: loading_inv_def)
  qed
next
  case (Instances_ok p labs)
  then show ?thesis
    using assms(1,3) by (auto simp: home_step_iff loading_inv_def setInstances_def without_workspaces_def load_left)
qed (use assms in \<open>auto simp: home_step_iff loading_inv_def setInstances_def without_workspaces_def no_tenant_watch_def Let_def split: if_splits\<close>)

interpretation loading: event_inv "home_step prof u" no_tenant_watch "loading_inv prof"
  by unfold_locales (rule loading_step)

text \<open>The loading indicator goes off. In every run of the page in which the tenant is loaded once, once
  no request is open the tables are no longer shown as loading, with one exception: for a user whose
  tenant has no workspace no callback ever turns the indicator off.\<close>

lemma loading_ends:
  assumes "home_mount prof (Some u) = Inr s0" and "event_run (home_step prof u) s0 evs s"
    and "list_all no_tenant_watch evs" and "pending s = []"
  shows "\<not> loading s \<or> without_workspaces prof s"
proof -
  have "loading_inv prof s0"
    using assms(1) by (auto simp: home_mount_simps loading_inv_def)
  from loading.run_inv [OF assms(2) this assms(3)] assms(4) show ?thesis
    by (simp add: loading_inv_def)
qed

text \<open>The exception is real: once the tenant without workspaces has been loaded, no successful answer turns
  the indicator off.\<close>

lemma without_workspaces_stuck:
  assumes "workspaces t = Some []" and "tenant_namespace t = Inr ns"
    and "home_step False u (mount_effect (Some u) home_init) (Tenant_ok t) s"
    and "home_step False u s (Instances_ok (own_instances_path ns) labs) s'"
  shows "pending s' = [] \<and> loading s'"
proof -
  have eff: "tenants_effect False ((settle (Some (ReqTenant u)) (mount_effect (Some u) home_init))\<lparr>h_tenants := [t]\<rparr>) = Inr s"
    using assms(3) by (simp add: home_step_iff setTenants_def)
  have "pending s = [ReqInstances (own_instances_path ns)]" "loading s"
    using tenants_effect_one(1,2) [OF eff] assms(1,2) by (simp_all add: loaded_workspaces_def own_request_def)
  then show ?thesis
    using assms(4) by (auto simp: home_step_iff setInstances_def)
qed

subsection \<open>Loading the templates\<close>

text \<open>A server that gives the tenant \<open>t\<close> and for each workspace the templates \<open>fetch\<close>, none where the request
  fails, and reports no change of the tenant or of the templates meanwhile.\<close>

fun serves :: "TenantObj \<Rightarrow> (string \<Rightarrow> TemplateObj list) \<Rightarrow> home_event \<Rightarrow> bool" where
  "serves t fetch (Tenant_ok t') = (t' = t)"
| "serves t fetch (Templates_ok w ts) = (ts = fetch w)"
| "serves t fetch (Templates_failed w) = (fetch w = [])"
| "serves t fetch (Instances_ok p labs) = True"
| "serves t fetch (Instances_failed p) = True"
| "serves t fetch (Watch_instances labs) = True"
| "serves t fetch (setOpenCreate b) = True"
| "serves t fetch (Lab_changed m) = True"
| "serves t fetch _ = False"

fun owed :: "bool \<Rightarrow> TenantObj \<Rightarrow> (string \<Rightarrow> TemplateObj list) \<Rightarrow> request \<Rightarrow> TemplateObj multiset" where
  "owed prof t fetch (ReqTenant u) = (\<Sum>w\<leftarrow>loaded_workspaces prof t. mset (fetch w))"
| "owed prof t fetch (ReqTemplates w) = mset (fetch w)"
| "owed prof t fetch (ReqInstances p) = {#}"

definition account :: "bool \<Rightarrow> TenantObj \<Rightarrow> (string \<Rightarrow> TemplateObj list) \<Rightarrow> home_state \<Rightarrow> TemplateObj multiset" where
  "account prof t fetch s = mset (h_templates s) + sum_list (map (owed prof t fetch) (pending s))"

lemma owed_own_request [simp]: "sum_list (map (owed prof t fetch) (own_request prof' t')) = {#}"
  by (simp add: own_request_def split: sum.splits)

text \<open>Loaded and owed templates together stay the same.\<close>

lemma account_step:
  assumes "home_step prof u s ev s'" and "serves t fetch ev"
  shows "account prof t fetch s' = account prof t fetch s"
proof (cases "answers u ev")
  case None
  then show ?thesis
    using assms by (cases ev) (auto simp: home_step_iff account_def setInstances_def)
next
  case (Some r)
  then have r: "r \<in> set (pending s)" and n: "home_next prof u ev (settle (Some r) s) = Inr s'"
    using assms(1) by (simp_all add: home_step_iff home_enabled_def)
  note paid = sum_list_map_remove1 [OF r, of "owed prof t fetch"]
  show ?thesis
  proof (cases ev)
    case (Tenant_ok t')
    then have "tenants_effect prof ((settle (Some r) s)\<lparr>h_tenants := [t]\<rparr>) = Inr s'"
      using n assms(2) by (simp add: setTenants_def)
    from tenants_effect_one(1,3) [OF this] Tenant_ok Some paid show ?thesis
      by (auto simp: account_def comp_def)
  qed (use Some assms(2) n paid in \<open>auto simp: account_def setInstances_def Let_def split: if_splits\<close>)
qed

interpretation templates_account: event_inv "home_step prof u" "serves t fetch" "\<lambda>s. account prof t fetch s = a"
  by unfold_locales (simp add: account_step)

text \<open>C15: in every run in which the tenant is obtained and neither the tenant nor the templates are reported
  changed, in whatever order the answers arrive: once no request is open, the page holds exactly the
  templates that the server gave for the tenant's workspaces (for those the tenant manages, on the
  professor's page), each as often as the server lists it: none is lost and none is loaded twice. A
  workspace whose request failed contributes none; answers about instances may fail too.\<close>
theorem templates_loaded_in_any_order:
  assumes "home_mount prof (Some u) = Inr s0" and "event_run (home_step prof u) s0 evs s"
    and "list_all (serves t fetch) evs" and "pending s = []"
  shows "mset (h_templates s) = (\<Sum>w\<leftarrow>loaded_workspaces prof t. mset (fetch w))"
proof -
  have "account prof t fetch s0 = (\<Sum>w\<leftarrow>loaded_workspaces prof t. mset (fetch w))"
    using assms(1) by (auto simp: home_mount_simps account_def)
  from templates_account.run_inv [OF assms(2) this assms(3)] assms(4) show ?thesis
    by (simp add: account_def)
qed

text \<open>The templates are never reset: when the tenant is reported again, all of them are asked for again
  and come on top of those the page has.\<close>

lemma tenant_update_reloads:
  assumes "home_step prof u s (Watch_tenants [t]) s'"
  shows "account prof t fetch s' = account prof t fetch s + (\<Sum>w\<leftarrow>loaded_workspaces prof t. mset (fetch w))"
proof -
  have "tenants_effect prof (s\<lparr>h_tenants := [t]\<rparr>) = Inr s'"
    using assms by (simp add: home_step_iff setTenants_def)
  from tenants_effect_one(1,3) [OF this] show ?thesis
    by (simp add: account_def comp_def)
qed

subsection \<open>The instances of the professor\<close>

lemma instances_of_templates_fold:
  "instances_of_templates ts xs =
     concat (map (\<lambda>i. replicate (length (filter (\<lambda>t. ref_name (templateRef (spec i)) = m_name (metadata t)) ts)) i) xs)"
proof -
  have inner: "fold (\<lambda>t ws. if ref_name (templateRef (spec i)) = m_name (metadata t) then ws @ [i] else ws) ts ws =
      ws @ replicate (length (filter (\<lambda>t. ref_name (templateRef (spec i)) = m_name (metadata t)) ts)) i" for i :: InstanceObj and ws
    by (induction ts arbitrary: ws) (simp_all add: replicate_append_same)
  have "fold (\<lambda>i ws. ws @ f i) xs ws = ws @ concat (map f xs)" for f :: "InstanceObj \<Rightarrow> InstanceObj list" and ws
    by (induction xs arbitrary: ws) simp_all
  from this [of _ "[]"] show ?thesis
    by (simp add: instances_of_templates_def inner)
qed

lemma matching_templates:
  "distinct (map (\<lambda>t. m_name (metadata t)) ts) \<Longrightarrow>
    length (filter (\<lambda>t. n = m_name (metadata t)) ts) = (if n \<in> (\<lambda>t. m_name (metadata t)) ` set ts then 1 else 0)"
  by (induction ts) (auto simp: filter_empty_conv)

lemma instances_of_templates_filter:
  assumes "distinct (map (\<lambda>t. m_name (metadata t)) ts)"
  shows "instances_of_templates ts xs =
    filter (\<lambda>i. ref_name (templateRef (spec i)) \<in> (\<lambda>t. m_name (metadata t)) ` set ts) xs"
  unfolding instances_of_templates_fold matching_templates [OF assms] by (induction xs) simp_all

lemma instances_of_templates_set_running:
  "instances_of_templates ts (set_running lab b xs) = set_running lab b (instances_of_templates ts xs)"
  unfolding instances_of_templates_fold
  by (induction xs) (simp_all add: set_running_def map_replicate_const)

definition professor_inv :: "home_state \<Rightarrow> bool" where
  "professor_inv s \<longleftrightarrow> (\<exists>p. ReqInstances p \<in> set (pending s)) \<or>
     (h_instances s \<noteq> [] \<longrightarrow> instancesProfessor s = instances_of_templates (h_templates s) (h_instances s))"

definition professor_event :: "home_event \<Rightarrow> bool" where
  "professor_event ev \<longleftrightarrow> (\<forall>p. ev \<noteq> Instances_failed p) \<and> (\<forall>ts. ev \<noteq> Watch_templates ts)"

lemma setInstances_professor: "professor_inv (setInstances True labs s)"
  by (simp add: professor_inv_def setInstances_def instances_effect_def)

lemma setTenants_professor:
  "setTenants prof ts s = Inr s' \<Longrightarrow> professor_inv s \<Longrightarrow> professor_inv s'"
proof (erule setTenants_cases)
  fix t
  assume "professor_inv s" and "tenants_effect prof (s\<lparr>h_tenants := [t]\<rparr>) = Inr s'"
  then show "professor_inv s'"
    using tenants_effect_one [of prof "s\<lparr>h_tenants := [t]\<rparr>" s' t] by (auto simp: professor_inv_def)
qed (simp add: professor_inv_def)

lemma settle_professor: "(\<And>p. r \<noteq> Some (ReqInstances p)) \<Longrightarrow> professor_inv s \<Longrightarrow> professor_inv (settle r s)"
  by (cases r) (simp_all add: professor_inv_def, metis in_set_remove1)

lemma set_running_Nil [simp]: "set_running lab b xs = [] \<longleftrightarrow> xs = []"
  by (simp add: set_running_def)

lemma lab_changed_professor: "professor_inv s \<Longrightarrow> professor_inv (lab_changed m s)"
  by (cases m) (auto simp: professor_inv_def lab_changed_def instances_of_templates_set_running)

lemma professor_step:
  assumes "home_step True u s ev s'" and "professor_event ev" and "professor_inv s"
  shows "professor_inv s'"
proof (cases "\<exists>p. answers u ev = Some (ReqInstances p)")
  case True
  with assms(1,2) show ?thesis
    by (cases ev) (auto simp: home_step_iff professor_event_def setInstances_professor)
next
  case False
  then have "professor_inv (settle (answers u ev) s)"
    using assms(3) by (intro settle_professor) auto
  with assms(1,2) show ?thesis
    by (cases ev) (auto simp: home_step_iff professor_event_def setInstances_professor Let_def
        intro: setTenants_professor lab_changed_professor, auto simp: professor_inv_def)
qed

interpretation professor: event_inv "home_step True u" professor_event professor_inv
  by unfold_locales (rule professor_step)

text \<open>C16: the professor's table is complete. In every run of the professor's page in which no request for
  instances fails and no watch replaces the templates, once no request is open and there are instances,
  the page shows the instances of the templates it has loaded, in the order of the server, each once for
  every loaded template with the name it refers to; when template names are distinct this is the filter
  of the instances by the templates. The list is computed only when instances arrive, although templates
  may arrive between them. After an update of the tenant all templates are loaded again, names are no
  longer distinct and the instances are shown several times.\<close>
theorem professor_sees_all_instances:
  assumes "home_mount True (Some u) = Inr s0" and "event_run (home_step True u) s0 evs s"
    and "list_all professor_event evs" and "pending s = []" and "h_instances s \<noteq> []"
  shows "instancesProfessor s =
      concat (map (\<lambda>i. replicate (count_list (map (\<lambda>t. m_name (metadata t)) (h_templates s)) (ref_name (templateRef (spec i)))) i)
        (h_instances s))
    \<and> (distinct (map (\<lambda>t. m_name (metadata t)) (h_templates s)) \<longrightarrow>
        instancesProfessor s =
          filter (\<lambda>i. ref_name (templateRef (spec i)) \<in> (\<lambda>t. m_name (metadata t)) ` set (h_templates s)) (h_instances s))"
proof -
  have "professor_inv s0"
    using assms(1) by (auto simp: home_mount_simps professor_inv_def)
  from professor.run_inv [OF assms(2) this assms(3)] assms(4,5)
  have i: "instancesProfessor s = instances_of_templates (h_templates s) (h_instances s)"
    by (simp add: professor_inv_def)
  have "length (filter (\<lambda>t. n = m_name (metadata t)) ts) = count_list (map (\<lambda>t. m_name (metadata t)) ts) n" for n and ts :: "TemplateObj list"
    by (induction ts) auto
  then show ?thesis
    using i instances_of_templates_filter [of "h_templates s"] by (simp add: instances_of_templates_fold)
qed

text \<open>When the last instance goes, the list is not computed again: the page keeps showing it.\<close>

lemma last_instance_stays:
  "home_step True u s (Watch_instances []) s' \<Longrightarrow> h_instances s' = [] \<and> instancesProfessor s' = instancesProfessor s"
  by (auto simp: home_step_iff setInstances_def instances_effect_def)

subsection \<open>A run of the professor's page\<close>

definition sample_manager :: TenantObj where
  "sample_manager = \<lparr>workspaces = Some [\<lparr>entry_ref = \<lparr>ref_name = ''ase'', ref_namespace = None\<rparr>, entry_role = ''manager''\<rparr>],
     personalNamespace = Some (Some ''tenant-p1'')\<rparr>"

definition sample_events :: "home_event list" where
  "sample_events = [Tenant_ok sample_manager, Templates_ok ''ase'' [sample_template],
     Instances_ok all_instances_path [sample_instance True ''VmiReady'']]"

lemma sample_loaded: "loaded_workspaces True sample_manager = [''ase'']"
  by (simp add: loaded_workspaces_def sample_manager_def)

lemma sample_exec:
  "\<exists>s. home_exec True ''p1'' sample_events (mount_effect (Some ''p1'') home_init) = Inr s \<and> pending s = [] \<and>
     h_templates s = [sample_template] \<and> h_instances s = [sample_instance True ''VmiReady'']"
proof -
  have t: "ref_name (templateRef (spec (sample_instance True ''VmiReady''))) = m_name (metadata sample_template)"
    by (simp add: sample_instance_def sample_template_def)
  show ?thesis
    by (simp add: sample_events_def home_enabled_def setTenants_def tenants_effect_def Let_def
        mount_effect_def home_init_def getGenericResource_def settle_def sample_manager_def request_templates_def
        setNamespace_def setInstances_def instances_effect_def)
qed

lemma sample_home_run:
  obtains s where "event_run (home_step True ''p1'') (mount_effect (Some ''p1'') home_init) sample_events s"
    and "pending s = []" "h_templates s = [sample_template]" "h_instances s = [sample_instance True ''VmiReady'']"
  using sample_exec home_exec_run by blast

lemma loading_ends_witness:
  "\<exists>s. event_run (home_step True ''p1'') (mount_effect (Some ''p1'') home_init) sample_events s \<and> pending s = [] \<and> \<not> loading s"
proof -
  obtain s where run: "event_run (home_step True ''p1'') (mount_effect (Some ''p1'') home_init) sample_events s"
    and "pending s = []" by (rule sample_home_run)
  moreover have "list_all no_tenant_watch sample_events"
    by (simp add: sample_events_def no_tenant_watch_def)
  ultimately show ?thesis
    using loading_ends [OF home_mount_simps run] by (auto simp: without_workspaces_def)
qed

theorem templates_loaded_in_any_order_witness:
  "\<exists>s. event_run (home_step True ''p1'') (mount_effect (Some ''p1'') home_init) sample_events s \<and>
     mset (h_templates s) = {#sample_template#}"
proof -
  obtain s where run: "event_run (home_step True ''p1'') (mount_effect (Some ''p1'') home_init) sample_events s"
    and "pending s = []" by (rule sample_home_run)
  moreover have "list_all (serves sample_manager (\<lambda>w. [sample_template])) sample_events"
    by (simp add: sample_events_def)
  ultimately show ?thesis
    using templates_loaded_in_any_order [OF home_mount_simps run, of sample_manager "\<lambda>w. [sample_template]"]
    by (auto simp: sample_loaded)
qed

theorem professor_sees_all_instances_witness:
  "\<exists>s. event_run (home_step True ''p1'') (mount_effect (Some ''p1'') home_init) sample_events s \<and>
     instancesProfessor s = [sample_instance True ''VmiReady'']"
proof -
  obtain s where run: "event_run (home_step True ''p1'') (mount_effect (Some ''p1'') home_init) sample_events s"
    and s: "pending s = []" "h_templates s = [sample_template]" "h_instances s = [sample_instance True ''VmiReady'']"
    by (rule sample_home_run)
  have t: "ref_name (templateRef (spec (sample_instance True ''VmiReady''))) = m_name (metadata sample_template)"
    by (simp add: sample_instance_def sample_template_def)
  have "list_all professor_event sample_events"
    by (simp add: sample_events_def professor_event_def)
  from professor_sees_all_instances [OF home_mount_simps run this s(1)] s run show ?thesis
    by (auto simp: t)
qed

end
