(* ===== verification/Dashboard_View.thy ===== *)
theory Dashboard_View
  imports Dashboard_Home
begin

section \<open>dashboard: what the home page renders\<close>

text \<open>
  The rendering of \<open>CrownLabsHome.js\<close>: the two tables in a draggable layout, the button that opens the
  form (professors only), the form, and the notice under them; and the effect that opens the
  notification about the user survey. \<open>qT\<close> and \<open>qI\<close> are the props the columns of the two tables were
  computed with, \<open>term\<close> the keys the table of instances has marked as terminating. An exception of a
  table ends in the error boundary around the page.
\<close>

datatype home_msg =
    Home home_event
  | InTemplates templates_msg
  | InInstances instances_msg
  | InForm form_msg
  | Close_notification

record services =
  searchT :: "(template_row, templates_msg) search_props"
  searchI :: "(instance_row, instances_msg) search_props"
  localeCompare :: "string \<Rightarrow> string \<Rightarrow> int"
  compareAge :: "string \<Rightarrow> string \<Rightarrow> int"
  calculateAge :: "string \<Rightarrow> string"
  typed :: "string list"

subsection \<open>The notification\<close>

definition FORM_CHANNEL_UPD :: string where
  "FORM_CHANNEL_UPD = ''FORM_CHANNEL_UPD''"

definition survey_link :: "string \<Rightarrow> (string \<times> 'm attr) list \<Rightarrow> 'm nodes \<Rightarrow> 'm vnode" where
  "survey_link url ps cs = El ''a'' ((''target'', PStr ''_blank'') # (''href'', PStr url) # ps) cs"

definition notification :: "home_msg vnode" where
  "notification =
     El ''notification''
       [(''message'', PStr []),
        (''description'', PNodes
          [El ''div'' [(''style'', PVal (JObj [(''textAlign'', JStr ''center''), (''margin'', JNum 20)]))]
            [Txt ''We would like to know your thoughts about CrownLabs! Please fill'', Txt '' '',
             survey_link ''https://forms.gle/g86xkWTHoaULfPHp8'' [(''style'', PVal (JObj []))] [Txt ''this form''],
             Txt ''!'', El ''br'' [] [],
             Txt '' If you would like to keep posted about the latest news of CrownLabs, join our'', Txt '' '',
             survey_link ''https://t.me/crownlabsNews'' []
               [Txt ''channel'',
                El ''img'' [(''style'', PVal (JObj [(''display'', JStr ''inline''), (''height'', JNum 25), (''margin'', JNum 5)])),
                  (''src'', PStr ''https://cdn.svgporn.com/logos/telegram.svg'')] []]]]),
        (''duration'', PNum 0),
        (''placement'', PStr ''topRight''),
        (''onClose'', POn Close_notification),
        (''style'', PVal (JObj [(''border'', JStr (''4px solid '' @ colorBlue)), (''padding'', JNum 10)]))] []"

text \<open>The effect on mount, given the stored value, and what closing the notification stores
  (\<open>JSON.stringify(true)\<close>).\<close>

definition notification_effect :: "string option \<Rightarrow> home_msg nodes" where
  "notification_effect localUpd = (if missing localUpd then [notification] else [])"

definition close_notification :: "string option \<Rightarrow> string option" where
  "close_notification stored = Some ''true''"

subsection \<open>The page\<close>

definition templates_of :: "bool \<Rightarrow> home_state \<Rightarrow> templates_props" where
  "templates_of prof s =
     \<lparr>templates = h_templates s, tenants = h_tenants s, onProfessor = prof, tbl_loading = loading s\<rparr>"

definition instances_of :: "bool \<Rightarrow> string list \<Rightarrow> home_state \<Rightarrow> inst_props" where
  "instances_of prof trm s =
     \<lparr>insts = (if prof then instancesProfessor s else h_instances s), tmpls = h_templates s,
      inst_onProfessor = prof, inst_loading = loading s, terminating = trm\<rparr>"

definition blue_badge :: "string \<Rightarrow> 'm vnode" where
  "blue_badge t = El ''Badge'' [(''text'', PStr t), (''color'', PStr ''blue'')] []"

definition grid :: "int \<Rightarrow> int \<Rightarrow> jsval" where
  "grid w x =
     (let area = \<lambda>w. JObj [(''w'', JNum w), (''h'', JNum 38), (''x'', JNum x), (''y'', JNum 0), (''minH'', JNum 28)]
      in JObj [(''lg'', area w), (''md'', area 24)])"

definition create_button :: "home_msg vnode" where
  "create_button =
     El ''Tooltip'' [(''title'', PStr ''Create new template''), (''key'', PStr ''add_template'')]
       [El ''Button'' [(''icon'', PNodes [El ''PlusOutlined'' [] []]),
          (''style'', PVal (JObj [(''marginTop'', JNum (-8)), (''marginBottom'', JNum (-8)), (''marginRight'', JNum (-8))])),
          (''type'', PStr ''primary''), (''onClick'', POn (Home (setOpenCreate True)))] []]"

definition home_items :: "bool \<Rightarrow> templates_msg vnode \<Rightarrow> instances_msg vnode \<Rightarrow> home_msg nodes" where
  "home_items prof vt vi =
     [El ''div'' [(''data-grid'', PVal (grid 10 0)), (''key'', PStr ''table_templates''),
        (''title'', PNodes [blue_badge ''Available Images'']), (''extra'', PNodes (if prof then [create_button] else []))]
        [map_vnode InTemplates vt],
      El ''div'' [(''data-grid'', PVal (grid 14 10)), (''key'', PStr ''table_labinstances''),
        (''title'', PNodes [blue_badge ''Running Images''])]
        [map_vnode InInstances vi]]"

definition form_message :: "form_msg \<Rightarrow> home_msg" where
  "form_message m = (if m = form_cancel then Home (setOpenCreate False) else InForm m)"

definition persistent_notice :: "home_msg vnode" where
  "persistent_notice =
     El ''div'' [(''style'', PVal (JObj [(''textAlign'', JStr ''center''), (''margin'', JStr ''auto''), (''marginTop'', JNum 20),
         (''padding'', JStr ''0 20px''), (''maxWidth'', JNum 800)]))]
       [El ''h1'' [(''style'', PVal (JObj [(''fontSize'', JStr ''1.2rem'')]))] [Txt ''Persistent VMs are here!''], Txt '' '',
        El ''p'' [(''style'', PVal (JObj [(''fontSize'', JStr ''1rem'')]))]
          [Txt (''You can now shutdown persistent VMs without destroying them, to avoid '' @
                ''resource consumption. Once off you can start them back up. Creating '' @
                ''persistent VMs could take more time, around 6-8 minutes.'')]]"

definition CrownLabsHome ::
    "services \<Rightarrow> bool \<Rightarrow> home_state \<Rightarrow> string list \<Rightarrow> templates_props \<Rightarrow> inst_props \<Rightarrow> form_state \<Rightarrow> home_msg nodes" where
  "CrownLabsHome sv prof s trm qT qI f =
     (case (Templates (searchT sv) (localeCompare sv) (templates_of prof s) qT,
            Instances (searchI sv) (localeCompare sv) (compareAge sv) (calculateAge sv) (instances_of prof trm s) qI) of
        (Inr vt, Inr vi) \<Rightarrow>
          [El ''Alert.ErrorBoundary'' []
            ([El ''DraggableLayout''
               [(''title'', PNodes [blue_badge ''templates'']),
                (''breakpoints'', PVal (JObj [(''lg'', JNum 1300), (''md'', JNum 796), (''sm'', JNum 568), (''xs'', JNum 280), (''xss'', JNum 0)])),
                (''responsive'', PBool True)]
               (home_items prof vt vi)] @
             map (map_vnode form_message) (TemplateForm (typed sv) (openCreate s) f) @
             [persistent_notice])]
      | _ \<Rightarrow> [El ''Alert.ErrorBoundary'' [(''error'', PBool True)] []])"

subsection \<open>Messages of the page\<close>

lemma handlers_map:
  "handlers (map_vnode g n) = map g (handlers n)"
  "prop_handlers (map_attr g a) = map g (prop_handlers a)"
  by (induction n and a rule: handlers_prop_handlers.induct)
    (auto simp: all_handlers_def map_concat comp_def intro!: arg_cong2 [of _ _ _ _ append] arg_cong [of _ _ concat])

lemma all_handlers_map [simp]: "all_handlers (map (map_vnode g) ns) = map g (all_handlers ns)"
  by (induction ns) (simp_all add: handlers_map)

lemma setTenants_openCreate: "setTenants prof ts s = Inr s' \<Longrightarrow> openCreate s' = openCreate s"
  by (erule setTenants_cases) (auto dest: tenants_effect_one(6))


lemma CrownLabsHome_handlers:
  assumes "m \<in> set (all_handlers (CrownLabsHome sv prof s trm qT qI f))"
    and "quiet_search (searchT sv)"
  shows "(m = Home (setOpenCreate True) \<longrightarrow> prof) \<and> (\<forall>lab. m = InTemplates (onConfirm_delete lab) \<longrightarrow> onProfessor qT)"
proof -
  obtain vt vi where vt: "Templates (searchT sv) (localeCompare sv) (templates_of prof s) qT = Inr vt"
    and m: "m \<in> set (all_handlers (home_items prof vt vi)) \<union> form_message ` set (all_handlers (TemplateForm (typed sv) (openCreate s) f))"
    using assms(1)
    by (auto simp: CrownLabsHome_def persistent_notice_def blue_badge_def split: sum.splits)
  note Templates_handlers [OF vt assms(2)]
  with m show ?thesis
    by (auto simp: home_items_def create_button_def blue_badge_def handlers_map form_message_def split: if_splits)
qed

subsection \<open>Runs of the page\<close>

text \<open>The page as mounted under one path: the state of the home page, the props the columns of the two tables
  were computed with, and the own states of the table of instances and of the form. The columns of the
  templates are computed on mount and whenever the templates change, not when the path does; the other
  parts change in ways that are left open here. The form opens and closes only through a handler that the
  page renders at that moment.\<close>

record page =
  pg_home :: home_state
  pg_cols :: templates_props
  pg_instcols :: inst_props
  pg_term :: "string list"
  pg_form :: form_state

definition page_view :: "services \<Rightarrow> bool \<Rightarrow> page \<Rightarrow> home_msg nodes" where
  "page_view sv prof g = CrownLabsHome sv prof (pg_home g) (pg_term g) (pg_cols g) (pg_instcols g) (pg_form g)"

definition offered :: "services \<Rightarrow> bool \<Rightarrow> home_event \<Rightarrow> page \<Rightarrow> bool" where
  "offered sv prof ev g \<longleftrightarrow>
     (case ev of setOpenCreate b \<Rightarrow> Home ev \<in> set (all_handlers (page_view sv prof g)) | _ \<Rightarrow> True)"

definition page_mount :: "bool \<Rightarrow> home_state \<Rightarrow> page" where
  "page_mount prof s =
     \<lparr>pg_home = s, pg_cols = templates_of prof home_init, pg_instcols = instances_of prof [] home_init,
      pg_term = [], pg_form = form_init\<rparr>"

inductive page_step :: "services \<Rightarrow> bool \<Rightarrow> string \<Rightarrow> page \<Rightarrow> home_event \<Rightarrow> page \<Rightarrow> bool" for sv prof u where
  page_step: "home_step prof u (pg_home g) ev (pg_home g') \<Longrightarrow> offered sv prof ev g \<Longrightarrow>
    pg_cols g' = templates_of prof (pg_home g') \<or>
      pg_cols g' = pg_cols g \<and> h_templates (pg_home g') = h_templates (pg_home g) \<Longrightarrow>
    page_step sv prof u g ev g'"

inductive_simps page_step_iff: "page_step sv prof u g ev g'"

definition user_page :: "page \<Rightarrow> bool" where
  "user_page g \<longleftrightarrow> \<not> openCreate (pg_home g) \<and> \<not> onProfessor (pg_cols g)"

lemma user_view:
  assumes "user_page g" and "quiet_search (searchT sv)"
  shows "Home (setOpenCreate True) \<notin> set (all_handlers (page_view sv False g))"
    and "InTemplates (onConfirm_delete lab) \<notin> set (all_handlers (page_view sv False g))"
  using CrownLabsHome_handlers [OF _ assms(2), of _ False "pg_home g" "pg_term g" "pg_cols g" "pg_instcols g" "pg_form g"] assms(1)
  unfolding page_view_def user_page_def by blast+

lemma home_step_openCreate:
  "home_step prof u s ev s' \<Longrightarrow> openCreate s' = (case ev of setOpenCreate b \<Rightarrow> b | _ \<Rightarrow> openCreate s)"
  by (cases ev) (auto simp: home_step_iff setTenants_openCreate setInstances_def Let_def split: if_splits)

lemma user_page_step:
  assumes "quiet_search (searchT sv)" and "page_step sv False u g ev g'" and "user_page g"
  shows "user_page g'"
proof -
  from assms(2) have h: "home_step False u (pg_home g) ev (pg_home g')" and o: "offered sv False ev g"
    and c: "\<not> onProfessor (pg_cols g')"
    using assms(3) by (auto simp: page_step_iff user_page_def templates_of_def)
  have "\<not> openCreate (pg_home g')"
  proof (cases ev)
    case (setOpenCreate b)
    with o user_view(1) [OF assms(3,1)] have "\<not> b" by (cases b) (auto simp: offered_def)
    with home_step_openCreate [OF h] setOpenCreate show ?thesis by simp
  qed (use home_step_openCreate [OF h] assms(3) in \<open>simp_all add: user_page_def\<close>)
  with c show ?thesis by (simp add: user_page_def)
qed

lemma user_page_run:
  assumes "quiet_search (searchT sv)" and "event_run (page_step sv False u) g evs g'" and "user_page g"
  shows "user_page g'"
  using assms(2,3) by (induction rule: event_run.induct) (auto intro: user_page_step [OF assms(1)])

text \<open>C18: on the page of a plain user there is no way to change templates. In every state the page can reach
  while it stays mounted under a path other than that of professors, whatever answers, updates and clicks
  on rendered buttons come, the form is closed, no button opens it, and no button deletes a template. The
  search fields of the table add no buttons of their own.\<close>
theorem users_cannot_change_templates:
  assumes "home_mount False (Some u) = Inr s0" and "event_run (page_step sv False u) (page_mount False s0) evs g"
    and "quiet_search (searchT sv)"
  shows "\<not> openCreate (pg_home g)
    \<and> Home (setOpenCreate True) \<notin> set (all_handlers (page_view sv False g))
    \<and> InTemplates (onConfirm_delete lab) \<notin> set (all_handlers (page_view sv False g))"
proof -
  have "user_page (page_mount False s0)"
    using assms(1) by (auto simp: home_mount_simps user_page_def page_mount_def templates_of_def)
  then have "user_page g" by (rule user_page_run [OF assms(3,2)])
  then show ?thesis using user_view [OF _ assms(3)] by (simp add: user_page_def)
qed

text \<open>The condition on the path matters: the columns do not depend on it, so a page that stays mounted when a
  professor turns to the users' path keeps the buttons that delete templates.\<close>

lemma columns_ignore_path:
  assumes "quiet_search search" and "Templates search lc (templates_of False s) (templates_of True s) = Inr v"
    and "t \<in> set (h_templates s)"
  shows "rendered templates (templates_of False s) (templates_of True s)
    \<and> (\<exists>lab. onConfirm_delete lab \<in> set (handlers v))"
proof
  show "rendered templates (templates_of False s) (templates_of True s)"
    by (rule rendered.no_effect [OF rendered.mount]) (simp add: templates_of_def)
  show "\<exists>lab. onConfirm_delete lab \<in> set (handlers v)"
    using assms(3) unfolding Templates_handlers [OF assms(2,1)] by (auto simp: templates_of_def)
qed


definition sample_services :: services where
  "sample_services = \<lparr>searchT = (\<lambda>name f c. c), searchI = (\<lambda>name f c. c), localeCompare = (\<lambda>a b. 0),
     compareAge = (\<lambda>a b. 0), calculateAge = (\<lambda>t. t), typed = []\<rparr>"

text \<open>A user's page that has got its tenant and the templates of a workspace, one of them in the table.\<close>

definition loaded_page :: page where
  "loaded_page =
     (let s = (mount_effect (Some ''s1'') home_init)\<lparr>h_templates := [sample_template]\<rparr>
      in (page_mount False s)\<lparr>pg_cols := templates_of False s\<rparr>)"

theorem users_cannot_change_templates_witness:
  "event_run (page_step sample_services False ''s1'') (page_mount False (mount_effect (Some ''s1'') home_init))
     [Watch_templates [sample_template]] loaded_page \<and>
   InTemplates (onConfirm_delete None) \<notin> set (all_handlers (page_view sample_services False loaded_page))"
proof -
  have q: "quiet_search (searchT sample_services)" by (simp add: sample_services_def)
  have "page_step sample_services False ''s1'' (page_mount False (mount_effect (Some ''s1'') home_init))
      (Watch_templates [sample_template]) loaded_page"
    by (simp add: page_step_iff home_step_iff home_enabled_def offered_def page_mount_def loaded_page_def Let_def)
  then have r: "event_run (page_step sample_services False ''s1'') (page_mount False (mount_effect (Some ''s1'') home_init))
      [Watch_templates [sample_template]] loaded_page"
    by (rule event_run_Cons [OF event_run.idle])
  from users_cannot_change_templates [OF home_mount_simps r q] r show ?thesis by blast
qed

text \<open>A change of a lab in the table is a change of the lists of the page: the table's view of the page
  after the change is the table after its own handler.\<close>

lemma lab_changed_refines:
  "instances_of prof (terminating (fst (instances_handle m (instances_of prof trm s)))) (lab_changed m s) =
     fst (instances_handle m (instances_of prof trm s))"
  by (cases m) (simp_all add: instances_of_def lab_changed_def instances_handle_def)

text \<open>Once closed, the notification is not shown again.\<close>

lemma notification_once: "notification_effect (close_notification stored) = []"
  by (simp add: notification_effect_def close_notification_def missing_def)

subsection \<open>What a user's page asks for\<close>

definition asks_own :: "home_state \<Rightarrow> bool" where
  "asks_own s \<longleftrightarrow> GetGenericResource all_instances_path \<notin> set (api_log s)"

lemma other_paths [simp]:
  "all_instances_path \<noteq> request_path (ReqTenant u)" "all_instances_path \<noteq> request_path (ReqTemplates w)"
  "all_instances_path \<noteq> own_instances_path ns"
  by (simp_all add: all_instances_path_def own_instances_path_def)

lemma getGenericResource_own:
  "asks_own (getGenericResource r s) \<longleftrightarrow> asks_own s \<and> all_instances_path \<noteq> request_path r"
  by (auto simp: asks_own_def getGenericResource_def)

lemma asks_own_upd [simp]:
  "asks_own (setNamespace ns s) = asks_own s" "asks_own (s\<lparr>loading := b\<rparr>) = asks_own s"
  "asks_own (settle r s) = asks_own s" "asks_own (instances_effect prof s) = asks_own s"
  "asks_own (lab_changed m s) = asks_own s" "asks_own (s\<lparr>h_tenants := ts\<rparr>) = asks_own s"
  "asks_own (s\<lparr>h_instances := xs\<rparr>) = asks_own s" "asks_own (s\<lparr>h_templates := tt\<rparr>) = asks_own s"
  "asks_own (s\<lparr>openCreate := b\<rparr>) = asks_own s" "asks_own (s\<lparr>errors := es\<rparr>) = asks_own s"
  by (simp_all add: asks_own_def setNamespace_def settle_def instances_effect_def lab_changed_def
      split: option.splits instances_msg.splits)

lemma request_templates_own: "asks_own (fold request_templates ws s) = asks_own s"
  by (induction ws arbitrary: s) (simp_all add: request_templates_def getGenericResource_own del: request_path.simps)

lemma setTenants_own: "setTenants False ts s = Inr s' \<Longrightarrow> asks_own s \<Longrightarrow> asks_own s'"
  by (erule setTenants_cases)
    (auto simp: tenants_effect_def bind_res_Inr_iff Let_def getGenericResource_own request_templates_own split: option.splits)

lemma asks_own_step: "home_step False u s ev s' \<Longrightarrow> asks_own s \<Longrightarrow> asks_own s'"
  by (cases ev) (auto simp: home_step_iff setInstances_def Let_def dest: setTenants_own)

interpretation user_requests: event_inv "home_step False u" "\<lambda>_. True" asks_own
  by unfold_locales (rule asks_own_step)

text \<open>A plain user's page never asks for the instances of the whole cluster, whatever tenants, templates
  and instances it is told of.\<close>

lemma users_ask_for_own_instances:
  assumes "home_mount False (Some u) = Inr s0" and "event_run (home_step False u) s0 evs s"
  shows "GetGenericResource all_instances_path \<notin> set (api_log s)"
proof -
  have "asks_own home_init"
    by (simp add: asks_own_def home_init_def)
  then have "asks_own s0"
    using assms(1) by (auto simp: home_mount_simps mount_effect_def getGenericResource_own simp del: request_path.simps)
  from user_requests.run_inv [OF assms(2) this] show ?thesis
    by (simp add: asks_own_def list_all_iff)
qed

lemma users_ask_for_own_instances_witness:
  "GetGenericResource all_instances_path \<notin> set (api_log (mount_effect (Some ''s1'') home_init))"
  by (rule users_ask_for_own_instances [OF home_mount_simps event_run.idle])

end
