(* ===== verification/Rest_Agreement.thy ===== *)
theory Rest_Agreement
  imports Gql_Operations Dashboard_View
begin

section \<open>The requests of the dashboard against the operations of the schema\<close>

text \<open>
  The dashboard talks to the Kubernetes API directly, reading by paths it builds from strings and creating
  through \<open>window.api.createCustomResource\<close>, which is not part of the repository: what is compared of a
  creation are the arguments of that call. The frontend goes through \<open>qlkube\<close>, whose schema declares for
  each operation the request it stands for. The properties of this theory are that both address the same
  resources and that the objects the dashboard creates are values of the input types.
\<close>

text \<open>The text of a path, given the values of its parameters.\<close>

definition expand :: "(string \<Rightarrow> string) \<Rightarrow> segment list \<Rightarrow> string" where
  "expand val segs = concat (map (\<lambda>s. ''/'' @ (case s of Lit x \<Rightarrow> x | Param p \<Rightarrow> val p)) segs)"

definition operation_request :: "operation list \<Rightarrow> string \<Rightarrow> (http_method \<times> segment list) option" where
  "operation_request ops name = map_option (\<lambda>p. (fst p, fst (snd p))) (map_of ops name)"

text \<open>The path is that of the operation with the given name and method.\<close>

definition same_request :: "(string \<Rightarrow> string) \<Rightarrow> string \<Rightarrow> http_method \<Rightarrow> operation list \<Rightarrow> string \<Rightarrow> bool" where
  "same_request val path m ops name \<longleftrightarrow>
     (case operation_request ops name of None \<Rightarrow> False | Some (m', segs) \<Rightarrow> m' = m \<and> path = expand val segs)"

definition params_of :: "string \<Rightarrow> string \<Rightarrow> string \<Rightarrow> string" where
  "params_of ns name p = (if p = ''namespace'' then ns else name)"

text \<open>The call names the group, the version and the plural of the operation's path, which has a namespace as its
  only parameter, and gives the namespace that the object itself carries.\<close>

primrec created_namespace :: "created \<Rightarrow> string option" where
  "created_namespace (NewInstance i) = m_namespace (metadata i)"
| "created_namespace (NewTemplate t) = m_namespace (metadata t)"

fun creates_by :: "string \<Rightarrow> api_call \<Rightarrow> bool" where
  "creates_by name (CreateCustomResource g v ns plural b) =
     (operation_request create_ops name =
        Some (POST, [Lit ''apis'', Lit g, Lit v, Lit ''namespaces'', Param ''namespace'', Lit plural])
      \<and> created_namespace b = ns)"
| "creates_by name _ = False"

lemmas rest_simps = same_request_def operation_request_def expand_def params_of_def api_def

text \<open>C27: the dashboard's requests are those of the schema's operations: for every user, workspace and
  namespace, the tenant, the templates of a workspace, all instances, the instances of a namespace and the
  list of images are read by the paths of the corresponding queries; and whenever starting a lab or
  submitting the form creates something, the arguments of the one call are the group, the version and the
  plural in the path of the corresponding mutation, and the namespace is the one in the metadata of the
  created object.\<close>
theorem dashboard_requests_are_operations:
  "same_request (params_of [] u) (request_path (ReqTenant u)) GET query_ops ''itPolitoCrownlabsV1alpha1Tenant''
   \<and> same_request (params_of (''workspace-'' @ w) []) (request_path (ReqTemplates w)) GET query_ops ''itPolitoCrownlabsV1alpha2TemplateList''
   \<and> same_request (params_of [] []) all_instances_path GET query_ops ''itPolitoCrownlabsV1alpha2InstanceList''
   \<and> same_request (params_of ns []) (own_instances_path (Some ns)) GET query_ops ''listCrownlabsPolitoItV1alpha2NamespacedInstance''
   \<and> same_request (params_of [] ''crownlabs-virtual-machine-images'') imagelist_path GET query_ops ''itPolitoCrownlabsV1alpha1ImageList''
   \<and> (case startLab user r q t of
        Inl e \<Rightarrow> True
      | Inr cs \<Rightarrow> length cs = 1 \<and> list_all (creates_by ''createCrownlabsPolitoItV1alpha2NamespacedInstance'') cs)
   \<and> (case addTemplate ts s of
        Message_error e \<Rightarrow> True | Created c \<Rightarrow> creates_by ''createCrownlabsPolitoItV1alpha2NamespacedTemplate'' c)"
proof -
  have "length cs = 1 \<and> list_all (creates_by ''createCrownlabsPolitoItV1alpha2NamespacedInstance'') cs"
    if "startLab user r q t = Inr cs" for cs
    using that by (auto simp: startLab_def bind_res_Inr_iff new_lab_def rest_simps create_ops_def
        split: option.splits list.splits)
  moreover have "creates_by ''createCrownlabsPolitoItV1alpha2NamespacedTemplate'' c" if "addTemplate ts s = Created c" for c
    using that by (auto elim!: addTemplate_Created simp: template_item_def rest_simps create_ops_def)
  ultimately show ?thesis
    by (simp add: rest_simps query_ops_def all_instances_path_def own_instances_path_def imagelist_path_def js_string_def
        split: sum.split add_outcome.split)
qed


subsection \<open>The bodies of the requests\<close>

text \<open>
  The objects of the two creation calls as JSON, in the order of the literals of \<open>startLab\<close> and
  \<open>addTemplate\<close>; a property that is \<open>undefined\<close> is not sent.
\<close>

definition string_field :: "string \<Rightarrow> string option \<Rightarrow> (string \<times> jsval) list" where
  "string_field k v = (case v of None \<Rightarrow> [] | Some s \<Rightarrow> [(k, JStr s)])"

definition ref_body :: "GenericRef \<Rightarrow> jsval" where
  "ref_body r = JObj ((''name'', JStr (ref_name r)) # string_field ''namespace'' (ref_namespace r))"

definition meta_body :: "ObjectMeta \<Rightarrow> jsval" where
  "meta_body m = JObj ((''name'', JStr (m_name m)) # string_field ''namespace'' (m_namespace m))"

definition instance_body :: "new_instance \<Rightarrow> jsval" where
  "instance_body i =
     JObj [(''spec'', JObj [(''template.crownlabs.polito.it/TemplateRef'', ref_body (templateRef (spec i))),
                            (''tenant.crownlabs.polito.it/TenantRef'', ref_body (tenantRef (spec i)))]),
           (''metadata'', meta_body (metadata i)), (''apiVersion'', JStr (apiVersion i)), (''kind'', JStr (kind i))]"

definition bool_body :: "bool option \<Rightarrow> jsval" where
  "bool_body b = (case b of None \<Rightarrow> JStr [] | Some v \<Rightarrow> JBool v)"

definition environment_body :: "Environment \<Rightarrow> jsval" where
  "environment_body e =
     JObj [(''environmentType'', JStr (environmentType e)), (''guiEnabled'', bool_body (guiEnabled e)),
           (''image'', JStr (image e)), (''name'', JStr (env_label e)), (''persistent'', bool_body (persistent e)),
           (''resources'', JObj [(''cpu'', JNum (int (res_cpu (resources e)))), (''memory'', JStr (res_memory (resources e))),
              (''reservedCPUPercentage'', JNum (int (reservedCPUPercentage (resources e))))])]"

definition template_body :: "new_template \<Rightarrow> jsval" where
  "template_body t =
     JObj [(''apiVersion'', JStr (apiVersion t)), (''kind'', JStr (kind t)), (''metadata'', meta_body (metadata t)),
           (''spec'', JObj [(''description'', JStr (description (spec t))), (''prettyName'', JStr (prettyName (spec t))),
              (''workspace.crownlabs.polito.it/WorkspaceRef'', ref_body (spec_workspaceRef (spec t))),
              (''environmentList'', JArr (map environment_body (environmentList (spec t))))])]"

text \<open>The schema generator replaces the names of properties that GraphQL does not allow; the naming is a
  parameter, and what is used of it are the three names with dots of the custom resources.\<close>

fun rename :: "(string \<Rightarrow> string) \<Rightarrow> jsval \<Rightarrow> jsval" where
  "rename san (JObj ps) = JObj (map (\<lambda>p. (san (fst p), rename san (snd p))) ps)"
| "rename san (JArr vs) = JArr (map (rename san) vs)"
| "rename san v = v"

definition plain_names :: "string list" where
  "plain_names =
     [''spec'', ''metadata'', ''apiVersion'', ''kind'', ''name'', ''namespace'', ''description'', ''prettyName'',
      ''environmentList'', ''environmentType'', ''guiEnabled'', ''image'', ''persistent'', ''resources'', ''cpu'',
      ''memory'', ''reservedCPUPercentage'']"

definition crd_naming :: "(string \<Rightarrow> string) \<Rightarrow> bool" where
  "crd_naming san \<longleftrightarrow>
     map san plain_names = plain_names \<and>
     san ''template.crownlabs.polito.it/TemplateRef'' = ''templateCrownlabsPolitoItTemplateRef'' \<and>
     san ''tenant.crownlabs.polito.it/TenantRef'' = ''tenantCrownlabsPolitoItTenantRef'' \<and>
     san ''workspace.crownlabs.polito.it/WorkspaceRef'' = ''workspaceCrownlabsPolitoItWorkspaceRef''"

subsection \<open>Accepting a value, by its shape\<close>


lemmas accepts_simps = accepted_object_iff accepted_scalar accepted_maybe accepted_array accepted_enum
  scalar_value_def Scalars_def string_field_def ref_body_def meta_body_def

lemma crd_namingD:
  assumes "crd_naming san"
  shows "san ''spec'' = ''spec''" "san ''metadata'' = ''metadata''" "san ''apiVersion'' = ''apiVersion''"
    "san ''kind'' = ''kind''" "san ''name'' = ''name''" "san ''namespace'' = ''namespace''"
    "san ''description'' = ''description''" "san ''prettyName'' = ''prettyName''"
    "san ''environmentList'' = ''environmentList''" "san ''environmentType'' = ''environmentType''"
    "san ''guiEnabled'' = ''guiEnabled''" "san ''image'' = ''image''" "san ''persistent'' = ''persistent''"
    "san ''resources'' = ''resources''" "san ''cpu'' = ''cpu''" "san ''memory'' = ''memory''"
    "san ''reservedCPUPercentage'' = ''reservedCPUPercentage''"
    "san ''template.crownlabs.polito.it/TemplateRef'' = ''templateCrownlabsPolitoItTemplateRef''"
    "san ''tenant.crownlabs.polito.it/TenantRef'' = ''tenantCrownlabsPolitoItTenantRef''"
    "san ''workspace.crownlabs.polito.it/WorkspaceRef'' = ''workspaceCrownlabsPolitoItWorkspaceRef''"
  using assms by (simp_all add: crd_naming_def plain_names_def)

lemma instance_body_accepted:
  assumes "crd_naming san"
  shows "accepted (IRef ItPolitoCrownlabsV1alpha2InstanceInput) (rename san (instance_body (new_lab t u ns r)))"
  by (cases ns; cases "m_namespace (metadata t)")
    (simp_all add: instance_body_def new_lab_def accepts_simps input_defs crd_namingD [OF assms])

lemma template_body_accepted:
  assumes "crd_naming san" and "VMType s = Some gui" and "EnvType s \<in> {[], ''Container'', ''VirtualMachine''}"
  shows "accepted (IRef ItPolitoCrownlabsV1alpha2TemplateInput) (rename san (template_body (template_item course img n s)))
    \<longleftrightarrow> EnvType s \<noteq> []"
proof -
  have enum: "accepted (IEnum EnvironmentType) (JStr (EnvType s)) \<longleftrightarrow> EnvType s \<noteq> []"
    using assms(3) by (auto simp: accepted_enum ts_EnvironmentType_def)
  show ?thesis
    using assms(2) enum
    by (simp add: template_body_def template_item_def environment_body_def bool_body_def accepted_object_iff
        accepted_scalar accepted_maybe accepted_array
        scalar_value_def Scalars_def string_field_def ref_body_def meta_body_def input_defs crd_namingD [OF assms(1)])
qed

subsection \<open>Agreement on the bodies\<close>

text \<open>The types of the body of an operation: those of its required arguments that are not part of the path.\<close>

definition body_types :: "string \<Rightarrow> in_type list" where
  "body_types name =
     (case map_of create_ops name of
        None \<Rightarrow> []
      | Some (m, segs, args) \<Rightarrow>
          map (\<lambda>a. snd (snd a)) (filter (\<lambda>a. \<not> fst (snd a) \<and> Param (fst a) \<notin> set segs) args))"

primrec request_body :: "created \<Rightarrow> jsval" where
  "request_body (NewInstance i) = instance_body i"
| "request_body (NewTemplate t) = template_body t"

fun sends_body :: "(string \<Rightarrow> string) \<Rightarrow> string \<Rightarrow> api_call \<Rightarrow> bool" where
  "sends_body san name (CreateCustomResource g v ns plural b) =
     (body_types name \<noteq> [] \<and> list_all (\<lambda>t. accepted t (rename san (request_body b))) (body_types name))"
| "sends_body san name _ = False"

lemma body_types_created:
  "body_types ''createCrownlabsPolitoItV1alpha2NamespacedInstance'' = [IRef ItPolitoCrownlabsV1alpha2InstanceInput]"
  "body_types ''createCrownlabsPolitoItV1alpha2NamespacedTemplate'' = [IRef ItPolitoCrownlabsV1alpha2TemplateInput]"
  by (simp_all add: body_types_def create_ops_def api_def
      arg_MutationCreateCrownlabsPolitoItV1alpha2NamespacedInstanceArgs_def
      arg_MutationCreateCrownlabsPolitoItV1alpha2NamespacedTemplateArgs_def)

text \<open>C28: The objects the dashboard creates are values of the input types of the corresponding mutations:
  an instance always, and a template, in every state the form can reach, exactly when an environment
  type has been chosen, which the form does not check. \<open>san\<close> is the naming of the schema generator.\<close>
theorem created_objects_fit_inputs:
  assumes "crd_naming san" and "form_run s"
  shows "(case startLab user r q t of
        Inl e \<Rightarrow> True | Inr cs \<Rightarrow> list_all (sends_body san ''createCrownlabsPolitoItV1alpha2NamespacedInstance'') cs)
   \<and> (case addTemplate ts s of
        Message_error e \<Rightarrow> True
      | Created c \<Rightarrow> sends_body san ''createCrownlabsPolitoItV1alpha2NamespacedTemplate'' c = (EnvType s \<noteq> []))"
proof
  have "list_all (sends_body san ''createCrownlabsPolitoItV1alpha2NamespacedInstance'') cs" if "startLab user r q t = Inr cs" for cs
    using that instance_body_accepted [OF assms(1)]
    by (auto simp: startLab_def bind_res_Inr_iff body_types_created split: option.splits list.splits)
  then show "case startLab user r q t of
      Inl e \<Rightarrow> True | Inr cs \<Rightarrow> list_all (sends_body san ''createCrownlabsPolitoItV1alpha2NamespacedInstance'') cs"
    by (simp split: sum.split)
  have env: "EnvType s \<in> {[], ''Container'', ''VirtualMachine''}"
    using form_run_inv [OF assms(2)] by (simp only: form_inv_def)
  have "sends_body san ''createCrownlabsPolitoItV1alpha2NamespacedTemplate'' c = (EnvType s \<noteq> [])"
    if "addTemplate ts s = Created c" for c
    using that
  proof (rule addTemplate_Created)
    fix course img
    assume "\<not> fields_missing s" and c: "c = CreateCustomResource ''crownlabs.polito.it'' ''v1alpha2''
      (Some (course_namespace (Some course))) ''templates'' (NewTemplate (template_item course img (labNumber (Some course) ts) s))"
    then obtain gui where "VMType s = Some gui" by (auto simp: fields_missing_def)
    from template_body_accepted [OF assms(1) this env] show ?thesis by (simp add: c body_types_created)
  qed
  then show "case addTemplate ts s of
        Message_error e \<Rightarrow> True
      | Created c \<Rightarrow> sends_body san ''createCrownlabsPolitoItV1alpha2NamespacedTemplate'' c = (EnvType s \<noteq> [])"
    by (simp split: add_outcome.split)
qed

definition sample_naming :: "string \<Rightarrow> string" where
  "sample_naming x =
     (if x = ''template.crownlabs.polito.it/TemplateRef'' then ''templateCrownlabsPolitoItTemplateRef''
      else if x = ''tenant.crownlabs.polito.it/TenantRef'' then ''tenantCrownlabsPolitoItTenantRef''
      else if x = ''workspace.crownlabs.polito.it/WorkspaceRef'' then ''workspaceCrownlabsPolitoItWorkspaceRef''
      else x)"

lemma sample_naming_ok: "crd_naming sample_naming"
  by (simp add: crd_naming_def plain_names_def sample_naming_def)

theorem created_objects_fit_inputs_witness:
  "sends_body sample_naming ''createCrownlabsPolitoItV1alpha2NamespacedTemplate''
     (CreateCustomResource ''crownlabs.polito.it'' ''v1alpha2'' (Some (course_namespace (Some ''ase''))) ''templates''
       (NewTemplate (template_item ''ase'' ''ubuntu'' (labNumber (Some ''ase'') []) filled_form)))
   = (EnvType filled_form \<noteq> [])"
  using created_objects_fit_inputs [OF sample_naming_ok filled_form_run, of None 0 undefined None "[]"]
  unfolding filled_form_creates add_outcome.case by (rule conjunct2)

end
