(* ===== verification/Bastion.thy ===== *)
theory Bastion
  imports Js_Prelude "HOL-Library.Multiset"
begin

section \<open>operators: the bastion controller\<close>

text \<open>
  \<open>operators/pkg/bastion-controller\<close> (Go): the file \<open>authorized_keys\<close> of the SSH bastion holds one line
  per public key of a tenant, marked with the tenant's name in its third field. \<open>Reconcile\<close> runs for
  one tenant at a time: it drops the lines marked with that tenant and, unless the tenant is gone,
  appends its current keys.

  \<open>strings.Split\<close> and \<open>strings.Join\<close> are the functions of \<open>Js_Prelude\<close>. The Kubernetes client and the file
  system are arguments: what \<open>Get\<close> answers, and which of the file operations fail. The in-place update
  of the slice in \<open>removeKey\<close> is a list update: only the returned slice is used afterwards.
\<close>

type_synonym 'a go_result = "string + 'a"

subsection \<open>helpers.go\<close>

definition removeKey :: "string list \<Rightarrow> nat \<Rightarrow> string list" where
  "removeKey s i = (if i \<ge> length s then s else take (length s - 1) (s[i := s ! (length s - 1)]))"

record AuthorizedKeysEntry =
  Algo :: string
  Key :: string
  ID :: string

definition Decompose :: "string \<Rightarrow> AuthorizedKeysEntry go_result" where
  "Decompose entry =
     (let entryComponents = js_split_char CHR '' '' entry
      in if length entryComponents = 3
         then Inr \<lparr>Algo = entryComponents ! 0, Key = entryComponents ! 1, ID = entryComponents ! 2\<rparr>
         else Inl ''invalid entry'')"

definition Create :: "string \<Rightarrow> string \<Rightarrow> AuthorizedKeysEntry go_result" where
  "Create entry ident =
     (let entryComponents = js_split_char CHR '' '' entry
      in if length entryComponents = 3 \<or> length entryComponents = 2
         then Inr \<lparr>Algo = entryComponents ! 0, Key = entryComponents ! 1, ID = ident\<rparr>
         else Inl ''invalid entry'')"

definition Compose :: "AuthorizedKeysEntry \<Rightarrow> string" where
  "Compose e = Algo e @ '' '' @ Key e @ '' '' @ ID e"

definition purge_indexes :: "string list \<Rightarrow> string \<Rightarrow> nat list" where
  "purge_indexes keys tenantID =
     fold (\<lambda>(i, key) indexesList.
             case Decompose key of
               Inl _ \<Rightarrow> indexesList
             | Inr entry \<Rightarrow> if ID entry = tenantID then indexesList @ [i] else indexesList)
       (enumerate 0 keys) []"

definition decomposeAndPurgeEntries :: "string list \<Rightarrow> string \<Rightarrow> string list" where
  "decomposeAndPurgeEntries keys tenantID =
     fold (\<lambda>i ks. removeKey ks i) (rev (purge_indexes keys tenantID)) keys"

definition composeAndMarkEntries :: "string list \<Rightarrow> string list \<Rightarrow> string \<Rightarrow> string list" where
  "composeAndMarkEntries keys tenantKeys tenantID =
     fold (\<lambda>key ks. case Create key tenantID of Inl _ \<Rightarrow> ks | Inr entry \<Rightarrow> ks @ [Compose entry])
       tenantKeys keys"

subsection \<open>bastion_controller.go\<close>

text \<open>The answer of \<open>r.Get\<close>: the public keys of the tenant, that there is none, or another error.\<close>

datatype tenant_answer = Tenant "string list" | NotFound | GetFails string

text \<open>Failing file operations: \<open>os.Stat\<close> on a file that is there, reading with its error, creating, and
  writing with what is then left in the file.\<close>

record file_faults =
  stat_fails :: bool
  read_error :: "string option"
  create_fails :: bool
  write_leaves :: "string option"

definition no_faults :: file_faults where
  "no_faults = \<lparr>stat_fails = False, read_error = None, create_fails = False, write_leaves = None\<rparr>"

type_synonym key_file = "string option"

text \<open>The file after the call and the returned error. Whatever error \<open>os.Stat\<close> has, the file counts as
  absent; a failing creation or write is logged and not returned.\<close>

definition Reconcile ::
  "file_faults \<Rightarrow> tenant_answer \<Rightarrow> string \<Rightarrow> key_file \<Rightarrow> key_file \<times> string option" where
  "Reconcile faults answer name file =
     (case answer of
        GetFails e \<Rightarrow> (file, Some e)
      | _ \<Rightarrow>
        (case (case (if stat_fails faults then None else file) of
                 None \<Rightarrow> Inr []
               | Some content \<Rightarrow>
                   (case read_error faults of
                      Some e \<Rightarrow> Inl e
                    | None \<Rightarrow>
                        Inr (if content \<noteq> [] then decomposeAndPurgeEntries (js_split_char CHR 0x0A content) name
                             else []))) of
           Inl e \<Rightarrow> (file, Some e)
         | Inr purged \<Rightarrow>
             (let keys = (case answer of Tenant publicKeys \<Rightarrow> composeAndMarkEntries purged publicKeys name
                                       | _ \<Rightarrow> purged)
              in if create_fails faults then (file, None)
                 else if keys \<noteq> []
                 then (case write_leaves faults of
                         Some left \<Rightarrow> (Some left, None)
                       | None \<Rightarrow> (Some (js_join nl keys), None))
                 else (Some [], None))))"

subsection \<open>Purging\<close>

definition marked :: "string \<Rightarrow> string \<Rightarrow> bool" where
  "marked tenantID key \<longleftrightarrow> (case Decompose key of Inl _ \<Rightarrow> False | Inr entry \<Rightarrow> ID entry = tenantID)"

lemma purge_indexes_filter:
  "purge_indexes keys tenantID = filter (\<lambda>i. marked tenantID (keys ! i)) [0..<length keys]"
proof -
  have "fold (\<lambda>(i, key) xs. case Decompose key of Inl _ \<Rightarrow> xs
            | Inr entry \<Rightarrow> if ID entry = tenantID then xs @ [i] else xs) ps acc =
        acc @ map fst (filter (\<lambda>p. marked tenantID (snd p)) ps)" for ps :: "(nat \<times> string) list" and acc
    by (induction ps arbitrary: acc) (auto simp: marked_def split: sum.splits)
  then have "purge_indexes keys tenantID = map fst (filter (\<lambda>p. marked tenantID (snd p)) (enumerate 0 keys))"
    by (simp add: purge_indexes_def)
  also have "enumerate 0 keys = map (\<lambda>i. (i, keys ! i)) [0..<length keys]"
    by (rule nth_equalityI) (auto simp: nth_enumerate_eq)
  finally show ?thesis by (simp add: filter_map comp_def)
qed

lemma removeKey_mset: "i < length s \<Longrightarrow> mset (removeKey s i) = mset s - {#s ! i#}"
proof -
  assume i: "i < length s"
  then have ne: "s \<noteq> []" by auto
  let ?t = "s[i := last s]"
  have len: "length ?t = length s" "?t \<noteq> []" using ne by auto
  have l: "last ?t = last s"
    using i ne by (simp add: last_conv_nth nth_list_update)
  have "mset ?t = add_mset (last s) (mset s - {#s ! i#})" using i by (simp add: mset_update)
  moreover have "mset ?t = add_mset (last s) (mset (butlast ?t))"
    using len(2) l append_butlast_last_id [of ?t] mset_append [of "butlast ?t" "[last ?t]"] by simp
  ultimately have "mset (butlast ?t) = mset s - {#s ! i#}" by simp
  with i ne show ?thesis
    by (simp add: removeKey_def butlast_conv_take last_conv_nth)
qed

text \<open>Removing from the last index down never moves an element that is still to be removed.\<close>

lemma removeKey_nth: "j < i \<Longrightarrow> i < length s \<Longrightarrow> removeKey s i ! j = s ! j \<and> j < length (removeKey s i)"
  by (simp add: removeKey_def)

lemma remove_indexes_mset:
  assumes "sorted_wrt (<) is" and "\<forall>i \<in> set is. i < length s"
  shows "mset (fold (\<lambda>i ks. removeKey ks i) (rev is) s) = mset s - mset (map ((!) s) is)"
  using assms
proof (induction "is" arbitrary: s rule: rev_induct)
  case (snoc i js)
  let ?s = "removeKey s i"
  have i: "i < length s" and lt: "\<forall>j \<in> set js. j < i" and sorted: "sorted_wrt (<) js"
    using snoc.prems by (auto simp: sorted_wrt_append)
  have same: "map ((!) ?s) js = map ((!) s) js" and len: "\<forall>j \<in> set js. j < length ?s"
    using lt i removeKey_nth by auto
  from snoc.IH [OF sorted len] same
  have "mset (fold (\<lambda>i ks. removeKey ks i) (rev js) ?s) = mset s - {#s ! i#} - mset (map ((!) s) js)"
    by (simp add: removeKey_mset [OF i])
  then show ?case by simp
qed simp

lemma purge_mset:
  "mset (decomposeAndPurgeEntries keys tenantID) = filter_mset (\<lambda>key. \<not> marked tenantID key) (mset keys)"
proof -
  let ?is = "filter (\<lambda>i. marked tenantID (keys ! i)) [0..<length keys]"
  have sorted: "sorted_wrt (<) ?is" by (simp add: sorted_wrt_filter)
  have bound: "\<forall>i \<in> set ?is. i < length keys" by simp
  have "map ((!) keys) ?is = filter (marked tenantID) (map ((!) keys) [0..<length keys])"
    by (simp only: filter_map comp_def)
  then have sel: "mset (map ((!) keys) ?is) = filter_mset (marked tenantID) (mset keys)"
    by (simp only: map_nth mset_filter)
  have "mset (decomposeAndPurgeEntries keys tenantID) = mset keys - filter_mset (marked tenantID) (mset keys)"
    unfolding decomposeAndPurgeEntries_def purge_indexes_filter remove_indexes_mset [OF sorted bound] sel by simp
  then show ?thesis
    using multiset_partition [of "mset keys" "marked tenantID"] by (metis add_diff_cancel_left')
qed

subsection \<open>Entries\<close>

text \<open>The lines of a tenant with the given public keys.\<close>

definition entries :: "string \<Rightarrow> string list \<Rightarrow> string list" where
  "entries tenantID tenantKeys =
     concat (map (\<lambda>key. case Create key tenantID of Inl _ \<Rightarrow> [] | Inr e \<Rightarrow> [Compose e]) tenantKeys)"

lemma composeAndMarkEntries_append:
  "composeAndMarkEntries keys tenantKeys tenantID = keys @ entries tenantID tenantKeys"
proof -
  have "fold (\<lambda>key ks. case Create key tenantID of Inl _ \<Rightarrow> ks | Inr e \<Rightarrow> ks @ [Compose e]) ts ks =
      ks @ entries tenantID ts" for ts ks
    by (induction ts arbitrary: ks) (auto simp: entries_def split: sum.split)
  then show ?thesis by (simp add: composeAndMarkEntries_def)
qed

text \<open>Names of tenants: no blank and no line break.\<close>

definition tenant_name :: "string \<Rightarrow> bool" where
  "tenant_name n \<longleftrightarrow> CHR '' '' \<notin> set n \<and> CHR 0x0A \<notin> set n"

definition one_line :: "string \<Rightarrow> bool" where
  "one_line k \<longleftrightarrow> CHR 0x0A \<notin> set k"

lemma split_three:
  "CHR '' '' \<notin> set a \<union> set b \<union> set c \<Longrightarrow> js_split_char CHR '' '' (a @ '' '' @ b @ '' '' @ c) = [a, b, c]"
  by (simp add: js_split_char_append js_split_char_word)

lemma entries_cases:
  assumes "l \<in> set (entries n ks)"
  obtains k a b rest where "k \<in> set ks" "js_split_char CHR '' '' k = a # b # rest" "length rest \<le> 1"
    "l = a @ '' '' @ b @ '' '' @ n"
proof -
  from assms obtain k where k: "k \<in> set ks"
    and l: "l \<in> set (case Create k n of Inl _ \<Rightarrow> [] | Inr e \<Rightarrow> [Compose e])"
    unfolding entries_def by auto
  let ?c = "js_split_char CHR '' '' k"
  from l have len: "length ?c = 3 \<or> length ?c = 2"
    by (auto simp: Create_def Let_def split: if_splits)
  then obtain a b rest where c: "?c = a # b # rest" and "length rest \<le> 1"
    by (cases ?c; cases "tl ?c") auto
  moreover from l len c have "l = a @ '' '' @ b @ '' '' @ n"
    by (auto simp: Create_def Let_def Compose_def)
  ultimately show thesis using k that by blast
qed

lemma entry_marked:
  assumes "l \<in> set (entries n ks)" and "tenant_name n"
  shows "marked m l \<longleftrightarrow> m = n" and "l \<noteq> []"
proof -
  from assms(1) obtain k a b rest where c: "js_split_char CHR '' '' k = a # b # rest"
    and l: "l = a @ '' '' @ b @ '' '' @ n" by (rule entries_cases)
  then have "CHR '' '' \<notin> set a \<union> set b \<union> set n"
    using js_split_char_fields [of a "CHR '' ''" k] js_split_char_fields [of b "CHR '' ''" k] assms(2)
    by (auto simp: tenant_name_def)
  with l split_three [of a b n] show "marked m l \<longleftrightarrow> m = n"
    by (auto simp: marked_def Decompose_def Let_def)
  from l show "l \<noteq> []" by simp
qed

lemma split_char_subset: "w \<in> set (js_split_char d s) \<Longrightarrow> set w \<subseteq> set s"
proof (induction s arbitrary: w)
  case (Cons c cs)
  then show ?case
    by (cases "js_split_char d cs") (fastforce split: if_splits)+
qed simp

lemma entry_one_line:
  assumes "l \<in> set (entries n ks)" and "tenant_name n" and "list_all one_line ks"
  shows "one_line l"
proof -
  from assms(1) obtain k a b rest where k: "k \<in> set ks" and c: "js_split_char CHR '' '' k = a # b # rest"
    and l: "l = a @ '' '' @ b @ '' '' @ n" by (rule entries_cases)
  then have "set a \<subseteq> set k" "set b \<subseteq> set k"
    using split_char_subset [of a "CHR '' ''" k] split_char_subset [of b "CHR '' ''" k] by auto
  with k assms(2,3) l show ?thesis by (auto simp: one_line_def list_all_iff tenant_name_def)
qed

subsection \<open>The lines of the file\<close>

definition text_lines :: "string \<Rightarrow> string multiset" where
  "text_lines s = mset (filter (\<lambda>l. l \<noteq> []) (js_split_char CHR 0x0A s))"

definition file_lines :: "key_file \<Rightarrow> string multiset" where
  "file_lines file = (case file of None \<Rightarrow> {#} | Some content \<Rightarrow> text_lines content)"

lemma split_char_glue: "js_split_char d (s @ d # t) = js_split_char d s @ js_split_char d t"
proof (induction s)
  case (Cons c cs)
  then show ?case by (cases "js_split_char d cs") auto
qed simp

lemma split_join_concat: "ks \<noteq> [] \<Longrightarrow> js_split_char d (js_join [d] ks) = concat (map (js_split_char d) ks)"
  by (induction "[d]" ks rule: js_join.induct) (auto simp: split_char_glue)

lemma text_lines_join: "text_lines (js_join nl ks) = sum_list (map text_lines ks)"
proof (cases "ks = []")
  case False
  have "mset (filter (\<lambda>l. l \<noteq> []) (concat (map (js_split_char CHR 0x0A) xs))) = sum_list (map text_lines xs)" for xs
    by (induction xs) (simp_all add: text_lines_def)
  with False show ?thesis by (simp add: text_lines_def nl_def split_join_concat)
qed (simp add: text_lines_def)

lemma text_lines_one: "one_line l \<Longrightarrow> text_lines l = (if l = [] then {#} else {#l#})"
  by (simp add: text_lines_def one_line_def js_split_char_word)

lemma sum_text_lines:
  "\<forall>l \<in> set ls. one_line l \<Longrightarrow> sum_list (map text_lines ls) = filter_mset (\<lambda>l. l \<noteq> []) (mset ls)"
  by (induction ls) (auto simp: text_lines_one)

lemma not_marked_Nil [simp]: "\<not> marked n []"
  by (simp add: marked_def Decompose_def)

lemma in_sum_list: "x \<in> set xs \<Longrightarrow> l \<in># f x \<Longrightarrow> l \<in># sum_list (map f xs)"
  by (induction xs) auto

text \<open>What a call without faults does to the lines.\<close>

definition answer_lines :: "string \<Rightarrow> tenant_answer \<Rightarrow> string list" where
  "answer_lines name answer = (case answer of Tenant ks \<Rightarrow> entries name ks | _ \<Rightarrow> [])"

lemma Reconcile_no_faults:
  assumes "\<And>e. answer \<noteq> GetFails e"
  shows "\<exists>purged. Reconcile no_faults answer name file = (Some (js_join nl (purged @ answer_lines name answer)), None) \<and>
    sum_list (map text_lines purged) = filter_mset (\<lambda>l. \<not> marked name l) (file_lines file)"
proof -
  define purged where "purged = (case file of None \<Rightarrow> [] | Some content \<Rightarrow>
    if content \<noteq> [] then decomposeAndPurgeEntries (js_split_char CHR 0x0A content) name else [])"
  have r: "Reconcile no_faults answer name file = (Some (js_join nl (purged @ answer_lines name answer)), None)"
    using assms
    by (cases answer) (auto simp: Reconcile_def no_faults_def purged_def answer_lines_def Let_def
        composeAndMarkEntries_append split: option.splits)
  have "sum_list (map text_lines purged) = filter_mset (\<lambda>l. \<not> marked name l) (file_lines file)"
  proof (cases "\<exists>content. file = Some content \<and> content \<noteq> []")
    case True
    then obtain content where c: "file = Some content" "content \<noteq> []" by blast
    then have m: "mset purged = filter_mset (\<lambda>l. \<not> marked name l) (mset (js_split_char CHR 0x0A content))"
      by (simp add: purged_def purge_mset)
    have "l \<in> set purged \<Longrightarrow> one_line l" for l
      using m js_split_char_fields [of l "CHR 0x0A" content]
      by (auto simp: one_line_def dest!: arg_cong [of _ _ "\<lambda>M. l \<in># M"])
    with m c show ?thesis
      by (simp add: sum_text_lines file_lines_def text_lines_def filter_filter_mset conj_commute mset_filter)
  next
    case False
    then show ?thesis by (cases "file") (auto simp: purged_def file_lines_def text_lines_def)
  qed
  with r show ?thesis by blast
qed

lemma Reconcile_lines:
  assumes "\<And>e. answer \<noteq> GetFails e"
  shows "snd (Reconcile no_faults answer name file) = None"
    and "file_lines (fst (Reconcile no_faults answer name file)) =
      filter_mset (\<lambda>l. \<not> marked name l) (file_lines file) + sum_list (map text_lines (answer_lines name answer))"
  using Reconcile_no_faults [OF assms, of name "file"] by (auto simp: file_lines_def text_lines_join)

subsection \<open>The contract of the file\<close>

text \<open>
  A store that is updated for one name at a time: an update sets what the store shows under its name
  and leaves what it shows under every other name. After any sequence of updates a name shows what
  its last update put there.
\<close>

locale keyed_store =
  fixes put :: "'n \<Rightarrow> 'a \<Rightarrow> 's \<Rightarrow> 's" and view :: "'s \<Rightarrow> 'n \<Rightarrow> 'v" and content :: "'n \<Rightarrow> 'a \<Rightarrow> 'v"
    and ok :: "'n \<Rightarrow> 'a \<Rightarrow> bool"
  assumes view_put: "ok n a \<Longrightarrow> view (put n a s) m = (if m = n then content n a else view s m)"
begin

definition puts :: "('n \<times> 'a) list \<Rightarrow> 's \<Rightarrow> 's" where
  "puts cs s = fold (\<lambda>c. put (fst c) (snd c)) cs s"

lemma view_puts:
  assumes "list_all (\<lambda>c. ok (fst c) (snd c)) cs"
  shows "view (puts cs s) m = (case map_of (rev cs) m of None \<Rightarrow> view s m | Some a \<Rightarrow> content m a)"
  using assms
proof (induction cs rule: rev_induct)
  case (snoc c cs)
  then have c: "ok (fst c) (snd c)" by simp
  have "view (puts (cs @ [c]) s) m = (if m = fst c then content (fst c) (snd c) else view (puts cs s) m)"
    using view_put [OF c] by (simp add: puts_def)
  with snoc show ?case by (cases c) (auto split: option.split)
qed (simp add: puts_def)

end

definition reconciled :: "string \<Rightarrow> tenant_answer \<Rightarrow> key_file \<Rightarrow> key_file" where
  "reconciled name answer file = fst (Reconcile no_faults answer name file)"

definition answer_ok :: "string \<Rightarrow> tenant_answer \<Rightarrow> bool" where
  "answer_ok name answer \<longleftrightarrow> tenant_name name \<and>
     (case answer of Tenant ks \<Rightarrow> list_all one_line ks | NotFound \<Rightarrow> True | GetFails _ \<Rightarrow> False)"

definition lines_of :: "key_file \<Rightarrow> string \<Rightarrow> string multiset" where
  "lines_of file name = filter_mset (marked name) (file_lines file)"

lemma answer_lines_text:
  assumes "answer_ok n a"
  shows "sum_list (map text_lines (answer_lines n a)) = mset (answer_lines n a)"
proof -
  have "l \<in> set (answer_lines n a) \<Longrightarrow> one_line l \<and> l \<noteq> []" for l
    using assms entry_one_line entry_marked(2) by (auto simp: answer_lines_def answer_ok_def split: tenant_answer.splits)
  then have "sum_list (map text_lines (answer_lines n a)) = filter_mset (\<lambda>l. l \<noteq> []) (mset (answer_lines n a))"
    and "filter_mset (\<lambda>l. l \<noteq> []) (mset (answer_lines n a)) = mset (answer_lines n a)"
    by (simp add: sum_text_lines) (simp add: filter_mset_eq_conv \<open>\<And>l. l \<in> set (answer_lines n a) \<Longrightarrow> one_line l \<and> l \<noteq> []\<close>)
  then show ?thesis by simp
qed

lemma answer_lines_marked:
  "answer_ok n a \<Longrightarrow> l \<in> set (answer_lines n a) \<Longrightarrow> marked m l \<longleftrightarrow> m = n"
  using entry_marked(1) by (auto simp: answer_lines_def answer_ok_def split: tenant_answer.splits)

lemma reconciled_lines:
  assumes "answer_ok n a"
  shows "file_lines (reconciled n a f) = filter_mset (\<lambda>l. \<not> marked n l) (file_lines f) + mset (answer_lines n a)"
proof -
  from assms have "a \<noteq> GetFails e" for e by (auto simp: answer_ok_def)
  from Reconcile_lines(2) [OF this] answer_lines_text [OF assms] show ?thesis by (simp add: reconciled_def)
qed

lemma marked_unique: "marked m l \<Longrightarrow> marked n l \<Longrightarrow> m = n"
  by (auto simp: marked_def split: sum.splits)

interpretation authorized_keys:
  keyed_store reconciled lines_of "\<lambda>n a. mset (answer_lines n a)" answer_ok
proof
  fix n a m s
  assume ok: "answer_ok n a"
  have m: "filter_mset (marked m) (mset (answer_lines n a)) = (if m = n then mset (answer_lines n a) else {#})"
    using answer_lines_marked [OF ok] by (auto simp: filter_mset_eq_conv)
  have "filter_mset (marked m) (filter_mset (\<lambda>l. \<not> marked n l) M) = (if m = n then {#} else filter_mset (marked m) M)" for M
    using marked_unique [of m _ n] by (auto simp: filter_filter_mset intro: filter_mset_cong)
  with m show "lines_of (reconciled n a s) m = (if m = n then mset (answer_lines n a) else lines_of s m)"
    by (simp add: lines_of_def reconciled_lines [OF ok])
qed

text \<open>A sequence of calls, one tenant each.\<close>

definition reconcile_all :: "(string \<times> tenant_answer) list \<Rightarrow> key_file \<Rightarrow> key_file" where
  "reconcile_all cs file = fold (\<lambda>c. reconciled (fst c) (snd c)) cs file"

lemma reconcile_all_puts: "reconcile_all = authorized_keys.puts"
  by (simp add: reconcile_all_def authorized_keys.puts_def fun_eq_iff)

text \<open>A line that no reconciliation recognises stays.\<close>

lemma unmarked_line_stays:
  assumes "\<forall>n. \<not> marked n l" and "l \<in># file_lines f" and "\<forall>c \<in> set cs. \<forall>e. snd c \<noteq> GetFails e"
  shows "l \<in># file_lines (reconcile_all cs f)"
  using assms(2,3)
proof (induction cs arbitrary: f)
  case (Cons c cs)
  have "l \<in># file_lines (reconciled (fst c) (snd c) f)"
    using Cons.prems assms(1) Reconcile_lines(2) [of "snd c" "fst c" f] by (simp add: reconciled_def)
  with Cons show ?case by (simp add: reconcile_all_def)
qed (simp add: reconcile_all_def)

text \<open>Errors: when the tenant or the file cannot be read, the file is left and the error returned, so that
  the call is repeated. A file that cannot be created or written is not reported: with a write that
  fails after the truncation, or with a failing \<open>os.Stat\<close>, the keys of all (other) tenants are gone until
  each of them is reconciled again.\<close>

lemma Reconcile_faults:
  "Reconcile faults (GetFails e) name file = (file, Some e)"
  "\<not> stat_fails faults \<Longrightarrow> read_error faults = Some r \<Longrightarrow> \<forall>x. answer \<noteq> GetFails x \<Longrightarrow>
     Reconcile faults answer name (Some content) = (Some content, Some r)"
  "\<forall>x. answer \<noteq> GetFails x \<Longrightarrow> read_error faults = None \<Longrightarrow> create_fails faults \<Longrightarrow>
     Reconcile faults answer name file = (file, None)"
  "\<forall>x. answer \<noteq> GetFails x \<Longrightarrow> read_error faults = None \<Longrightarrow> \<not> create_fails faults \<Longrightarrow> write_leaves faults = Some [] \<Longrightarrow>
     Reconcile faults answer name file = (Some [], None)"
  "stat_fails faults \<Longrightarrow> \<not> create_fails faults \<Longrightarrow> write_leaves faults = None \<Longrightarrow> \<forall>x. answer \<noteq> GetFails x \<Longrightarrow>
     Reconcile faults answer name file = (Some (js_join nl (answer_lines name answer)), None)"
  by (cases answer; auto simp: Reconcile_def Let_def answer_lines_def composeAndMarkEntries_append split: option.splits)+

text \<open>Calls with failures: the name, the failing file operations and the answer of \<open>Get\<close>. A call is given up
  when \<open>Get\<close>, the reading or the creation of the file fails; the others are carried out.\<close>

type_synonym bastion_call = "string \<times> file_faults \<times> tenant_answer"

definition reconcile_calls :: "bastion_call list \<Rightarrow> key_file \<Rightarrow> key_file" where
  "reconcile_calls cs file = fold (\<lambda>(n, faults, answer) f. fst (Reconcile faults answer n f)) cs file"

definition given_up :: "bastion_call \<Rightarrow> bool" where
  "given_up c \<longleftrightarrow> (case c of (n, faults, answer) \<Rightarrow>
     (case answer of GetFails _ \<Rightarrow> True | _ \<Rightarrow> read_error faults \<noteq> None \<or> create_fails faults))"

definition carried_out :: "bastion_call list \<Rightarrow> (string \<times> tenant_answer) list" where
  "carried_out cs = map (\<lambda>(n, faults, answer). (n, answer)) (filter (\<lambda>c. \<not> given_up c) cs)"

definition call_ok :: "bastion_call \<Rightarrow> bool" where
  "call_ok c \<longleftrightarrow> (case c of (n, faults, answer) \<Rightarrow> tenant_name n \<and> \<not> stat_fails faults \<and> write_leaves faults = None \<and>
     (case answer of Tenant ks \<Rightarrow> list_all one_line ks | _ \<Rightarrow> True))"

lemma Reconcile_call:
  assumes "call_ok (n, faults, answer)" and "f \<noteq> None \<or> read_error faults = None"
  shows "fst (Reconcile faults answer n f) = (if given_up (n, faults, answer) then f else reconciled n answer f)"
  using assms
  by (cases answer) (auto simp: call_ok_def given_up_def reconciled_def Reconcile_def no_faults_def Let_def split: option.splits)

lemma reconciled_exists: "f \<noteq> None \<Longrightarrow> reconciled n answer f \<noteq> None"
  by (cases answer) (auto simp: reconciled_def Reconcile_def no_faults_def Let_def split: option.splits)

lemma reconcile_calls_carried_out:
  assumes "list_all call_ok cs" and "f \<noteq> None \<or> list_all (\<lambda>(n, faults, answer). read_error faults = None) cs"
  shows "reconcile_calls cs f = reconcile_all (carried_out cs) f"
  using assms
proof (induction cs arbitrary: f)
  case (Cons c cs)
  obtain n faults answer where c: "c = (n, faults, answer)" by (cases c)
  let ?f = "if given_up c then f else reconciled n answer f"
  have "fst (Reconcile faults answer n f) = ?f" using Cons.prems Reconcile_call [of n faults answer f] by (auto simp: c)
  moreover have "reconcile_calls cs ?f = reconcile_all (carried_out cs) ?f"
    using Cons.prems reconciled_exists [of f n answer] by (intro Cons.IH) auto
  ultimately show ?case by (simp add: reconcile_calls_def reconcile_all_def carried_out_def c)
qed (simp add: reconcile_calls_def reconcile_all_def carried_out_def)

lemma carried_out_ok:
  "list_all call_ok cs \<Longrightarrow> list_all (\<lambda>c. answer_ok (fst c) (snd c)) (carried_out cs)"
  by (induction cs)
    (auto simp: carried_out_def call_ok_def answer_ok_def given_up_def split: tenant_answer.splits)

lemma reconcile_all_lines:
  assumes "list_all (\<lambda>c. answer_ok (fst c) (snd c)) cs"
  shows "set_mset (file_lines (reconcile_all cs f)) \<subseteq> set_mset (file_lines f) \<union> {l. \<exists>m \<in> fst ` set cs. marked m l}"
  using assms
proof (induction cs rule: rev_induct)
  case (snoc c cs)
  then have ok: "answer_ok (fst c) (snd c)" by simp
  from snoc show ?case
    using answer_lines_marked [OF ok] reconciled_lines [OF ok, of "reconcile_all cs f"]
    by (fastforce simp: reconcile_all_def)
qed (simp add: reconcile_all_def)

subsection \<open>Properties\<close>

text \<open>C6: take any sequence of reconciliations in which tenant names have no blank and no line break,
  public keys are single lines, \<open>os.Stat\<close> does not fail and no write fails; \<open>Get\<close>, the reading and the
  creation of the file may fail (reading only a file that was there from the start). Then the lines of
  the file marked with a tenant are exactly the valid keys of that tenant as the last of its
  reconciliations that was not given up saw them, none if the tenant was gone then, and what they were at
  the start if there was no such reconciliation; and every line of the file was there at the start or is
  marked with a tenant of the sequence. Keys are added, replaced and revoked, and no tenant's keys are
  touched by the reconciliation of another.\<close>

theorem authorized_keys_follow_tenants:
  assumes "list_all call_ok cs" and "file \<noteq> None \<or> list_all (\<lambda>(n, faults, answer). read_error faults = None) cs"
  shows "lines_of (reconcile_calls cs file) n =
      (case map_of (rev (carried_out cs)) n of None \<Rightarrow> lines_of file n | Some answer \<Rightarrow> mset (answer_lines n answer))
    \<and> set_mset (file_lines (reconcile_calls cs file)) \<subseteq>
        set_mset (file_lines file) \<union> {l. \<exists>m \<in> fst ` set (carried_out cs). marked m l}"
  using authorized_keys.view_puts [OF carried_out_ok [OF assms(1)], of "file" n]
    reconcile_all_lines [OF carried_out_ok [OF assms(1)], of "file"]
  by (simp add: reconcile_calls_carried_out [OF assms] reconcile_all_puts)

definition sample_calls :: "bastion_call list" where
  "sample_calls = [(''ann'', no_faults, Tenant [''ssh-rsa AAAA'', ''ssh-rsa BBBB laptop'', ''broken'']),
     (''bob'', no_faults, Tenant [''ssh-rsa CCCC'']), (''ann'', no_faults, Tenant [''ssh-rsa DDDD'']),
     (''ann'', no_faults\<lparr>create_fails := True\<rparr>, Tenant [''ssh-rsa EEEE'']), (''ann'', no_faults, GetFails ''timeout''),
     (''bob'', no_faults, NotFound)]"

theorem authorized_keys_follow_tenants_witness:
  "lines_of (reconcile_calls sample_calls None) ''ann'' = {#''ssh-rsa DDDD ann''#} \<and>
   lines_of (reconcile_calls sample_calls None) ''bob'' = {#}"
proof -
  have ok: "list_all call_ok sample_calls" and
    r: "(None :: key_file) \<noteq> None \<or> list_all (\<lambda>(n, faults, answer). read_error faults = None) sample_calls"
    by (simp_all add: sample_calls_def call_ok_def no_faults_def tenant_name_def one_line_def)
  have c: "carried_out sample_calls = [(''ann'', Tenant [''ssh-rsa AAAA'', ''ssh-rsa BBBB laptop'', ''broken'']),
      (''bob'', Tenant [''ssh-rsa CCCC'']), (''ann'', Tenant [''ssh-rsa DDDD'']), (''bob'', NotFound)]"
    by (simp add: sample_calls_def carried_out_def given_up_def no_faults_def)
  from authorized_keys_follow_tenants [OF ok r, of "''ann''"] authorized_keys_follow_tenants [OF ok r, of "''bob''"]
  show ?thesis
    by (simp add: c answer_lines_def entries_def Create_def Compose_def)
qed

text \<open>C32: a public key whose second field ends in a line break (\<open>algo body\<close> with a line break after
  the body, with or without a comment behind it; not a key whose comment ends in one, as the comment is
  dropped) cannot be revoked: once reconciled, the line \<open>algo body\<close> without the mark of the tenant is in
  the file after every further sequence of reconciliations, those after the deletion of the tenant
  included, as long as \<open>Get\<close> answers and no file operation fails.\<close>

theorem key_with_newline_stays:
  assumes "tenant_name algo" and "tenant_name body" and "CHR '' '' \<notin> set comment"
    and "key = algo @ '' '' @ body @ nl \<or> key = algo @ '' '' @ body @ nl @ '' '' @ comment" and "key \<in> set publicKeys"
    and "\<forall>c \<in> set cs. \<forall>e. snd c \<noteq> GetFails e"
  shows "algo @ '' '' @ body \<in># file_lines (reconcile_all cs (reconciled name (Tenant publicKeys) file))"
proof (rule unmarked_line_stays)
  let ?l = "algo @ '' '' @ body"
  have "js_split_char CHR '' '' ((body @ nl) @ CHR '' '' # comment) = [body @ nl, comment]"
    using assms(2,3) by (subst js_split_char_append) (simp_all add: tenant_name_def js_split_char_word nl_def)
  then have split: "js_split_char CHR '' '' ?l = [algo, body]"
    "js_split_char CHR '' '' key \<in> {[algo, body @ nl], [algo, body @ nl, comment]}"
    using assms(1,2,3,4) by (auto simp: tenant_name_def js_split_char_append js_split_char_word nl_def)
  then show "\<forall>n. \<not> marked n ?l" by (simp add: marked_def Decompose_def)
  have "js_split_char CHR 0x0A (?l @ CHR 0x0A # '' '' @ name) = [?l] @ js_split_char CHR 0x0A ('' '' @ name)"
    using assms(1,2) by (subst split_char_glue) (simp add: js_split_char_word tenant_name_def)
  then have "?l \<in># text_lines (?l @ nl @ '' '' @ name)" by (simp add: text_lines_def nl_def)
  moreover have "?l @ nl @ '' '' @ name \<in> set (entries name publicKeys)"
    using assms(5) split(2) by (force simp: entries_def Create_def Compose_def Let_def)
  ultimately have "?l \<in># sum_list (map text_lines (entries name publicKeys))"
    by (rule in_sum_list [rotated])
  then show "?l \<in># file_lines (reconciled name (Tenant publicKeys) file)"
    using Reconcile_lines(2) [of "Tenant publicKeys" name "file"] by (simp add: reconciled_def answer_lines_def)
qed (rule assms(6))

theorem key_with_newline_stays_witness:
  "''ssh-rsa AAAA'' \<in># file_lines (reconcile_all [(''ann'', NotFound)] (reconciled ''ann'' (Tenant [''ssh-rsa AAAA'' @ nl]) None))"
  using key_with_newline_stays [of "''ssh-rsa''" "''AAAA''" "[]" "''ssh-rsa AAAA'' @ nl" "[''ssh-rsa AAAA'' @ nl]"
      "[(''ann'', NotFound)]" "''ann''" None]
  by (simp add: tenant_name_def)

end
