(* ===== verification/Ssh_Agreement.thy ===== *)
theory Ssh_Agreement
  imports Account_Page Bastion
begin

section \<open>The key form of the frontend against the bastion operator\<close>

text \<open>
  The form of the account page validates and completes the public keys of a tenant, the bastion operator
  writes them to the file of authorized keys. The form splits a key at white space, the operator at
  single blanks, and both append to it. The theory compares what one accepts with what the other can
  use. A key is \<open>well_spaced\<close> when its fields are separated by single blanks.
\<close>

definition well_spaced :: "string \<Rightarrow> bool" where
  "well_spaced key \<longleftrightarrow> key = js_join '' '' (js_split_ws key)"

definition accepted_by_bastion :: "string \<Rightarrow> bool" where
  "accepted_by_bastion key \<longleftrightarrow> (case Create key [] of Inl _ \<Rightarrow> False | Inr _ \<Rightarrow> True)"

lemma Create_accepted:
  "accepted_by_bastion key \<longleftrightarrow> length (js_split_char CHR '' '' key) \<in> {2, 3}"
  by (auto simp: accepted_by_bastion_def Create_def Let_def)

lemma split_char_single: "length (js_split_char d s) = 1 \<longleftrightarrow> d \<notin> set s"
proof (induction s)
  case (Cons c cs)
  then show ?case by (cases "js_split_char d cs") auto
qed simp

lemma split_char_pos: "0 < length (js_split_char d s)"
  by simp

text \<open>A valid, well-spaced key, by its fields.\<close>

lemma valid_key_fields:
  assumes "is_ok (validateSSHKey (Some key))" and "well_spaced key"
  obtains algo body rest where "js_split_ws key = algo # body # rest" "length rest \<le> 1"
    "js_split_char CHR '' '' key = algo # body # rest" "body \<noteq> []" "algo \<in> set acceptedAlgorithms"
    "key = js_join '' '' (algo # body # rest)"
proof -
  from assms(1) obtain algo body rest where f: "js_split_ws key = algo # body # rest" "length rest \<le> 1" "body \<noteq> []"
    "algo \<in> set acceptedAlgorithms" by (auto simp: validateSSHKey_ok)
  have blank: "CHR '' '' \<notin> set w" if "w \<in> set (js_split_ws key)" for w
    using js_split_ws_fields [OF that] js_space_blank by (auto simp: list_all_iff)
  have "js_split_char CHR '' '' key = algo # body # rest"
    using js_split_join [of "algo # body # rest" "CHR '' ''"] blank assms(2) f(1) by (simp add: well_spaced_def)
  with f assms(2) show thesis by (intro that) (simp_all add: well_spaced_def)
qed

subsection \<open>Properties\<close>

text \<open>C33: a key that the form accepts and saves, well spaced, can be used by the bastion exactly when the
  name given to it contains no blank and the key was not followed by one: otherwise the form saves a
  key that the operator silently drops. When it is used, the line it gives has the algorithm and the
  body that were entered.\<close>

theorem form_keys_on_bastion:
  assumes "is_ok (validateSSHKey (Some key))" and "well_spaced key" and "saved_key name key = (n, k)"
  shows "accepted_by_bastion k = (CHR '' '' \<notin> set n \<and> [] \<notin> set (js_split_ws key))
    \<and> entries tenant [k] =
        (if accepted_by_bastion k then [js_split_ws key ! 0 @ '' '' @ js_split_ws key ! 1 @ '' '' @ tenant] else [])"
proof -
  obtain algo body rest where f: "js_split_ws key = algo # body # rest" "length rest \<le> 1"
    "js_split_char CHR '' '' key = algo # body # rest" "body \<noteq> []" "algo \<in> set acceptedAlgorithms"
    "key = js_join '' '' (algo # body # rest)" using valid_key_fields [OF assms(1,2)] by blast
  have algo: "algo \<noteq> []" using f(5) by (auto simp: acceptedAlgorithms_def)
  have blank: "CHR '' '' \<notin> set algo" "CHR '' '' \<notin> set body"
    using f(3) js_split_char_fields [of _ "CHR '' ''" key] by simp_all
  have ex: "\<exists>ws. js_split_char CHR '' '' k = algo # body # ws \<and>
      (length ws = 1 \<longleftrightarrow> CHR '' '' \<notin> set n \<and> [] \<notin> set rest) \<and> ws \<noteq> []"
  proof (cases "\<exists>c. rest = [c] \<and> c \<noteq> []")
    case True
    then obtain c where c: "rest = [c]" "c \<noteq> []" by blast
    have "CHR '' '' \<notin> set c" using f(3) c js_split_char_fields [of c "CHR '' ''" key] by simp
    with c f assms(3) have "k = algo @ CHR '' '' # body @ CHR '' '' # (c @ '':'' @ n)"
      by (auto simp: saved_key_def Let_def)
    then have "js_split_char CHR '' '' k = algo # body # js_split_char CHR '' '' (c @ '':'' @ n)"
      by (simp only: js_split_char_append [OF blank(1)] js_split_char_append [OF blank(2)])
    moreover have "length (js_split_char CHR '' '' (c @ '':'' @ n)) = 1 \<longleftrightarrow> CHR '' '' \<notin> set n"
      using \<open>CHR '' '' \<notin> set c\<close> by (simp only: split_char_single) simp
    ultimately show ?thesis using c by (metis empty_iff empty_set js_split_char_neq_Nil set_ConsD)
  next
    case False
    with f(2) have rest: "rest = [] \<or> rest = [[]]" by (cases rest) auto
    have key: "key = algo @ CHR '' '' # body @ (if rest = [] then [] else '' '')"
      using rest f(6) by auto
    have "js_split_char CHR '' '' k = algo # body # (if rest = [] then [] else [[]]) @ js_split_char CHR '' '' n"
      using rest
    proof
      assume r: "rest = []"
      with f assms(3) key have "k = algo @ CHR '' '' # body @ CHR '' '' # n"
        by (auto simp: saved_key_def Let_def)
      then show ?thesis using r by (simp add: js_split_char_append blank)
    next
      assume r: "rest = [[]]"
      with f assms(3) key have "k = algo @ CHR '' '' # body @ CHR '' '' # CHR '' '' # n"
        by (auto simp: saved_key_def Let_def)
      then show ?thesis using r by (simp add: js_split_char_append blank)
    qed
    then show ?thesis using rest split_char_single [of "CHR '' ''" n] split_char_pos [of "CHR '' ''" n] by auto
  qed
  then obtain ws where ws: "js_split_char CHR '' '' k = algo # body # ws"
    "length ws = 1 \<longleftrightarrow> CHR '' '' \<notin> set n \<and> [] \<notin> set rest" "ws \<noteq> []" by blast
  then have acc: "accepted_by_bastion k \<longleftrightarrow> length ws = 1" by (cases ws) (auto simp: Create_accepted)
  with ws have "entries tenant [k] = (if accepted_by_bastion k then [algo @ '' '' @ body @ '' '' @ tenant] else [])"
    by (auto simp: entries_def Create_def Compose_def Let_def)
  with acc ws(2) f(1,4) algo show ?thesis by auto
qed

theorem form_keys_on_bastion_witness:
  "accepted_by_bastion ''ssh-rsa AAAA laptop'' \<and> \<not> accepted_by_bastion ''ssh-rsa AAAA my laptop''"
proof -
  have ws: "well_spaced ''ssh-rsa AAAA''" by (simp add: well_spaced_def split_sample)
  have "saved_key '' laptop'' ''ssh-rsa AAAA'' = (''laptop'', ''ssh-rsa AAAA laptop'')"
    "saved_key ''my laptop'' ''ssh-rsa AAAA'' = (''my laptop'', ''ssh-rsa AAAA my laptop'')"
    by (simp_all add: saved_key_def split_sample js_trim_def js_space_def Let_def)
  from form_keys_on_bastion [OF sample_key_ok ws this(1)] form_keys_on_bastion [OF sample_key_ok ws this(2)]
  show ?thesis by (simp add: split_sample)
qed

text \<open>A key pasted with the line break that ends a key file passes the validation of the form, and what the
  form saves gives the same line of the bastion's file as the key with the line break: the line that
  cannot be revoked.\<close>

lemma form_accepts_newline:
  assumes "algo \<in> set acceptedAlgorithms" and "no_space body" and "body \<noteq> []" and "no_space (js_trim name)"
  shows "is_ok (validateSSHKey (Some (algo @ '' '' @ body @ nl)))
    \<and> entries tenant [snd (saved_key name (algo @ '' '' @ body @ nl))] = entries tenant [algo @ '' '' @ body @ nl]"
proof -
  let ?key = "algo @ '' '' @ body @ nl" and ?n = "js_trim name"
  have a: "list_all (\<lambda>c. \<not> js_space c) algo" using assms(1) by (auto simp: acceptedAlgorithms_def js_space_def)
  have b: "list_all (\<lambda>c. \<not> js_space c) body" "\<not> js_space (hd body)"
    using assms(2,3) by (auto simp: no_space_def list_all_iff)
  have nl: "js_space CHR 0x0A" by (simp add: js_space_def)
  have "dropWhile js_space (body @ nl) = body @ nl" using b(2) assms(3) by (cases body) auto
  then have ws: "js_split_ws ?key = [algo, body, []]"
    using js_split_ws_append [OF a js_space_blank, of "body @ nl"] js_split_ws_append [OF b(1) nl, of "[]"]
    by (simp add: nl_def)
  then have valid: "is_ok (validateSSHKey (Some ?key))" using assms(1,3) by (simp add: validateSSHKey_ok)
  have blank: "CHR '' '' \<notin> set algo" "CHR '' '' \<notin> set body" "CHR '' '' \<notin> set ?n"
    using a b(1) assms(4) js_space_blank by (auto simp: list_all_iff no_space_def)
  have "snd (saved_key name ?key) = algo @ CHR '' '' # (body @ nl) @ CHR '' '' # ?n"
    using ws by (simp add: saved_key_def Let_def)
  moreover have bn: "CHR '' '' \<notin> set (body @ nl)" using blank by (simp add: nl_def)
  ultimately have "js_split_char CHR '' '' (snd (saved_key name ?key)) = [algo, body @ nl, ?n]"
    by (simp only: js_split_char_append [OF blank(1)] js_split_char_append [OF bn] js_split_char_word [OF blank(3)])
  moreover have "js_split_char CHR '' '' ?key = [algo, body @ nl]"
    using blank by (simp add: js_split_char_append js_split_char_word nl_def)
  ultimately show ?thesis using valid by (simp add: entries_def Create_def Compose_def Let_def)
qed

end
