(* ===== verification/Go_Effects.thy ===== *)
theory Go_Effects
  imports Js_Prelude
begin

section \<open>operators: calls to the outside\<close>

text \<open>
  What a Go function of the operators does to other systems: the requests it sends, in their order, and
  how it ends: with a value, with an error, or with a panic, which no caller handles. The answers of the
  other systems are arguments of the functions. \<open>act_then\<close> is the sequence of two calls with the early
  return \<open>if err != nil { return err }\<close>, \<open>act_try\<close> a call whose error is kept in a variable.
\<close>

datatype 'a outcome = Done 'a | Err string | Panic

type_synonym ('r, 'a) act = "'r list \<times> 'a outcome"

definition act_ret :: "'a \<Rightarrow> ('r, 'a) act" where
  "act_ret x = ([], Done x)"

definition act_fail :: "string \<Rightarrow> ('r, 'a) act" where
  "act_fail e = ([], Err e)"

definition act_then :: "('r, 'a) act \<Rightarrow> ('a \<Rightarrow> ('r, 'b) act) \<Rightarrow> ('r, 'b) act" where
  "act_then m f =
     (case snd m of
        Done x \<Rightarrow> (fst m @ fst (f x), snd (f x))
      | Err e \<Rightarrow> (fst m, Err e)
      | Panic \<Rightarrow> (fst m, Panic))"

definition act_try :: "('r, 'a) act \<Rightarrow> ('r, string + 'a) act" where
  "act_try m =
     (fst m, case snd m of Done x \<Rightarrow> Done (Inr x) | Err e \<Rightarrow> Done (Inl e) | Panic \<Rightarrow> Panic)"

text \<open>A read without effect, and a request with its error.\<close>

definition act_get :: "string + 'a \<Rightarrow> ('r, 'a) act" where
  "act_get answer = (case answer of Inl e \<Rightarrow> act_fail e | Inr x \<Rightarrow> act_ret x)"

definition act_send :: "'r \<Rightarrow> string option \<Rightarrow> ('r, unit) act" where
  "act_send r error = ([r], case error of None \<Rightarrow> Done () | Some e \<Rightarrow> Err e)"

text \<open>\<open>retErr = err\<close>: the last error counts.\<close>

definition last_err :: "string option \<Rightarrow> string option \<Rightarrow> string option" where
  "last_err old new = (case new of None \<Rightarrow> old | Some e \<Rightarrow> Some e)"

definition err_of :: "string + 'a \<Rightarrow> string option" where
  "err_of r = (case r of Inl e \<Rightarrow> Some e | Inr _ \<Rightarrow> None)"

definition act_ok :: "('r, 'a) act \<Rightarrow> bool" where
  "act_ok m \<longleftrightarrow> (\<exists>x. snd m = Done x)"

definition act_lift :: "('r \<Rightarrow> 's) \<Rightarrow> ('r, 'a) act \<Rightarrow> ('s, 'a) act" where
  "act_lift g m = (map g (fst m), snd m)"

subsection \<open>Laws\<close>

lemma act_then_ret [simp]: "act_then (act_ret x) f = f x" "act_then (act_fail e) f = act_fail e"
  by (simp_all add: act_then_def act_ret_def act_fail_def)

lemma act_ret_right [simp]: "act_then m act_ret = m"
  by (cases m) (auto simp: act_then_def act_ret_def split: outcome.split)

lemma act_then_pair [simp]: "act_then (rs, Done x) f = (rs @ fst (f x), snd (f x))"
  by (simp add: act_then_def)

lemma act_then_assoc: "act_then (act_then m f) g = act_then m (\<lambda>x. act_then (f x) g)"
  by (auto simp: act_then_def split: outcome.split)

lemma act_try_simps [simp]:
  "act_try (act_ret x) = act_ret (Inr x)" "act_try (act_fail e) = act_ret (Inl e)" "fst (act_try m) = fst m"
  by (simp_all add: act_try_def act_ret_def act_fail_def)

lemma act_try_Done: "snd (act_try m) = Done r \<longleftrightarrow>
    (case r of Inr x \<Rightarrow> snd m = Done x | Inl e \<Rightarrow> snd m = Err e)"
  by (auto simp: act_try_def split: outcome.splits sum.splits)

lemma act_get_simps [simp]: "act_get (Inl e) = act_fail e" "act_get (Inr x) = act_ret x"
  by (simp_all add: act_get_def)

lemma outcome_simps [simp]:
  "snd (act_ret x) = Done x" "fst (act_ret x) = []" "snd (act_fail e) = Err e" "fst (act_fail e) = []"
  "fst (act_send r err) = [r]" "snd (act_send r None) = Done ()" "snd (act_send r (Some e)) = Err e"
  by (simp_all add: act_ret_def act_fail_def act_send_def)

lemma act_send_Done [simp]: "snd (act_send r err) = Done u \<longleftrightarrow> err = None"
  by (simp add: act_send_def split: option.split)

lemma calls_do_not_panic [simp]: "snd (act_send r err) \<noteq> Panic" "snd (act_get answer) \<noteq> Panic"
  by (simp_all add: act_send_def act_get_def split: option.split sum.split)

lemma last_err_None [simp]: "last_err a b = None \<longleftrightarrow> a = None \<and> b = None"
  by (simp add: last_err_def split: option.split)

lemma last_err_simps [simp]: "last_err None b = b" "last_err a None = a"
  by (simp_all add: last_err_def split: option.split)

lemma err_of_simps [simp]: "err_of (Inl e) = Some e" "err_of (Inr x) = None"
  by (simp_all add: err_of_def)

lemma act_then_DoneE:
  assumes "act_then m f = (rs, Done y)"
  obtains x as bs where "m = (as, Done x)" and "f x = (bs, Done y)" and "rs = as @ bs"
  using assms by (cases m; cases "snd m") (auto simp: act_then_def prod_eq_iff)

lemma act_then_Done [simp]:
  "snd (act_then m f) = Done y \<longleftrightarrow> (\<exists>x. snd m = Done x \<and> snd (f x) = Done y)"
  by (auto simp: act_then_def split: outcome.splits)

lemma act_then_Panic [simp]:
  "snd (act_then m f) = Panic \<longleftrightarrow> snd m = Panic \<or> (\<exists>x. snd m = Done x \<and> snd (f x) = Panic)"
  by (auto simp: act_then_def split: outcome.splits)

lemma act_try_not_Err: "snd (act_try m) \<noteq> Err e" "snd (act_try m) = Panic \<longleftrightarrow> snd m = Panic"
  by (auto simp: act_try_def split: outcome.split)

lemma act_lift_simps [simp]: "snd (act_lift g m) = snd m" "fst (act_lift g m) = map g (fst m)"
  by (simp_all add: act_lift_def)

lemma act_then_fst: "snd m = Done x \<Longrightarrow> fst (act_then m f) = fst m @ fst (f x)"
  by (simp add: act_then_def)

end
