(* ===== verification/Tenant_Keycloak.thy ===== *)
theory Tenant_Keycloak
  imports Go_Effects Js_Json "HOL-Library.Sublist"
begin

section \<open>operators: the Keycloak accounts of tenants\<close>

text \<open>
  \<open>operators/pkg/tenant-controller/keycloak_utils.go\<close> and the parts of \<open>tenant_controller.go\<close> that use it.
  The client of Keycloak (gocloak) is the record \<open>keycloak\<close> of its answers; what changes Keycloak is a
  request. Pointers that the code dereferences without a check are options: a missing email address of
  an account makes the operator panic. The access token and the realm are the same in every call.
\<close>

subsection \<open>Accounts and roles\<close>

record kc_user =
  kc_id :: string
  kc_username :: string
  kc_email :: "string option"

record kc_role =
  role_id :: string
  role_name :: string

datatype kc_request =
    CreateUser string string string string
  | ExecuteActionsEmail string
  | UpdateUser string string string string bool
  | DeleteUser string
  | DeleteClientRoleFromUser string "kc_role list"
  | AddClientRoleToUser string "kc_role list"

record keycloak =
  GetUsers :: "string \<Rightarrow> string + kc_user list"
  CreateUser_id :: "string \<Rightarrow> string + string"
  GetClientRole :: "string \<Rightarrow> string + kc_role"
  GetClientRolesByUserID :: "string \<Rightarrow> string + kc_role list"
  kc_error :: "kc_request \<Rightarrow> string option"

definition kc_send :: "keycloak \<Rightarrow> kc_request \<Rightarrow> (kc_request, unit) act" where
  "kc_send kc r = act_send r (kc_error kc r)"

subsection \<open>keycloak_utils.go\<close>

text \<open>The loop over the accounts found: the number of exact matches and the last of them.\<close>

fun exact_match :: "string \<Rightarrow> kc_user list \<Rightarrow> nat \<times> string \<times> string \<Rightarrow> (nat \<times> string \<times> string) option" where
  "exact_match username [] acc = Some acc"
| "exact_match username (v # vs) acc =
     (if kc_username v = username
      then (case kc_email v of None \<Rightarrow> None | Some email \<Rightarrow> exact_match username vs (fst acc + 1, kc_id v, email))
      else exact_match username vs acc)"

definition getUserInfo :: "keycloak \<Rightarrow> string \<Rightarrow> (kc_request, (string \<times> string option) option) act" where
  "getUserInfo kc username =
     act_then (act_get (GetUsers kc username)) (\<lambda>usersFound.
       case usersFound of
         [] \<Rightarrow> act_ret None
       | [u] \<Rightarrow> act_ret (Some (kc_id u, kc_email u))
       | _ \<Rightarrow>
           (case exact_match username usersFound (0, [], []) of
              None \<Rightarrow> ([], Panic)
            | Some (exactMatches, exactID, exactEmail) \<Rightarrow>
                if exactMatches = 1 then act_ret (Some (exactID, Some exactEmail))
                else act_fail (''found '' @ nat_digits exactMatches @ '' keycloak users for username '' @ username @
                               '', too many'')))"

definition createKcUser ::
  "keycloak \<Rightarrow> string \<Rightarrow> string \<Rightarrow> string \<Rightarrow> string \<Rightarrow> (kc_request, string) act" where
  "createKcUser kc username firstName lastName email =
     act_then (act_send (CreateUser username firstName lastName email) (err_of (CreateUser_id kc username))) (\<lambda>_.
     act_then (act_get (CreateUser_id kc username)) (\<lambda>newUserID.
     act_then (kc_send kc (ExecuteActionsEmail newUserID)) (\<lambda>_.
     act_ret newUserID)))"

definition updateKcUser ::
  "keycloak \<Rightarrow> string \<Rightarrow> string \<Rightarrow> string \<Rightarrow> string \<Rightarrow> bool \<Rightarrow> (kc_request, unit) act" where
  "updateKcUser kc userID firstName lastName email requireUserActions =
     act_then (kc_send kc (UpdateUser userID firstName lastName email requireUserActions)) (\<lambda>_.
     if requireUserActions then kc_send kc (ExecuteActionsEmail userID) else act_ret ())"

fun get_roles :: "keycloak \<Rightarrow> string list \<Rightarrow> (kc_request, kc_role list) act" where
  "get_roles kc [] = act_ret []"
| "get_roles kc (roleName # roleNames) =
     act_then (act_get (GetClientRole kc roleName)) (\<lambda>gotRole.
     act_then (get_roles kc roleNames) (\<lambda>roles. act_ret (gotRole # roles)))"

definition subtractRoles :: "kc_role list \<Rightarrow> kc_role list \<Rightarrow> string \<Rightarrow> kc_role list" where
  "subtractRoles a b subtractOnlyPrefix =
     (let tempMap = set (map role_name b)
      in filter (\<lambda>role. prefix subtractOnlyPrefix (role_name role) \<and> role_name role \<notin> tempMap) a)"

definition updateUserRoles :: "keycloak \<Rightarrow> string list \<Rightarrow> string \<Rightarrow> string \<Rightarrow> (kc_request, unit) act" where
  "updateUserRoles kc roleNames userID editOnlyPrefix =
     act_then (get_roles kc roleNames) (\<lambda>rolesToSet.
     act_then (act_get (GetClientRolesByUserID kc userID)) (\<lambda>userCurrentRoles.
     let rolesToDelete = subtractRoles userCurrentRoles rolesToSet editOnlyPrefix
     in act_then (if rolesToDelete \<noteq> [] then kc_send kc (DeleteClientRoleFromUser userID rolesToDelete)
                  else act_ret ()) (\<lambda>_.
        kc_send kc (AddClientRoleToUser userID rolesToSet))))"

subsection \<open>tenant_controller.go: accounts\<close>

record kc_tenant =
  kt_name :: string
  kt_firstName :: string
  kt_lastName :: string
  kt_email :: string

type_synonym ws_entry = "string \<times> string"

definition genKcUserRoleNames :: "ws_entry list \<Rightarrow> string list" where
  "genKcUserRoleNames workspaces = map (\<lambda>(name, role). ''workspace-'' @ name @ '':'' @ role) workspaces"

definition handleKeycloakSubscription :: "keycloak \<Rightarrow> kc_tenant \<Rightarrow> ws_entry list \<Rightarrow> (kc_request, unit) act" where
  "handleKeycloakSubscription kc tn tenantExistingWorkspaces =
     act_then (getUserInfo kc (kt_name tn)) (\<lambda>info.
     act_then
       (case info of
          None \<Rightarrow> createKcUser kc (kt_name tn) (kt_firstName tn) (kt_lastName tn) (kt_email tn)
        | Some (userID, currentUserEmail) \<Rightarrow>
            (case currentUserEmail of
               None \<Rightarrow> ([], Panic)
             | Some current \<Rightarrow>
                 act_then (updateKcUser kc userID (kt_firstName tn) (kt_lastName tn) (kt_email tn) (current \<noteq> kt_email tn))
                   (\<lambda>_. act_ret userID))) (\<lambda>userID.
     updateUserRoles kc (genKcUserRoleNames tenantExistingWorkspaces) userID ''workspace-''))"

text \<open>The part of \<open>handleDeletion\<close> that deletes the account; its error does not stop the rest.\<close>

definition deleteKcUser :: "keycloak \<Rightarrow> string \<Rightarrow> (kc_request, unit) act" where
  "deleteKcUser kc tnName =
     act_then (getUserInfo kc tnName) (\<lambda>info.
       case info of None \<Rightarrow> act_ret () | Some (userID, _) \<Rightarrow> kc_send kc (DeleteUser userID))"

subsection \<open>Lemmas\<close>

text \<open>The loop as a filter: it panics at the first exact match without an email address, and otherwise counts
  the matches and keeps the last.\<close>

definition own_accounts :: "string \<Rightarrow> kc_user list \<Rightarrow> kc_user list" where
  "own_accounts n vs = filter (\<lambda>v. kc_username v = n) vs"

lemma exact_match_own:
  "exact_match n vs acc =
    (if \<exists>u \<in> set (own_accounts n vs). kc_email u = None then None
     else if own_accounts n vs = [] then Some acc
     else Some (fst acc + length (own_accounts n vs), kc_id (last (own_accounts n vs)),
                the (kc_email (last (own_accounts n vs)))))"
  by (induction vs arbitrary: acc) (auto simp: own_accounts_def filter_empty_conv split: option.split)

lemma getUserInfo_many:
  assumes "GetUsers kc n = Inr vs" and "2 \<le> length vs"
  shows "getUserInfo kc n =
    (if \<exists>u \<in> set (own_accounts n vs). kc_email u = None then ([], Panic)
     else case own_accounts n vs of
       [u] \<Rightarrow> act_ret (Some (kc_id u, kc_email u))
     | us \<Rightarrow> act_fail (''found '' @ nat_digits (length us) @ '' keycloak users for username '' @ n @ '', too many''))"
proof -
  obtain a b cs where vs: "vs = a # b # cs" using assms(2) by (cases vs; cases "tl vs") auto
  have i: "getUserInfo kc n =
      (case exact_match n vs (0, [], []) of
         None \<Rightarrow> ([], Panic)
       | Some (k, i, e) \<Rightarrow> if k = 1 then act_ret (Some (i, Some e))
           else act_fail (''found '' @ nat_digits k @ '' keycloak users for username '' @ n @ '', too many''))"
    using assms(1) by (simp add: getUserInfo_def vs del: exact_match.simps)
  show ?thesis
  proof (cases "own_accounts n vs")
    case Nil
    then show ?thesis unfolding i exact_match_own by simp
  next
    case (Cons u us)
    then show ?thesis unfolding i exact_match_own by (cases us) auto
  qed
qed


text \<open>Looking for an account sends nothing.\<close>

lemma getUserInfo_requests [simp]: "fst (getUserInfo kc n) = []"
  by (auto simp: getUserInfo_def act_then_def act_get_def act_ret_def act_fail_def split: sum.split list.split option.split)

lemma deleteKcUser_Done:
  assumes "snd (deleteKcUser kc n) = Done ()"
  shows "\<exists>info. getUserInfo kc n = ([], Done info) \<and>
    deleteKcUser kc n = (case info of None \<Rightarrow> act_ret () | Some (userID, _) \<Rightarrow> kc_send kc (DeleteUser userID))"
proof -
  from assms obtain info where i: "snd (getUserInfo kc n) = Done info" by (auto simp: deleteKcUser_def)
  then have "getUserInfo kc n = ([], Done info)" by (simp add: prod_eq_iff)
  then show ?thesis by (auto simp: deleteKcUser_def)
qed

lemma get_roles_names:
  assumes "get_roles kc names = (rs, Done roles)" and "\<forall>n r. GetClientRole kc n = Inr r \<longrightarrow> role_name r = n"
  shows "rs = [] \<and> map role_name roles = names"
  using assms(1)
proof (induction names arbitrary: rs roles)
  case (Cons n ns)
  then obtain r roles' where r: "GetClientRole kc n = Inr r" and "roles = r # roles'"
    and "get_roles kc ns = (rs, Done roles')"
    by (cases "GetClientRole kc n") (auto simp: act_ret_def act_fail_def elim!: act_then_DoneE)
  with Cons.IH [of rs roles'] assms(2) show ?case by simp
qed (simp add: act_ret_def)

text \<open>What a successful change of roles sends: at most one removal, then one addition.\<close>

lemma updateUserRoles_Done:
  assumes "updateUserRoles kc names uid p = (rs, Done ())" and "GetClientRolesByUserID kc uid = Inr current"
    and "\<forall>n r. GetClientRole kc n = Inr r \<longrightarrow> role_name r = n"
  obtains roles where "map role_name roles = names"
    and "rs = (if subtractRoles current roles p \<noteq> [] then [DeleteClientRoleFromUser uid (subtractRoles current roles p)] else []) @
              [AddClientRoleToUser uid roles]"
proof -
  from assms(1) obtain as roles bs where g: "get_roles kc names = (as, Done roles)" and rs: "rs = as @ bs"
    and rest: "act_then (act_get (GetClientRolesByUserID kc uid)) (\<lambda>userCurrentRoles.
      let rolesToDelete = subtractRoles userCurrentRoles roles p
      in act_then (if rolesToDelete \<noteq> [] then kc_send kc (DeleteClientRoleFromUser uid rolesToDelete) else act_ret ())
           (\<lambda>_. kc_send kc (AddClientRoleToUser uid roles))) = (bs, Done ())"
    unfolding updateUserRoles_def by (rule act_then_DoneE)
  from get_roles_names [OF g assms(3)] have "as = []" "map role_name roles = names" by auto
  moreover from rest assms(2)
  have "bs = (if subtractRoles current roles p \<noteq> [] then [DeleteClientRoleFromUser uid (subtractRoles current roles p)] else []) @
      [AddClientRoleToUser uid roles]"
    by (auto simp: Let_def kc_send_def act_send_def act_ret_def elim!: act_then_DoneE split: if_splits)
  ultimately show thesis using that rs by simp
qed

lemma subtract_names:
  "role_name ` set (subtractRoles a b p) = {n \<in> role_name ` set a. prefix p n} - role_name ` set b"
  by (auto simp: subtractRoles_def)

lemma keep_other_names: "A - ({n \<in> A. P n} - W) \<union> W = {n \<in> A. \<not> P n} \<union> W"
  by auto

lemma roles_after_update:
  assumes "\<And>i rs R. effect (DeleteClientRoleFromUser i rs) R = R(i := R i - role_name ` set rs)"
    and "\<And>i rs R. effect (AddClientRoleToUser i rs) R = R(i := R i \<union> role_name ` set rs)"
    and "\<forall>n r. GetClientRole kc n = Inr r \<longrightarrow> role_name r = n"
    and "GetClientRolesByUserID kc uid = Inr current" and "role_name ` set current = R uid"
    and "updateUserRoles kc (genKcUserRoleNames wss) uid ''workspace-'' = (rs, Done ())"
  shows "fold effect rs R =
    R(uid := {n \<in> R uid. \<not> prefix ''workspace-'' n} \<union> {''workspace-'' @ w @ '':'' @ role | w role. (w, role) \<in> set wss})"
proof -
  obtain roles where names: "map role_name roles = genKcUserRoleNames wss"
    and rs: "rs = (if subtractRoles current roles ''workspace-'' \<noteq> []
      then [DeleteClientRoleFromUser uid (subtractRoles current roles ''workspace-'')] else []) @ [AddClientRoleToUser uid roles]"
    using updateUserRoles_Done [OF assms(6,4,3)] .
  let ?W = "{''workspace-'' @ w @ '':'' @ role | w role. (w, role) \<in> set wss}"
  have "role_name ` set roles = set (genKcUserRoleNames wss)" using names by (metis list.set_map)
  then have w: "role_name ` set roles = ?W" by (auto simp: genKcUserRoleNames_def)
  have "fold effect rs R = R(uid := (R uid - role_name ` set (subtractRoles current roles ''workspace-'')) \<union> role_name ` set roles)"
    unfolding rs by (simp add: assms(1,2))
  then show ?thesis unfolding subtract_names assms(5) w keep_other_names .
qed

text \<open>The requests for a tenant whose account was found: the account is updated, then its roles.\<close>

lemma handleKeycloak_found:
  assumes "getUserInfo kc (kt_name tn) = ([], Done (Some (uid, Some email)))"
    and "handleKeycloakSubscription kc tn wss = (rs, Done ())"
  obtains us rs' where "rs = us @ rs'" and "updateUserRoles kc (genKcUserRoleNames wss) uid ''workspace-'' = (rs', Done ())"
    and "set us \<subseteq> {UpdateUser uid f l e b | f l e b. True} \<union> {ExecuteActionsEmail uid}"
proof -
  from assms obtain us x rs' where u: "act_then (updateKcUser kc uid (kt_firstName tn) (kt_lastName tn) (kt_email tn) (email \<noteq> kt_email tn))
      (\<lambda>_. act_ret uid) = (us, Done x)"
    and r: "updateUserRoles kc (genKcUserRoleNames wss) x ''workspace-'' = (rs', Done ())" and rs: "rs = us @ rs'"
    unfolding handleKeycloakSubscription_def by (auto elim: act_then_DoneE)
  from u have x: "x = uid" by (auto simp: act_ret_def elim!: act_then_DoneE)
  from u have "set us \<subseteq> {UpdateUser uid f l e b | f l e b. True} \<union> {ExecuteActionsEmail uid}"
    by (auto simp: updateKcUser_def kc_send_def act_send_def act_ret_def elim!: act_then_DoneE split: if_splits)
  with r rs x show thesis by (intro that) simp_all
qed

lemma fold_no_effect: "\<forall>q \<in> set qs. \<forall>R. effect q R = R \<Longrightarrow> fold effect qs R = R"
  by (induction qs arbitrary: R) simp_all

subsection \<open>Properties\<close>

text \<open>C35: the account that the operator takes for a tenant, for every answer of the search for the tenant's
  name. With no account found there is none; a single account found is taken whatever its name (the
  search goes by a part of the name); among several, those with exactly the name count: one is taken, none
  or more than one is an error that tells their number, and an account of the name without an email
  address makes the operator panic. The deletion of the tenant deletes exactly the account taken.\<close>

theorem account_of_tenant:
  "getUserInfo kc n =
    (case GetUsers kc n of
       Inl e \<Rightarrow> act_fail e
     | Inr [] \<Rightarrow> act_ret None
     | Inr [v] \<Rightarrow> act_ret (Some (kc_id v, kc_email v))
     | Inr vs \<Rightarrow>
         (if \<exists>u \<in> set (own_accounts n vs). kc_email u = None then ([], Panic)
          else case own_accounts n vs of
            [u] \<Rightarrow> act_ret (Some (kc_id u, kc_email u))
          | us \<Rightarrow> act_fail (''found '' @ nat_digits (length us) @ '' keycloak users for username '' @ n @ '', too many'')))
   \<and> fst (deleteKcUser kc n) =
      (case snd (getUserInfo kc n) of Done (Some (userID, _)) \<Rightarrow> [DeleteUser userID] | _ \<Rightarrow> [])"
proof
  show "getUserInfo kc n =
    (case GetUsers kc n of
       Inl e \<Rightarrow> act_fail e
     | Inr [] \<Rightarrow> act_ret None
     | Inr [v] \<Rightarrow> act_ret (Some (kc_id v, kc_email v))
     | Inr vs \<Rightarrow>
         (if \<exists>u \<in> set (own_accounts n vs). kc_email u = None then ([], Panic)
          else case own_accounts n vs of
            [u] \<Rightarrow> act_ret (Some (kc_id u, kc_email u))
          | us \<Rightarrow> act_fail (''found '' @ nat_digits (length us) @ '' keycloak users for username '' @ n @ '', too many'')))"
  proof (cases "\<exists>vs. GetUsers kc n = Inr vs \<and> 2 \<le> length vs")
    case True
    then obtain a b cs where vs: "GetUsers kc n = Inr (a # b # cs)"
      by (auto simp: numeral_2_eq_2 Suc_le_length_iff)
    from getUserInfo_many [OF vs] show ?thesis unfolding vs by simp
  next
    case False
    then show ?thesis by (auto simp: getUserInfo_def not_le less_2_cases_iff length_Suc_conv split: sum.split list.split)
  qed
  show "fst (deleteKcUser kc n) =
      (case snd (getUserInfo kc n) of Done (Some (userID, _)) \<Rightarrow> [DeleteUser userID] | _ \<Rightarrow> [])"
    by (auto simp: deleteKcUser_def act_then_def kc_send_def split: outcome.split option.split)
qed


text \<open>when the search for a tenant finds one account only, that account is the one that is changed,
  given roles, and deleted with the tenant, also when it is the account of somebody else whose name
  contains the tenant's: with the tenant's names and email address, and after its deletion gone.\<close>

lemma found_account_is_taken:
  assumes "GetUsers kc (kt_name tn) = Inr [v]" and "kc_email v = Some e"
    and "kc_error kc (UpdateUser (kc_id v) (kt_firstName tn) (kt_lastName tn) (kt_email tn) (e \<noteq> kt_email tn)) = None"
  shows "(\<exists>rest. fst (handleKeycloakSubscription kc tn wss) =
      UpdateUser (kc_id v) (kt_firstName tn) (kt_lastName tn) (kt_email tn) (e \<noteq> kt_email tn) # rest)
    \<and> deleteKcUser kc (kt_name tn) = kc_send kc (DeleteUser (kc_id v))"
proof -
  have i: "getUserInfo kc (kt_name tn) = act_ret (Some (kc_id v, Some e))"
    using assms(1,2) by (simp add: getUserInfo_def)
  have "\<exists>rest. fst (handleKeycloakSubscription kc tn wss) =
      UpdateUser (kc_id v) (kt_firstName tn) (kt_lastName tn) (kt_email tn) (e \<noteq> kt_email tn) # rest"
    using assms(3) unfolding handleKeycloakSubscription_def i updateKcUser_def kc_send_def
    by (auto simp: act_then_def act_send_def split: outcome.split)
  with i show ?thesis by (simp add: deleteKcUser_def)
qed

text \<open>C8: after a successful update an account has exactly the roles of its tenant's workspaces besides
  those that do not concern workspaces, which are kept: roles of left workspaces are revoked. Roles are
  given and taken as Keycloak documents it.\<close>

theorem roles_follow_workspaces:
  assumes "\<And>i rs R. effect (DeleteClientRoleFromUser i rs) R = R(i := R i - role_name ` set rs)"
    and "\<And>i rs R. effect (AddClientRoleToUser i rs) R = R(i := R i \<union> role_name ` set rs)"
    and "\<forall>n r. GetClientRole kc n = Inr r \<longrightarrow> role_name r = n"
    and "GetClientRolesByUserID kc uid = Inr current" and "role_name ` set current = R uid"
    and "updateUserRoles kc (genKcUserRoleNames wss) uid ''workspace-'' = (rs, Done ())"
  shows "fold effect rs R =
    R(uid := {n \<in> R uid. \<not> prefix ''workspace-'' n} \<union> {''workspace-'' @ w @ '':'' @ role | w role. (w, role) \<in> set wss})"
  by (rule roles_after_update [where effect = effect and R = R, OF assms])

text \<open>A small Keycloak: two accounts, one of which has the role of a workspace that its tenant has left.\<close>

definition sample_users :: "kc_user list" where
  "sample_users =
     [\<lparr>kc_id = ''1'', kc_username = ''anna'', kc_email = Some ''anna@x''\<rparr>,
      \<lparr>kc_id = ''2'', kc_username = ''bob'', kc_email = Some ''bob@x''\<rparr>]"

definition sample_role :: "string \<Rightarrow> kc_role" where
  "sample_role n = \<lparr>role_id = n, role_name = n\<rparr>"

definition sample_keycloak :: keycloak where
  "sample_keycloak =
     \<lparr>GetUsers = (\<lambda>n. Inr (filter (\<lambda>u. js_includes (kc_username u) n) sample_users)),
      CreateUser_id = (\<lambda>_. Inr ''3''), GetClientRole = (\<lambda>n. Inr (sample_role n)),
      GetClientRolesByUserID = (\<lambda>i. Inr [sample_role ''workspace-chess:user'', sample_role ''staff'']),
      kc_error = (\<lambda>_. None)\<rparr>"

lemma found_account_is_taken_witness:
  "deleteKcUser sample_keycloak ''ann'' = ([DeleteUser ''1''], Done ())"
proof -
  let ?tn = "\<lparr>kt_name = ''ann'', kt_firstName = ''Ann'', kt_lastName = ''X'', kt_email = ''ann@x''\<rparr>"
  have "GetUsers sample_keycloak (kt_name ?tn) = Inr [hd sample_users]" "kc_email (hd sample_users) = Some ''anna@x''"
    by (simp_all add: sample_keycloak_def sample_users_def)
  from found_account_is_taken [OF this] show ?thesis
    by (simp add: sample_keycloak_def sample_users_def kc_send_def act_send_def)
qed

fun sample_effect :: "kc_request \<Rightarrow> (string \<Rightarrow> string set) \<Rightarrow> string \<Rightarrow> string set" where
  "sample_effect (DeleteClientRoleFromUser i rs) R = R(i := R i - role_name ` set rs)"
| "sample_effect (AddClientRoleToUser i rs) R = R(i := R i \<union> role_name ` set rs)"
| "sample_effect _ R = R"

theorem roles_follow_workspaces_witness:
  "\<exists>rs. updateUserRoles sample_keycloak (genKcUserRoleNames [(''tea'', ''manager'')]) ''2'' ''workspace-'' = (rs, Done ())
     \<and> fold sample_effect rs (\<lambda>_. {''workspace-chess:user'', ''staff''}) ''2'' = {''workspace-tea:manager'', ''staff''}"
proof -
  let ?rs = "[DeleteClientRoleFromUser ''2'' [sample_role ''workspace-chess:user''],
              AddClientRoleToUser ''2'' [sample_role ''workspace-tea:manager'']]"
  have run: "updateUserRoles sample_keycloak (genKcUserRoleNames [(''tea'', ''manager'')]) ''2'' ''workspace-'' = (?rs, Done ())"
    by (simp add: updateUserRoles_def genKcUserRoleNames_def sample_keycloak_def sample_role_def subtractRoles_def kc_send_def
        act_then_def act_send_def Let_def)
  have "fold sample_effect ?rs (\<lambda>_. {''workspace-chess:user'', ''staff''}) =
    (\<lambda>_. {''workspace-chess:user'', ''staff''})(''2'' :=
      {n \<in> {''workspace-chess:user'', ''staff''}. \<not> prefix ''workspace-'' n} \<union>
      {''workspace-'' @ w @ '':'' @ role | w role. (w, role) \<in> set [(''tea'', ''manager'')]})"
    by (rule roles_follow_workspaces [OF sample_effect.simps(1,2) _ _ _ run,
          where current = "[sample_role ''workspace-chess:user'', sample_role ''staff'']"])
      (simp_all add: sample_keycloak_def sample_role_def)
  moreover have "{n \<in> {''workspace-chess:user'', ''staff''}. \<not> prefix ''workspace-'' n} = {''staff''}"
    by (simp add: set_eq_iff conj_disj_distribR cong: conj_cong)
  moreover have "{''workspace-'' @ w @ '':'' @ role | w role. (w, role) \<in> set [(''tea'', ''manager'')]} = {''workspace-tea:manager''}"
    by simp
  ultimately have "fold sample_effect ?rs (\<lambda>_. {''workspace-chess:user'', ''staff''}) ''2'' = {''workspace-tea:manager'', ''staff''}"
    by (simp only: fun_upd_same) (simp only: Un_insert_left Un_empty_left insert_commute)
  with run show ?thesis by (intro exI [of _ ?rs] conjI)
qed

end
