(* ===== verification/Tenant_Controller.thy ===== *)
theory Tenant_Controller
  imports Tenant_Keycloak
begin

section \<open>operators: the tenant controller\<close>

text \<open>
  \<open>operators/pkg/tenant-controller/tenant_controller.go\<close>: for every tenant the operator keeps a namespace
  with quota, role bindings and network policies, an account in Keycloak and one in Nextcloud, the
  status of the tenant and the labels that tell its workspaces. \<open>tn_world\<close> holds the answers of the
  Kubernetes API, of Keycloak and of the interface to Nextcloud.

  Strings are lists of runes. A Go map is a partial function; \<open>nil\<close> and the empty map differ for labels only.
  \<open>ctrl.CreateOrUpdate\<close> with its callback is one request, a \<open>k8s_resource\<close>: the object with the labels, the owner
  and the content that the callback sets on the object, new or existing.
\<close>

subsection \<open>Data\<close>

record tenant =
  tn_name :: string
  tn_labels :: "(string \<rightharpoonup> string) option"
  tn_finalizers :: "string list"
  tn_deleting :: bool
  tn_firstName :: string
  tn_lastName :: string
  tn_email :: string
  tn_workspaces :: "ws_entry list"
  st_namespace :: "bool \<times> string"
  st_failing :: "string list"
  st_subscriptions :: "string \<rightharpoonup> string"
  st_ready :: bool

record reconciler =
  TargetLabelKey :: string
  TargetLabelValue :: string

record k8s_resource =
  res_kind :: string
  res_namespace :: string
  res_name :: string
  res_owner :: string
  res_labels :: "(string \<times> string) list"
  res_content :: jsval

datatype nc_request =
    NcCreateUser string string string
  | NcUpdateUserData string string string
  | NcDeleteUser string

datatype tn_request =
    Kc kc_request
  | Nc nc_request
  | Apply k8s_resource
  | UpdateTenant tenant
  | UpdateStatus tenant

record tn_world =
  get_tenant :: "string \<Rightarrow> string + tenant option"
  get_workspace :: "string \<Rightarrow> string option"
  update_tenant :: "tenant \<Rightarrow> string + tenant"
  update_status :: "tenant \<Rightarrow> string + tenant"
  apply_error :: "k8s_resource \<Rightarrow> string option"
  get_secret :: "string \<Rightarrow> string \<Rightarrow> string + bool"
  kc_of :: keycloak
  nc_user :: "string \<Rightarrow> string + string option"
  nc_error :: "nc_request \<Rightarrow> string option"
  gen_token :: "string + string"
  rand_int :: "nat \<Rightarrow> string + nat"

definition WorkspaceLabelPrefix :: string where
  "WorkspaceLabelPrefix = ''crownlabs.polito.it/workspace-''"

definition TnOperatorFinalizerName :: string where
  "TnOperatorFinalizerName = ''crownlabs.polito.it/tenant-operator''"

subsection \<open>Names and labels\<close>

definition tenant_ns :: "string \<Rightarrow> string" where
  "tenant_ns name = ''tenant-'' @ map (\<lambda>c. if c = CHR ''.'' then CHR ''-'' else c) name"

definition genNcUsername :: "string \<Rightarrow> string" where
  "genNcUsername tnName = ''keycloak-'' @ tnName"

definition genNcDisplayname :: "string \<Rightarrow> string \<Rightarrow> string" where
  "genNcDisplayname firstName lastName = firstName @ '' '' @ lastName"

definition ok_char :: "char \<Rightarrow> bool" where
  "ok_char c \<longleftrightarrow>
     (let n = of_char c :: nat
      in (97 \<le> n \<and> n \<le> 122) \<or> (65 \<le> n \<and> n \<le> 90) \<or> (48 \<le> n \<and> n \<le> 57) \<or> c = CHR ''_'')"

definition okRegex :: "string \<Rightarrow> bool" where
  "okRegex s \<longleftrightarrow> s \<noteq> [] \<and> list_all ok_char s"

text \<open>\<open>strings.Replace(name, v, "", 1)\<close>\<close>

fun remove_once :: "string \<Rightarrow> string \<Rightarrow> string" where
  "remove_once v [] = []"
| "remove_once v (c # cs) = (if prefix v (c # cs) then drop (length v) (c # cs) else c # remove_once v cs)"

definition cleanName :: "string \<Rightarrow> string" where
  "cleanName name0 =
     (let name = map (\<lambda>c. if c = CHR '' '' then CHR ''_'' else c) name0
      in if \<not> okRegex name
         then fold remove_once ([[], []] @ map (\<lambda>c. [c]) (filter (\<lambda>c. \<not> okRegex [c]) name)) name
         else name)"

definition cleanWorkspaceLabels :: "(string \<rightharpoonup> string) \<Rightarrow> string \<rightharpoonup> string" where
  "cleanWorkspaceLabels labels = (\<lambda>k. if prefix WorkspaceLabelPrefix k then None else labels k)"

definition updateTnLabels :: "tenant \<Rightarrow> ws_entry list \<Rightarrow> tenant" where
  "updateTnLabels tn tenantExistingWorkspaces =
     (let base = (case tn_labels tn of None \<Rightarrow> Map.empty | Some labels \<Rightarrow> cleanWorkspaceLabels labels);
          labels = fold (\<lambda>(name, role) l. l(WorkspaceLabelPrefix @ name \<mapsto> role)) tenantExistingWorkspaces base
      in tn\<lparr>tn_labels := Some (labels(''crownlabs.polito.it/first-name'' \<mapsto> cleanName (tn_firstName tn),
                                   ''crownlabs.polito.it/last-name'' \<mapsto> cleanName (tn_lastName tn)))\<rparr>)"

subsection \<open>Resources of the cluster\<close>

definition commonLabels :: "reconciler \<Rightarrow> (string \<times> string) list" where
  "commonLabels r = [(TargetLabelKey r, TargetLabelValue r), (''crownlabs.polito.it/managed-by'', ''tenant'')]"

definition role_ref :: "string \<Rightarrow> jsval" where
  "role_ref name =
     JObj [(''kind'', JStr ''ClusterRole''), (''name'', JStr name), (''apiGroup'', JStr ''rbac.authorization.k8s.io'')]"

definition subject :: "string \<Rightarrow> jsval" where
  "subject tnName =
     JArr [JObj [(''kind'', JStr ''User''), (''name'', JStr tnName), (''apiGroup'', JStr ''rbac.authorization.k8s.io'')]]"

definition gibi :: int where
  "gibi = 1024 * 1024 * 1024"

definition res_quota :: jsval where
  "res_quota =
     JObj [(''limits.cpu'', JNum 15), (''limits.memory'', JNum (25 * gibi)), (''requests.cpu'', JNum 10),
           (''requests.memory'', JNum (25 * gibi)), (''count/instances.crownlabs.polito.it'', JNum 5)]"

definition tenant_access :: "string \<Rightarrow> jsval" where
  "tenant_access tnName =
     JArr [JObj [(''apiGroups'', JArr [JStr ''crownlabs.polito.it'']), (''resources'', JArr [JStr ''tenants'']),
                 (''resourceNames'', JArr [JStr tnName]),
                 (''verbs'', JArr [JStr ''get'', JStr ''list'', JStr ''watch''])]]"

definition ingress :: "jsval \<Rightarrow> jsval" where
  "ingress peer = JObj [(''podSelector'', JObj [(''matchLabels'', JObj [])]), (''ingress'', JArr [JObj [(''from'', JArr [peer])]])]"

definition namespace_of :: "reconciler \<Rightarrow> tenant \<Rightarrow> string \<Rightarrow> k8s_resource" where
  "namespace_of r tn nsName =
     \<lparr>res_kind = ''Namespace'', res_namespace = [], res_name = nsName, res_owner = tn_name tn,
      res_labels = commonLabels r @ [(''crownlabs.polito.it/type'', ''tenant''), (''crownlabs.polito.it/name'', tn_name tn)],
      res_content = JNull\<rparr>"

definition resources_in :: "reconciler \<Rightarrow> tenant \<Rightarrow> string \<Rightarrow> k8s_resource list" where
  "resources_in r tn nsName =
     (let crName = ''crownlabs-manage-'' @ nsName;
          res = (\<lambda>kind ns name content. \<lparr>res_kind = kind, res_namespace = ns, res_name = name, res_owner = tn_name tn,
                   res_labels = commonLabels r, res_content = content\<rparr>)
      in [res ''ResourceQuota'' nsName ''crownlabs-resource-quota'' res_quota,
          res ''RoleBinding'' nsName ''crownlabs-manage-instances''
            (JObj [(''roleRef'', role_ref ''crownlabs-manage-instances''), (''subjects'', subject (tn_name tn))]),
          res ''ClusterRole'' [] crName (tenant_access (tn_name tn)),
          res ''ClusterRoleBinding'' [] crName
            (JObj [(''roleRef'', role_ref crName), (''subjects'', subject (tn_name tn))]),
          res ''NetworkPolicy'' nsName ''crownlabs-deny-ingress-traffic''
            (ingress (JObj [(''podSelector'', JObj [])])),
          res ''NetworkPolicy'' nsName ''crownlabs-allow-trusted-ingress-traffic''
            (ingress (JObj [(''namespaceSelector'', JObj [(''matchLabels'',
               JObj [(''crownlabs.polito.it/allow-instance-access'', JStr ''true'')])])]))])"

definition apply_resource :: "tn_world \<Rightarrow> k8s_resource \<Rightarrow> (tn_request, unit) act" where
  "apply_resource w res = act_send (Apply res) (apply_error w res)"

text \<open>All resources are tried; the last error is the result.\<close>

fun apply_all :: "tn_world \<Rightarrow> k8s_resource list \<Rightarrow> string option \<Rightarrow> (tn_request, string option) act" where
  "apply_all w [] retErr = act_ret retErr"
| "apply_all w (res # ress) retErr =
     act_then (act_try (apply_resource w res)) (\<lambda>e. apply_all w ress (last_err retErr (err_of e)))"

definition createOrUpdateClusterResources ::
  "reconciler \<Rightarrow> tn_world \<Rightarrow> tenant \<Rightarrow> string \<Rightarrow> (tn_request, bool \<times> string option) act" where
  "createOrUpdateClusterResources r w tn nsName =
     act_then (act_try (apply_resource w (namespace_of r tn nsName))) (\<lambda>ns.
       case ns of
         Inl nsErr \<Rightarrow> act_ret (False, Some nsErr)
       | Inr _ \<Rightarrow> act_then (apply_all w (resources_in r tn nsName) None) (\<lambda>retErr. act_ret (True, retErr)))"

subsection \<open>Nextcloud\<close>

definition nc_send :: "tn_world \<Rightarrow> nc_request \<Rightarrow> (tn_request, unit) act" where
  "nc_send w r = act_send (Nc r) (nc_error w r)"

definition nc_secret :: "reconciler \<Rightarrow> tenant \<Rightarrow> string \<Rightarrow> string \<Rightarrow> string \<Rightarrow> k8s_resource" where
  "nc_secret r tn nsName username password =
     \<lparr>res_kind = ''Secret'', res_namespace = nsName, res_name = ''nextcloud-credentials'', res_owner = tn_name tn,
      res_labels = commonLabels r,
      res_content = JObj [(''username'', JStr username), (''password'', JStr password)]\<rparr>"

definition handleNextcloudSubscription ::
  "reconciler \<Rightarrow> tn_world \<Rightarrow> tenant \<Rightarrow> string \<Rightarrow> (tn_request, unit) act" where
  "handleNextcloudSubscription r w tn nsName =
     (let ncUsername = genNcUsername (tn_name tn);
          expectedDisplayname = genNcDisplayname (tn_firstName tn) (tn_lastName tn)
      in act_then (act_get (nc_user w ncUsername)) (\<lambda>found.
           case found of
             Some ncDisplayname \<Rightarrow>
               act_then (act_get (get_secret w nsName ''nextcloud-credentials'')) (\<lambda>secretFound.
                 if \<not> secretFound
                 then act_then (act_get (gen_token w)) (\<lambda>ncPsw.
                      act_then (nc_send w (NcUpdateUserData ncUsername ''password'' ncPsw)) (\<lambda>_.
                      apply_resource w (nc_secret r tn nsName ncUsername ncPsw)))
                 else if ncDisplayname \<noteq> expectedDisplayname
                 then nc_send w (NcUpdateUserData ncUsername ''displayname'' expectedDisplayname)
                 else act_ret ())
           | None \<Rightarrow>
               act_then (act_get (gen_token w)) (\<lambda>ncPsw.
               act_then (nc_send w (NcCreateUser ncUsername ncPsw expectedDisplayname)) (\<lambda>_.
               apply_resource w (nc_secret r tn nsName ncUsername ncPsw)))))"

subsection \<open>Reconcile\<close>

definition kc_tenant_of :: "tenant \<Rightarrow> kc_tenant" where
  "kc_tenant_of tn =
     \<lparr>kt_name = tn_name tn, kt_firstName = tn_firstName tn, kt_lastName = tn_lastName tn, kt_email = tn_email tn\<rparr>"

definition handleDeletion :: "tn_world \<Rightarrow> string \<Rightarrow> (tn_request, unit) act" where
  "handleDeletion w tnName =
     act_then (act_try (act_lift Kc (deleteKcUser (kc_of w) tnName))) (\<lambda>kc.
     act_then (act_try (nc_send w (NcDeleteUser (genNcUsername tnName)))) (\<lambda>nc.
     case last_err (err_of kc) (err_of nc) of None \<Rightarrow> act_ret () | Some e \<Rightarrow> act_fail e))"

text \<open>A request that writes the tenant back: the object is then what the API answered.\<close>

definition write_back :: "(tenant \<Rightarrow> tn_request) \<Rightarrow> (tenant \<Rightarrow> string + tenant) \<Rightarrow> tenant \<Rightarrow> (tn_request, tenant \<times> string option) act" where
  "write_back req answer tn =
     ([req tn], Done (case answer tn of Inl e \<Rightarrow> (tn, Some e) | Inr tn' \<Rightarrow> (tn', None)))"

definition reconcile_deletion :: "tn_world \<Rightarrow> tenant \<Rightarrow> (tn_request, nat option) act" where
  "reconcile_deletion w tn =
     (if TnOperatorFinalizerName \<in> set (tn_finalizers tn)
      then act_then (handleDeletion w (tn_name tn)) (\<lambda>_.
           act_then (write_back UpdateTenant (update_tenant w)
                       (tn\<lparr>tn_finalizers := removeAll TnOperatorFinalizerName (tn_finalizers tn)\<rparr>)) (\<lambda>(_, err).
           case err of None \<Rightarrow> act_ret None | Some e \<Rightarrow> act_fail e))
      else act_ret None)"

definition add_finalizer :: "tn_world \<Rightarrow> tenant \<Rightarrow> (tn_request, tenant \<times> string option) act" where
  "add_finalizer w tn =
     (if TnOperatorFinalizerName \<notin> set (tn_finalizers tn)
      then write_back UpdateTenant (update_tenant w) (tn\<lparr>tn_finalizers := tn_finalizers tn @ [TnOperatorFinalizerName]\<rparr>)
      else act_ret (tn, None))"

text \<open>The loop over the workspaces: those that exist, the failing ones, the last error.\<close>

definition check_workspaces :: "tn_world \<Rightarrow> ws_entry list \<Rightarrow> string option \<Rightarrow> ws_entry list \<times> string list \<times> string option" where
  "check_workspaces w wss retrigErr =
     fold (\<lambda>tnWs (existing, failing, err).
             case get_workspace w (fst tnWs) of
               Some e \<Rightarrow> (existing, failing @ [fst tnWs], Some e)
             | None \<Rightarrow> (existing @ [tnWs], failing, err)) wss ([], [], retrigErr)"

definition subscr :: "(string + 'a) \<Rightarrow> string" where
  "subscr r = (case r of Inl _ \<Rightarrow> ''Failed'' | Inr _ \<Rightarrow> ''Ok'')"

text \<open>Up to the update of the status: the tenant with its new status, its existing workspaces, the last
  error.\<close>

definition reconcile_parts ::
  "reconciler \<Rightarrow> tn_world \<Rightarrow> tenant \<Rightarrow> (tn_request, tenant \<times> ws_entry list \<times> string option) act" where
  "reconcile_parts r w tn0 =
     act_then (add_finalizer w tn0) (\<lambda>(tn, finErr).
     let nsName = tenant_ns (tn_name tn)
     in act_then (createOrUpdateClusterResources r w tn nsName) (\<lambda>(nsOk, clusterErr).
     let retrigErr = last_err finErr clusterErr;
         (existing, failing, retrigErr') = check_workspaces w (tn_workspaces tn) retrigErr;
         tn1 = tn\<lparr>st_namespace := (if nsOk then (True, nsName) else (False, [])), st_failing := failing\<rparr>
     in act_then (act_try (act_lift Kc (handleKeycloakSubscription (kc_of w) (kc_tenant_of tn) existing))) (\<lambda>kc.
     act_then (if nsOk then act_try (handleNextcloudSubscription r w tn1 nsName) else act_ret (Inl [])) (\<lambda>nc.
     let err = last_err (last_err retrigErr' (err_of kc)) (if nsOk then err_of nc else None);
         tn2 = tn1\<lparr>st_subscriptions := (st_subscriptions tn)(''keycloak'' \<mapsto> subscr kc, ''nextcloud'' \<mapsto> subscr nc),
                   st_ready := (err = None)\<rparr>
     in act_ret (tn2, existing, err)))))"

definition randomRange :: "tn_world \<Rightarrow> nat \<Rightarrow> nat \<Rightarrow> string + nat" where
  "randomRange w mn mx = (case rand_int w (mx - mn) of Inl e \<Rightarrow> Inl e | Inr n \<Rightarrow> Inr (n + mn))"

definition TenantReconcile :: "reconciler \<Rightarrow> tn_world \<Rightarrow> string \<Rightarrow> (tn_request, nat option) act" where
  "TenantReconcile r w name =
     act_then (act_get (get_tenant w name)) (\<lambda>found.
     case found of
       None \<Rightarrow> act_ret None
     | Some tn \<Rightarrow>
         if (case tn_labels tn of None \<Rightarrow> [] | Some l \<Rightarrow> case_option [] id (l (TargetLabelKey r))) \<noteq> TargetLabelValue r
         then act_ret None
         else if tn_deleting tn then reconcile_deletion w tn
         else
           act_then (reconcile_parts r w tn) (\<lambda>(tn2, existing, err2).
           act_then (write_back UpdateStatus (update_status w) tn2) (\<lambda>(tn3, err3).
           act_then (write_back UpdateTenant (update_tenant w) (updateTnLabels tn3 existing)) (\<lambda>(_, err4).
           case last_err (last_err err2 err3) err4 of
             Some e \<Rightarrow> act_fail e
           | None \<Rightarrow> act_then (act_get (randomRange w (3600 * 4) (3600 * 8))) (\<lambda>n. act_ret (Some n))))))"

subsection \<open>Lemmas on names and labels\<close>

lemma remove_once_Nil [simp]: "remove_once [] s = s"
  by (cases s) simp_all

lemma remove_once_char: "remove_once [c] s = remove1 c s"
  by (induction s) auto

lemma fold_remove1_Cons: "x \<notin> set ys \<Longrightarrow> fold remove1 ys (x # xs) = x # fold remove1 ys xs"
  by (induction ys arbitrary: xs) auto

lemma remove_each: "fold remove1 (filter P xs) xs = filter (\<lambda>x. \<not> P x) xs"
proof (induction xs)
  case (Cons x xs)
  show ?case
  proof (cases "P x")
    case False
    then have "x \<notin> set (filter P xs)" by simp
    from fold_remove1_Cons [OF this, of xs] False Cons show ?thesis by simp
  qed (use Cons in simp)
qed simp

text \<open>\<open>cleanName\<close> is a filter.\<close>

lemma cleanName_filter:
  "cleanName name = filter ok_char (map (\<lambda>c. if c = CHR '' '' then CHR ''_'' else c) name)"
proof -
  let ?n = "map (\<lambda>c. if c = CHR '' '' then CHR ''_'' else c) name"
  have "fold remove_once (map (\<lambda>c. [c]) cs) s = fold remove1 cs s" for cs s
    by (induction cs arbitrary: s) (simp_all add: remove_once_char)
  moreover have "(\<lambda>c. \<not> okRegex [c]) = (\<lambda>c. \<not> ok_char c)" by (simp add: okRegex_def)
  ultimately have "fold remove_once ([[], []] @ map (\<lambda>c. [c]) (filter (\<lambda>c. \<not> okRegex [c]) ?n)) ?n = filter ok_char ?n"
    by (simp add: remove_each)
  moreover have "okRegex s \<Longrightarrow> filter ok_char s = s" for s by (simp add: okRegex_def list_all_iff)
  ultimately show ?thesis unfolding cleanName_def Let_def by presburger
qed

lemma fold_labels:
  "fold (\<lambda>(name, role) l. l(p @ name \<mapsto> role)) wss l k =
     (if prefix p k \<and> map_of (rev wss) (drop (length p) k) \<noteq> None then map_of (rev wss) (drop (length p) k) else l k)"
proof (induction wss arbitrary: l)
  case (Cons wr wss)
  obtain w role where wr: "wr = (w, role)" by force
  have "p @ w = k \<longleftrightarrow> prefix p k \<and> drop (length p) k = w" by (auto simp: prefix_def)
  with Cons wr show ?case by (auto simp: map_add_def split: option.split)
qed simp

lemma not_ws_label:
  "\<not> prefix WorkspaceLabelPrefix ''crownlabs.polito.it/first-name''"
  "\<not> prefix WorkspaceLabelPrefix ''crownlabs.polito.it/last-name''"
  by (simp_all add: WorkspaceLabelPrefix_def)

lemma tenant_ns_collision: "tenant_ns ''mario.rossi'' = tenant_ns ''mario-rossi''"
  by (simp add: tenant_ns_def)

subsection \<open>Lemmas on the parts of a reconciliation\<close>

lemma apply_all_Done:
  "\<exists>e. apply_all w ress err = (map Apply ress, Done e) \<and> (e = None \<longleftrightarrow> err = None \<and> list_all (\<lambda>r. apply_error w r = None) ress)"
proof (induction ress arbitrary: err)
  case (Cons res ress)
  show ?case
  proof (cases "apply_error w res")
    case None
    then have "act_try (apply_resource w res) = ([Apply res], Done (Inr ()))" by (simp add: apply_resource_def act_send_def act_try_def)
    with Cons [of "last_err err None"] None show ?thesis by (auto simp: act_then_def)
  next
    case (Some e)
    then have "act_try (apply_resource w res) = ([Apply res], Done (Inl e))" by (simp add: apply_resource_def act_send_def act_try_def)
    with Cons [of "last_err err (Some e)"] Some show ?thesis by (auto simp: act_then_def)
  qed
qed (simp add: act_ret_def)

lemma cluster_Done:
  obtains rs e where "createOrUpdateClusterResources r w tn ns =
      (rs, Done (apply_error w (namespace_of r tn ns) = None, e))"
    and "e = None \<longleftrightarrow> list_all (\<lambda>res. apply_error w res = None) (namespace_of r tn ns # resources_in r tn ns)"
    and "set rs \<subseteq> range Apply"
proof (cases "apply_error w (namespace_of r tn ns)")
  case None
  then have "act_try (apply_resource w (namespace_of r tn ns)) = ([Apply (namespace_of r tn ns)], Done (Inr ()))"
    by (simp add: apply_resource_def act_send_def act_try_def)
  with None apply_all_Done [of w "resources_in r tn ns" None] that show thesis
    by (fastforce simp: createOrUpdateClusterResources_def act_then_def act_ret_def)
next
  case (Some e)
  then have "act_try (apply_resource w (namespace_of r tn ns)) = ([Apply (namespace_of r tn ns)], Done (Inl e))"
    by (simp add: apply_resource_def act_send_def act_try_def)
  with Some that show thesis by (simp add: createOrUpdateClusterResources_def act_then_def act_ret_def)
qed

lemma check_workspaces_result:
  "\<exists>e. check_workspaces w wss err =
      (filter (\<lambda>ws. get_workspace w (fst ws) = None) wss, map fst (filter (\<lambda>ws. get_workspace w (fst ws) \<noteq> None) wss), e)
    \<and> (e = None \<longleftrightarrow> err = None \<and> list_all (\<lambda>ws. get_workspace w (fst ws) = None) wss)"
proof -
  have "\<exists>e. fold (\<lambda>tnWs (existing, failing, err).
             case get_workspace w (fst tnWs) of
               Some e \<Rightarrow> (existing, failing @ [fst tnWs], Some e)
             | None \<Rightarrow> (existing @ [tnWs], failing, err)) wss (a, b, err) =
      (a @ filter (\<lambda>ws. get_workspace w (fst ws) = None) wss, b @ map fst (filter (\<lambda>ws. get_workspace w (fst ws) \<noteq> None) wss), e)
    \<and> (e = None \<longleftrightarrow> err = None \<and> list_all (\<lambda>ws. get_workspace w (fst ws) = None) wss)" for a b
  proof (induction wss arbitrary: a b err)
    case (Cons x wss)
    from Cons [of "a @ [x]" b err] Cons [of a "b @ [fst x]" "get_workspace w (fst x)"] show ?case
      by (cases "get_workspace w (fst x)") auto
  qed simp
  from this [of "[]" "[]"] show ?thesis by (simp add: check_workspaces_def)
qed

lemma getUserInfo_no_panic:
  assumes "\<forall>n us. GetUsers kc n = Inr us \<longrightarrow> list_all (\<lambda>u. kc_email u \<noteq> None) us"
  shows "snd (getUserInfo kc n) \<noteq> Panic" and "snd (getUserInfo kc n) = Done (Some (i, e)) \<Longrightarrow> e \<noteq> None"
proof -
  have total: "exact_match n us acc \<noteq> None" if "list_all (\<lambda>u. kc_email u \<noteq> None) us" for us acc
    using that by (induction us arbitrary: acc) auto
  have "snd (getUserInfo kc n) \<noteq> Panic \<and> (snd (getUserInfo kc n) = Done (Some (i, e)) \<longrightarrow> e \<noteq> None)"
  proof (cases "GetUsers kc n")
    case (Inr us)
    with assms have us: "list_all (\<lambda>u. kc_email u \<noteq> None) us" by simp
    then obtain m i' e' where "exact_match n us (0, [], []) = Some (m, i', e')"
      using total [of us "(0, [], [])"] by (metis not_None_eq prod.collapse)
    with Inr us show ?thesis
      by (cases us; cases "tl us") (auto simp: getUserInfo_def simp del: exact_match.simps)
  qed (simp add: getUserInfo_def)
  then show "snd (getUserInfo kc n) \<noteq> Panic" "snd (getUserInfo kc n) = Done (Some (i, e)) \<Longrightarrow> e \<noteq> None" by auto
qed

lemma get_roles_no_panic: "snd (get_roles kc ns) \<noteq> Panic"
  by (induction ns) simp_all

lemma updateUserRoles_no_panic: "snd (updateUserRoles kc ns uid p) \<noteq> Panic"
  by (simp add: updateUserRoles_def Let_def kc_send_def get_roles_no_panic)

lemma handleKeycloak_no_panic:
  assumes "\<forall>n us. GetUsers kc n = Inr us \<longrightarrow> list_all (\<lambda>u. kc_email u \<noteq> None) us"
  shows "snd (handleKeycloakSubscription kc tn wss) \<noteq> Panic"
proof -
  note user = getUserInfo_no_panic [OF assms]
  have "snd (createKcUser kc n f l e) \<noteq> Panic" "snd (updateKcUser kc i f l e b) \<noteq> Panic" for n f l e i b
    by (simp_all add: createKcUser_def updateKcUser_def kc_send_def)
  with user(1) user(2) [of "kt_name tn"] updateUserRoles_no_panic show ?thesis
    by (auto simp: handleKeycloakSubscription_def split: option.splits)
qed

lemma handleNextcloud_no_panic: "snd (handleNextcloudSubscription r w tn ns) \<noteq> Panic"
  by (auto simp: handleNextcloudSubscription_def Let_def nc_send_def apply_resource_def split: option.splits)

lemma handleNextcloud_requests: "set (fst (handleNextcloudSubscription r w tn ns)) \<subseteq> range Nc \<union> range Apply"
  unfolding handleNextcloudSubscription_def Let_def nc_send_def apply_resource_def
  by (auto simp: act_then_def act_get_def act_send_def act_ret_def act_fail_def
      split: option.splits outcome.splits sum.splits if_splits)

text \<open>The password in the secret is the one that Nextcloud got before.\<close>

lemma secret_has_password:
  assumes "Apply res \<in> set (fst (handleNextcloudSubscription r w tn ns))"
  shows "\<exists>psw. res = nc_secret r tn ns (genNcUsername (tn_name tn)) psw \<and>
    (Nc (NcCreateUser (genNcUsername (tn_name tn)) psw (genNcDisplayname (tn_firstName tn) (tn_lastName tn)))
        \<in> set (fst (handleNextcloudSubscription r w tn ns)) \<or>
     Nc (NcUpdateUserData (genNcUsername (tn_name tn)) ''password'' psw) \<in> set (fst (handleNextcloudSubscription r w tn ns)))"
  using assms unfolding handleNextcloudSubscription_def Let_def nc_send_def apply_resource_def
  by (auto simp: act_then_def act_get_def act_send_def act_ret_def act_fail_def
      split: option.splits outcome.splits sum.splits if_splits)

lemma handleNextcloud_status: "handleNextcloudSubscription r w (tn\<lparr>st_namespace := a, st_failing := b\<rparr>) ns = handleNextcloudSubscription r w tn ns"
proof -
  have "tn_name (tn\<lparr>st_namespace := a, st_failing := b\<rparr>) = tn_name tn"
    "tn_firstName (tn\<lparr>st_namespace := a, st_failing := b\<rparr>) = tn_firstName tn"
    "tn_lastName (tn\<lparr>st_namespace := a, st_failing := b\<rparr>) = tn_lastName tn" by simp_all
  then show ?thesis unfolding handleNextcloudSubscription_def nc_secret_def by (simp only:)
qed

lemma write_back_eq: "write_back req answer tn = ([req tn], Done (case answer tn of Inl _ \<Rightarrow> tn | Inr tn' \<Rightarrow> tn', err_of (answer tn)))"
  by (simp add: write_back_def split: sum.split)

definition is_status :: "tn_request \<Rightarrow> bool" where
  "is_status q \<longleftrightarrow> (case q of UpdateStatus _ \<Rightarrow> True | _ \<Rightarrow> False)"

text \<open>The finalizer is there or is asked for; the work goes on either way.\<close>

lemma add_finalizer_Done:
  obtains frs tn1 finErr where "add_finalizer w tn = (frs, Done (tn1, finErr))" and "\<forall>q \<in> set frs. \<not> is_status q"
proof (cases "TnOperatorFinalizerName \<in> set (tn_finalizers tn)")
  case True
  then show thesis using that [of "[]" tn None] by (simp add: add_finalizer_def act_ret_def)
next
  case False
  then show thesis using that by (simp add: add_finalizer_def write_back_eq is_status_def)
qed

lemma add_finalizer_present:
  "TnOperatorFinalizerName \<in> set (tn_finalizers tn) \<Longrightarrow> add_finalizer w tn = ([], Done (tn, None))"
  by (simp add: add_finalizer_def act_ret_def)

text \<open>What a reconciliation comes to after the step of the finalizer: first from the results of its parts, then
  from the answers.\<close>

lemma reconcile_parts_run:
  assumes "add_finalizer w tn0 = (frs, Done (tn, finErr))"
    and "createOrUpdateClusterResources r w tn (tenant_ns (tn_name tn)) = (rs, Done (nsOk, e))"
    and "check_workspaces w (tn_workspaces tn) (last_err finErr e) = (existing, failing, e')"
    and "act_try (act_lift Kc (handleKeycloakSubscription (kc_of w) (kc_tenant_of tn) existing)) = (ks, Done x)"
    and "act_try (handleNextcloudSubscription r w tn (tenant_ns (tn_name tn))) = (ns, Done y)"
  shows "reconcile_parts r w tn0 =
    (let err = last_err (last_err e' (err_of x)) (if nsOk then err_of y else None)
     in (frs @ rs @ ks @ (if nsOk then ns else []),
         Done (tn\<lparr>st_namespace := (if nsOk then (True, tenant_ns (tn_name tn)) else (False, [])), st_failing := failing,
                  st_subscriptions := (st_subscriptions tn)(''keycloak'' \<mapsto> subscr x,
                    ''nextcloud'' \<mapsto> subscr (if nsOk then y else Inl [])),
                  st_ready := (err = None)\<rparr>, existing, err)))"
  unfolding reconcile_parts_def
  by (cases nsOk) (simp_all only: act_then_ret prod.case Let_def assms act_then_pair last_err_simps
      handleNextcloud_status if_True if_False fst_conv snd_conv outcome_simps append_Nil append_Nil2 append_assoc)

definition missing_workspaces :: "tn_world \<Rightarrow> tenant \<Rightarrow> string list" where
  "missing_workspaces w tn = map fst (filter (\<lambda>ws. get_workspace w (fst ws) \<noteq> None) (tn_workspaces tn))"

definition tenant_complete :: "reconciler \<Rightarrow> tn_world \<Rightarrow> tenant \<Rightarrow> bool" where
  "tenant_complete r w tn \<longleftrightarrow>
     (let nsName = tenant_ns (tn_name tn)
      in list_all (\<lambda>res. apply_error w res = None) (namespace_of r tn nsName # resources_in r tn nsName)
         \<and> list_all (\<lambda>ws. get_workspace w (fst ws) = None) (tn_workspaces tn)
         \<and> act_ok (handleKeycloakSubscription (kc_of w) (kc_tenant_of tn) (tn_workspaces tn))
         \<and> act_ok (handleNextcloudSubscription r w tn nsName))"

lemma no_status_requests:
  "set rs \<subseteq> range Apply \<Longrightarrow> set ns \<subseteq> range Nc \<union> range Apply \<Longrightarrow> \<forall>q \<in> set frs. \<not> is_status q \<Longrightarrow>
    \<forall>q \<in> set (frs @ rs @ map Kc ks @ (if b then ns else [])). \<not> is_status q"
  by (auto simp: is_status_def split: if_splits)

lemma try_Done: "snd m \<noteq> Panic \<Longrightarrow> \<exists>x. act_try m = (fst m, Done x) \<and> (err_of x = None \<longleftrightarrow> act_ok m)"
  by (cases "snd m") (auto simp: act_try_def act_ok_def)

lemma try_lift_Done:
  "snd m \<noteq> Panic \<Longrightarrow> \<exists>x. act_try (act_lift g m) = (map g (fst m), Done x) \<and> (err_of x = None \<longleftrightarrow> act_ok m)"
  by (cases "snd m") (auto simp: act_try_def act_ok_def)

lemma reconcile_parts_Done:
  assumes "add_finalizer w tn0 = (frs, Done (tn, finErr))"
    and "\<forall>n us. GetUsers (kc_of w) n = Inr us \<longrightarrow> list_all (\<lambda>u. kc_email u \<noteq> None) us"
  obtains rs t err where
    "reconcile_parts r w tn0 = (rs, Done (t, filter (\<lambda>ws. get_workspace w (fst ws) = None) (tn_workspaces tn), err))"
    and "st_ready t \<longleftrightarrow> err = None" and "err = None \<longleftrightarrow> finErr = None \<and> tenant_complete r w tn"
    and "st_failing t = missing_workspaces w tn" and "\<forall>q \<in> set rs. \<not> is_status q"
proof -
  let ?ns = "tenant_ns (tn_name tn)" and ?wss = "filter (\<lambda>ws. get_workspace w (fst ws) = None) (tn_workspaces tn)"
  let ?kc = "handleKeycloakSubscription (kc_of w) (kc_tenant_of tn) ?wss" and ?nc = "handleNextcloudSubscription r w tn ?ns"
  obtain rs e where c: "createOrUpdateClusterResources r w tn ?ns = (rs, Done (apply_error w (namespace_of r tn ?ns) = None, e))"
    and e: "e = None \<longleftrightarrow> list_all (\<lambda>res. apply_error w res = None) (namespace_of r tn ?ns # resources_in r tn ?ns)"
    and rs: "set rs \<subseteq> range Apply" by (rule cluster_Done)
  obtain e' where ws: "check_workspaces w (tn_workspaces tn) (last_err finErr e) = (?wss, missing_workspaces w tn, e')"
    and e': "e' = None \<longleftrightarrow> finErr = None \<and> e = None \<and> list_all (\<lambda>ws. get_workspace w (fst ws) = None) (tn_workspaces tn)"
    using check_workspaces_result [of w "tn_workspaces tn" "last_err finErr e"] unfolding missing_workspaces_def by auto
  have frs: "\<forall>q \<in> set frs. \<not> is_status q" using add_finalizer_Done [of w tn0] assms(1) by auto
  obtain x where x: "act_try (act_lift Kc ?kc) = (map Kc (fst ?kc), Done x)" "err_of x = None \<longleftrightarrow> act_ok ?kc"
    using try_lift_Done [OF handleKeycloak_no_panic [OF assms(2), of "kc_tenant_of tn" ?wss], of Kc] by (elim exE conjE)
  obtain y where y: "act_try ?nc = (fst ?nc, Done y)" "err_of y = None \<longleftrightarrow> act_ok ?nc"
    using try_Done [OF handleNextcloud_no_panic [of r w tn ?ns]] by (elim exE conjE)
  have "?wss = tn_workspaces tn" if "e' = None" using e' that by (simp add: list_all_iff)
  then have complete: "finErr = None \<and> tenant_complete r w tn \<longleftrightarrow>
      apply_error w (namespace_of r tn ?ns) = None \<and> e' = None \<and> err_of x = None \<and> err_of y = None"
    unfolding tenant_complete_def Let_def x(2) y(2) using e e' by (cases "e' = None") auto
  have "apply_error w (namespace_of r tn ?ns) = None" if "e' = None" using e e' that by simp
  then show thesis
    by (intro that [OF reconcile_parts_run [OF assms(1) c ws x(1) y(1), unfolded Let_def]]
          no_status_requests [OF rs handleNextcloud_requests frs])
      (use complete in \<open>auto split: if_splits\<close>)
qed

definition watched :: "reconciler \<Rightarrow> tenant \<Rightarrow> bool" where
  "watched r tn \<longleftrightarrow> (case tn_labels tn of None \<Rightarrow> [] | Some l \<Rightarrow> case_option [] id (l (TargetLabelKey r))) = TargetLabelValue r"

lemma TenantReconcile_run:
  assumes "get_tenant w name = Inr (Some tn)" and "watched r tn" and "\<not> tn_deleting tn"
    and "reconcile_parts r w tn = (rs, Done (t, existing, err))"
  shows "TenantReconcile r w name =
    (let tn' = updateTnLabels (case update_status w t of Inl _ \<Rightarrow> t | Inr t' \<Rightarrow> t') existing
     in (rs @ [UpdateStatus t, UpdateTenant tn'],
         case last_err (last_err err (err_of (update_status w t))) (err_of (update_tenant w tn')) of
           Some e \<Rightarrow> Err e
         | None \<Rightarrow> (case rand_int w 14400 of Inl e \<Rightarrow> Err e | Inr n \<Rightarrow> Done (Some (n + 14400)))))"
  using assms(1,3,4) assms(2) [unfolded watched_def]
  by (simp add: TenantReconcile_def write_back_eq Let_def randomRange_def split: option.split sum.split)

text \<open>A reconciliation that ends well: every workspace of the tenant was found, the account was brought up to
  date for all of them, and nothing else was asked of Keycloak.\<close>

definition kc_requests :: "tn_request list \<Rightarrow> kc_request list" where
  "kc_requests qs = concat (map (\<lambda>q. case q of Kc k \<Rightarrow> [k] | _ \<Rightarrow> []) qs)"

lemma kc_requests_simps [simp]:
  "kc_requests (as @ bs) = kc_requests as @ kc_requests bs" "kc_requests (map Kc ks) = ks" "kc_requests [] = []"
  "kc_requests (UpdateStatus t # qs) = kc_requests qs" "kc_requests (UpdateTenant t # qs) = kc_requests qs"
  by (simp_all add: kc_requests_def comp_def)

lemma kc_requests_none: "set qs \<subseteq> range Nc \<union> range Apply \<Longrightarrow> kc_requests qs = []"
  by (auto simp: kc_requests_def)

lemma TenantReconcile_success:
  assumes "get_tenant w name = Inr (Some tn)" and "watched r tn" and "\<not> tn_deleting tn"
    and "TnOperatorFinalizerName \<in> set (tn_finalizers tn)" and "TenantReconcile r w name = (reqs, Done s)"
  shows "snd (handleKeycloakSubscription (kc_of w) (kc_tenant_of tn) (tn_workspaces tn)) = Done ()"
    and "kc_requests reqs = fst (handleKeycloakSubscription (kc_of w) (kc_tenant_of tn) (tn_workspaces tn))"
proof -
  let ?ns = "tenant_ns (tn_name tn)" and ?wss = "filter (\<lambda>ws. get_workspace w (fst ws) = None) (tn_workspaces tn)"
  let ?kc = "handleKeycloakSubscription (kc_of w) (kc_tenant_of tn) ?wss" and ?nc = "handleNextcloudSubscription r w tn ?ns"
  note fin = add_finalizer_present [OF assms(4), of w]
  obtain rs nsOk e where c: "createOrUpdateClusterResources r w tn ?ns = (rs, Done (nsOk, e))"
    and rs: "set rs \<subseteq> range Apply" by (rule cluster_Done)
  obtain e' where ws: "check_workspaces w (tn_workspaces tn) (last_err None e) = (?wss, missing_workspaces w tn, e')"
    and e': "e' = None \<longleftrightarrow> e = None \<and> list_all (\<lambda>ws. get_workspace w (fst ws) = None) (tn_workspaces tn)"
    using check_workspaces_result [of w "tn_workspaces tn" "last_err None e"] unfolding missing_workspaces_def by auto
  have "snd (TenantReconcile r w name) = Panic" if "snd ?kc = Panic"
    using assms(1,3) assms(2) [unfolded watched_def] fin c ws that
    by (simp add: TenantReconcile_def reconcile_parts_def act_try_not_Err Let_def)
  with assms(5) obtain x where x: "act_try (act_lift Kc ?kc) = (map Kc (fst ?kc), Done x)" "err_of x = None \<longleftrightarrow> act_ok ?kc"
    using try_lift_Done [of ?kc Kc] by fastforce
  obtain y where y: "act_try ?nc = (fst ?nc, Done y)" "err_of y = None \<longleftrightarrow> act_ok ?nc"
    using try_Done [OF handleNextcloud_no_panic [of r w tn ?ns]] by (elim exE conjE)
  note parts = reconcile_parts_run [OF fin c ws x(1) y(1), unfolded Let_def]
  note run = TenantReconcile_run [OF assms(1-3) parts, unfolded Let_def]
  from run assms(5) have ok: "e' = None" "err_of x = None"
    by (auto split: option.splits)
  with e' have all: "?wss = tn_workspaces tn" by (simp add: list_all_iff)
  from run assms(5) have "kc_requests reqs = fst ?kc"
    using rs kc_requests_none [of rs] kc_requests_none [OF handleNextcloud_requests [of r w tn ?ns]] by (auto split: if_splits)
  moreover from ok x(2) have "snd ?kc = Done ()" by (auto simp: act_ok_def)
  ultimately show "snd (handleKeycloakSubscription (kc_of w) (kc_tenant_of tn) (tn_workspaces tn)) = Done ()"
    and "kc_requests reqs = fst (handleKeycloakSubscription (kc_of w) (kc_tenant_of tn) (tn_workspaces tn))"
    unfolding all by simp_all
qed

subsection \<open>Properties\<close>

text \<open>C7: a reconciliation of a watched tenant that is not being deleted first sees to the finalizer, which
  leaves it with the tenant \<open>tn1\<close> and perhaps an error. The status it then reports says ready exactly when
  there was no such error, the namespace and all resources in it were written, every workspace of the
  tenant exists, and the accounts in Keycloak and in Nextcloud were brought up to date; it lists exactly
  the workspaces that could not be found. The reconciliation ends without an error exactly when it has
  reported ready, status and tenant could be written back and the random generator works, and then asks to
  be repeated after four to eight hours. Every account that Keycloak finds has an email address (the
  operator panics otherwise), and the random generator keeps to its range.\<close>

theorem tenant_ready_iff:
  assumes "get_tenant w name = Inr (Some tn)" and "watched r tn" and "\<not> tn_deleting tn"
    and "add_finalizer w tn = (frs, Done (tn1, finErr))"
    and "\<forall>n us. GetUsers (kc_of w) n = Inr us \<longrightarrow> list_all (\<lambda>u. kc_email u \<noteq> None) us"
    and "\<forall>k. rand_int w 14400 = Inr k \<longrightarrow> k < 14400"
  shows "\<exists>rs t tn'. fst (TenantReconcile r w name) = rs @ [UpdateStatus t, UpdateTenant tn'] \<and> list_all (\<lambda>q. \<not> is_status q) rs
    \<and> (st_ready t \<longleftrightarrow> finErr = None \<and> tenant_complete r w tn1) \<and> st_failing t = missing_workspaces w tn1
    \<and> (if st_ready t \<and> err_of (update_status w t) = None \<and> err_of (update_tenant w tn') = None \<and> err_of (rand_int w 14400) = None
       then \<exists>s. snd (TenantReconcile r w name) = Done (Some s) \<and> 4 * 3600 \<le> s \<and> s < 8 * 3600
       else \<exists>e. snd (TenantReconcile r w name) = Err e)"
proof -
  obtain rs t err where parts:
    "reconcile_parts r w tn = (rs, Done (t, filter (\<lambda>ws. get_workspace w (fst ws) = None) (tn_workspaces tn1), err))"
    and facts: "st_ready t \<longleftrightarrow> err = None" "err = None \<longleftrightarrow> finErr = None \<and> tenant_complete r w tn1"
      "st_failing t = missing_workspaces w tn1"
    and rs: "\<forall>q \<in> set rs. \<not> is_status q"
    by (rule reconcile_parts_Done [OF assms(4,5), of r])
  note run = TenantReconcile_run [OF assms(1-3) parts, unfolded Let_def]
  show ?thesis
    by (intro exI [of _ rs] exI [of _ t]
        exI [of _ "updateTnLabels (case update_status w t of Inl _ \<Rightarrow> t | Inr t' \<Rightarrow> t')
          (filter (\<lambda>ws. get_workspace w (fst ws) = None) (tn_workspaces tn1))"])
      (use facts rs assms(6) in \<open>cases "rand_int w 14400"; auto simp: run list_all_iff last_err_def split: option.splits\<close>)
qed


definition sample_world :: tn_world where
  "sample_world =
     \<lparr>get_tenant = (\<lambda>n. if n = ''bob'' then Inr (Some
        \<lparr>tn_name = ''bob'', tn_labels = Some [''reconcile'' \<mapsto> ''true'', WorkspaceLabelPrefix @ ''chess'' \<mapsto> ''user''],
         tn_finalizers = [TnOperatorFinalizerName], tn_deleting = False, tn_firstName = ''Bob'', tn_lastName = ''D. X'',
         tn_email = ''bob@x'', tn_workspaces = [(''tea'', ''manager'')], st_namespace = (False, []), st_failing = [],
         st_subscriptions = Map.empty, st_ready = False\<rparr>) else Inr None),
      get_workspace = (\<lambda>_. None), update_tenant = Inr, update_status = Inr, apply_error = (\<lambda>_. None),
      get_secret = (\<lambda>_ _. Inr True), kc_of = sample_keycloak, nc_user = (\<lambda>_. Inr (Some ''Bob D. X'')),
      nc_error = (\<lambda>_. None), gen_token = Inr ''00'', rand_int = (\<lambda>n. if 0 < n then Inr 0 else Inl ''empty'')\<rparr>"

definition sample_reconciler :: reconciler where
  "sample_reconciler = \<lparr>TargetLabelKey = ''reconcile'', TargetLabelValue = ''true''\<rparr>"

definition sample_tenant :: tenant where
  "sample_tenant = the (projr (get_tenant sample_world ''bob''))"

lemma sample_tenant:
  "get_tenant sample_world ''bob'' = Inr (Some sample_tenant)" "watched sample_reconciler sample_tenant"
  "\<not> tn_deleting sample_tenant" "TnOperatorFinalizerName \<in> set (tn_finalizers sample_tenant)"
  "tn_workspaces sample_tenant = [(''tea'', ''manager'')]"
  by (simp_all add: sample_tenant_def sample_world_def watched_def sample_reconciler_def WorkspaceLabelPrefix_def)

lemma sample_answers:
  "\<forall>n us. GetUsers (kc_of sample_world) n = Inr us \<longrightarrow> list_all (\<lambda>u. kc_email u \<noteq> None) us"
  "\<forall>k. rand_int sample_world 14400 = Inr k \<longrightarrow> k < 14400"
  by (auto simp: sample_world_def sample_keycloak_def sample_users_def list_all_iff)

theorem tenant_ready_iff_witness:
  "\<exists>rs t tn'. fst (TenantReconcile sample_reconciler sample_world ''bob'') = rs @ [UpdateStatus t, UpdateTenant tn'] \<and> st_failing t = []"
proof -
  have "missing_workspaces sample_world sample_tenant = []" by (simp add: missing_workspaces_def sample_world_def)
  with tenant_ready_iff [OF sample_tenant(1-3) add_finalizer_present [OF sample_tenant(4)] sample_answers]
  show ?thesis by (elim exE conjE) (intro exI conjI, assumption, simp)
qed

text \<open>C36: the labels of a tenant tell exactly its workspaces, with the role of the last entry for each: those
  of left workspaces are gone, all other labels are kept, and the labels with its names have letters,
  digits and underscores only, the others of the name being left out.\<close>

theorem labels_follow_workspaces:
  assumes "tn_labels (updateTnLabels tn wss) = Some l"
  shows "l (WorkspaceLabelPrefix @ ws) = map_of (rev wss) ws
    \<and> (\<not> prefix WorkspaceLabelPrefix k \<longrightarrow> k \<notin> {''crownlabs.polito.it/first-name'', ''crownlabs.polito.it/last-name''} \<longrightarrow>
         l k = (case tn_labels tn of None \<Rightarrow> None | Some old \<Rightarrow> old k))
    \<and> l ''crownlabs.polito.it/first-name'' =
        Some (filter ok_char (map (\<lambda>c. if c = CHR '' '' then CHR ''_'' else c) (tn_firstName tn)))
    \<and> l ''crownlabs.polito.it/last-name'' =
        Some (filter ok_char (map (\<lambda>c. if c = CHR '' '' then CHR ''_'' else c) (tn_lastName tn)))"
proof -
  define base where "base = (case tn_labels tn of None \<Rightarrow> Map.empty | Some labels \<Rightarrow> cleanWorkspaceLabels labels)"
  have l: "l = (fold (\<lambda>(name, role) l. l(WorkspaceLabelPrefix @ name \<mapsto> role)) wss base)
      (''crownlabs.polito.it/first-name'' \<mapsto> cleanName (tn_firstName tn), ''crownlabs.polito.it/last-name'' \<mapsto> cleanName (tn_lastName tn))"
    using assms unfolding updateTnLabels_def base_def Let_def by (simp del: fun_upd_apply)
  have diff: "''crownlabs.polito.it/first-name'' \<noteq> ''crownlabs.polito.it/last-name''" by simp
  have ne: "WorkspaceLabelPrefix @ ws \<notin> {''crownlabs.polito.it/first-name'', ''crownlabs.polito.it/last-name''}"
    using not_ws_label by (metis empty_iff insert_iff prefixI)
  have "base (WorkspaceLabelPrefix @ ws) = None" "\<not> prefix WorkspaceLabelPrefix k \<Longrightarrow> base k = (case tn_labels tn of None \<Rightarrow> None | Some old \<Rightarrow> old k)"
    by (auto simp: base_def cleanWorkspaceLabels_def split: option.split)
  with ne diff show ?thesis
    unfolding l cleanName_filter [symmetric]
    by (simp add: fold_labels del: fold_simps)
qed

theorem labels_follow_workspaces_witness:
  "\<exists>l. tn_labels (updateTnLabels sample_tenant [(''tea'', ''manager'')]) = Some l
     \<and> l (WorkspaceLabelPrefix @ ''tea'') = Some ''manager'' \<and> l (WorkspaceLabelPrefix @ ''chess'') = None"
proof -
  obtain l where l: "tn_labels (updateTnLabels sample_tenant [(''tea'', ''manager'')]) = Some l"
    by (simp add: updateTnLabels_def Let_def)
  from labels_follow_workspaces [OF l, of "''tea''"] labels_follow_workspaces [OF l, of "''chess''"] l
  show ?thesis by (intro exI [of _ l]) simp
qed

text \<open>C12: the finalizer of a tenant that is being deleted is taken away only after its accounts are gone.
  When the reconciliation writes the tenant without the finalizer, the search for its account in Keycloak
  has succeeded; if it found one, the deletion of exactly that account was the first request and Keycloak
  reported no error, and otherwise nothing was asked of Keycloak; then the deletion of its account in
  Nextcloud was asked for and reported no error; and only then the tenant was written.\<close>

theorem finalizer_needs_cleanup:
  assumes "UpdateTenant t \<in> set (fst (reconcile_deletion w tn))"
  shows "TnOperatorFinalizerName \<notin> set (tn_finalizers t)
    \<and> (\<exists>info. getUserInfo (kc_of w) (tn_name tn) = ([], Done info)
        \<and> nc_error w (NcDeleteUser (genNcUsername (tn_name tn))) = None
        \<and> (case info of
             None \<Rightarrow> fst (reconcile_deletion w tn) = [Nc (NcDeleteUser (genNcUsername (tn_name tn))), UpdateTenant t]
           | Some (userID, email) \<Rightarrow>
               kc_error (kc_of w) (DeleteUser userID) = None
               \<and> fst (reconcile_deletion w tn) =
                  [Kc (DeleteUser userID), Nc (NcDeleteUser (genNcUsername (tn_name tn))), UpdateTenant t]))"
proof -
  let ?kc = "deleteKcUser (kc_of w) (tn_name tn)" and ?nc = "nc_error w (NcDeleteUser (genNcUsername (tn_name tn)))"
  let ?reqs = "map Kc (fst ?kc) @ [Nc (NcDeleteUser (genNcUsername (tn_name tn)))]"
  have h: "fst (handleDeletion w (tn_name tn)) = (if snd ?kc = Panic then map Kc (fst ?kc) else ?reqs)"
    by (cases "snd ?kc"; cases ?nc) (simp_all add: handleDeletion_def act_then_def act_try_def nc_send_def act_send_def act_ret_def act_fail_def last_err_def)
  have ok: "snd (handleDeletion w (tn_name tn)) = Done () \<longleftrightarrow> snd ?kc = Done () \<and> ?nc = None"
    by (cases "snd ?kc"; cases ?nc) (simp_all add: handleDeletion_def act_then_def act_try_def nc_send_def act_send_def act_ret_def act_fail_def last_err_def)
  from assms h have fin: "TnOperatorFinalizerName \<in> set (tn_finalizers tn)" and finished: "snd (handleDeletion w (tn_name tn)) = Done ()"
    by (auto simp: reconcile_deletion_def act_then_def split: if_splits outcome.splits)
  let ?t = "tn\<lparr>tn_finalizers := removeAll TnOperatorFinalizerName (tn_finalizers tn)\<rparr>"
  have run: "fst (reconcile_deletion w tn) = ?reqs @ [UpdateTenant ?t]"
    using fin ok finished h by (simp add: reconcile_deletion_def act_then_def write_back_eq split: option.split)
  with assms have t: "t = ?t" by auto
  from ok finished obtain info where info: "getUserInfo (kc_of w) (tn_name tn) = ([], Done info)"
    and kc: "?kc = (case info of None \<Rightarrow> act_ret () | Some (userID, _) \<Rightarrow> kc_send (kc_of w) (DeleteUser userID))"
    using deleteKcUser_Done [of "kc_of w" "tn_name tn"] by blast
  from info kc run ok finished t show ?thesis
    by (auto simp: kc_send_def split: option.splits)
qed


theorem finalizer_needs_cleanup_witness:
  "fst (reconcile_deletion sample_world sample_tenant) =
     [Kc (DeleteUser ''2''), Nc (NcDeleteUser ''keycloak-bob''), UpdateTenant (sample_tenant\<lparr>tn_finalizers := []\<rparr>)]"
proof -
  have n: "tn_name sample_tenant = ''bob''" "tn_finalizers sample_tenant = [TnOperatorFinalizerName]"
    by (simp_all add: sample_tenant_def sample_world_def)
  have kc: "deleteKcUser (kc_of sample_world) ''bob'' = ([DeleteUser ''2''], Done ())"
    by (simp add: deleteKcUser_def getUserInfo_def sample_world_def sample_keycloak_def sample_users_def kc_send_def act_send_def)
  have "UpdateTenant (sample_tenant\<lparr>tn_finalizers := []\<rparr>) \<in> set (fst (reconcile_deletion sample_world sample_tenant))"
    using kc by (simp add: reconcile_deletion_def n handleDeletion_def act_lift_def act_try_def nc_send_def act_send_def
        sample_world_def write_back_eq act_ret_def)
  from finalizer_needs_cleanup [OF this] show ?thesis unfolding n
    by (auto simp: genNcUsername_def getUserInfo_def sample_world_def sample_keycloak_def sample_users_def act_ret_def)
qed

end
