(* ===== verification/Stale_Instances.thy ===== *)
theory Stale_Instances
  imports Dashboard_Resources
begin

section \<open>operators: the job that deletes stale instances\<close>

text \<open>
  \<open>operators/cmd/delete-stale-instances/delete_stale_instances.py\<close>: a periodic job that deletes the instances
  that are older than their template allows. The Kubernetes API is the record \<open>stale_world\<close> of its
  answers: a value, an \<open>ApiException\<close>, which the job catches, or another exception, such as a lost
  connection, which ends the run as every exception does that nobody catches. Creation timestamps are the
  time they denote, in seconds. \<open>datetime.now()\<close> is read once per instance that has a life span; it is the
  local time, the time of the world and the offset of the time zone in which the job runs. Log lines are
  left out.
\<close>

datatype py_exn = TypeError | AttributeError | Raised string

datatype 'a api_answer = Answer 'a | ApiException | OtherException string

record py_instance =
  pi_name :: string
  pi_namespace :: string
  pi_created :: int
  pi_template :: GenericRef

datatype py_request = DeleteInstance string string "string option"

text \<open>The clock is read at the instance with the given index in the list.\<close>

record stale_world =
  list_instances :: "py_instance list api_answer"
  find_deleteAfter :: "string \<Rightarrow> string \<Rightarrow> string option api_answer"
  delete_answer :: "py_request \<Rightarrow> unit api_answer"
  utc_us :: "nat \<Rightarrow> int"
  utc_offset :: "nat \<Rightarrow> int"

definition get_instance_list :: "stale_world \<Rightarrow> py_exn + py_instance list option" where
  "get_instance_list w =
     (case list_instances w of
        Answer instances \<Rightarrow> Inr (Some instances)
      | ApiException \<Rightarrow> Inr None
      | OtherException e \<Rightarrow> Inl (Raised e))"

definition local_now :: "stale_world \<Rightarrow> nat \<Rightarrow> int" where
  "local_now w k = utc_us w k + 1000000 * utc_offset w k"

definition instance_is_expired :: "stale_world \<Rightarrow> nat \<Rightarrow> int \<Rightarrow> int \<Rightarrow> bool" where
  "instance_is_expired w k time timecreation \<longleftrightarrow> local_now w k - 1000000 * timecreation > 1000000 * time"


definition py_digit :: "char \<Rightarrow> bool" where
  "py_digit c \<longleftrightarrow> (48::nat) \<le> of_char c \<and> of_char c \<le> (57::nat)"

text \<open>The pattern \<open>([0-9]+)([mhd])\<close> at the start of the string; the digits are greedy, and giving some of
  them back never helps, since a digit is no unit.\<close>

definition convert_to_time :: "string option \<Rightarrow> py_exn + int option" where
  "convert_to_time delete_after =
     (case delete_after of
        None \<Rightarrow> Inl TypeError
      | Some s \<Rightarrow>
          Inr (let number = takeWhile py_digit s
               in case dropWhile py_digit s of
                    [] \<Rightarrow> None
                  | u # _ \<Rightarrow>
                      if number = [] then None
                      else if u = CHR ''m'' then Some (int (digits_value number) * 60)
                      else if u = CHR ''h'' then Some (int (digits_value number) * (60 * 60))
                      else if u = CHR ''d'' then Some (int (digits_value number) * (60 * 60 * 24))
                      else None))"

definition get_life_span :: "stale_world \<Rightarrow> string \<Rightarrow> string \<Rightarrow> py_exn + int option" where
  "get_life_span w template_name template_ns =
     (case find_deleteAfter w template_name template_ns of
        OtherException e \<Rightarrow> Inl (Raised e)
      | ApiException \<Rightarrow> Inr None
      | Answer delete_after \<Rightarrow> convert_to_time delete_after)"

definition template_ns :: "GenericRef \<Rightarrow> string" where
  "template_ns ref = (case ref_namespace ref of None \<Rightarrow> ''default'' | Some n \<Rightarrow> n)"

text \<open>The requests that are sent and the exception that ends the loop; a deletion that the API refuses is only
  logged.\<close>

fun delete_instance_expired ::
  "stale_world \<Rightarrow> string option \<Rightarrow> nat \<Rightarrow> py_instance list \<Rightarrow> py_request list \<times> py_exn option" where
  "delete_instance_expired w dry_run k [] = ([], None)"
| "delete_instance_expired w dry_run k (i # is) =
     (case get_life_span w (ref_name (pi_template i)) (template_ns (pi_template i)) of
        Inl e \<Rightarrow> ([], Some e)
      | Inr time \<Rightarrow>
          (let del = DeleteInstance (pi_namespace i) (pi_name i) dry_run;
               rest = delete_instance_expired w dry_run (Suc k) is
           in if (case time of None \<Rightarrow> False | Some t \<Rightarrow> instance_is_expired w k t (pi_created i))
              then (case delete_answer w del of
                      OtherException e \<Rightarrow> ([del], Some (Raised e))
                    | _ \<Rightarrow> (del # fst rest, snd rest))
              else rest))"

definition stale_main :: "stale_world \<Rightarrow> string option \<Rightarrow> py_request list \<times> py_exn option" where
  "stale_main w dry_run =
     (case get_instance_list w of
        Inl e \<Rightarrow> ([], Some e)
      | Inr None \<Rightarrow> ([], Some AttributeError)
      | Inr (Some instances) \<Rightarrow> delete_instance_expired w dry_run 0 instances)"


subsection \<open>Lemmas\<close>

text \<open>The values that the definition of the resource allows: \<open>^[0-9]+[mhd]$\<close>.\<close>

definition crd_deleteAfter :: "string \<Rightarrow> bool" where
  "crd_deleteAfter s \<longleftrightarrow> 2 \<le> length s \<and> list_all py_digit (butlast s) \<and> last s \<in> {CHR ''m'', CHR ''h'', CHR ''d''}"

definition unit_seconds :: "char \<Rightarrow> int" where
  "unit_seconds u = (if u = CHR ''m'' then 60 else if u = CHR ''h'' then 3600 else 86400)"

definition seconds_of :: "string \<Rightarrow> int" where
  "seconds_of s = int (digits_value (butlast s)) * unit_seconds (last s)"

lemma crd_split:
  assumes "crd_deleteAfter s"
  shows "takeWhile py_digit (s @ t) = butlast s" "dropWhile py_digit (s @ t) = last s # t" "butlast s \<noteq> []"
    "last s \<in> {CHR ''m'', CHR ''h'', CHR ''d''}"
proof -
  have "s \<noteq> []" using assms by (auto simp: crd_deleteAfter_def)
  then obtain ds u where s: "s = ds @ [u]" by (cases s rule: rev_cases) auto
  with assms have ds: "\<forall>c \<in> set ds. py_digit c" "ds \<noteq> []" and u: "u \<in> {CHR ''m'', CHR ''h'', CHR ''d''}"
    by (auto simp: crd_deleteAfter_def list_all_iff)
  from u have "\<not> py_digit u" by (auto simp: py_digit_def)
  with ds show "takeWhile py_digit (s @ t) = butlast s" "dropWhile py_digit (s @ t) = last s # t" "butlast s \<noteq> []"
    by (simp_all add: s takeWhile_append2 dropWhile_append2)
  from u show "last s \<in> {CHR ''m'', CHR ''h'', CHR ''d''}" by (simp add: s)
qed

lemma convert_crd: "crd_deleteAfter s \<Longrightarrow> convert_to_time (Some s) = Inr (Some (seconds_of s))"
  using crd_split(1,2) [of s "[]"] crd_split(3,4) [of s] by (auto simp: convert_to_time_def seconds_of_def unit_seconds_def)

text \<open>Writing a number of units and reading it back.\<close>

lemma convert_roundtrip:
  "u \<in> {CHR ''m'', CHR ''h'', CHR ''d''} \<Longrightarrow>
    convert_to_time (Some (nat_digits n @ [u])) = Inr (Some (int n * unit_seconds u))"
proof -
  assume "u \<in> {CHR ''m'', CHR ''h'', CHR ''d''}"
  then have "crd_deleteAfter (nat_digits n @ [u])"
    using nat_digits_chars [of _ n] nat_digits_neq_Nil [of n]
    by (auto simp: crd_deleteAfter_def list_all_iff py_digit_def Suc_le_eq)
  from convert_crd [OF this] show ?thesis by (simp add: seconds_of_def)
qed

text \<open>Nothing anchors the pattern at the end: what follows the unit is ignored.\<close>

lemma convert_ignores_rest:
  "crd_deleteAfter s \<Longrightarrow> convert_to_time (Some (s @ rest)) = convert_to_time (Some s)"
  using crd_split(1,2) [of s rest] crd_split(1,2) [of s "[]"] by (simp add: convert_to_time_def)

subsection \<open>Properties\<close>

text \<open>The life span that the template of an instance gives it, if there is such a template.\<close>

definition allowed_seconds :: "stale_world \<Rightarrow> py_instance \<Rightarrow> int option" where
  "allowed_seconds w i =
     (case find_deleteAfter w (ref_name (pi_template i)) (template_ns (pi_template i)) of
        Answer (Some s) \<Rightarrow> Some (seconds_of s) | _ \<Rightarrow> None)"

text \<open>The template of an instance is found with a life span of the form that the definition of the resource
  allows, or the API refuses to give it.\<close>

definition span_ok :: "stale_world \<Rightarrow> py_instance \<Rightarrow> bool" where
  "span_ok w i \<longleftrightarrow>
     (case find_deleteAfter w (ref_name (pi_template i)) (template_ns (pi_template i)) of
        ApiException \<Rightarrow> True | Answer (Some s) \<Rightarrow> crd_deleteAfter s | _ \<Rightarrow> False)"

text \<open>The instance with index \<open>k\<close> is older, by the local clock, than its template allows.\<close>

definition stale :: "stale_world \<Rightarrow> nat \<times> py_instance \<Rightarrow> bool" where
  "stale w ki \<longleftrightarrow>
     (case allowed_seconds w (snd ki) of
        None \<Rightarrow> False
      | Some t \<Rightarrow> utc_us w (fst ki) - 1000000 * pi_created (snd ki) > 1000000 * (t - utc_offset w (fst ki)))"

lemma life_span_ok:
  "span_ok w i \<Longrightarrow> get_life_span w (ref_name (pi_template i)) (template_ns (pi_template i)) = Inr (allowed_seconds w i)"
  by (auto simp: span_ok_def get_life_span_def allowed_seconds_def convert_crd split: api_answer.splits option.splits)

lemma stale_expired:
  "stale w (k, i) \<longleftrightarrow> (case allowed_seconds w i of None \<Rightarrow> False | Some t \<Rightarrow> instance_is_expired w k t (pi_created i))"
  by (auto simp: stale_def instance_is_expired_def local_now_def algebra_simps split: option.split)

lemma loop_deletes_stale:
  assumes "list_all (span_ok w) instances" and "\<And>q e. delete_answer w q \<noteq> OtherException e"
  shows "delete_instance_expired w dry_run k instances =
    (map (\<lambda>(k, i). DeleteInstance (pi_namespace i) (pi_name i) dry_run) (filter (stale w) (enumerate k instances)), None)"
  using assms(1)
proof (induction instances arbitrary: k)
  case (Cons i "is")
  then have "get_life_span w (ref_name (pi_template i)) (template_ns (pi_template i)) = Inr (allowed_seconds w i)"
    by (simp add: life_span_ok)
  with Cons assms(2) show ?case by (auto simp: stale_expired Let_def split: api_answer.split)
qed simp

text \<open>A run that meets a template it finds without a life span, or an exception other than the one it catches,
  ends there: the instances that follow are not looked at.\<close>

lemma stops_at_exception:
  assumes "get_life_span w (ref_name (pi_template i)) (template_ns (pi_template i)) = Inl e"
    and "list_all (span_ok w) before" and "\<And>q x. delete_answer w q \<noteq> OtherException x"
  shows "delete_instance_expired w d k (before @ i # after) = (fst (delete_instance_expired w d k before), Some e)"
  using assms(2)
proof (induction before arbitrary: k)
  case (Cons j before)
  with assms(3) show ?case by (auto simp: life_span_ok Let_def split: api_answer.split)
qed (simp add: assms(1))

text \<open>C37: when the list of instances is obtained, the template of each is found with a life span of the form
  that the definition of the resource allows or refused by the API, and no call raises anything but an
  \<open>ApiException\<close>, then a run ends without an exception and asks for the deletion, in the order of the list,
  of exactly the instances whose template is found and whose age, by the local clock when it comes to
  them, exceeds the life span: the age itself must exceed the life span less the offset of the time zone.
  When the list is refused the run ends with an exception and deletes nothing.\<close>

theorem stale_instances_deleted:
  assumes "list_instances w \<in> {Answer instances, ApiException}"
    and "list_all (span_ok w) instances" and "\<forall>q e. delete_answer w q \<noteq> OtherException e"
  shows "stale_main w dry_run =
    (if list_instances w = ApiException then ([], Some AttributeError)
     else (map (\<lambda>(k, i). DeleteInstance (pi_namespace i) (pi_name i) dry_run) (filter (stale w) (enumerate 0 instances)), None))"
  using assms loop_deletes_stale [OF assms(2), of dry_run 0] by (auto simp: stale_main_def get_instance_list_def)

definition sample_stale :: stale_world where
  "sample_stale =
     \<lparr>list_instances = Answer
        [\<lparr>pi_name = ''old'', pi_namespace = ''tenant-ann'', pi_created = 0, pi_template = \<lparr>ref_name = ''lab'', ref_namespace = None\<rparr>\<rparr>,
         \<lparr>pi_name = ''new'', pi_namespace = ''tenant-ann'', pi_created = 600000, pi_template = \<lparr>ref_name = ''lab'', ref_namespace = None\<rparr>\<rparr>,
         \<lparr>pi_name = ''lost'', pi_namespace = ''tenant-ann'', pi_created = 0, pi_template = \<lparr>ref_name = ''lab'', ref_namespace = Some ''x''\<rparr>\<rparr>],
      find_deleteAfter = (\<lambda>n ns. if ns = ''default'' then Answer (Some ''7d'') else ApiException),
      delete_answer = (\<lambda>_. ApiException), utc_us = (\<lambda>k. 700000000000 + int k), utc_offset = (\<lambda>_. 3600)\<rparr>"

theorem stale_instances_deleted_witness:
  "stale_main sample_stale None = ([DeleteInstance ''tenant-ann'' ''old'' None], None)"
proof -
  obtain instances where i: "list_instances sample_stale = Answer instances" by (simp add: sample_stale_def)
  have "list_all (span_ok sample_stale) instances"
    using i by (auto simp: sample_stale_def span_ok_def template_ns_def crd_deleteAfter_def py_digit_def)
  moreover have "\<forall>q e. delete_answer sample_stale q \<noteq> OtherException e" by (simp add: sample_stale_def)
  ultimately show ?thesis
    using stale_instances_deleted [of sample_stale instances None] i
    by (auto simp: sample_stale_def stale_def allowed_seconds_def template_ns_def seconds_of_def unit_seconds_def digits_value_def)
qed

end
