(* ===== verification/Policies.thy ===== *)
theory Policies
  imports Js_Prelude
begin

section \<open>policies: admission of tenants and instances\<close>

text \<open>
  \<open>policies/policies/tenant-patch.rego\<close> and \<open>policies/policies/instance-template-reference.rego\<close>: OPA rules that
  Gatekeeper evaluates on every creation and update of a tenant or an instance. A request is admitted
  when no rule reports a violation.

  Rego: a reference is a partial value, \<open>None\<close> where some step is undefined; an expression with an
  undefined part makes the rule body fail, so that nothing is reported; \<open>x[i]\<close> with a variable ranges
  over the elements of an array or the values of an object (\<open>rego_items\<close>). JSON objects are lists of
  properties in a fixed order, so that equal objects are equal lists. The inventory is the function from
  names to the synchronised objects. A violation carries the values its message prints; the wording of
  the messages is left out.
\<close>

subsection \<open>References\<close>

fun rego_items :: "jsval \<Rightarrow> (jsval \<times> jsval) list" where
  "rego_items (JObj ps) = map (\<lambda>p. (JStr (fst p), snd p)) ps"
| "rego_items (JArr vs) = map (\<lambda>p. (JNum (int (fst p)), snd p)) (enumerate 0 vs)"
| "rego_items _ = []"

definition rego_at :: "jsval \<Rightarrow> jsval \<Rightarrow> jsval option" where
  "rego_at v k = map_of (rego_items v) k"

fun rego_ref :: "jsval \<Rightarrow> string list \<Rightarrow> jsval option" where
  "rego_ref v [] = Some v"
| "rego_ref v (k # ks) = (case rego_at v (JStr k) of None \<Rightarrow> None | Some w \<Rightarrow> rego_ref w ks)"

definition items_of :: "jsval option \<Rightarrow> (jsval \<times> jsval) list" where
  "items_of v = (case v of None \<Rightarrow> [] | Some w \<Rightarrow> rego_items w)"

text \<open>\<open>a != b\<close>, which needs both sides defined.\<close>

definition rego_neq :: "jsval option \<Rightarrow> jsval option \<Rightarrow> bool" where
  "rego_neq a b \<longleftrightarrow> a \<noteq> None \<and> b \<noteq> None \<and> a \<noteq> b"

definition rego_eq :: "jsval option \<Rightarrow> jsval option \<Rightarrow> bool" where
  "rego_eq a b \<longleftrightarrow> a \<noteq> None \<and> a = b"

subsection \<open>tenant-patch.rego\<close>

record admission_review =
  operation :: string
  username :: string
  user_groups :: "string list"
  new_object :: jsval
  oldObject :: jsval

type_synonym inventory = "string \<Rightarrow> jsval option"

datatype violation =
    NoTenant string
  | AlreadyTenant string
  | CreateNotEnrolled "jsval list"
  | CreateNotManager jsval
  | FieldForbidden jsval
  | PatchNotEnrolled "jsval list"
  | PatchNotManager jsval
  | KeysForbidden jsval

definition priviledged_users :: "string list" where
  "priviledged_users = [''kubernetes:admin'', ''system:serviceaccounts'']"

definition admin_operator_check :: "admission_review \<Rightarrow> bool" where
  "admin_operator_check r \<longleftrightarrow>
     1 < length (remdups (filter (\<lambda>ws. ws \<notin> set (user_groups r)) priviledged_users))"

text \<open>The entries of \<open>spec.workspaces\<close>, their names and roles.\<close>

definition workspaces_of :: "jsval \<Rightarrow> (jsval \<times> jsval) list" where
  "workspaces_of tenant = items_of (rego_ref tenant [''spec'', ''workspaces''])"

definition ws_ref_name :: "jsval \<Rightarrow> jsval option" where
  "ws_ref_name w = rego_ref w [''workspaceRef'', ''name'']"

definition ws_role_of :: "jsval \<Rightarrow> jsval option" where
  "ws_role_of w = rego_ref w [''role'']"

definition user_workspaces :: "inventory \<Rightarrow> string \<Rightarrow> jsval list" where
  "user_workspaces tenants user =
     (case tenants user of None \<Rightarrow> [] | Some t \<Rightarrow> map snd (workspaces_of t))"

definition enrolled :: "inventory \<Rightarrow> string \<Rightarrow> jsval list" where
  "enrolled tenants user = List.map_filter ws_ref_name (user_workspaces tenants user)"

definition no_tenant :: "inventory \<Rightarrow> admission_review \<Rightarrow> violation list" where
  "no_tenant tenants r = (if tenants (username r) = None then [NoTenant (username r)] else [])"

definition already_tenant :: "admission_review \<Rightarrow> violation list" where
  "already_tenant r =
     (if operation r = ''CREATE'' \<and>
         rego_ref (new_object r) [''metadata'', ''name''] = Some (JStr (username r))
      then [AlreadyTenant (username r)] else [])"

definition create_not_enrolled :: "inventory \<Rightarrow> admission_review \<Rightarrow> violation list" where
  "create_not_enrolled tenants r =
     (let requiredWs = List.map_filter (\<lambda>w. ws_ref_name (snd w)) (workspaces_of (new_object r));
          missing = filter (\<lambda>ws. ws \<notin> set (enrolled tenants (username r))) requiredWs
      in if operation r = ''CREATE'' \<and> missing \<noteq> [] then [CreateNotEnrolled (remdups missing)] else [])"

definition create_not_manager :: "inventory \<Rightarrow> admission_review \<Rightarrow> violation list" where
  "create_not_manager tenants r =
     (if operation r = ''CREATE''
      then concat (map (\<lambda>w.
             (case ws_ref_name (snd w) of
                None \<Rightarrow> []
              | Some ws \<Rightarrow>
                  if list_ex (\<lambda>wsData. ws_ref_name wsData = Some ws \<and>
                        rego_neq (ws_role_of wsData) (Some (JStr ''manager''))) (user_workspaces tenants (username r))
                  then [CreateNotManager ws] else [])) (workspaces_of (new_object r)))
      else [])"

text \<open>The keys of \<open>spec\<close> whose values differ.\<close>

definition changed_keys :: "admission_review \<Rightarrow> jsval list" where
  "changed_keys r =
     filter (\<lambda>key. rego_neq (Option.bind (rego_ref (oldObject r) [''spec'']) (\<lambda>s. rego_at s key))
                            (Option.bind (rego_ref (new_object r) [''spec'']) (\<lambda>s. rego_at s key)))
       (map fst (items_of (rego_ref (oldObject r) [''spec''])))"

definition field_forbidden :: "admission_review \<Rightarrow> violation list" where
  "field_forbidden r =
     (if operation r = ''UPDATE''
      then map FieldForbidden
             (filter (\<lambda>key. key \<noteq> JStr ''publicKeys'' \<and> key \<noteq> JStr ''workspaces'') (changed_keys r))
      else [])"

text \<open>The entries of the new \<open>spec.workspaces\<close> that differ from the old entry at the same index.\<close>

definition changed_workspaces :: "admission_review \<Rightarrow> jsval list" where
  "changed_workspaces r =
     map snd (filter (\<lambda>iw. rego_neq (map_of (workspaces_of (oldObject r)) (fst iw)) (Some (snd iw)))
       (workspaces_of (new_object r)))"

definition patch_not_enrolled :: "inventory \<Rightarrow> admission_review \<Rightarrow> violation list" where
  "patch_not_enrolled tenants r =
     (if operation r = ''UPDATE'' \<and> JStr ''workspaces'' \<in> set (changed_keys r)
      then concat (map (\<lambda>w.
             (case ws_ref_name w of
                None \<Rightarrow> []
              | Some ws \<Rightarrow> if ws \<notin> set (enrolled tenants (username r)) then [PatchNotEnrolled [ws]] else []))
             (changed_workspaces r))
      else [])"

definition patch_not_manager :: "inventory \<Rightarrow> admission_review \<Rightarrow> violation list" where
  "patch_not_manager tenants r =
     (if operation r = ''UPDATE'' \<and> JStr ''workspaces'' \<in> set (changed_keys r)
      then concat (map (\<lambda>w.
             (case ws_ref_name w of
                None \<Rightarrow> []
              | Some ws \<Rightarrow>
                  if list_ex (\<lambda>wsData. ws_ref_name wsData = Some ws \<and>
                        rego_neq (ws_role_of wsData) (Some (JStr ''manager''))) (user_workspaces tenants (username r))
                  then [PatchNotManager ws] else []))
             (changed_workspaces r))
      else [])"

definition keys_forbidden :: "admission_review \<Rightarrow> violation list" where
  "keys_forbidden r =
     (if operation r = ''UPDATE'' \<and> JStr ''publicKeys'' \<in> set (changed_keys r) \<and>
         rego_neq (Some (JStr (username r))) (rego_ref (oldObject r) [''metadata'', ''name''])
      then [KeysForbidden (JStr ''publicKeys'')] else [])"

definition violations :: "inventory \<Rightarrow> admission_review \<Rightarrow> violation list" where
  "violations tenants r =
     (if admin_operator_check r
      then no_tenant tenants r @ already_tenant r @ create_not_enrolled tenants r @ create_not_manager tenants r @
           field_forbidden r @ patch_not_enrolled tenants r @ patch_not_manager tenants r @ keys_forbidden r
      else [])"

definition admitted :: "inventory \<Rightarrow> admission_review \<Rightarrow> bool" where
  "admitted tenants r \<longleftrightarrow> violations tenants r = []"

subsection \<open>instance-template-reference.rego\<close>

definition tmpl_ref_field :: string where
  "tmpl_ref_field = ''template.crownlabs.polito.it/TemplateRef''"

text \<open>The first body needs the namespace defined and not \<open>false\<close>.\<close>

definition get_tmpl_namespace :: "jsval \<Rightarrow> jsval" where
  "get_tmpl_namespace ob =
     (case rego_ref ob [''spec'', tmpl_ref_field, ''namespace''] of
        Some ns \<Rightarrow> if ns = JBool False then JStr ''default'' else ns
      | None \<Rightarrow> JStr ''default'')"

definition get_tmpl_name :: "jsval \<Rightarrow> jsval option" where
  "get_tmpl_name ob = rego_ref ob [''spec'', tmpl_ref_field, ''name'']"

text \<open>The inventory of templates by namespace and name; the violation carries name and namespace.\<close>

definition template_violations :: "(jsval \<Rightarrow> jsval \<Rightarrow> bool) \<Rightarrow> jsval \<Rightarrow> (jsval \<times> jsval) list" where
  "template_violations inventory ob =
     (let ns = get_tmpl_namespace ob
      in case get_tmpl_name ob of
           None \<Rightarrow> []
         | Some name \<Rightarrow> if inventory ns name then [] else [(name, ns)])"

subsection \<open>Lemmas\<close>

lemma map_filter_set: "y \<in> set (List.map_filter f xs) \<longleftrightarrow> (\<exists>x \<in> set xs. f x = Some y)"
  by (induction xs) (auto simp: List.map_filter_def)

lemma list_empty_iff: "xs = [] \<longleftrightarrow> set xs = {}"
  by simp

text \<open>The user manages a workspace: some entry of his tenant names it, and each that does has the role of
  a manager. Entries of tenants have a role.\<close>

definition manages :: "inventory \<Rightarrow> string \<Rightarrow> jsval \<Rightarrow> bool" where
  "manages tenants user ws \<longleftrightarrow>
     list_ex (\<lambda>d. ws_ref_name d = Some ws) (user_workspaces tenants user) \<and>
     list_all (\<lambda>d. ws_ref_name d = Some ws \<longrightarrow> ws_role_of d = Some (JStr ''manager'')) (user_workspaces tenants user)"

definition roles_defined :: "inventory \<Rightarrow> string \<Rightarrow> bool" where
  "roles_defined tenants user \<longleftrightarrow> list_all (\<lambda>d. ws_role_of d \<noteq> None) (user_workspaces tenants user)"

lemma enrolled_iff: "ws \<in> set (enrolled tenants user) \<longleftrightarrow> list_ex (\<lambda>d. ws_ref_name d = Some ws) (user_workspaces tenants user)"
  by (auto simp: enrolled_def map_filter_set list_ex_iff)

lemma not_manager_iff:
  assumes "roles_defined tenants user"
  shows "list_ex (\<lambda>d. ws_ref_name d = Some ws \<and> rego_neq (ws_role_of d) (Some (JStr ''manager''))) (user_workspaces tenants user)
    \<longleftrightarrow> \<not> list_all (\<lambda>d. ws_ref_name d = Some ws \<longrightarrow> ws_role_of d = Some (JStr ''manager'')) (user_workspaces tenants user)"
  using assms by (auto simp: roles_defined_def list_ex_iff list_all_iff rego_neq_def)

definition names_managed :: "inventory \<Rightarrow> string \<Rightarrow> jsval list \<Rightarrow> bool" where
  "names_managed tenants user entries \<longleftrightarrow>
     list_all (manages tenants user) (List.map_filter ws_ref_name entries)"

lemma names_managed_iff:
  "names_managed tenants user es \<longleftrightarrow> (\<forall>w \<in> set es. \<forall>ws. ws_ref_name w = Some ws \<longrightarrow> manages tenants user ws)"
  by (auto simp: names_managed_def list_all_iff map_filter_set)

lemma concat_map_Nil: "concat (map f xs) = [] \<longleftrightarrow> (\<forall>x \<in> set xs. f x = [])"
  by auto

lemma create_rules:
  assumes "roles_defined tenants (username r)" and "operation r = ''CREATE''"
  shows "create_not_enrolled tenants r @ create_not_manager tenants r = [] \<longleftrightarrow>
    names_managed tenants (username r) (map snd (workspaces_of (new_object r)))"
proof -
  have "create_not_enrolled tenants r = [] \<longleftrightarrow> (\<forall>w \<in> set (workspaces_of (new_object r)). \<forall>ws.
      ws_ref_name (snd w) = Some ws \<longrightarrow> ws \<in> set (enrolled tenants (username r)))"
    using assms(2) by (simp add: create_not_enrolled_def Let_def filter_empty_conv Ball_def map_filter_set Bex_def) blast
  moreover have "create_not_manager tenants r = [] \<longleftrightarrow> (\<forall>w \<in> set (workspaces_of (new_object r)). \<forall>ws.
      ws_ref_name (snd w) = Some ws \<longrightarrow>
      list_all (\<lambda>d. ws_ref_name d = Some ws \<longrightarrow> ws_role_of d = Some (JStr ''manager'')) (user_workspaces tenants (username r)))"
    unfolding create_not_manager_def not_manager_iff [OF assms(1)] using assms(2)
    by (simp add: concat_map_Nil split: option.split) blast
  ultimately show ?thesis
    unfolding names_managed_iff manages_def enrolled_iff by auto
qed

lemma patch_rules:
  assumes "roles_defined tenants (username r)" and "operation r = ''UPDATE''"
  shows "patch_not_enrolled tenants r @ patch_not_manager tenants r = [] \<longleftrightarrow>
    (JStr ''workspaces'' \<in> set (changed_keys r) \<longrightarrow> names_managed tenants (username r) (changed_workspaces r))"
proof (cases "JStr ''workspaces'' \<in> set (changed_keys r)")
  case True
  have "patch_not_enrolled tenants r = [] \<longleftrightarrow> (\<forall>w \<in> set (changed_workspaces r). \<forall>ws.
      ws_ref_name w = Some ws \<longrightarrow> ws \<in> set (enrolled tenants (username r)))"
    unfolding patch_not_enrolled_def using assms(2) True by (auto simp: concat_map_Nil split: option.split)
  moreover have "patch_not_manager tenants r = [] \<longleftrightarrow> (\<forall>w \<in> set (changed_workspaces r). \<forall>ws.
      ws_ref_name w = Some ws \<longrightarrow>
      list_all (\<lambda>d. ws_ref_name d = Some ws \<longrightarrow> ws_role_of d = Some (JStr ''manager'')) (user_workspaces tenants (username r)))"
    unfolding patch_not_manager_def not_manager_iff [OF assms(1)] using assms(2) True
    by (simp add: concat_map_Nil split: option.split) blast
  ultimately show ?thesis
    using True unfolding names_managed_iff manages_def enrolled_iff by auto
qed (simp add: patch_not_enrolled_def patch_not_manager_def)

lemma other_operation:
  "operation r = ''CREATE'' \<Longrightarrow> field_forbidden r @ patch_not_enrolled tenants r @ patch_not_manager tenants r @ keys_forbidden r = []"
  "operation r = ''UPDATE'' \<Longrightarrow> already_tenant r @ create_not_enrolled tenants r @ create_not_manager tenants r = []"
  by (simp_all add: field_forbidden_def patch_not_enrolled_def patch_not_manager_def keys_forbidden_def
      already_tenant_def create_not_enrolled_def create_not_manager_def)

text \<open>An appended entry is at an index that the old list does not have.\<close>

lemma map_of_enumerate:
  "map_of (map (\<lambda>p. (JNum (int (fst p)), snd p)) (enumerate 0 vs)) (JNum (int i)) = (if i < length vs then Some (vs ! i) else None)"
proof -
  have "map fst (map (\<lambda>p. (JNum (int (fst p)), snd p)) (enumerate 0 vs)) = map (\<lambda>i. JNum (int i)) [0..<length vs]"
    by (rule nth_equalityI) (simp_all add: nth_enumerate_eq)
  then have inj: "distinct (map fst (map (\<lambda>p. (JNum (int (fst p)), snd p)) (enumerate 0 vs)))"
    by (simp only: distinct_map) (simp add: inj_on_def)
  show ?thesis
  proof (cases "i < length vs")
    case True
    then have "(i, vs ! i) \<in> set (enumerate 0 vs)" by (simp add: in_set_enumerate_eq)
    then have "(JNum (int i), vs ! i) \<in> set (map (\<lambda>p. (JNum (int (fst p)), snd p)) (enumerate 0 vs))" by force
    with True inj show ?thesis by (simp add: map_of_eq_Some_iff)
  next
    case False
    then show ?thesis by (auto simp: map_of_eq_None_iff in_set_enumerate_eq)
  qed
qed

lemma object_at: "rego_at (JObj ps) (JStr k) = map_of ps k"
  by (induction ps) (auto simp: rego_at_def)

lemma object_update_at:
  "w \<notin> fst ` set before \<Longrightarrow>
    rego_at (JObj (before @ (w, v) # after)) (JStr k) = (if k = w then Some v else map_of (before @ after) k)"
  unfolding object_at by (induction before) auto

lemma object_spec: "rego_ref (JObj [(''metadata'', m), (''spec'', s)]) (''spec'' # ks) = rego_ref s ks"
  by (simp add: object_at)

lemma changed_keys_iff:
  "k \<in> set (changed_keys r) \<longleftrightarrow> k \<in> fst ` set (items_of (rego_ref (oldObject r) [''spec''])) \<and>
    rego_neq (Option.bind (rego_ref (oldObject r) [''spec'']) (\<lambda>s. rego_at s k))
             (Option.bind (rego_ref (new_object r) [''spec'']) (\<lambda>s. rego_at s k))"
  unfolding changed_keys_def by simp

lemma ref_single: "rego_ref s [k] = rego_at s (JStr k)"
  by (simp split: option.split)

subsection \<open>Samples\<close>

definition entry_val :: "string \<Rightarrow> string \<Rightarrow> jsval" where
  "entry_val ws role = JObj [(''role'', JStr role), (''workspaceRef'', JObj [(''name'', JStr ws)])]"

definition tenant_val :: "string \<Rightarrow> jsval list \<Rightarrow> jsval" where
  "tenant_val name ws =
     JObj [(''metadata'', JObj [(''name'', JStr name)]),
           (''spec'', JObj ([(''email'', JStr ''x@y'')] @ (''workspaces'', JArr ws) # []))]"

definition sample_inventory :: inventory where
  "sample_inventory name =
     (if name = ''ann'' then Some (tenant_val ''ann'' [entry_val ''tea'' ''manager'', entry_val ''coffee'' ''user'']) else None)"

definition sample_review :: "string \<Rightarrow> jsval \<Rightarrow> jsval \<Rightarrow> admission_review" where
  "sample_review op old new =
     \<lparr>operation = op, username = ''ann'', user_groups = [''system:authenticated''], new_object = new, oldObject = old\<rparr>"

lemma sample_checked: "admin_operator_check (sample_review op old new)"
  by (simp add: admin_operator_check_def priviledged_users_def sample_review_def)

lemma tenant_val_ws:
  "workspaces_of (tenant_val n ws) = rego_items (JArr ws)" "rego_ref (tenant_val n ws) [''metadata'', ''name''] = Some (JStr n)"
  by (simp_all add: workspaces_of_def items_of_def tenant_val_def rego_at_def)

lemma entry_val_simps: "ws_ref_name (entry_val ws role) = Some (JStr ws)" "ws_role_of (entry_val ws role) = Some (JStr role)"
  by (simp_all add: entry_val_def ws_ref_name_def ws_role_of_def rego_at_def)

lemma sample_workspaces:
  "user_workspaces sample_inventory ''ann'' = [entry_val ''tea'' ''manager'', entry_val ''coffee'' ''user'']"
  by (simp add: user_workspaces_def sample_inventory_def tenant_val_ws)

lemma sample_roles: "roles_defined sample_inventory ''ann''"
  by (simp add: roles_defined_def sample_workspaces entry_val_simps)

lemma sample_manages: "manages sample_inventory ''ann'' (JStr ''tea'')" "\<not> manages sample_inventory ''ann'' (JStr ''coffee'')"
  by (simp_all add: manages_def sample_workspaces entry_val_simps)

subsection \<open>Properties\<close>

text \<open>C9: the policy admits the creation of a tenant by a user who is neither an administrator nor an operator
  exactly when he has a tenant himself, the name of the new one is not his own, and he manages every
  workspace it names. With no workspace named the last condition is empty: a plain user who manages
  nothing may then create tenants too, although the description of the policies rules it out. The
  workspace entries of the user's own tenant have roles.\<close>

theorem create_admitted_iff:
  assumes "admin_operator_check r" and "operation r = ''CREATE''" and "roles_defined tenants (username r)"
  shows "admitted tenants r \<longleftrightarrow>
    tenants (username r) \<noteq> None \<and> rego_ref (new_object r) [''metadata'', ''name''] \<noteq> Some (JStr (username r)) \<and>
    names_managed tenants (username r) (map snd (workspaces_of (new_object r)))"
  using create_rules [OF assms(3,2)] other_operation(1) [OF assms(2), of tenants] assms(1,2)
  by (auto simp: admitted_def violations_def no_tenant_def already_tenant_def)

theorem create_admitted_iff_witness:
  "admitted sample_inventory (sample_review ''CREATE'' JNull (tenant_val ''bob'' [entry_val ''tea'' ''user''])) \<and>
   admitted sample_inventory (sample_review ''CREATE'' JNull (tenant_val ''bob'' [])) \<and>
   \<not> admitted sample_inventory (sample_review ''CREATE'' JNull (tenant_val ''bob'' [entry_val ''coffee'' ''user'']))"
proof -
  let ?e = "sample_review ''CREATE'' JNull (tenant_val ''bob'' [])"
  have e: "operation ?e = ''CREATE''" "username ?e = ''ann''" "new_object ?e = tenant_val ''bob'' []"
    by (simp_all add: sample_review_def)
  have none: "admitted sample_inventory ?e"
    using create_admitted_iff [OF sample_checked e(1), of sample_inventory] sample_roles unfolding e tenant_val_ws
    by (simp add: names_managed_iff sample_inventory_def)
  let ?r = "\<lambda>ws. sample_review ''CREATE'' JNull (tenant_val ''bob'' [entry_val ws ''user''])"
  have f: "operation (?r ws) = ''CREATE''" "username (?r ws) = ''ann''" "new_object (?r ws) = tenant_val ''bob'' [entry_val ws ''user'']" for ws
    by (simp_all add: sample_review_def)
  have "admitted sample_inventory (?r ws) \<longleftrightarrow> manages sample_inventory ''ann'' (JStr ws)" for ws
    using create_admitted_iff [OF sample_checked f(1), of sample_inventory] sample_roles
    unfolding f tenant_val_ws
    by (simp add: names_managed_iff entry_val_simps sample_inventory_def)
  with sample_manages none show ?thesis by blast
qed

text \<open>C10: the policy admits an update of a tenant by a user who is neither an administrator nor an operator
  exactly when he has a tenant himself, of the fields that the old and the new specification both have
  only public keys and workspaces differ, public keys differ only in his own tenant (or where the old
  object has no name), and of the entries at
  an index that both lists of workspaces have, those that differ name a workspace he manages. Fields and
  entries that the update adds or removes are not looked at, although the comments of the policy allow
  changes of public keys and workspaces only. The workspace entries of the user's own tenant have roles.\<close>

theorem update_admitted_iff:
  assumes "admin_operator_check r" and "operation r = ''UPDATE''" and "roles_defined tenants (username r)"
  shows "admitted tenants r \<longleftrightarrow>
    tenants (username r) \<noteq> None \<and>
    set (changed_keys r) \<subseteq> {JStr ''publicKeys'', JStr ''workspaces''} \<and>
    (if JStr ''publicKeys'' \<in> set (changed_keys r)
     then rego_ref (oldObject r) [''metadata'', ''name''] \<in> {None, Some (JStr (username r))} else True) \<and>
    (if JStr ''workspaces'' \<in> set (changed_keys r)
     then names_managed tenants (username r) (changed_workspaces r) else True)"
proof -
  have "field_forbidden r = [] \<longleftrightarrow> set (changed_keys r) \<subseteq> {JStr ''publicKeys'', JStr ''workspaces''}"
    using assms(2) by (auto simp: field_forbidden_def filter_empty_conv)
  moreover have "keys_forbidden r = [] \<longleftrightarrow> (JStr ''publicKeys'' \<in> set (changed_keys r) \<longrightarrow>
      rego_ref (oldObject r) [''metadata'', ''name''] \<in> {None, Some (JStr (username r))})"
    using assms(2) by (auto simp: keys_forbidden_def rego_neq_def)
  ultimately show ?thesis
    using patch_rules [OF assms(3,2)] other_operation(2) [OF assms(2), of tenants] assms(1)
    by (auto simp: admitted_def violations_def no_tenant_def)
qed

theorem update_admitted_iff_witness:
  "\<not> admitted sample_inventory
     (sample_review ''UPDATE'' (tenant_val ''bob'' [entry_val ''coffee'' ''user'']) (tenant_val ''bob'' [entry_val ''coffee'' ''manager'']))"
proof -
  let ?old = "tenant_val ''bob'' [entry_val ''coffee'' ''user'']" and ?new = "tenant_val ''bob'' [entry_val ''coffee'' ''manager'']"
  let ?r = "sample_review ''UPDATE'' ?old ?new"
  have f: "operation ?r = ''UPDATE''" "username ?r = ''ann''" "new_object ?r = ?new" "oldObject ?r = ?old"
    by (simp_all add: sample_review_def)
  have ne: "entry_val ''coffee'' ''user'' \<noteq> entry_val ''coffee'' ''manager''" by (simp add: entry_val_def)
  then have "JStr ''workspaces'' \<in> set (changed_keys ?r)"
    unfolding changed_keys_iff f tenant_val_def object_spec by (simp add: items_of_def object_at rego_neq_def sample_review_def)
  moreover have "changed_workspaces ?r = [entry_val ''coffee'' ''manager'']"
    unfolding changed_workspaces_def f tenant_val_ws using ne by (simp add: rego_neq_def)
  ultimately show ?thesis
    using update_admitted_iff [OF sample_checked f(1), of sample_inventory] sample_roles sample_manages(2)
    by (simp add: f(2) names_managed_iff entry_val_simps)
qed

text \<open>the policy does not look at what is appended: any user with a tenant may append any entry to the
  workspaces of any tenant, his own included, whatever workspace and role the entry names.\<close>

lemma appended_workspace_is_admitted:
  assumes "operation r = ''UPDATE''" and "tenants (username r) \<noteq> None"
    and "distinct (map fst (before @ (''workspaces'', JArr ws) # after))"
    and "oldObject r = JObj [(''metadata'', m), (''spec'', JObj (before @ (''workspaces'', JArr ws) # after))]"
    and "new_object r = JObj [(''metadata'', m'), (''spec'', JObj (before @ (''workspaces'', JArr (ws @ [entry])) # after))]"
  shows "admitted tenants r"
proof -
  from assms(3) have w: "''workspaces'' \<notin> fst ` set before" by auto
  note at = object_update_at [OF w]
  have keys: "k = JStr ''workspaces''" if k: "k \<in> set (changed_keys r)" for k
  proof -
    from k have "k \<in> fst ` set (rego_items (JObj (before @ (''workspaces'', JArr ws) # after)))"
      and neq: "rego_neq (rego_at (JObj (before @ (''workspaces'', JArr ws) # after)) k)
        (rego_at (JObj (before @ (''workspaces'', JArr (ws @ [entry])) # after)) k)"
      unfolding changed_keys_iff items_of_def assms(4,5) object_spec rego_ref.simps(1) option.case Option.bind.simps
      by (rule conjunct1, rule conjunct2)
    then obtain x where "k = JStr x" by auto
    with neq show ?thesis by (simp add: at rego_neq_def split: if_splits)
  qed
  moreover have "changed_workspaces r = []"
  proof -
    have "workspaces_of (oldObject r) = rego_items (JArr ws)" "workspaces_of (new_object r) = rego_items (JArr (ws @ [entry]))"
      by (simp_all add: workspaces_of_def items_of_def assms(4,5) object_spec ref_single at del: rego_ref.simps(2))
    then show ?thesis
      by (auto simp: changed_workspaces_def filter_empty_conv in_set_enumerate_eq map_of_enumerate rego_neq_def nth_append
          split: if_splits)
  qed
  moreover have "field_forbidden r = []"
    unfolding field_forbidden_def using keys by (simp add: filter_empty_conv)
  moreover have "keys_forbidden r = []"
  proof -
    have "JStr ''publicKeys'' \<notin> set (changed_keys r)" using keys [of "JStr ''publicKeys''"] by auto
    then show ?thesis by (simp add: keys_forbidden_def)
  qed
  ultimately show ?thesis
    using assms(2) other_operation(2) [OF assms(1), of tenants]
    by (simp add: admitted_def violations_def no_tenant_def patch_not_enrolled_def patch_not_manager_def)
qed

lemma appended_workspace_is_admitted_witness:
  "admitted sample_inventory
     (sample_review ''UPDATE'' (tenant_val ''ann'' [entry_val ''coffee'' ''user''])
        (tenant_val ''ann'' [entry_val ''coffee'' ''user'', entry_val ''chess'' ''manager'']))"
proof (rule appended_workspace_is_admitted
    [where before = "[(''email'', JStr ''x@y'')]" and after = "[]" and ws = "[entry_val ''coffee'' ''user'']"
     and entry = "entry_val ''chess'' ''manager''"])
qed (simp_all add: sample_review_def sample_inventory_def tenant_val_def)

end
