(* ===== verification/Policy_Agreement.thy ===== *)
theory Policy_Agreement
  imports Policies Rest_Agreement Tenant_Controller Stale_Instances
begin

section \<open>The admission policies against the programs around them\<close>

text \<open>
  The instance that the dashboard creates passes through the policy on template references; the objects
  are those the dashboard sends (\<open>instance_body\<close> of \<open>Rest_Agreement\<close>). An update of a tenant passes through
  the policy on tenants before the tenant operator acts on it; \<open>tenant_entries\<close> reads the workspaces of the
  stored object as the operator does: a role or a name that is missing is the empty string of Go.
\<close>

definition go_string :: "jsval option \<Rightarrow> string" where
  "go_string v = (case v of Some (JStr s) \<Rightarrow> s | _ \<Rightarrow> [])"

definition read_entry :: "jsval \<Rightarrow> ws_entry" where
  "read_entry w = (go_string (ws_ref_name w), go_string (ws_role_of w))"

definition tenant_entries :: "jsval \<Rightarrow> ws_entry list" where
  "tenant_entries ob = map read_entry (map snd (workspaces_of ob))"


definition manager_entry :: "string \<Rightarrow> jsval" where
  "manager_entry ws = JObj [(''role'', JStr ''manager''), (''workspaceRef'', JObj [(''name'', JStr ws)])]"

lemma array_values: "map snd (rego_items (JArr vs)) = vs"
  by (simp add: comp_def)

lemma read_manager_entry: "read_entry (manager_entry ws) = (ws, ''manager'')"
  by (simp add: read_entry_def go_string_def manager_entry_def ws_ref_name_def ws_role_of_def rego_at_def)

lemma appended_entry_is_read:
  assumes "''workspaces'' \<notin> fst ` set before"
  shows "(ws, ''manager'') \<in> set (tenant_entries
    (JObj [(''metadata'', m), (''spec'', JObj (before @ (''workspaces'', JArr (old @ [manager_entry ws])) # after))]))"
proof -
  have "workspaces_of (JObj [(''metadata'', m), (''spec'', JObj (before @ (''workspaces'', JArr (old @ [manager_entry ws])) # after))])
      = rego_items (JArr (old @ [manager_entry ws]))"
    using object_update_at [OF assms]
    by (simp add: workspaces_of_def items_of_def object_spec ref_single del: rego_ref.simps(2))
  then show ?thesis
    unfolding tenant_entries_def by (simp only: array_values) (simp add: read_manager_entry)
qed

text \<open>The template that the policy has looked for is the one whose life span the job for stale instances
  takes.\<close>

lemma same_template:
  "get_tmpl_namespace (instance_body i) = JStr (template_ns (templateRef (spec i)))"
  "get_tmpl_name (instance_body i) = Some (JStr (ref_name (templateRef (spec i))))"
  by (cases "ref_namespace (templateRef (spec i))";
      simp add: get_tmpl_namespace_def get_tmpl_name_def instance_body_def ref_body_def string_field_def tmpl_ref_field_def
        object_at template_ns_def)+

text \<open>C34: the policy admits the instance that the dashboard starts from a template exactly when that very
  template is in the inventory, under the namespace it was listed with, \<open>default\<close> for one without a
  namespace; otherwise the violation names the template and the namespace.\<close>

theorem started_lab_is_admitted:
  "template_violations inventory (instance_body (new_lab t u ns r)) =
    (let place = (case m_namespace (metadata t) of None \<Rightarrow> JStr ''default'' | Some n \<Rightarrow> JStr n)
     in if inventory place (JStr (m_name (metadata t))) then [] else [(JStr (m_name (metadata t)), place)])"
  by (cases "m_namespace (metadata t)")
    (simp_all add: template_violations_def get_tmpl_namespace_def get_tmpl_name_def instance_body_def new_lab_def
      ref_body_def string_field_def tmpl_ref_field_def object_at Let_def)

text \<open>C11: the policy on tenants does not stop an update, by any user who has a tenant, that appends to the
  workspaces of any tenant, his own included, an entry that makes it manager of any workspace (who may
  send updates of tenants at all is up to the access rules of the cluster, which are not modelled). Once
  the tenant is stored so, a reconciliation of it that ends without an error gives the account that the
  operator finds for it the role of a manager of that workspace: the tenant has its finalizer, Keycloak
  answers with the roles it is asked for, and its requests change roles as documented.\<close>

theorem appended_manager_gets_role:
  assumes "operation r = ''UPDATE''" and "known (Policies.username r) \<noteq> None"
    and "distinct (map fst (before @ (''workspaces'', JArr old) # after))"
    and "oldObject r = JObj [(''metadata'', m), (''spec'', JObj (before @ (''workspaces'', JArr old) # after))]"
    and "new_object r = JObj [(''metadata'', m'), (''spec'', JObj (before @ (''workspaces'', JArr (old @ [manager_entry ws])) # after))]"
    and "get_tenant w name = Inr (Some tn)" and "watched rc tn" and "\<not> tn_deleting tn"
    and "TnOperatorFinalizerName \<in> set (tn_finalizers tn)" and "tn_workspaces tn = tenant_entries (new_object r)"
    and "TenantReconcile rc w name = (reqs, Done s)"
    and "getUserInfo (kc_of w) (tn_name tn) = ([], Done (Some (uid, Some email)))"
    and "\<And>i rs R. effect (DeleteClientRoleFromUser i rs) R = R(i := R i - role_name ` set rs)"
    and "\<And>i rs R. effect (AddClientRoleToUser i rs) R = R(i := R i \<union> role_name ` set rs)"
    and "\<And>i f l e b R. effect (UpdateUser i f l e b) R = R" and "\<And>i R. effect (ExecuteActionsEmail i) R = R"
    and "\<forall>n r. GetClientRole (kc_of w) n = Inr r \<longrightarrow> role_name r = n"
    and "GetClientRolesByUserID (kc_of w) uid = Inr current" and "role_name ` set current = R uid"
  shows "admitted known r \<and> ''workspace-'' @ ws @ '':manager'' \<in> fold effect (kc_requests reqs) R uid"
proof
  show "admitted known r" by (rule appended_workspace_is_admitted [where tenants = known and before = before and after = after, OF assms(1-5)])
  let ?kc = "handleKeycloakSubscription (kc_of w) (kc_tenant_of tn) (tn_workspaces tn)"
  have "getUserInfo (kc_of w) (kt_name (kc_tenant_of tn)) = ([], Done (Some (uid, Some email)))"
    using assms(12) by (simp add: kc_tenant_of_def)
  moreover have "?kc = (kc_requests reqs, Done ())"
    using TenantReconcile_success [OF assms(6-9,11)] by (simp add: prod_eq_iff)
  ultimately obtain us rs where rs: "kc_requests reqs = us @ rs"
    and upd: "updateUserRoles (kc_of w) (genKcUserRoleNames (tn_workspaces tn)) uid ''workspace-'' = (rs, Done ())"
    and us: "set us \<subseteq> {UpdateUser uid f l e b | f l e b. True} \<union> {ExecuteActionsEmail uid}"
    by (rule handleKeycloak_found)
  have "fold effect us R = R" using us assms(15,16) by (intro fold_no_effect) auto
  moreover from assms(3) have "(ws, ''manager'') \<in> set (tn_workspaces tn)"
    unfolding assms(10,5) by (intro appended_entry_is_read) auto
  ultimately show "''workspace-'' @ ws @ '':manager'' \<in> fold effect (kc_requests reqs) R uid"
    using roles_after_update [where effect = effect and R = R, OF assms(13,14,17-19) upd] unfolding rs by auto
qed

text \<open>Bob, whose entry \<open>coffee\<close> gets a second one, as the operator sees him afterwards.\<close>

definition promoted :: tenant where
  "promoted = sample_tenant\<lparr>tn_workspaces := [(''coffee'', ''user''), (''chess'', ''manager'')]\<rparr>"

definition promoted_world :: tn_world where
  "promoted_world = sample_world\<lparr>get_tenant := (\<lambda>_. Inr (Some promoted))\<rparr>"

lemma promoted_tenant:
  "get_tenant promoted_world ''bob'' = Inr (Some promoted)" "watched sample_reconciler promoted" "\<not> tn_deleting promoted"
  "TnOperatorFinalizerName \<in> set (tn_finalizers promoted)" "tn_name promoted = ''bob''"
  "tn_workspaces promoted = [(''coffee'', ''user''), (''chess'', ''manager'')]"
  using sample_tenant by (simp_all add: promoted_world_def promoted_def watched_def)
    (simp add: sample_tenant_def sample_world_def)

lemma promoted_account: "getUserInfo (kc_of promoted_world) ''bob'' = ([], Done (Some (''2'', Some ''bob@x'')))"
  by (simp add: getUserInfo_def promoted_world_def sample_world_def sample_keycloak_def sample_users_def act_ret_def)

lemma promoted_complete: "tenant_complete sample_reconciler promoted_world promoted"
proof -
  have "kc_of promoted_world = sample_keycloak" by (simp add: promoted_world_def sample_world_def)
  then have "act_ok (handleKeycloakSubscription (kc_of promoted_world) (kc_tenant_of promoted) (tn_workspaces promoted))"
    using promoted_account
    by (simp add: act_ok_def handleKeycloakSubscription_def kc_tenant_of_def promoted_tenant updateKcUser_def updateUserRoles_def
        genKcUserRoleNames_def kc_send_def Let_def) (simp add: sample_keycloak_def, blast)
  moreover have "act_ok (handleNextcloudSubscription sample_reconciler promoted_world promoted ns)" for ns
    by (simp add: act_ok_def handleNextcloudSubscription_def promoted_world_def sample_world_def nc_send_def Let_def)
  ultimately show ?thesis
    by (simp add: tenant_complete_def Let_def list_all_iff) (simp add: promoted_world_def sample_world_def)
qed

lemma promoted_run: "\<exists>reqs s. TenantReconcile sample_reconciler promoted_world ''bob'' = (reqs, Done s)"
proof -
  have u: "\<forall>n us. GetUsers (kc_of promoted_world) n = Inr us \<longrightarrow> list_all (\<lambda>u. kc_email u \<noteq> None) us"
    using sample_answers(1) by (simp add: promoted_world_def)
  obtain rs t ex where "reconcile_parts sample_reconciler promoted_world promoted = (rs, Done (t, ex, None))"
    using promoted_complete
    by (rule_tac reconcile_parts_Done [OF add_finalizer_present [OF promoted_tenant(4)] u, of sample_reconciler]) simp
  from TenantReconcile_run [OF promoted_tenant(1-3) this] show ?thesis
    by (simp add: Let_def promoted_world_def sample_world_def)
qed

theorem appended_manager_gets_role_witness:
  "\<exists>reqs s. TenantReconcile sample_reconciler promoted_world ''bob'' = (reqs, Done s)
     \<and> admitted sample_inventory
         (sample_review ''UPDATE'' (tenant_val ''bob'' [entry_val ''coffee'' ''user''])
            (tenant_val ''bob'' [entry_val ''coffee'' ''user'', manager_entry ''chess'']))
     \<and> ''workspace-chess:manager'' \<in> fold sample_effect (kc_requests reqs) (\<lambda>_. {''workspace-chess:user'', ''staff''}) ''2''"
proof -
  let ?new = "tenant_val ''bob'' [entry_val ''coffee'' ''user'', manager_entry ''chess'']"
  let ?r = "sample_review ''UPDATE'' (tenant_val ''bob'' [entry_val ''coffee'' ''user'']) ?new"
  obtain reqs s where run: "TenantReconcile sample_reconciler promoted_world ''bob'' = (reqs, Done s)"
    using promoted_run by blast
  have entries: "tn_workspaces promoted = tenant_entries (new_object ?r)"
    unfolding promoted_tenant tenant_entries_def sample_review_def admission_review.select_convs tenant_val_ws array_values
    by (simp add: read_manager_entry) (simp add: read_entry_def go_string_def entry_val_simps)
  have "admitted sample_inventory ?r \<and> ''workspace-'' @ ''chess'' @ '':manager'' \<in>
      fold sample_effect (kc_requests reqs) (\<lambda>_. {''workspace-chess:user'', ''staff''}) ''2''"
  proof (rule appended_manager_gets_role [OF _ _ _ _ _ promoted_tenant(1-4) entries run
        promoted_account [folded promoted_tenant(5)] sample_effect.simps(1,2) _ _ _ _ _,
        where before = "[(''email'', JStr ''x@y'')]" and after = "[]" and old = "[entry_val ''coffee'' ''user'']"
        and current = "[sample_role ''workspace-chess:user'', sample_role ''staff'']"])
  qed (simp_all add: sample_review_def sample_inventory_def tenant_val_def promoted_world_def sample_world_def
      sample_keycloak_def sample_role_def)
  with run show ?thesis by auto
qed

end
