(* ===== verification/Spec2Isabelle.thy ===== *)
theory Spec2Isabelle
  imports
    Server_Startup
    Event_Delivery
    Schema_Agreement
    App_Shell
    Gql_Queries
    Theme
    Account_Page
    Active_Page
    Workspaces_Page
    Stories
    Rest_Agreement
    Ssh_Agreement
    Tenant_Controller
    Stale_Instances
    Policy_Agreement
begin

text \<open>
  \<^bold>\<open>CrownLabs: a verification library for qlkube, the web frontend, the dashboard, operators and policies\<close>

  \<^bold>\<open>The program.\<close> CrownLabs offers remote laboratories on Kubernetes. These of its programs are modelled.
  \<^item> \<open>qlkube\<close> (\<open>src/qlkube/src\<close>, JavaScript) puts a GraphQL interface in front of the Kubernetes API. At
    start-up (\<open>index.js\<close>) it fetches the OpenAPI document (\<open>oas.js\<close>), cuts it down to the configured
    API groups (\<open>decorateOpenapi.js\<close>), generates a schema from it and wraps queries into each other
    (\<open>schema.js\<close>, \<open>decorateBaseSchema.js\<close>), adds one subscription per configured resource
    (\<open>decorateSubscription.js\<close>, \<open>subscriptions.js\<close>) and starts one watch per subscription, whose events
    it publishes (\<open>watch.js\<close>, \<open>pubsub.js\<close>). A client authenticates with a bearer token (\<open>utils.js\<close>); every
    event is delivered only after a permission check for that token, which is cached for ten minutes.
  \<^item> the web frontend (\<open>src/frontend/src\<close>, TypeScript and React): environment (\<open>env.ts\<close>), Apollo client
    (\<open>graphql-components/apolloClientSetup.ts\<close>), generated types, documents and hooks
    (\<open>generated-types.tsx\<close>), flattening of responses (\<open>graphql-components/utiles.ts\<close>), theme
    (\<open>contexts/ThemeContext.tsx\<close>), and the pages: workspaces, active instances, account.
  \<^item> the CrownLabs views of the Kubernetes dashboard (\<open>src/dashboard/views/crownLabs\<close>, JavaScript and
    React), which talk to the Kubernetes API directly: the home page (\<open>CrownLabsHome.js\<close>) loads the
    tenant, the templates of its workspaces and the instances, and shows the tables of templates
    (\<open>Templates.js\<close>) and instances (\<open>Instances.js\<close>) and, for professors, the form that creates templates
    (\<open>TemplateForm.js\<close>).
  \<^item> the bastion operator (\<open>src/operators/pkg/bastion-controller\<close>, Go), which keeps the file of the SSH keys
    that may log in to the bastion up to date with the tenants.
  \<^item> the tenant operator (\<open>src/operators/pkg/tenant-controller\<close>, Go), which keeps namespace, accounts in
    Keycloak and Nextcloud, labels and status of every tenant, and the job that deletes stale instances
    (\<open>src/operators/cmd/delete-stale-instances\<close>, Python).
  \<^item> the admission policies (\<open>src/policies/policies\<close>, Rego), which every creation and update of a tenant or
    an instance has to pass.

  \<^bold>\<open>Conventions.\<close> A thrown exception or rejected promise is \<open>Inl\<close>, a value \<open>Inr\<close> (\<open>result\<close>). JSON-like
  values are \<open>jsval\<close>; an object is the list of its own properties in the order \<open>Object.keys\<close> gives them.
  Strings are lists of code units below 256, numbers are integers. Code that is not in the repository
  (GraphQL packages, \<open>fetch\<close>, \<open>got\<close>, \<open>promise-any\<close>, the form library, \<open>JSON.parse\<close> of texts that are no
  literals, the services of the dashboard: search boxes, ages, the token, the API) is an argument of the definitions, and what a property needs of it is a hypothesis of that
  property with a witness. An asynchronous function is cut at its awaits, and the pieces are the
  steps of a relation that interleaves them with everything else that may run.

  \<^bold>\<open>The theories.\<close>
  \<^item> \<open>Js_Prelude\<close>, \<open>Js_Objects\<close>, \<open>Js_Json\<close>: the part of the language that the code uses, with the shared
    lemmas; the locale \<open>js_store\<close> states the laws of a property store and is interpreted on objects.
  \<^item> \<open>Decorate_Openapi\<close>: \<open>decorateOpenapi.js\<close> and \<open>apiGroups.js\<close>; the function refines a filter on property
    lists and is idempotent, and the reversal of group names is injective.
  \<^item> \<open>Qlkube_Utils\<close>: \<open>utils.js\<close>.
  \<^item> \<open>Watch\<close>: \<open>canWatchResource\<close> (yes exactly for \<open>status.allowed === true\<close>, no for any other body, an error
    when there is none) and the life of watches as a step relation (restarted two seconds after
    \<open>Not Found\<close>, never after another error).
  \<^item> \<open>Subscription_Cache\<close>: \<open>checkPermission\<close> in two halves around its await, and \<open>clearCache\<close>, interleaved
    freely: every granted check has a positive answer at most ten minutes old for the same request;
    grants are remembered, refusals are not, cleaning up is invisible.
  \<^item> \<open>Decorate_Schema\<close>, \<open>Subscription_Schema\<close>: the decoration of the schema with its exact documents,
    resolvers and the subscription filter; what a delivered event implies.
  \<^item> \<open>Qlkube_Server\<close>, \<open>Server_Startup\<close>: \<open>index.js\<close> and \<open>oas.js\<close>; the contexts of connections and requests,
    and that \<open>main\<close> brings the server up with one watch per subscription. The laws of the schema library
    (\<open>schema_laws\<close>) speak of every valid document of the schema definition language; that the texts which
    \<open>qlkube\<close> writes are such documents is proved.
  \<^item> \<open>Sdl_Grammar\<close>: lexer and parser of the part of the schema definition language that \<open>qlkube\<close> uses, after
    its specification; the generated texts parse to what they mean.
  \<^item> \<open>Event_Delivery\<close>: watches, connections, filters, cache and API server as one machine, which refines
    that of \<open>Subscription_Cache\<close>: a client receives only what the API server allowed to its token in
    the last ten minutes, and a permitted event is delivered by one or two steps of the server.
  \<^item> \<open>Env_Config\<close>, \<open>App_Shell\<close>: the environment, the shell, the Apollo client; client and server agree on
    the token.
  \<^item> \<open>Gql_Response\<close>: \<open>beautifyGqlResponse\<close> against the reference \<open>leaves\<close>.
  \<^item> \<open>Gql_Schema\<close>, \<open>Gql_Queries\<close>, \<open>Schema_Agreement\<close>: the generated types as data, the type of a selection,
    that the generated result types are the types of the documents, that flattening would lose nothing of
    those results (no code of the frontend calls it yet), and that the types agree with what the server
    adds to its schema.
  \<^item> \<open>Gql_Inputs\<close>, \<open>Gql_Operations\<close>: the input types, and all queries and mutations with their arguments
    and the requests their comments declare; input types mirror output types, so that what has been
    read, null fields and \<open>__typename\<close> included, can be written back exactly when nothing required is null,
    and arguments carry the parameters of the paths.
  \<^item> \<open>Jsx\<close>: trees of rendered elements, their handlers; the locale \<open>page\<close> (a component that only gets the
    messages of handlers it has rendered keeps its invariant) and the locale \<open>accordion\<close>.
  \<^item> \<open>Common_Ui\<close>, \<open>Workspaces_Page\<close>, \<open>Active_Page\<close>, \<open>Account_Page\<close>, \<open>Theme\<close>: the components, one function per
    component, one message type and one update function per stateful page; the locales are interpreted
    on them.
  \<^item> \<open>Dashboard_Resources\<close>: the resources the dashboard reads and creates (fields of the Go types), the
    calls of its API service, tables, closures of effects (\<open>rendered\<close>), runs of a machine and the locale
    \<open>event_inv\<close> (an invariant kept by the allowed events holds at the end of every run of them).
  \<^item> \<open>Dashboard_Templates\<close>, \<open>Dashboard_Instances\<close>: the two tables. Their buttons are exactly those the
    rows call for, and act on the first instance with the name of the row; names of started instances
    with their bounds; starting and shutting down through a copy that shares its \<open>spec\<close>, which changes the
    data of the table but not what is on the screen (\<open>table_handle\<close>); marks of destroyed instances.
  \<^item> \<open>Dashboard_Form\<close>: the form; what it can create in any state it can reach, with the bounds of its
    sliders against the resource definition, and the numbering of labs.
  \<^item> \<open>Dashboard_Home\<close>: the home page as a machine over answers in any order, values passed by the API
    service and clicks. Answers come to an end, the loading indicator goes off, while the tenant stays as
    it is every template the server gives is loaded exactly once, and the professor sees all instances of
    the loaded templates. The locale \<open>event_inv\<close> is interpreted for each of these invariants.
  \<^item> \<open>Dashboard_View\<close>: what the page renders, and its runs in which only rendered buttons are clicked; a
    plain user has no way to change templates.
  \<^item> \<open>Rest_Agreement\<close>: the paths by which the dashboard reads are those of the schema's queries, the arguments
    of its calls of \<open>createCustomResource\<close> are the parts of the paths of the mutations, and the objects it
    creates are values of their input types, templates exactly when an environment type was chosen.
  \<^item> \<open>Stories\<close>: the stories of the frontend's components and \<open>preview.js\<close>: which props each story sets, what it
    renders.
  \<^item> \<open>Bastion\<close>: the bastion controller with its error paths (a failing \<open>os.Stat\<close> is taken for an absent file).
    The locale \<open>keyed_store\<close> (a store that is updated one name at a time) is interpreted on the file of
    keys: the file follows the tenants, also when \<open>Get\<close>, reading or creating fails in between, except for
    keys whose second field ends in a line break, which are never removed.
  \<^item> \<open>Ssh_Agreement\<close>: which keys saved by the form of the account page the bastion can use.
  \<^item> \<open>Policies\<close>: the rules of the two policies; exactly which creations and updates they admit.
  \<^item> \<open>Go_Effects\<close>: calls to other systems as requests with an outcome (value, error, panic), their sequence
    and the handling of their errors.
  \<^item> \<open>Tenant_Keycloak\<close>, \<open>Tenant_Controller\<close>: the reconciliation of a tenant. Which account it gets, that roles
    and labels follow its workspaces, what its status says, that its accounts are deleted before its finalizer
    is taken away.
  \<^item> \<open>Stale_Instances\<close>: which instances the job deletes, by the local clock as it reads it for each instance.
  \<^item> \<open>Policy_Agreement\<close>: the instances the dashboard starts against the policy on template references, the
    template the job for stale instances looks up, and that an entry the policy lets pass unchecked
    becomes a role of a manager at the next reconciliation that succeeds.

  \<^bold>\<open>Bounds.\<close> No definition uses fuel: every recursion terminates by its structure or by the measure given
  with it. Ten minutes, two seconds, the ranges of the sliders and the thousand draws for the name of an
  instance are the constants of the source. The memory slider counts halves of a gigabyte.

  \<^bold>\<open>Not modelled.\<close> The operators for workspaces, instances and snapshots and the HTTP client of Nextcloud, Helm
  charts and scripts (other languages and systems); styles, test set-up and tool configuration; the
  console output of loggers inside resolvers and of failed creations. Routing, the table and form
  widgets, and the queues of published events are the libraries' work; where a table or a form calls
  back, every argument it may pass is considered, and published events are offered to subscribers in any
  order. What Storybook finds in the declarations of the components is a parameter, and so are the
  inventory of Gatekeeper, the Kubernetes client, Keycloak, Nextcloud and the failures of the file system.
  The calls of one reconciliation see one set of answers; concurrent changes of other systems in between
  are not modelled.

  \<^bold>\<open>Planned extensions\<close>, in this order: the workspace controller; the HTTP client of Nextcloud; the parts of
  the instance controller that do not depend on virtual machines (public keys of managers, exposition).
\<close>

end
